(* ===== verification/Prelude.thy ===== *)
theory Prelude
  imports Main "HOL-Library.Word" "HOL-Library.Monad_Syntax"
begin

text \<open>
  Shared vocabulary of the development: the status codes the WMI container library
  returns, addresses, the automation collections, and generic lemmas on ordered lists
  and 32-bit counters that several components use.

  A pointer is a natural number and \<open>0\<close> is \<open>NULL\<close>. An operation that dereferences
  \<open>NULL\<close> or a block that is not allocated has the result \<open>None\<close>; the lemmas of the
  components show that this never happens from a well-formed state.
\<close>

named_theorems heap_simps
named_theorems shape_simps
named_theorems job_simps

type_synonym addr = nat

abbreviation NULL :: addr where
  "NULL \<equiv> 0"

text \<open>\<open>enum WmiStatusCode\<close> of \<open>allocator.h\<close>.\<close>

datatype WmiStatusCode =
    e_StatusCode_Success
  | e_StatusCode_Success_Timeout
  | e_StatusCode_EnQueue
  | e_StatusCode_OutOfMemory
  | e_StatusCode_OutOfResources
  | e_StatusCode_NotInitialized
  | e_StatusCode_AlreadyInitialized
  | e_StatusCode_InvalidArgs
  | e_StatusCode_OutOfBounds
  | e_StatusCode_OutOfQuota
  | e_StatusCode_Unknown
  | e_StatusCode_NotFound
  | e_StatusCode_AlreadyExists
  | e_StatusCode_Failed
  | e_StatusCode_ServicingThreadTerminated
  | e_StatusCode_HostingThreadTerminated
  | e_StatusCode_Change
  | e_StatusCode_InvalidHeap

text \<open>
  What copying a key and an element into a freshly constructed node can do: the copy
  operators are template arguments and may throw.
\<close>

datatype assign_result = Assigned | Threw_Heap_Exception | Threw_Other

text \<open>
  \<open>CompareElement\<close> of \<open>algorithms.cpp\<close>. The operators \<open>==\<close> and \<open><\<close> of the key type are
  HOL equality and the \<open><\<close> of the class \<open>ord\<close>, which carries no laws; the laws a
  statement needs are the hypothesis \<open>ordered_keys\<close>.
\<close>

definition CompareElement :: "'k::ord \<Rightarrow> 'k \<Rightarrow> int" where
  "CompareElement a_Arg1 a_Arg2 =
     (if a_Arg1 = a_Arg2 then 0 else if a_Arg1 < a_Arg2 then - 1 else 1)"

definition ordered_keys :: "'k::ord set \<Rightarrow> bool" where
  "ordered_keys K \<longleftrightarrow>
     (\<forall>x\<in>K. \<not> x < x) \<and>
     (\<forall>x\<in>K. \<forall>y\<in>K. \<forall>z\<in>K. x < y \<longrightarrow> y < z \<longrightarrow> x < z) \<and>
     (\<forall>x\<in>K. \<forall>y\<in>K. x = y \<or> x < y \<or> y < x)"

lemma ordered_keys_linorder [simp]: "ordered_keys (K :: 'k::linorder set)"
  by (auto simp: ordered_keys_def)

lemma ordered_keys_subset: "ordered_keys K \<Longrightarrow> J \<subseteq> K \<Longrightarrow> ordered_keys J"
  unfolding ordered_keys_def by (meson subsetD)

lemma ordered_keys_irrefl: "ordered_keys K \<Longrightarrow> x \<in> K \<Longrightarrow> \<not> x < x"
  by (simp add: ordered_keys_def)

lemma ordered_keys_trans:
  "ordered_keys K \<Longrightarrow> x \<in> K \<Longrightarrow> y \<in> K \<Longrightarrow> z \<in> K \<Longrightarrow> x < y \<Longrightarrow> y < z \<Longrightarrow> x < z"
  unfolding ordered_keys_def by blast

lemma ordered_keys_total:
  "ordered_keys K \<Longrightarrow> x \<in> K \<Longrightarrow> y \<in> K \<Longrightarrow> x = y \<or> x < y \<or> y < x"
  by (simp add: ordered_keys_def)

lemma ordered_keys_asym: "ordered_keys K \<Longrightarrow> x \<in> K \<Longrightarrow> y \<in> K \<Longrightarrow> x < y \<Longrightarrow> \<not> y < x"
  using ordered_keys_irrefl ordered_keys_trans by blast

lemma CompareElement_eq_0 [simp]: "CompareElement a b = 0 \<longleftrightarrow> a = b"
  by (simp add: CompareElement_def)

lemma CompareElement_lt_0 [simp]: "CompareElement a b < 0 \<longleftrightarrow> a \<noteq> b \<and> a < b"
  by (simp add: CompareElement_def)

text \<open>A strictly sorted list around one of its elements.\<close>

lemma sorted_filter_split:
  assumes "sorted_wrt (<) (map f (xs @ x # ys))" "ordered_keys (f ` set (xs @ x # ys))"
  shows "filter (\<lambda>y. f y < f x) (xs @ x # ys) = xs" "filter (\<lambda>y. f x < f y) (xs @ x # ys) = ys"
    "filter (\<lambda>y. f y \<noteq> f x) (xs @ x # ys) = xs @ ys"
proof -
  have lt: "\<And>y. y \<in> set xs \<Longrightarrow> f y < f x" "\<And>y. y \<in> set ys \<Longrightarrow> f x < f y"
    using assms(1) by (auto simp: sorted_wrt_append)
  have ord: "\<And>y. y \<in> set xs \<union> set ys \<Longrightarrow> f y < f x \<Longrightarrow> \<not> f x < f y"
    "\<not> f x < f x"
    using ordered_keys_asym [OF assms(2)] ordered_keys_irrefl [OF assms(2)] by auto
  have ne: "\<forall>y\<in>set xs. f y \<noteq> f x" "\<forall>y\<in>set ys. f y \<noteq> f x"
    using lt ord(2) by force+
  have nl: "\<forall>y\<in>set ys. \<not> f y < f x" "\<forall>y\<in>set xs. \<not> f x < f y"
    using lt ord(1) by blast+
  show "filter (\<lambda>y. f y < f x) (xs @ x # ys) = xs" "filter (\<lambda>y. f x < f y) (xs @ x # ys) = ys"
    "filter (\<lambda>y. f y \<noteq> f x) (xs @ x # ys) = xs @ ys"
    using lt ord(2) ne nl by (simp_all add: filter_id_conv filter_empty_conv filter_True)
qed

text \<open>32-bit counters (\<open>ULONG m_Size\<close>) against list lengths.\<close>

lemma word_of_nat_Suc: "(of_nat (Suc n) :: 'a::len word) = of_nat n + 1"
  by simp

lemma word_of_nat_pred: "0 < n \<Longrightarrow> (of_nat (n - 1) :: 'a::len word) = of_nat n - 1"
  by (cases n) simp_all

lemma word_of_nat_eq_0:
  assumes "n < 2 ^ LENGTH('a::len)"
  shows "(of_nat n :: 'a word) = 0 \<longleftrightarrow> n = 0"
proof -
  have "unat (of_nat n :: 'a word) = n"
    using assms by (simp add: unat_of_nat take_bit_nat_eq_self)
  then show ?thesis by auto
qed

end
