(* ===== verification/Allocator.thy ===== *)
theory Allocator
  imports Prelude
begin

text \<open>
  \<open>WmiAllocator\<close> (\<open>allocator.cpp\<close>): the thin layer over the Win32 heap that every container
  of the library allocates its nodes from. The Win32 heap functions are not part of the
  repository; the record \<open>Win32\<close> holds them as parameters. The type variable stands for
  the view of allocated blocks that a container keeps.
\<close>

record 'b Win32 =
  HeapAlloc :: "nat \<Rightarrow> 32 word \<Rightarrow> nat \<Rightarrow> (addr \<rightharpoonup> 'b) \<Rightarrow> addr"
  HeapReAlloc :: "nat \<Rightarrow> 32 word \<Rightarrow> addr \<Rightarrow> nat \<Rightarrow> (addr \<rightharpoonup> 'b) \<Rightarrow> addr"
  HeapFree :: "nat \<Rightarrow> addr \<Rightarrow> bool"
  HeapSize :: "nat \<Rightarrow> 32 word \<Rightarrow> addr \<Rightarrow> 32 word"
  HeapCompact :: "nat \<Rightarrow> 32 word \<Rightarrow> 32 word"
  HeapValidate :: "nat \<Rightarrow> 32 word \<Rightarrow> addr \<Rightarrow> bool"
  HeapCreate :: "32 word \<Rightarrow> nat \<Rightarrow> nat \<Rightarrow> nat"
  HeapDestroy :: "nat \<Rightarrow> bool"
  GetProcessHeap :: nat
  GetLastError :: "32 word"

record WmiAllocator =
  m_ReferenceCount :: "32 word"
  m_Heap :: nat
  m_Options :: "32 word"
  m_InitialSize :: nat
  m_MaximumSize :: nat

text \<open>\<open>AllocationOptions\<close>: the flag values of the Win32 heap interface.\<close>

definition e_NoSerialize :: "32 word" where "e_NoSerialize = 1"
definition e_GenerateException :: "32 word" where "e_GenerateException = 4"
definition e_ZeroMemory :: "32 word" where "e_ZeroMemory = 8"
definition STATUS_NO_MEMORY :: "32 word" where "STATUS_NO_MEMORY = 0xC0000017"

definition WmiAllocator_default :: "('b, 'z) Win32_scheme \<Rightarrow> WmiAllocator" where
  "WmiAllocator_default w =
     \<lparr>m_ReferenceCount = 0, m_Heap = GetProcessHeap w, m_Options = 0,
      m_InitialSize = 0, m_MaximumSize = 0\<rparr>"

definition WmiAllocator_create :: "32 word \<Rightarrow> nat \<Rightarrow> nat \<Rightarrow> WmiAllocator" where
  "WmiAllocator_create a_Option a_InitialSize a_MaximumSize =
     \<lparr>m_ReferenceCount = 0, m_Heap = 0, m_Options = a_Option,
      m_InitialSize = a_InitialSize, m_MaximumSize = a_MaximumSize\<rparr>"

definition Win32ToApi :: "('b, 'z) Win32_scheme \<Rightarrow> WmiStatusCode" where
  "Win32ToApi w =
     (if GetLastError w = STATUS_NO_MEMORY then e_StatusCode_OutOfMemory
      else e_StatusCode_Unknown)"

definition WmiAllocator_Initialize ::
  "('b, 'z) Win32_scheme \<Rightarrow> WmiAllocator \<Rightarrow> WmiStatusCode \<times> WmiAllocator" where
  "WmiAllocator_Initialize w al =
     (if m_Heap al = 0
      then let al' = al\<lparr>m_Heap := HeapCreate w (m_Options al) (m_InitialSize al) (m_MaximumSize al)\<rparr>
           in (if m_Heap al' = 0 then Win32ToApi w else e_StatusCode_Success, al')
      else (e_StatusCode_Success, al))"

text \<open>
  In \<open>UnInitialize\<close> a failing \<open>HeapDestroy\<close> assigns the error to the local \<open>BOOL t_Status\<close>
  and not to \<open>t_StatusCode\<close>, so the call still reports success.
\<close>

definition WmiAllocator_UnInitialize ::
  "('b, 'z) Win32_scheme \<Rightarrow> WmiAllocator \<Rightarrow> WmiStatusCode \<times> WmiAllocator" where
  "WmiAllocator_UnInitialize w al =
     (if m_Heap al \<noteq> 0
      then (if m_Heap al \<noteq> GetProcessHeap w
            then (if HeapDestroy w (m_Heap al)
                  then (e_StatusCode_Success, al\<lparr>m_Heap := 0\<rparr>)
                  else (e_StatusCode_Success, al))
            else (e_StatusCode_Success, al))
      else (e_StatusCode_NotInitialized, al))"

unbundle bit_operations_syntax

text \<open>\<open>a_Allocation\<close> is the value of the caller's pointer, which is kept when there is no heap.\<close>

definition WmiAllocator_New_opt ::
  "('b, 'z) Win32_scheme \<Rightarrow> WmiAllocator \<Rightarrow> 32 word \<Rightarrow> addr \<Rightarrow> nat \<Rightarrow> (addr \<rightharpoonup> 'b) \<Rightarrow> WmiStatusCode \<times> addr" where
  "WmiAllocator_New_opt w al a_Option a_Allocation a_Size blocks =
     (if m_Heap al \<noteq> 0
      then let a = HeapAlloc w (m_Heap al) a_Option a_Size blocks
           in (if a = NULL then Win32ToApi w else e_StatusCode_Success, a)
      else (e_StatusCode_NotInitialized, a_Allocation))"

definition WmiAllocator_New ::
  "('b, 'z) Win32_scheme \<Rightarrow> WmiAllocator \<Rightarrow> addr \<Rightarrow> nat \<Rightarrow> (addr \<rightharpoonup> 'b) \<Rightarrow> WmiStatusCode \<times> addr" where
  "WmiAllocator_New w al a_Allocation a_Size blocks =
     WmiAllocator_New_opt w al
       ((m_Options al AND (e_GenerateException OR e_NoSerialize)) OR e_ZeroMemory) a_Allocation a_Size blocks"

text \<open>
  A successful \<open>ReAlloc\<close> moves the block to the address the Win32 heap returns. \<open>a_ReAllocation\<close> is the
  value of the caller's pointer, which is kept when there is no heap.
\<close>

definition WmiAllocator_ReAlloc_opt ::
  "('b, 'z) Win32_scheme \<Rightarrow> WmiAllocator \<Rightarrow> 32 word \<Rightarrow> addr \<Rightarrow> addr \<Rightarrow> nat \<Rightarrow> (addr \<rightharpoonup> 'b)
   \<Rightarrow> WmiStatusCode \<times> addr \<times> (addr \<rightharpoonup> 'b)" where
  "WmiAllocator_ReAlloc_opt w al a_Option a_Allocation a_ReAllocation a_Size blocks =
     (if m_Heap al \<noteq> 0
      then let a = HeapReAlloc w (m_Heap al) a_Option a_Allocation a_Size blocks
           in (if a = NULL then (Win32ToApi w, NULL, blocks)
               else (e_StatusCode_Success, a, (blocks(a_Allocation := None))(a := blocks a_Allocation)))
      else (e_StatusCode_NotInitialized, a_ReAllocation, blocks))"

definition WmiAllocator_ReAlloc ::
  "('b, 'z) Win32_scheme \<Rightarrow> WmiAllocator \<Rightarrow> addr \<Rightarrow> addr \<Rightarrow> nat \<Rightarrow> (addr \<rightharpoonup> 'b)
   \<Rightarrow> WmiStatusCode \<times> addr \<times> (addr \<rightharpoonup> 'b)" where
  "WmiAllocator_ReAlloc w al a_Allocation a_ReAllocation a_Size blocks =
     WmiAllocator_ReAlloc_opt w al (m_Options al AND (e_GenerateException OR e_NoSerialize))
       a_Allocation a_ReAllocation a_Size blocks"

definition WmiAllocator_Delete ::
  "('b, 'z) Win32_scheme \<Rightarrow> WmiAllocator \<Rightarrow> addr \<Rightarrow> (addr \<rightharpoonup> 'b) \<Rightarrow> WmiStatusCode \<times> (addr \<rightharpoonup> 'b)" where
  "WmiAllocator_Delete w al a blocks =
     (if m_Heap al \<noteq> 0
      then (if HeapFree w (m_Heap al) a then (e_StatusCode_Success, blocks(a := None))
            else (Win32ToApi w, blocks))
      else (e_StatusCode_NotInitialized, blocks))"

text \<open>
  The queries. On an allocator without a heap \<open>Size\<close> and \<open>Compact\<close> return
  \<open>e_StatusCode_AlreadyInitialized\<close>, where the other operations return
  \<open>e_StatusCode_NotInitialized\<close>; the second result is the reference parameter.
\<close>

definition WmiAllocator_Size ::
  "('b, 'z) Win32_scheme \<Rightarrow> WmiAllocator \<Rightarrow> addr \<Rightarrow> 32 word \<Rightarrow> WmiStatusCode \<times> 32 word" where
  "WmiAllocator_Size w al a_Allocation a_Size =
     (if m_Heap al \<noteq> 0
      then let n = HeapSize w (m_Heap al) (m_Options al AND e_NoSerialize) a_Allocation
           in (if n = - 1 then Win32ToApi w else e_StatusCode_Success, n)
      else (e_StatusCode_AlreadyInitialized, a_Size))"

definition WmiAllocator_Compact ::
  "('b, 'z) Win32_scheme \<Rightarrow> WmiAllocator \<Rightarrow> 32 word \<Rightarrow> WmiStatusCode \<times> 32 word" where
  "WmiAllocator_Compact w al a_LargestFreeBlock =
     (if m_Heap al \<noteq> 0
      then let n = HeapCompact w (m_Heap al) (m_Options al AND e_NoSerialize)
           in (if n = 0 \<and> GetLastError w \<noteq> 0 then Win32ToApi w else e_StatusCode_Success, n)
      else (e_StatusCode_AlreadyInitialized, a_LargestFreeBlock))"

definition WmiAllocator_Validate ::
  "('b, 'z) Win32_scheme \<Rightarrow> WmiAllocator \<Rightarrow> addr \<Rightarrow> WmiStatusCode" where
  "WmiAllocator_Validate w al a_Location =
     (if HeapValidate w (m_Heap al) (m_Options al AND e_NoSerialize) a_Location
      then e_StatusCode_Success else e_StatusCode_InvalidHeap)"

definition WmiAllocator_AddRef :: "WmiAllocator \<Rightarrow> 32 word \<times> WmiAllocator" where
  "WmiAllocator_AddRef al =
     (let n = m_ReferenceCount al + 1 in (n, al\<lparr>m_ReferenceCount := n\<rparr>))"

text \<open>\<open>Release\<close> deletes the object when the count reaches zero: the result has no object then.\<close>

definition WmiAllocator_Release :: "WmiAllocator \<Rightarrow> 32 word \<times> WmiAllocator option" where
  "WmiAllocator_Release al =
     (let n = m_ReferenceCount al - 1
      in (n, if n = 0 then None else Some (al\<lparr>m_ReferenceCount := n\<rparr>)))"

text \<open>
  Documented behaviour of \<open>HeapAlloc\<close>: a non-null result is a block that was free. The hypothesis
  \<open>heap_free_ok\<close> is the documented success of \<open>HeapFree\<close> on an allocated block.
\<close>

definition heap_alloc_fresh :: "('b, 'z) Win32_scheme \<Rightarrow> bool" where
  "heap_alloc_fresh w \<longleftrightarrow>
     (\<forall>hp opt sz blocks. HeapAlloc w hp opt sz blocks \<noteq> NULL \<longrightarrow>
        blocks (HeapAlloc w hp opt sz blocks) = None)"

definition heap_free_ok :: "('b, 'z) Win32_scheme \<Rightarrow> bool" where
  "heap_free_ok w \<longleftrightarrow> (\<forall>hp a. HeapFree w hp a)"

lemma New_Success:
  "WmiAllocator_New w al p sz blocks = (e_StatusCode_Success, a) \<Longrightarrow> heap_alloc_fresh w \<Longrightarrow>
   a \<noteq> NULL \<and> blocks a = None"
  by (auto simp: WmiAllocator_New_def WmiAllocator_New_opt_def Win32ToApi_def
      heap_alloc_fresh_def Let_def split: if_splits)

lemma Delete_snd:
  "snd (WmiAllocator_Delete w al a blocks) =
     (if fst (WmiAllocator_Delete w al a blocks) = e_StatusCode_Success
      then blocks(a := None) else blocks)"
  by (simp add: WmiAllocator_Delete_def Win32ToApi_def)

lemma Delete_ok:
  "heap_free_ok w \<Longrightarrow> m_Heap al \<noteq> 0 \<Longrightarrow>
   WmiAllocator_Delete w al a blocks = (e_StatusCode_Success, blocks(a := None))"
  by (simp add: WmiAllocator_Delete_def heap_free_ok_def)

text \<open>
  The interface the containers rely on: what an allocation and a release of a block promise,
  whatever the provider \<open>p\<close>. \<open>ok p\<close> says that the provider keeps its documented contract.
\<close>

locale block_store =
  fixes ok :: "'p \<Rightarrow> bool"
    and alloc :: "'p \<Rightarrow> (addr \<rightharpoonup> 'b) \<Rightarrow> WmiStatusCode \<times> addr"
    and free :: "'p \<Rightarrow> addr \<Rightarrow> (addr \<rightharpoonup> 'b) \<Rightarrow> WmiStatusCode \<times> (addr \<rightharpoonup> 'b)"
  assumes alloc_fresh:
      "ok p \<Longrightarrow> alloc p bs = (e_StatusCode_Success, a) \<Longrightarrow> a \<noteq> NULL \<and> bs a = None"
    and free_frame: "b \<noteq> a \<Longrightarrow> snd (free p a bs) b = bs b"
    and free_block: "fst (free p a bs) = e_StatusCode_Success \<Longrightarrow> snd (free p a bs) a = None"
begin

lemma alloc_not_live:
  "ok p \<Longrightarrow> alloc p bs = (e_StatusCode_Success, a) \<Longrightarrow> b \<in> dom bs \<Longrightarrow> a \<noteq> b"
  using alloc_fresh by fastforce

lemma alloc_free_restores:
  assumes "ok p" "alloc p bs = (e_StatusCode_Success, a)"
    and "free p a (bs(a \<mapsto> x)) = (e_StatusCode_Success, bs')"
  shows "bs' = bs"
proof
  fix b
  show "bs' b = bs b"
    using alloc_fresh [OF assms(1,2)] free_frame [of b a p "bs(a \<mapsto> x)"]
      free_block [of p a "bs(a \<mapsto> x)"] assms(3)
    by (cases "b = a") auto
qed

end

interpretation win32_heap: block_store
  "\<lambda>(w, al, p, sz). heap_alloc_fresh w"
  "\<lambda>(w, al, p, sz). WmiAllocator_New w al p sz"
  "\<lambda>(w, al, p, sz). WmiAllocator_Delete w al"
  by unfold_locales
    (auto simp: New_Success WmiAllocator_Delete_def Win32ToApi_def dest: New_Success split: if_splits)

subsection \<open>Properties\<close>

definition sample_win32 :: "nat Win32" where
  "sample_win32 = \<lparr>HeapAlloc = (\<lambda>hp opt sz bs. if bs 1 = None then 1 else 0),
     HeapReAlloc = (\<lambda>hp opt a sz bs. 0), HeapFree = (\<lambda>hp a. True), HeapSize = (\<lambda>hp opt a. - 1),
     HeapCompact = (\<lambda>hp opt. 0), HeapValidate = (\<lambda>hp opt a. True), HeapCreate = (\<lambda>opt sz mx. 7),
     HeapDestroy = (\<lambda>hp. False), GetProcessHeap = 1, GetLastError = STATUS_NO_MEMORY\<rparr>"

text \<open>C33. A failing destruction of a private heap is not reported: \<open>UnInitialize\<close> returns success and
the allocator still holds the heap.\<close>

theorem WmiAllocator_UnInitialize_masks_failure:
  assumes "m_Heap al \<noteq> 0" "m_Heap al \<noteq> GetProcessHeap w" "\<not> HeapDestroy w (m_Heap al)"
  shows "WmiAllocator_UnInitialize w al = (e_StatusCode_Success, al)"
  using assms by (simp add: WmiAllocator_UnInitialize_def)

theorem WmiAllocator_UnInitialize_masks_failure_witness:
  "fst (WmiAllocator_UnInitialize sample_win32
     (snd (WmiAllocator_Initialize sample_win32 (WmiAllocator_create 0 0 0)))) = e_StatusCode_Success"
proof -
  let ?al = "snd (WmiAllocator_Initialize sample_win32 (WmiAllocator_create 0 0 0))"
  have "m_Heap ?al \<noteq> 0" "m_Heap ?al \<noteq> GetProcessHeap sample_win32" "\<not> HeapDestroy sample_win32 (m_Heap ?al)"
    by (simp_all add: WmiAllocator_Initialize_def WmiAllocator_create_def sample_win32_def)
  then show ?thesis by (simp add: WmiAllocator_UnInitialize_masks_failure)
qed

end
