(* ===== verification/NodeHeap.thy ===== *)
theory NodeHeap
  imports Allocator
begin

text \<open>
  The pointer structures of \<open>avltree.h\<close> and \<open>basictree.h\<close>: nodes with left, right and
  parent pointers in a block heap, the tree object, and the iterators. Then the logical view:
  trees that remember the address of every node, contexts (the path from a node up to the
  root), and the predicates that say which tree a heap holds.

  \<open>WmiAvlNode\<close> and \<open>WmiBasicNode\<close> differ only in the balance tag; the tag is the last
  type parameter, and it is \<open>unit\<close> for the basic tree, whose node has none.
\<close>

record ('k, 'e, 's) Node =
  m_Key :: 'k
  m_Element :: 'e
  m_Left :: addr
  m_Right :: addr
  m_Parent :: addr
  m_State :: 's

type_synonym ('k, 'e, 's) node_heap = "addr \<rightharpoonup> ('k, 'e, 's) Node"

text \<open>The tree object together with the blocks it obtained from its allocator.\<close>

record ('k, 'e, 's) Tree_object =
  m_Root :: addr
  m_Size :: "32 word"
  blocks :: "('k, 'e, 's) node_heap"

text \<open>
  The environment of a tree: the Win32 heap behind its allocator, the allocator, the size of a node,
  and what the template arguments' assignment operators do.
\<close>

record ('k, 'e, 's) tree_env = "('k, 'e, 's) Node Win32" +
  m_Allocator :: WmiAllocator
  sizeof_Node :: nat
  AssignPair :: "'k \<Rightarrow> 'e \<Rightarrow> assign_result"

subsection \<open>Reading and writing through a pointer\<close>

definition rd :: "('k, 'e, 's) node_heap \<Rightarrow> addr \<Rightarrow> ('k, 'e, 's) Node option" where
  "rd h p = (if p = NULL then None else h p)"

definition set_Left :: "('k, 'e, 's) node_heap \<Rightarrow> addr \<Rightarrow> addr \<Rightarrow> ('k, 'e, 's) node_heap option" where
  "set_Left h p q = map_option (\<lambda>n. h(p \<mapsto> n\<lparr>m_Left := q\<rparr>)) (rd h p)"

definition set_Right :: "('k, 'e, 's) node_heap \<Rightarrow> addr \<Rightarrow> addr \<Rightarrow> ('k, 'e, 's) node_heap option" where
  "set_Right h p q = map_option (\<lambda>n. h(p \<mapsto> n\<lparr>m_Right := q\<rparr>)) (rd h p)"

definition set_Parent :: "('k, 'e, 's) node_heap \<Rightarrow> addr \<Rightarrow> addr \<Rightarrow> ('k, 'e, 's) node_heap option" where
  "set_Parent h p q = map_option (\<lambda>n. h(p \<mapsto> n\<lparr>m_Parent := q\<rparr>)) (rd h p)"

definition set_State :: "('k, 'e, 's) node_heap \<Rightarrow> addr \<Rightarrow> 's \<Rightarrow> ('k, 'e, 's) node_heap option" where
  "set_State h p s = map_option (\<lambda>n. h(p \<mapsto> n\<lparr>m_State := s\<rparr>)) (rd h p)"

text \<open>\<open>if ( p ) p->m_Parent = q\<close>, which occurs in every rotation and splice.\<close>

definition set_Parent_if :: "('k, 'e, 's) node_heap \<Rightarrow> addr \<Rightarrow> addr \<Rightarrow> ('k, 'e, 's) node_heap option" where
  "set_Parent_if h p q = (if p = NULL then Some h else set_Parent h p q)"

text \<open>
  \<open>if ( t_Parent ) { if ( t_Parent->m_Left == A ) t_Parent->m_Left = B else t_Parent->m_Right = B }
  else m_Root = B\<close>: the child slot that held \<open>A\<close> now holds \<open>B\<close>.
\<close>

definition relink ::
  "('k, 'e, 's) Tree_object \<Rightarrow> addr \<Rightarrow> addr \<Rightarrow> addr \<Rightarrow> ('k, 'e, 's) Tree_object option" where
  "relink s t_Parent A B =
     (if t_Parent \<noteq> NULL then do {
        np \<leftarrow> rd (blocks s) t_Parent;
        h \<leftarrow> (if m_Left np = A then set_Left (blocks s) t_Parent B
              else set_Right (blocks s) t_Parent B);
        Some (s\<lparr>blocks := h\<rparr>)
      } else Some (s\<lparr>m_Root := B\<rparr>))"

lemma rd_Some [heap_simps]: "p \<noteq> NULL \<Longrightarrow> rd h p = h p"
  by (simp add: rd_def)

lemmas set_defs = set_Left_def set_Right_def set_Parent_def set_State_def set_Parent_if_def rd_def

subsection \<open>Iterators\<close>

partial_function (option) LeftMost :: "('k, 'e, 's) node_heap \<Rightarrow> addr \<Rightarrow> addr option" where
  "LeftMost h t_Node =
     (if t_Node = NULL then Some NULL
      else do {
        n \<leftarrow> rd h t_Node;
        if m_Left n \<noteq> NULL then LeftMost h (m_Left n) else Some t_Node
      })"

partial_function (option) RightMost :: "('k, 'e, 's) node_heap \<Rightarrow> addr \<Rightarrow> addr option" where
  "RightMost h t_Node =
     (if t_Node = NULL then Some NULL
      else do {
        n \<leftarrow> rd h t_Node;
        if m_Right n \<noteq> NULL then RightMost h (m_Right n) else Some t_Node
      })"

text \<open>The two climbing loops of \<open>Increment\<close> and \<open>Decrement\<close>; the result is \<open>t_Parent\<close>.\<close>

partial_function (option) ClimbRight :: "('k, 'e, 's) node_heap \<Rightarrow> addr \<Rightarrow> addr option" where
  "ClimbRight h t_Node = do {
     n \<leftarrow> rd h t_Node;
     if m_Parent n \<noteq> NULL then do {
       np \<leftarrow> rd h (m_Parent n);
       if m_Right np = t_Node then ClimbRight h (m_Parent n) else Some (m_Parent n)
     } else Some NULL
   }"

partial_function (option) ClimbLeft :: "('k, 'e, 's) node_heap \<Rightarrow> addr \<Rightarrow> addr option" where
  "ClimbLeft h t_Node = do {
     n \<leftarrow> rd h t_Node;
     if m_Parent n \<noteq> NULL then do {
       np \<leftarrow> rd h (m_Parent n);
       if m_Left np = t_Node then ClimbLeft h (m_Parent n) else Some (m_Parent n)
     } else Some NULL
   }"

definition Increment :: "('k, 'e, 's) node_heap \<Rightarrow> addr \<Rightarrow> addr option" where
  "Increment h t_Node =
     (if t_Node = NULL then Some NULL
      else do {
        n \<leftarrow> rd h t_Node;
        if m_Right n \<noteq> NULL then LeftMost h (m_Right n) else ClimbRight h t_Node
      })"

definition Decrement :: "('k, 'e, 's) node_heap \<Rightarrow> addr \<Rightarrow> addr option" where
  "Decrement h t_Node =
     (if t_Node = NULL then Some NULL
      else do {
        n \<leftarrow> rd h t_Node;
        if m_Left n \<noteq> NULL then RightMost h (m_Left n) else ClimbLeft h t_Node
      })"

definition Begin :: "('k, 'e, 's) Tree_object \<Rightarrow> addr option" where
  "Begin s = LeftMost (blocks s) (m_Root s)"

definition End :: "('k, 'e, 's) Tree_object \<Rightarrow> addr option" where
  "End s = RightMost (blocks s) (m_Root s)"

subsection \<open>Creating a node\<close>

text \<open>
  The block of \<open>Insert\<close> that allocates and constructs a node; it occurs three times in each tree's
  \<open>Insert\<close>. On an exception the block is released again and the status of the release is ignored.
  The pointer passed to \<open>New\<close> is not initialised, which \<open>NULL\<close> stands for; it is not used if \<open>New\<close> fails.
\<close>

definition NewNode ::
  "('k, 'e, 's, 'z) tree_env_scheme \<Rightarrow> 's \<Rightarrow> ('k, 'e, 's) node_heap \<Rightarrow> 'k \<Rightarrow> 'e
   \<Rightarrow> WmiStatusCode \<times> addr \<times> ('k, 'e, 's) node_heap" where
  "NewNode w e_Init h a_Key a_Element =
     (case WmiAllocator_New w (m_Allocator w) NULL (sizeof_Node w) h of (t_StatusCode, t_AllocNode) \<Rightarrow>
        if t_StatusCode = e_StatusCode_Success
        then let h' = h(t_AllocNode \<mapsto>
                 \<lparr>m_Key = a_Key, m_Element = a_Element, m_Left = NULL, m_Right = NULL,
                  m_Parent = NULL, m_State = e_Init\<rparr>)
             in (case AssignPair w a_Key a_Element of
                   Assigned \<Rightarrow> (e_StatusCode_Success, t_AllocNode, h')
                 | Threw_Heap_Exception \<Rightarrow>
                     (e_StatusCode_OutOfMemory, NULL,
                      snd (WmiAllocator_Delete w (m_Allocator w) t_AllocNode h'))
                 | Threw_Other \<Rightarrow>
                     (e_StatusCode_Unknown, NULL,
                      snd (WmiAllocator_Delete w (m_Allocator w) t_AllocNode h')))
        else (t_StatusCode, NULL, h))"

subsection \<open>Searching\<close>

text \<open>The loops of \<open>Find\<close> and \<open>FindNext\<close>, which the two trees have in common.\<close>

partial_function (option) Find_Loop ::
  "('k::ord, 'e, 's) node_heap \<Rightarrow> addr \<Rightarrow> 'k \<Rightarrow> addr \<Rightarrow> (WmiStatusCode \<times> addr) option" where
  "Find_Loop h t_Node a_Key a_Iterator =
     (if t_Node = NULL then Some (e_StatusCode_NotFound, a_Iterator)
      else do {
        n \<leftarrow> rd h t_Node;
        let t_Compare = CompareElement a_Key (m_Key n);
        if t_Compare = 0 then Some (e_StatusCode_Success, t_Node)
        else if t_Compare < 0 then Find_Loop h (m_Left n) a_Key a_Iterator
        else Find_Loop h (m_Right n) a_Key a_Iterator
      })"

text \<open>The iterator that \<open>FindNext\<close> returns after \<open>Increment\<close>, with its status.\<close>

definition Found_or_Null :: "addr \<Rightarrow> WmiStatusCode \<times> addr" where
  "Found_or_Null p = (if p = NULL then e_StatusCode_NotFound else e_StatusCode_Success, p)"

partial_function (option) FindNext_Loop ::
  "('k::ord, 'e, 's) node_heap \<Rightarrow> addr \<Rightarrow> 'k \<Rightarrow> addr \<Rightarrow> (WmiStatusCode \<times> addr) option" where
  "FindNext_Loop h t_Node a_Key a_Iterator =
     (if t_Node = NULL then Some (e_StatusCode_NotFound, a_Iterator)
      else do {
        n \<leftarrow> rd h t_Node;
        let t_Compare = CompareElement a_Key (m_Key n);
        if t_Compare = 0 then map_option Found_or_Null (Increment h t_Node)
        else if t_Compare < 0 then
          (if m_Left n \<noteq> NULL then FindNext_Loop h (m_Left n) a_Key a_Iterator
           else Some (e_StatusCode_Success, t_Node))
        else
          (if m_Right n \<noteq> NULL then FindNext_Loop h (m_Right n) a_Key a_Iterator
           else map_option Found_or_Null (Increment h t_Node))
      })"

subsection \<open>Moving the successor into the place of a node\<close>

text \<open>
  The pointer part of \<open>DeleteFixup\<close> once the slot above \<open>a_Node\<close> already holds \<open>t_Successor\<close>; the
  two trees have it in common. \<open>Splice_Deep\<close> is for a successor deeper in the right subtree; its
  second result is \<open>t_Node\<close>, the old parent of the successor. \<open>Splice_Child\<close> is for a
  successor that is the right child.
\<close>

definition Splice_Deep ::
  "('k, 'e, 's) node_heap \<Rightarrow> addr \<Rightarrow> addr \<Rightarrow> (('k, 'e, 's) node_heap \<times> addr) option" where
  "Splice_Deep h a_Node t_Successor = do {
     n \<leftarrow> rd h a_Node;
     h \<leftarrow> set_Parent_if h (m_Left n) t_Successor;
     h \<leftarrow> set_Parent_if h (m_Right n) t_Successor;
     nS \<leftarrow> rd h t_Successor;
     let t_Node = m_Parent nS;
     h \<leftarrow> set_Left h t_Node (m_Right nS);
     h \<leftarrow> set_Parent_if h (m_Left nS) (m_Parent nS);
     h \<leftarrow> set_Parent_if h (m_Right nS) (m_Parent nS);
     h \<leftarrow> set_Left h t_Successor (m_Left n);
     h \<leftarrow> set_Right h t_Successor (m_Right n);
     h \<leftarrow> set_Parent h t_Successor (m_Parent n);
     Some (h, t_Node)
   }"

definition Splice_Child ::
  "('k, 'e, 's) node_heap \<Rightarrow> addr \<Rightarrow> addr \<Rightarrow> ('k, 'e, 's) node_heap option" where
  "Splice_Child h a_Node t_Successor = do {
     n \<leftarrow> rd h a_Node;
     h \<leftarrow> set_Parent_if h (m_Left n) t_Successor;
     h \<leftarrow> set_Parent_if h (m_Right n) t_Successor;
     h \<leftarrow> set_Left h t_Successor (m_Left n);
     set_Parent h t_Successor (m_Parent n)
   }"

subsection \<open>Releasing the nodes\<close>

text \<open>\<open>RecursiveUnInitialize\<close> releases the nodes below \<open>a_Node\<close>, not \<open>a_Node\<close> itself.\<close>

partial_function (option) RecursiveUnInitialize ::
  "('k, 'e, 's, 'z) tree_env_scheme \<Rightarrow> ('k, 'e, 's) node_heap \<Rightarrow> addr
   \<Rightarrow> (WmiStatusCode \<times> ('k, 'e, 's) node_heap) option" where
  "RecursiveUnInitialize w h a_Node = do {
     n \<leftarrow> rd h a_Node;
     (t_StatusCode, h) \<leftarrow>
       (if m_Left n \<noteq> NULL then do {
          (t_StatusCode, h) \<leftarrow> RecursiveUnInitialize w h (m_Left n);
          Some (t_StatusCode, snd (WmiAllocator_Delete w (m_Allocator w) (m_Left n) h))
        } else Some (e_StatusCode_Success, h));
     n \<leftarrow> rd h a_Node;
     if m_Right n \<noteq> NULL then do {
       (t_StatusCode, h) \<leftarrow> RecursiveUnInitialize w h (m_Right n);
       Some (t_StatusCode, snd (WmiAllocator_Delete w (m_Allocator w) (m_Right n) h))
     } else Some (t_StatusCode, h)
   }"

end
