(* ===== verification/TreeShape.thy ===== *)
theory TreeShape
  imports NodeHeap
begin

text \<open>
  The logical view of the node heap. A tree remembers the address of every node; a context is
  the path from a node up to the root, innermost frame first. \<open>rep s T\<close> says that the
  object \<open>s\<close> holds exactly the tree \<open>T\<close>: every child and every parent pointer is the one
  \<open>T\<close> prescribes and no two nodes share a block.
\<close>

datatype ('k, 'e, 's) tree =
    Tip
  | Br "('k, 'e, 's) tree" addr 'k 'e 's "('k, 'e, 's) tree"

datatype ('k, 'e, 's) frame =
    LF addr 'k 'e 's "('k, 'e, 's) tree"  \<comment> \<open>the hole is the left child\<close>
  | RF "('k, 'e, 's) tree" addr 'k 'e 's  \<comment> \<open>the hole is the right child\<close>

type_synonym ('k, 'e, 's) ctx = "('k, 'e, 's) frame list"

fun root_of :: "('k, 'e, 's) tree \<Rightarrow> addr" where
  "root_of Tip = NULL"
| "root_of (Br l a k e s r) = a"

text \<open>The entries in key order: the node, its key and its element.\<close>

fun entries :: "('k, 'e, 's) tree \<Rightarrow> (addr \<times> 'k \<times> 'e) list" where
  "entries Tip = []"
| "entries (Br l a k e s r) = entries l @ (a, k, e) # entries r"

fun addrs :: "('k, 'e, 's) tree \<Rightarrow> addr list" where
  "addrs Tip = []"
| "addrs (Br l a k e s r) = addrs l @ a # addrs r"

abbreviation tree_keys :: "('k, 'e, 's) tree \<Rightarrow> 'k list" where
  "tree_keys t \<equiv> map (\<lambda>x. fst (snd x)) (entries t)"

fun up :: "('k, 'e, 's) ctx \<Rightarrow> addr" where
  "up [] = NULL"
| "up (LF a k e s r # c) = a"
| "up (RF l a k e s # c) = a"

fun plug :: "('k, 'e, 's) ctx \<Rightarrow> ('k, 'e, 's) tree \<Rightarrow> ('k, 'e, 's) tree" where
  "plug [] t = t"
| "plug (LF a k e s r # c) t = plug c (Br t a k e s r)"
| "plug (RF l a k e s # c) t = plug c (Br l a k e s t)"

fun ctx_root :: "('k, 'e, 's) ctx \<Rightarrow> addr \<Rightarrow> addr" where
  "ctx_root [] q = q"
| "ctx_root (LF a k e s r # c) q = ctx_root c a"
| "ctx_root (RF l a k e s # c) q = ctx_root c a"

text \<open>The entries to the left and to the right of the hole.\<close>

fun pre_c :: "('k, 'e, 's) ctx \<Rightarrow> (addr \<times> 'k \<times> 'e) list" where
  "pre_c [] = []"
| "pre_c (LF a k e s r # c) = pre_c c"
| "pre_c (RF l a k e s # c) = pre_c c @ entries l @ [(a, k, e)]"

fun post_c :: "('k, 'e, 's) ctx \<Rightarrow> (addr \<times> 'k \<times> 'e) list" where
  "post_c [] = []"
| "post_c (LF a k e s r # c) = (a, k, e) # entries r @ post_c c"
| "post_c (RF l a k e s # c) = post_c c"

fun ctx_addrs :: "('k, 'e, 's) ctx \<Rightarrow> addr list" where
  "ctx_addrs [] = []"
| "ctx_addrs (LF a k e s r # c) = a # addrs r @ ctx_addrs c"
| "ctx_addrs (RF l a k e s # c) = a # addrs l @ ctx_addrs c"

fun tree_at :: "('k, 'e, 's) node_heap \<Rightarrow> addr \<Rightarrow> ('k, 'e, 's) tree \<Rightarrow> bool" where
  "tree_at h p Tip \<longleftrightarrow> True"
| "tree_at h p (Br l a k e s r) \<longleftrightarrow>
     a \<noteq> NULL \<and>
     h a = Some \<lparr>m_Key = k, m_Element = e, m_Left = root_of l, m_Right = root_of r,
                 m_Parent = p, m_State = s\<rparr> \<and>
     tree_at h a l \<and> tree_at h a r"

fun ctx_at :: "('k, 'e, 's) node_heap \<Rightarrow> addr \<Rightarrow> ('k, 'e, 's) ctx \<Rightarrow> bool" where
  "ctx_at h q [] \<longleftrightarrow> True"
| "ctx_at h q (LF a k e s r # c) \<longleftrightarrow>
     a \<noteq> NULL \<and>
     h a = Some \<lparr>m_Key = k, m_Element = e, m_Left = q, m_Right = root_of r,
                 m_Parent = up c, m_State = s\<rparr> \<and>
     tree_at h a r \<and> ctx_at h a c"
| "ctx_at h q (RF l a k e s # c) \<longleftrightarrow>
     a \<noteq> NULL \<and>
     h a = Some \<lparr>m_Key = k, m_Element = e, m_Left = root_of l, m_Right = q,
                 m_Parent = up c, m_State = s\<rparr> \<and>
     tree_at h a l \<and> ctx_at h a c"

definition rep :: "('k, 'e, 's) Tree_object \<Rightarrow> ('k, 'e, 's) tree \<Rightarrow> bool" where
  "rep s T \<longleftrightarrow> m_Root s = root_of T \<and> tree_at (blocks s) NULL T \<and> distinct (addrs T)"

definition size_ok :: "('k, 'e, 's) Tree_object \<Rightarrow> ('k, 'e, 's) tree \<Rightarrow> bool" where
  "size_ok s T \<longleftrightarrow> m_Size s = of_nat (length (entries T))"

text \<open>Every block the object holds is a node of its tree: nothing is leaked.\<close>

definition no_leak :: "('k, 'e, 's) Tree_object \<Rightarrow> ('k, 'e, 's) tree \<Rightarrow> bool" where
  "no_leak s T \<longleftrightarrow> dom (blocks s) = set (addrs T)"

subsection \<open>Contexts\<close>

lemma entries_plug [simp]: "entries (plug c t) = pre_c c @ entries t @ post_c c"
  by (induction c t rule: plug.induct) auto

lemma map_fst_entries: "map fst (entries t) = addrs t"
  by (induction t) auto

lemma length_addrs: "length (addrs t) = length (entries t)"
  by (simp flip: map_fst_entries)

lemma addrs_plug: "set (addrs (plug c t)) = set (addrs t) \<union> set (ctx_addrs c)"
  by (induction c t rule: plug.induct) auto

lemma distinct_plug: "distinct (addrs (plug c t)) \<longleftrightarrow> distinct (addrs t @ ctx_addrs c)"
  by (induction c t rule: plug.induct) (auto simp: addrs_plug)

lemma plug_append: "plug (c @ d) t = plug d (plug c t)"
  by (induction c t rule: plug.induct) auto

lemma root_of_plug [simp]: "root_of (plug c t) = ctx_root c (root_of t)"
  by (induction c t rule: plug.induct) auto

lemma ctx_root_indep: "c \<noteq> [] \<Longrightarrow> ctx_root c p = ctx_root c q"
  by (induction c q rule: ctx_root.induct) auto

lemma up_in_ctx: "c \<noteq> [] \<Longrightarrow> up c \<in> set (ctx_addrs c)"
  by (cases c rule: up.cases) auto

lemma tree_at_plug:
  "tree_at h NULL (plug c t) \<longleftrightarrow> tree_at h (up c) t \<and> ctx_at h (root_of t) c"
  by (induction c t rule: plug.induct) auto

lemma rep_plug:
  "rep s (plug c t) \<longleftrightarrow>
     m_Root s = ctx_root c (root_of t) \<and> tree_at (blocks s) (up c) t \<and>
     ctx_at (blocks s) (root_of t) c \<and> distinct (addrs t @ ctx_addrs c)"
  by (auto simp: rep_def tree_at_plug distinct_plug)

lemma root_of_NULL: "tree_at h p t \<Longrightarrow> root_of t = NULL \<longleftrightarrow> t = Tip"
  by (cases t) auto

lemma root_of_in_addrs: "t \<noteq> Tip \<Longrightarrow> root_of t \<in> set (addrs t)"
  by (cases t) auto

lemma tree_at_nonnull: "tree_at h p t \<Longrightarrow> a \<in> set (addrs t) \<Longrightarrow> a \<noteq> NULL"
  by (induction t arbitrary: p) (auto simp: image_iff)

lemma tree_at_dom: "tree_at h p t \<Longrightarrow> a \<in> set (addrs t) \<Longrightarrow> a \<in> dom h"
proof (induction t arbitrary: p)
  case (Br l a' k e s r)
  from Br.prems consider "a = a'" | "a \<in> set (addrs l)" | "a \<in> set (addrs r)" by auto
  then show ?case
  proof cases
    case 1
    with Br.prems show ?thesis by auto
  next
    case 2
    with Br.prems Br.IH(1) [of a'] show ?thesis by simp
  next
    case 3
    with Br.prems Br.IH(2) [of a'] show ?thesis by simp
  qed
qed simp

lemma ctx_at_nonnull: "ctx_at h q c \<Longrightarrow> a \<in> set (ctx_addrs c) \<Longrightarrow> a \<noteq> NULL"
proof (induction h q c rule: ctx_at.induct)
  case (2 h q a' k e s r c)
  then show ?case using tree_at_nonnull [of h a' r a] by auto
next
  case (3 h q l a' k e s c)
  then show ?case using tree_at_nonnull [of h a' l a] by auto
qed simp

lemma ctx_at_dom: "ctx_at h q c \<Longrightarrow> a \<in> set (ctx_addrs c) \<Longrightarrow> a \<in> dom h"
proof (induction h q c rule: ctx_at.induct)
  case (2 h q a' k e s r c)
  then show ?case using tree_at_dom [of h a' r a] by (auto simp: domIff)
next
  case (3 h q l a' k e s c)
  then show ?case using tree_at_dom [of h a' l a] by (auto simp: domIff)
qed simp

lemma dom_upd_same [shape_simps]: "h a = Some x \<Longrightarrow> dom (h(a \<mapsto> y)) = dom h"
  by auto

lemma up_NULL: "ctx_at h q c \<Longrightarrow> up c = NULL \<longleftrightarrow> c = []"
  by (cases c rule: up.cases) auto

subsection \<open>Writes outside a tree\<close>

lemma tree_at_cong:
  "(\<And>a. a \<in> set (addrs t) \<Longrightarrow> h' a = h a) \<Longrightarrow> tree_at h' p t = tree_at h p t"
  by (induction t arbitrary: p) auto

lemma ctx_at_cong:
  "(\<And>a. a \<in> set (ctx_addrs c) \<Longrightarrow> h' a = h a) \<Longrightarrow> ctx_at h' q c = ctx_at h q c"
proof (induction h q c rule: ctx_at.induct)
  case (2 h q a k e s r c)
  then show ?case using tree_at_cong [of r h' h a] by auto
next
  case (3 h q l a k e s c)
  then show ?case using tree_at_cong [of l h' h a] by auto
qed simp

lemma tree_at_upd [shape_simps]: "a \<notin> set (addrs t) \<Longrightarrow> tree_at (h(a := v)) p t = tree_at h p t"
  by (rule tree_at_cong) auto

lemma ctx_at_upd [shape_simps]: "a \<notin> set (ctx_addrs c) \<Longrightarrow> ctx_at (h(a := v)) q c = ctx_at h q c"
  by (rule ctx_at_cong) auto

text \<open>\<open>if ( p ) p->m_Parent = q\<close> on the root of a subtree hangs the subtree under \<open>q\<close>.\<close>

lemma set_Parent_if_tree:
  assumes "tree_at h p t" "distinct (addrs t)"
  obtains h' where "set_Parent_if h (root_of t) q = Some h'" "tree_at h' q t"
    "\<And>b. b \<noteq> root_of t \<Longrightarrow> h' b = h b" "dom h' = dom h"
proof (cases t)
  case Tip
  with that [of h] show thesis by (simp add: set_Parent_if_def)
next
  case (Br l a k e s r)
  let ?h' = "h(a \<mapsto> \<lparr>m_Key = k, m_Element = e, m_Left = root_of l, m_Right = root_of r,
                 m_Parent = q, m_State = s\<rparr>)"
  from Br assms have "set_Parent_if h (root_of t) q = Some ?h'"
    by (simp add: set_defs)
  moreover from Br assms have "tree_at ?h' q t"
    by (auto simp: shape_simps)
  ultimately show thesis
    using that [of ?h'] Br assms by (auto simp: shape_simps simp del: dom_fun_upd)
qed

text \<open>Relinking the child slot above the hole.\<close>

lemma relink_ctx:
  assumes "ctx_at (blocks s) A c" "A \<noteq> NULL" "A \<notin> set (ctx_addrs c)"
    and "distinct (ctx_addrs c)" "m_Root s = ctx_root c A"
  obtains s' where "relink s (up c) A B = Some s'" "ctx_at (blocks s') B c"
    "m_Root s' = ctx_root c B" "m_Size s' = m_Size s"
    "\<And>b. b \<noteq> up c \<Longrightarrow> blocks s' b = blocks s b" "dom (blocks s') = dom (blocks s)"
proof (cases c rule: up.cases)
  case 1
  with that [of "s\<lparr>m_Root := B\<rparr>"] assms show thesis by (simp add: relink_def)
next
  case (2 a k e st r c')
  let ?s' = "s\<lparr>blocks := (blocks s)(a \<mapsto> \<lparr>m_Key = k, m_Element = e, m_Left = B,
      m_Right = root_of r, m_Parent = up c', m_State = st\<rparr>)\<rparr>"
  from 2 assms have "relink s (up c) A B = Some ?s'"
    by (simp add: relink_def set_defs)
  with that [of ?s'] 2 assms show thesis
    by (auto simp: shape_simps ctx_root_indep simp del: dom_fun_upd)
next
  case (3 l a k e st c')
  let ?s' = "s\<lparr>blocks := (blocks s)(a \<mapsto> \<lparr>m_Key = k, m_Element = e, m_Left = root_of l,
      m_Right = B, m_Parent = up c', m_State = st\<rparr>)\<rparr>"
  from 3 assms have "root_of l \<noteq> A"
    using root_of_in_addrs [of l] by (cases l) auto
  with 3 assms have "relink s (up c) A B = Some ?s'"
    by (simp add: relink_def set_defs)
  with that [of ?s'] 3 assms show thesis
    by (auto simp: shape_simps ctx_root_indep simp del: dom_fun_upd)
qed

subsection \<open>Focusing on a subtree and closing it again\<close>

lemmas write_defs = set_Left_def set_Right_def set_Parent_def set_State_def rd_def

lemma tree_at_agree:
  "tree_at h p t \<Longrightarrow> (\<And>a. a \<in> set (addrs t) \<Longrightarrow> h' a = h a) \<Longrightarrow> tree_at h' p t"
  using tree_at_cong by blast

lemma ctx_at_agree:
  "ctx_at h q c \<Longrightarrow> (\<And>a. a \<in> set (ctx_addrs c) \<Longrightarrow> h' a = h a) \<Longrightarrow> ctx_at h' q c"
  using ctx_at_cong by blast

lemma root_of_cases: "root_of t = NULL \<or> root_of t \<in> set (addrs t)"
  by (cases t) auto

lemma root_of_neq: "a \<notin> set (addrs t) \<Longrightarrow> a \<noteq> NULL \<Longrightarrow> root_of t \<noteq> a"
  by (cases t) auto

lemma blocks_update_eq: "s\<lparr>blocks := g\<rparr> = s\<lparr>blocks := h\<rparr> \<longleftrightarrow> g = h"
  by (cases s) simp

lemma root_notin_tree:
  "tree_at h p t \<Longrightarrow> set (addrs t) \<inter> set (addrs t') = {} \<Longrightarrow> root_of t' \<notin> set (addrs t)"
  using root_of_cases [of t'] tree_at_nonnull [of h p t NULL] by auto

lemma root_notin_ctx:
  "ctx_at h q c \<Longrightarrow> set (ctx_addrs c) \<inter> set (addrs t') = {} \<Longrightarrow> root_of t' \<notin> set (ctx_addrs c)"
  using root_of_cases [of t'] ctx_at_nonnull [of h q c NULL] by auto

text \<open>What every operation that only rearranges nodes keeps: the count and the blocks held.\<close>

definition heap_keeps :: "('k, 'e, 's) Tree_object \<Rightarrow> ('k, 'e, 's) Tree_object \<Rightarrow> bool" where
  "heap_keeps s s' \<longleftrightarrow> m_Size s' = m_Size s \<and> dom (blocks s') = dom (blocks s)"

lemma heap_keeps_refl [simp]: "heap_keeps s s"
  by (simp add: heap_keeps_def)

lemma heap_keeps_trans [trans]: "heap_keeps s s' \<Longrightarrow> heap_keeps s' s'' \<Longrightarrow> heap_keeps s s''"
  by (simp add: heap_keeps_def)

lemma up_fresh:
  assumes "ctx_at h q c" "tree_at h' p t" "set (ctx_addrs c) \<inter> set (addrs t) = {}"
    and "a \<in> set (addrs t)"
  shows "a \<noteq> up c"
proof (cases "c = []")
  case True
  with tree_at_nonnull [OF assms(2,4)] show ?thesis by simp
next
  case False
  with up_in_ctx assms(3,4) show ?thesis by blast
qed

lemma rep_focus:
  assumes "rep s (plug c t)"
  shows "m_Root s = ctx_root c (root_of t)" "tree_at (blocks s) (up c) t"
    "ctx_at (blocks s) (root_of t) c" "distinct (addrs t)" "distinct (ctx_addrs c)"
    "set (ctx_addrs c) \<inter> set (addrs t) = {}"
  using assms by (auto simp: rep_plug)

lemma rep_up_fresh: "rep s (plug c t) \<Longrightarrow> a \<in> set (addrs t) \<Longrightarrow> a \<noteq> up c"
  using up_fresh rep_focus by metis

lemma relink_focus:
  assumes "rep s (plug c t)" "t \<noteq> Tip"
  obtains s' where "relink s (up c) (root_of t) B = Some s'" "ctx_at (blocks s') B c"
    "tree_at (blocks s') (up c) t" "m_Root s' = ctx_root c B" "heap_keeps s s'"
    "\<And>b. b \<noteq> up c \<Longrightarrow> blocks s' b = blocks s b"
proof -
  note R = rep_focus [OF assms(1)]
  from assms(2) R(2,6) have A: "root_of t \<noteq> NULL" "root_of t \<notin> set (ctx_addrs c)"
    using root_of_NULL root_of_in_addrs by blast+
  obtain s' where s': "relink s (up c) (root_of t) B = Some s'" "ctx_at (blocks s') B c"
      "m_Root s' = ctx_root c B" "m_Size s' = m_Size s"
      "\<And>b. b \<noteq> up c \<Longrightarrow> blocks s' b = blocks s b" "dom (blocks s') = dom (blocks s)"
    using relink_ctx [OF R(3) A R(5) R(1)] by blast
  have "tree_at (blocks s') (up c) t"
    by (rule tree_at_agree [OF R(2)]) (rule s'(5), rule rep_up_fresh [OF assms(1)])
  with that s' show thesis by (simp add: heap_keeps_def)
qed

lemma rep_close:
  assumes "ctx_at h (root_of t) c" "tree_at h' (up c) t" "m_Root s = ctx_root c (root_of t)"
    and "\<And>a. a \<in> set (ctx_addrs c) \<Longrightarrow> h' a = h a"
    and "distinct (addrs t @ ctx_addrs c)"
  shows "rep (s\<lparr>blocks := h'\<rparr>) (plug c t)"
  using assms ctx_at_agree [OF assms(1), of h'] by (simp add: rep_plug)

subsection \<open>Reading and tagging at the focus\<close>

lemma set_State_spec:
  assumes "rep s (plug c (Br l A k e st r))"
  shows "\<exists>h. set_State (blocks s) A st' = Some h \<and>
    rep (s\<lparr>blocks := h\<rparr>) (plug c (Br l A k e st' r)) \<and> heap_keeps s (s\<lparr>blocks := h\<rparr>)"
  using assms by (auto simp: rep_plug write_defs heap_keeps_def shape_simps)

lemma rd_focus:
  assumes "rep s (plug c (Br l A k e st r))"
  shows "rd (blocks s) A = Some \<lparr>m_Key = k, m_Element = e, m_Left = root_of l,
     m_Right = root_of r, m_Parent = up c, m_State = st\<rparr>" "A \<noteq> NULL"
  using assms by (simp_all add: rep_plug rd_def)

lemma rd_focus_l:
  assumes "rep s (plug c (Br (Br ll B kb eb sb lr) A k e st r))"
  shows "rd (blocks s) B = Some \<lparr>m_Key = kb, m_Element = eb, m_Left = root_of ll,
     m_Right = root_of lr, m_Parent = A, m_State = sb\<rparr>"
  using rd_focus(1) [of s "LF A k e st r # c" ll B kb eb sb lr] assms by simp

lemma rd_focus_r:
  assumes "rep s (plug c (Br l A k e st (Br rl B kb eb sb rr)))"
  shows "rd (blocks s) B = Some \<lparr>m_Key = kb, m_Element = eb, m_Left = root_of rl,
     m_Right = root_of rr, m_Parent = A, m_State = sb\<rparr>"
  using rd_focus(1) [of s "RF l A k e st # c" rl B kb eb sb rr] assms by simp

end
