(* ===== verification/AvlTree.thy ===== *)
theory AvlTree
  imports TreeShape
begin

text \<open>
  \<open>WmiAvlTree\<close> (\<open>avltree.h\<close>, \<open>avltree.cpp\<close>): the height-balanced search tree with parent
  pointers that the provider subsystem keys its caches and registrations by. This theory
  holds the operations only, statement by statement over the node heap; \<open>AvlProofs\<close> holds
  their correctness.
\<close>

datatype WmAvlState = e_Equal | e_LeftHigher | e_RightHigher

type_synonym ('k, 'e) avl = "('k, 'e, WmAvlState) Tree_object"

definition WmiAvlTree_new :: "('k, 'e) avl" where
  "WmiAvlTree_new = \<lparr>m_Root = NULL, m_Size = 0, blocks = Map.empty\<rparr>"

subsection \<open>Rotations\<close>

text \<open>
  The single rotation of \<open>Insert_LeftBalance\<close> and \<open>Delete_RightBalance\<close>, \<open>B\<close> being the left child
  of \<open>A\<close>; the two states are what the calling branch stores in \<open>A\<close> and in \<open>B\<close>.
\<close>

definition rotate_right ::
  "('k, 'e) avl \<Rightarrow> addr \<Rightarrow> addr \<Rightarrow> WmAvlState \<Rightarrow> WmAvlState \<Rightarrow> ('k, 'e) avl option" where
  "rotate_right s A B stA stB = do {
     nA \<leftarrow> rd (blocks s) A;
     let t_Parent = m_Parent nA;
     s \<leftarrow> relink s t_Parent A B;
     nB \<leftarrow> rd (blocks s) B;
     h \<leftarrow> set_Parent_if (blocks s) (m_Right nB) A;
     h \<leftarrow> set_State h A stA;
     h \<leftarrow> set_Left h A (m_Right nB);
     h \<leftarrow> set_Parent h A B;
     h \<leftarrow> set_State h B stB;
     h \<leftarrow> set_Right h B A;
     h \<leftarrow> set_Parent h B t_Parent;
     Some (s\<lparr>blocks := h\<rparr>)
   }"

text \<open>Its mirror image, in \<open>Insert_RightBalance\<close> and \<open>Delete_LeftBalance\<close>.\<close>

definition rotate_left ::
  "('k, 'e) avl \<Rightarrow> addr \<Rightarrow> addr \<Rightarrow> WmAvlState \<Rightarrow> WmAvlState \<Rightarrow> ('k, 'e) avl option" where
  "rotate_left s A B stA stB = do {
     nA \<leftarrow> rd (blocks s) A;
     let t_Parent = m_Parent nA;
     s \<leftarrow> relink s t_Parent A B;
     nB \<leftarrow> rd (blocks s) B;
     h \<leftarrow> set_Parent_if (blocks s) (m_Left nB) A;
     h \<leftarrow> set_State h A stA;
     h \<leftarrow> set_Right h A (m_Left nB);
     h \<leftarrow> set_Parent h A B;
     h \<leftarrow> set_State h B stB;
     h \<leftarrow> set_Left h B A;
     h \<leftarrow> set_Parent h B t_Parent;
     Some (s\<lparr>blocks := h\<rparr>)
   }"

text \<open>
  The \<open>switch ( C->m_State )\<close> of the double rotations: the new states of the node that becomes
  the left child of \<open>C\<close> and of the one that becomes its right child.
\<close>

definition Double_LeftState :: "WmAvlState \<Rightarrow> WmAvlState" where
  "Double_LeftState st = (case st of e_LeftHigher \<Rightarrow> e_Equal
     | e_RightHigher \<Rightarrow> e_LeftHigher | e_Equal \<Rightarrow> e_Equal)"

definition Double_RightState :: "WmAvlState \<Rightarrow> WmAvlState" where
  "Double_RightState st = (case st of e_LeftHigher \<Rightarrow> e_RightHigher
     | e_RightHigher \<Rightarrow> e_Equal | e_Equal \<Rightarrow> e_Equal)"

text \<open>The double rotation with \<open>C = A->m_Left->m_Right\<close>; the result names the new subtree root.\<close>

definition rotate_left_right ::
  "('k, 'e) avl \<Rightarrow> addr \<Rightarrow> addr \<Rightarrow> (('k, 'e) avl \<times> addr) option" where
  "rotate_left_right s A B = do {
     nA \<leftarrow> rd (blocks s) A;
     nL \<leftarrow> rd (blocks s) (m_Left nA);
     let C = m_Right nL;
     let t_Parent = m_Parent nA;
     s \<leftarrow> relink s t_Parent A C;
     h \<leftarrow> set_Parent (blocks s) A C;
     h \<leftarrow> set_Parent h B C;
     nC \<leftarrow> rd h C;
     h \<leftarrow> set_Parent_if h (m_Left nC) B;
     h \<leftarrow> set_Parent_if h (m_Right nC) A;
     h \<leftarrow> set_Left h A (m_Right nC);
     h \<leftarrow> set_Right h B (m_Left nC);
     h \<leftarrow> set_Left h C B;
     h \<leftarrow> set_Right h C A;
     h \<leftarrow> set_Parent h C t_Parent;
     h \<leftarrow> set_State h B (Double_LeftState (m_State nC));
     h \<leftarrow> set_State h A (Double_RightState (m_State nC));
     h \<leftarrow> set_State h C e_Equal;
     Some (s\<lparr>blocks := h\<rparr>, C)
   }"

text \<open>The double rotation with \<open>C = A->m_Right->m_Left\<close>.\<close>

definition rotate_right_left ::
  "('k, 'e) avl \<Rightarrow> addr \<Rightarrow> addr \<Rightarrow> (('k, 'e) avl \<times> addr) option" where
  "rotate_right_left s A B = do {
     nA \<leftarrow> rd (blocks s) A;
     nR \<leftarrow> rd (blocks s) (m_Right nA);
     let C = m_Left nR;
     let t_Parent = m_Parent nA;
     s \<leftarrow> relink s t_Parent A C;
     h \<leftarrow> set_Parent (blocks s) A C;
     h \<leftarrow> set_Parent h B C;
     nC \<leftarrow> rd h C;
     h \<leftarrow> set_Parent_if h (m_Right nC) B;
     h \<leftarrow> set_Parent_if h (m_Left nC) A;
     h \<leftarrow> set_Left h B (m_Right nC);
     h \<leftarrow> set_Right h A (m_Left nC);
     h \<leftarrow> set_Right h C B;
     h \<leftarrow> set_Left h C A;
     h \<leftarrow> set_Parent h C t_Parent;
     h \<leftarrow> set_State h B (Double_RightState (m_State nC));
     h \<leftarrow> set_State h A (Double_LeftState (m_State nC));
     h \<leftarrow> set_State h C e_Equal;
     Some (s\<lparr>blocks := h\<rparr>, C)
   }"

subsection \<open>Rebalancing one node\<close>

text \<open>
  The four balance routines return the status, the tree, the node that is now the root of the
  subtree (the reference parameter \<open>A\<close>) and the height flag (the other reference parameter).
\<close>

type_synonym ('k, 'e) balance_result = "(WmiStatusCode \<times> ('k, 'e) avl \<times> addr \<times> bool) option"

definition Insert_LeftBalance ::
  "('k, 'e) avl \<Rightarrow> addr \<Rightarrow> addr \<Rightarrow> bool \<Rightarrow> ('k, 'e) balance_result" where
  "Insert_LeftBalance s A B a_Increased =
     (if a_Increased then do {
        nA \<leftarrow> rd (blocks s) A;
        (case m_State nA of
           e_Equal \<Rightarrow> do {
             h \<leftarrow> set_State (blocks s) A e_LeftHigher;
             Some (e_StatusCode_Success, s\<lparr>blocks := h\<rparr>, A, True)
           }
         | e_RightHigher \<Rightarrow> do {
             h \<leftarrow> set_State (blocks s) A e_Equal;
             Some (e_StatusCode_Success, s\<lparr>blocks := h\<rparr>, A, False)
           }
         | e_LeftHigher \<Rightarrow> do {
             nB \<leftarrow> rd (blocks s) B;
             (case m_State nB of
                e_Equal \<Rightarrow> Some (e_StatusCode_Success, s, A, False)
              | e_LeftHigher \<Rightarrow> do {
                  s \<leftarrow> rotate_right s A B e_Equal e_Equal;
                  Some (e_StatusCode_Success, s, B, False)
                }
              | e_RightHigher \<Rightarrow> do {
                  (s, C) \<leftarrow> rotate_left_right s A B;
                  Some (e_StatusCode_Success, s, C, False)
                })
           })
      } else Some (e_StatusCode_Success, s, A, a_Increased))"

definition Insert_RightBalance ::
  "('k, 'e) avl \<Rightarrow> addr \<Rightarrow> addr \<Rightarrow> bool \<Rightarrow> ('k, 'e) balance_result" where
  "Insert_RightBalance s A B a_Increased =
     (if a_Increased then do {
        nA \<leftarrow> rd (blocks s) A;
        (case m_State nA of
           e_Equal \<Rightarrow> do {
             h \<leftarrow> set_State (blocks s) A e_RightHigher;
             Some (e_StatusCode_Success, s\<lparr>blocks := h\<rparr>, A, True)
           }
         | e_LeftHigher \<Rightarrow> do {
             h \<leftarrow> set_State (blocks s) A e_Equal;
             Some (e_StatusCode_Success, s\<lparr>blocks := h\<rparr>, A, False)
           }
         | e_RightHigher \<Rightarrow> do {
             nB \<leftarrow> rd (blocks s) B;
             (case m_State nB of
                e_Equal \<Rightarrow> Some (e_StatusCode_Success, s, A, False)
              | e_RightHigher \<Rightarrow> do {
                  s \<leftarrow> rotate_left s A B e_Equal e_Equal;
                  Some (e_StatusCode_Success, s, B, False)
                }
              | e_LeftHigher \<Rightarrow> do {
                  (s, C) \<leftarrow> rotate_right_left s A B;
                  Some (e_StatusCode_Success, s, C, False)
                })
           })
      } else Some (e_StatusCode_Success, s, A, a_Increased))"

text \<open>\<open>Delete_LeftBalance\<close>: the left subtree of \<open>A\<close> became lower, \<open>B\<close> is its right child.\<close>

definition Delete_LeftBalance ::
  "('k, 'e) avl \<Rightarrow> addr \<Rightarrow> addr \<Rightarrow> bool \<Rightarrow> ('k, 'e) balance_result" where
  "Delete_LeftBalance s A B a_Decreased =
     (if a_Decreased then do {
        nA \<leftarrow> rd (blocks s) A;
        (case m_State nA of
           e_Equal \<Rightarrow> do {
             h \<leftarrow> set_State (blocks s) A e_RightHigher;
             Some (e_StatusCode_Success, s\<lparr>blocks := h\<rparr>, A, False)
           }
         | e_LeftHigher \<Rightarrow> do {
             h \<leftarrow> set_State (blocks s) A e_Equal;
             Some (e_StatusCode_Success, s\<lparr>blocks := h\<rparr>, A, True)
           }
         | e_RightHigher \<Rightarrow> do {
             nB \<leftarrow> rd (blocks s) B;
             (case m_State nB of
                e_Equal \<Rightarrow> do {
                  s \<leftarrow> rotate_left s A B e_RightHigher e_LeftHigher;
                  Some (e_StatusCode_Success, s, B, False)
                }
              | e_RightHigher \<Rightarrow> do {
                  s \<leftarrow> rotate_left s A B e_Equal e_Equal;
                  Some (e_StatusCode_Success, s, B, True)
                }
              | e_LeftHigher \<Rightarrow> do {
                  (s, C) \<leftarrow> rotate_right_left s A B;
                  Some (e_StatusCode_Success, s, C, True)
                })
           })
      } else Some (e_StatusCode_Success, s, A, a_Decreased))"

definition Delete_RightBalance ::
  "('k, 'e) avl \<Rightarrow> addr \<Rightarrow> addr \<Rightarrow> bool \<Rightarrow> ('k, 'e) balance_result" where
  "Delete_RightBalance s A B a_Decreased =
     (if a_Decreased then do {
        nA \<leftarrow> rd (blocks s) A;
        (case m_State nA of
           e_Equal \<Rightarrow> do {
             h \<leftarrow> set_State (blocks s) A e_LeftHigher;
             Some (e_StatusCode_Success, s\<lparr>blocks := h\<rparr>, A, False)
           }
         | e_RightHigher \<Rightarrow> do {
             h \<leftarrow> set_State (blocks s) A e_Equal;
             Some (e_StatusCode_Success, s\<lparr>blocks := h\<rparr>, A, True)
           }
         | e_LeftHigher \<Rightarrow> do {
             nB \<leftarrow> rd (blocks s) B;
             (case m_State nB of
                e_Equal \<Rightarrow> do {
                  s \<leftarrow> rotate_right s A B e_LeftHigher e_RightHigher;
                  Some (e_StatusCode_Success, s, B, False)
                }
              | e_LeftHigher \<Rightarrow> do {
                  s \<leftarrow> rotate_right s A B e_Equal e_Equal;
                  Some (e_StatusCode_Success, s, B, True)
                }
              | e_RightHigher \<Rightarrow> do {
                  (s, C) \<leftarrow> rotate_left_right s A B;
                  Some (e_StatusCode_Success, s, C, True)
                })
           })
      } else Some (e_StatusCode_Success, s, A, a_Decreased))"

subsection \<open>Insertion\<close>

text \<open>
  The loop \<open>while ( t_Increased )\<close> that climbs from \<open>t_Node\<close>. The code has it twice: after an
  insertion as a left child it continues from \<open>t_Node->m_Parent\<close>, after one as a right child
  from the reference parameter \<open>t_ParentNode\<close>; \<open>a_Left\<close> tells which.
\<close>

partial_function (option) Insert_Climb ::
  "bool \<Rightarrow> ('k, 'e) avl \<Rightarrow> addr \<Rightarrow> bool \<Rightarrow> ('k, 'e) avl option" where
  "Insert_Climb a_Left s t_Node t_Increased =
     (if t_Increased then do {
        n \<leftarrow> rd (blocks s) t_Node;
        let t_ParentNode = m_Parent n;
        if t_ParentNode \<noteq> NULL then do {
          np \<leftarrow> rd (blocks s) t_ParentNode;
          (t_StatusCode, s, t_ParentNode, t_Increased) \<leftarrow>
            (if m_Left np = t_Node
             then Insert_LeftBalance s t_ParentNode t_Node t_Increased
             else Insert_RightBalance s t_ParentNode t_Node t_Increased);
          n \<leftarrow> rd (blocks s) t_Node;
          Insert_Climb a_Left s (if a_Left then m_Parent n else t_ParentNode) t_Increased
        } else Some s
      } else Some s)"

text \<open>
  The two branches of \<open>Insert\<close> that create a node as the left or the right child of \<open>t_Node\<close> and
  rebalance upwards. The result holds the status, the tree and \<open>a_Iterator\<close>.
\<close>

definition Insert_AtLeft ::
  "('k, 'e, WmAvlState, 'z) tree_env_scheme \<Rightarrow> ('k, 'e) avl \<Rightarrow> addr \<Rightarrow> 'k \<Rightarrow> 'e \<Rightarrow> addr
   \<Rightarrow> (WmiStatusCode \<times> ('k, 'e) avl \<times> addr) option" where
  "Insert_AtLeft w s t_Node a_Key a_Element a_Iterator =
     (let (t_StatusCode, t_AllocNode, h) = NewNode w e_Equal (blocks s) a_Key a_Element
      in if t_StatusCode = e_StatusCode_Success then do {
           let s = s\<lparr>m_Size := m_Size s + 1\<rparr>;
           h \<leftarrow> set_Parent h t_AllocNode t_Node;
           h \<leftarrow> set_Left h t_Node t_AllocNode;
           (t_StatusCode, s, t_Node, t_Increased) \<leftarrow>
             Insert_LeftBalance (s\<lparr>blocks := h\<rparr>) t_Node t_AllocNode True;
           s \<leftarrow> Insert_Climb True s t_Node t_Increased;
           Some (e_StatusCode_Success, s, t_AllocNode)
         } else Some (t_StatusCode, s\<lparr>blocks := h\<rparr>, a_Iterator))"

definition Insert_AtRight ::
  "('k, 'e, WmAvlState, 'z) tree_env_scheme \<Rightarrow> ('k, 'e) avl \<Rightarrow> addr \<Rightarrow> 'k \<Rightarrow> 'e \<Rightarrow> addr
   \<Rightarrow> (WmiStatusCode \<times> ('k, 'e) avl \<times> addr) option" where
  "Insert_AtRight w s t_Node a_Key a_Element a_Iterator =
     (let (t_StatusCode, t_AllocNode, h) = NewNode w e_Equal (blocks s) a_Key a_Element
      in if t_StatusCode = e_StatusCode_Success then do {
           let s = s\<lparr>m_Size := m_Size s + 1\<rparr>;
           h \<leftarrow> set_Parent h t_AllocNode t_Node;
           h \<leftarrow> set_Right h t_Node t_AllocNode;
           (t_StatusCode, s, t_Node, t_Increased) \<leftarrow>
             Insert_RightBalance (s\<lparr>blocks := h\<rparr>) t_Node t_AllocNode True;
           s \<leftarrow> Insert_Climb False s t_Node t_Increased;
           Some (e_StatusCode_Success, s, t_AllocNode)
         } else Some (t_StatusCode, s\<lparr>blocks := h\<rparr>, a_Iterator))"

text \<open>The search loop of \<open>Insert\<close>.\<close>

partial_function (option) Insert_Loop ::
  "('k::ord, 'e, WmAvlState, 'z) tree_env_scheme \<Rightarrow> ('k, 'e) avl \<Rightarrow> addr \<Rightarrow> 'k \<Rightarrow> 'e \<Rightarrow> addr
   \<Rightarrow> (WmiStatusCode \<times> ('k, 'e) avl \<times> addr) option" where
  "Insert_Loop w s t_Node a_Key a_Element a_Iterator =
     (if t_Node = NULL then Some (e_StatusCode_Failed, s, a_Iterator)
      else do {
        n \<leftarrow> rd (blocks s) t_Node;
        let t_Compare = CompareElement a_Key (m_Key n);
        if t_Compare = 0 then Some (e_StatusCode_AlreadyExists, s, a_Iterator)
        else if t_Compare < 0 then
          (if m_Left n \<noteq> NULL then Insert_Loop w s (m_Left n) a_Key a_Element a_Iterator
           else Insert_AtLeft w s t_Node a_Key a_Element a_Iterator)
        else
          (if m_Right n \<noteq> NULL then Insert_Loop w s (m_Right n) a_Key a_Element a_Iterator
           else Insert_AtRight w s t_Node a_Key a_Element a_Iterator)
      })"

definition Avl_Insert ::
  "('k::ord, 'e, WmAvlState, 'z) tree_env_scheme \<Rightarrow> ('k, 'e) avl \<Rightarrow> 'k \<Rightarrow> 'e \<Rightarrow> addr
   \<Rightarrow> (WmiStatusCode \<times> ('k, 'e) avl \<times> addr) option" where
  "Avl_Insert w s a_Key a_Element a_Iterator =
     (if m_Root s \<noteq> NULL then Insert_Loop w s (m_Root s) a_Key a_Element a_Iterator
      else
        let (t_StatusCode, t_AllocNode, h) = NewNode w e_Equal (blocks s) a_Key a_Element
        in if t_StatusCode = e_StatusCode_Success
           then Some (e_StatusCode_Success,
                  s\<lparr>m_Root := t_AllocNode, m_Size := m_Size s + 1, blocks := h\<rparr>, t_AllocNode)
           else Some (t_StatusCode, s\<lparr>blocks := h\<rparr>, a_Iterator))"

subsection \<open>Deletion\<close>

text \<open>
  The \<open>do ... while\<close> loop of case 4 of \<open>DeleteFixup\<close>: rebalance from the successor's old parent up
  to, but not including, the successor. Every status is a success, so the loop ends at
  \<open>t_Successor\<close>.
\<close>

partial_function (option) DeleteFixup_Loop ::
  "('k, 'e) avl \<Rightarrow> addr \<Rightarrow> addr \<Rightarrow> bool \<Rightarrow> (WmiStatusCode \<times> ('k, 'e) avl \<times> addr \<times> bool) option" where
  "DeleteFixup_Loop s t_Node t_Successor a_Decreased = do {
     n \<leftarrow> rd (blocks s) t_Node;
     (t_StatusCode, s, t_Node, a_Decreased) \<leftarrow> Delete_LeftBalance s t_Node (m_Right n) a_Decreased;
     n \<leftarrow> rd (blocks s) t_Node;
     if t_StatusCode = e_StatusCode_Success \<and> m_Parent n \<noteq> t_Successor
     then DeleteFixup_Loop s (m_Parent n) t_Successor a_Decreased
     else Some (t_StatusCode, s, m_Parent n, a_Decreased)
   }"

text \<open>Case 4, the successor is deeper in the right subtree, and case 3, it is the right child.\<close>

definition DeleteFixup_Case4 ::
  "('k, 'e) avl \<Rightarrow> addr \<Rightarrow> addr \<Rightarrow> bool \<Rightarrow> (WmiStatusCode \<times> ('k, 'e) avl \<times> addr \<times> bool) option" where
  "DeleteFixup_Case4 s a_Node t_Successor a_Decreased = do {
     (h, t_Node) \<leftarrow> Splice_Deep (blocks s) a_Node t_Successor;
     (t_StatusCode, s, t_Node, a_Decreased) \<leftarrow>
       DeleteFixup_Loop (s\<lparr>blocks := h\<rparr>) t_Node t_Successor a_Decreased;
     if t_StatusCode = e_StatusCode_Success then do {
       n \<leftarrow> rd (blocks s) t_Node;
       Delete_RightBalance s t_Node (m_Left n) a_Decreased
     } else Some (t_StatusCode, s, t_Node, a_Decreased)
   }"

definition DeleteFixup_Case3 ::
  "('k, 'e) avl \<Rightarrow> addr \<Rightarrow> addr \<Rightarrow> bool \<Rightarrow> (WmiStatusCode \<times> ('k, 'e) avl \<times> addr \<times> bool) option" where
  "DeleteFixup_Case3 s a_Node t_Successor a_Decreased = do {
     h \<leftarrow> Splice_Child (blocks s) a_Node t_Successor;
     nS \<leftarrow> rd h t_Successor;
     Delete_RightBalance (s\<lparr>blocks := h\<rparr>) t_Successor (m_Left nS) a_Decreased
   }"

text \<open>
  Cases 1 and 2 and the leaf, before the release of the node: at most one child, which takes the
  node's place and its state.
\<close>

definition DeleteFixup_Splice ::
  "('k, 'e) avl \<Rightarrow> addr \<Rightarrow> (('k, 'e) avl \<times> bool) option" where
  "DeleteFixup_Splice s a_Node = do {
     n \<leftarrow> rd (blocks s) a_Node;
     let t_Left = m_Left n;
     let t_Right = m_Right n;
     s \<leftarrow> relink s (m_Parent n) a_Node (if t_Left \<noteq> NULL then t_Left else t_Right);
     if t_Left \<noteq> NULL then do {
       h \<leftarrow> set_Parent (blocks s) t_Left (m_Parent n);
       h \<leftarrow> set_State h t_Left (m_State n);
       nL \<leftarrow> rd h t_Left;
       (t_StatusCode, s, t_Left, a_Decreased) \<leftarrow>
         Delete_LeftBalance (s\<lparr>blocks := h\<rparr>) t_Left (m_Right nL) True;
       Some (s, a_Decreased)
     } else if t_Right \<noteq> NULL then do {
       h \<leftarrow> set_Parent (blocks s) t_Right (m_Parent n);
       h \<leftarrow> set_State h t_Right (m_State n);
       nR \<leftarrow> rd h t_Right;
       (t_StatusCode, s, t_Right, a_Decreased) \<leftarrow>
         Delete_RightBalance (s\<lparr>blocks := h\<rparr>) t_Right (m_Left nR) True;
       Some (s, a_Decreased)
     } else Some (s, True)
   }"

definition DeleteFixup ::
  "('k, 'e, WmAvlState, 'z) tree_env_scheme \<Rightarrow> ('k, 'e) avl \<Rightarrow> addr
   \<Rightarrow> (WmiStatusCode \<times> ('k, 'e) avl \<times> bool) option" where
  "DeleteFixup w s a_Node = do {
     n \<leftarrow> rd (blocks s) a_Node;
     (s, a_Decreased) \<leftarrow>
       (if m_Left n \<noteq> NULL \<and> m_Right n \<noteq> NULL then do {
          t_Successor \<leftarrow> Increment (blocks s) a_Node;
          h \<leftarrow> set_State (blocks s) t_Successor (m_State n);
          s \<leftarrow> relink (s\<lparr>blocks := h\<rparr>) (m_Parent n) a_Node t_Successor;
          nS \<leftarrow> rd (blocks s) t_Successor;
          (t_StatusCode, s, t_Node, a_Decreased) \<leftarrow>
            (if m_Parent nS \<noteq> a_Node then DeleteFixup_Case4 s a_Node t_Successor True
             else DeleteFixup_Case3 s a_Node t_Successor True);
          Some (s, a_Decreased)
        } else DeleteFixup_Splice s a_Node);
     let (t_StatusCode, h) = WmiAllocator_Delete w (m_Allocator w) a_Node (blocks s);
     Some (t_StatusCode, s\<lparr>blocks := h\<rparr>, a_Decreased)
   }"

text \<open>The loop \<open>while ( t_Decreased )\<close> of \<open>Delete\<close>.\<close>

partial_function (option) Delete_Climb ::
  "('k, 'e) avl \<Rightarrow> addr \<Rightarrow> bool \<Rightarrow> bool \<Rightarrow> ('k, 'e) avl option" where
  "Delete_Climb s t_ParentNode t_LeftSide t_Decreased =
     (if t_Decreased \<and> t_ParentNode \<noteq> NULL then do {
        n \<leftarrow> rd (blocks s) t_ParentNode;
        (t_StatusCode, s, t_Node, t_Decreased) \<leftarrow>
          (if t_LeftSide then Delete_LeftBalance s t_ParentNode (m_Right n) t_Decreased
           else Delete_RightBalance s t_ParentNode (m_Left n) t_Decreased);
        n \<leftarrow> rd (blocks s) t_Node;
        if m_Parent n \<noteq> NULL then do {
          np \<leftarrow> rd (blocks s) (m_Parent n);
          Delete_Climb s (m_Parent n) (m_Left np = t_Node) t_Decreased
        } else Delete_Climb s (m_Parent n) t_LeftSide t_Decreased
      } else Some s)"

definition Delete_Found ::
  "('k, 'e, WmAvlState, 'z) tree_env_scheme \<Rightarrow> ('k, 'e) avl \<Rightarrow> addr
   \<Rightarrow> (WmiStatusCode \<times> ('k, 'e) avl) option" where
  "Delete_Found w s t_Node = do {
     n \<leftarrow> rd (blocks s) t_Node;
     let t_ParentNode = m_Parent n;
     if t_ParentNode \<noteq> NULL then do {
       np \<leftarrow> rd (blocks s) t_ParentNode;
       let t_LeftSide = (m_Left np = t_Node);
       (t_StatusCode, s, t_Decreased) \<leftarrow> DeleteFixup w s t_Node;
       let s = s\<lparr>m_Size := m_Size s - 1\<rparr>;
       s \<leftarrow> Delete_Climb s t_ParentNode t_LeftSide t_Decreased;
       Some (e_StatusCode_Success, s)
     } else do {
       (t_StatusCode, s, t_Decreased) \<leftarrow> DeleteFixup w (s\<lparr>m_Size := m_Size s - 1\<rparr>) t_Node;
       Some (t_StatusCode, s)
     }
   }"

partial_function (option) Delete_Loop ::
  "('k::ord, 'e, WmAvlState, 'z) tree_env_scheme \<Rightarrow> ('k, 'e) avl \<Rightarrow> addr \<Rightarrow> 'k
   \<Rightarrow> (WmiStatusCode \<times> ('k, 'e) avl) option" where
  "Delete_Loop w s t_Node a_Key =
     (if t_Node = NULL then Some (e_StatusCode_Failed, s)
      else do {
        n \<leftarrow> rd (blocks s) t_Node;
        let t_Compare = CompareElement a_Key (m_Key n);
        if t_Compare = 0 then Delete_Found w s t_Node
        else if t_Compare < 0 then
          (if m_Left n \<noteq> NULL then Delete_Loop w s (m_Left n) a_Key
           else Some (e_StatusCode_NotFound, s))
        else
          (if m_Right n \<noteq> NULL then Delete_Loop w s (m_Right n) a_Key
           else Some (e_StatusCode_NotFound, s))
      })"

definition Avl_Delete ::
  "('k::ord, 'e, WmAvlState, 'z) tree_env_scheme \<Rightarrow> ('k, 'e) avl \<Rightarrow> 'k
   \<Rightarrow> (WmiStatusCode \<times> ('k, 'e) avl) option" where
  "Avl_Delete w s a_Key =
     (if m_Root s \<noteq> NULL then Delete_Loop w s (m_Root s) a_Key
      else Some (e_StatusCode_NotFound, s))"

subsection \<open>Searching\<close>

definition Avl_Find ::
  "('k::ord, 'e) avl \<Rightarrow> 'k \<Rightarrow> addr \<Rightarrow> (WmiStatusCode \<times> addr) option" where
  "Avl_Find s a_Key a_Iterator = Find_Loop (blocks s) (m_Root s) a_Key a_Iterator"

definition Avl_FindNext ::
  "('k::ord, 'e) avl \<Rightarrow> 'k \<Rightarrow> addr \<Rightarrow> (WmiStatusCode \<times> addr) option" where
  "Avl_FindNext s a_Key a_Iterator = FindNext_Loop (blocks s) (m_Root s) a_Key a_Iterator"

subsection \<open>The self check\<close>

text \<open>
  \<open>RecursiveCheck\<close> returns the status, \<open>a_Count\<close> and \<open>a_MaxHeight\<close>. As in the code the status of
  the left subtree is overwritten by the status of the right one when there is a right child.
\<close>

definition Check_State :: "WmAvlState \<Rightarrow> 32 word \<Rightarrow> 32 word \<Rightarrow> WmiStatusCode \<Rightarrow> WmiStatusCode" where
  "Check_State st t_LeftHeight t_RightHeight t_StatusCode =
     (case st of
        e_LeftHigher \<Rightarrow> if t_LeftHeight \<le> t_RightHeight then e_StatusCode_Failed else t_StatusCode
      | e_RightHigher \<Rightarrow> if t_RightHeight \<le> t_LeftHeight then e_StatusCode_Failed else t_StatusCode
      | e_Equal \<Rightarrow> if t_LeftHeight \<noteq> t_RightHeight then e_StatusCode_Failed else t_StatusCode)"

definition Check_Children :: "('k, 'e, WmAvlState) Node \<Rightarrow> WmiStatusCode" where
  "Check_Children n =
     (if m_State n = e_Equal \<and> \<not> (m_Left n = NULL \<and> m_Right n = NULL)
         \<and> \<not> (m_Left n \<noteq> NULL \<and> m_Right n \<noteq> NULL)
       \<or> m_State n = e_LeftHigher \<and> m_Left n = NULL
       \<or> m_State n = e_RightHigher \<and> m_Right n = NULL
      then e_StatusCode_Failed else e_StatusCode_Success)"

partial_function (option) RecursiveCheck ::
  "('k, 'e, WmAvlState) node_heap \<Rightarrow> addr \<Rightarrow> 32 word \<Rightarrow> 32 word
   \<Rightarrow> (WmiStatusCode \<times> 32 word \<times> 32 word) option" where
  "RecursiveCheck h a_Node a_Count a_Height0 = do {
     n \<leftarrow> rd h a_Node;
     let a_Height = a_Height0 + 1;
     (t_StatusCode, a_Count, t_LeftHeight) \<leftarrow>
       (if m_Left n \<noteq> NULL then do {
          nL \<leftarrow> rd h (m_Left n);
          if m_Parent nL = a_Node then RecursiveCheck h (m_Left n) (a_Count + 1) a_Height
          else Some (e_StatusCode_Failed, a_Count, a_Height)
        } else Some (e_StatusCode_Success, a_Count, a_Height));
     (t_StatusCode, a_Count, t_RightHeight) \<leftarrow>
       (if m_Right n \<noteq> NULL then do {
          nR \<leftarrow> rd h (m_Right n);
          if m_Parent nR = a_Node then RecursiveCheck h (m_Right n) (a_Count + 1) a_Height
          else Some (e_StatusCode_Failed, a_Count, a_Height)
        } else Some (t_StatusCode, a_Count, a_Height));
     let t_StatusCode = Check_State (m_State n) t_LeftHeight t_RightHeight t_StatusCode;
     Some (if t_StatusCode = e_StatusCode_Success then Check_Children n else t_StatusCode,
           a_Count, if t_LeftHeight < t_RightHeight then t_RightHeight else t_LeftHeight)
   }"

definition Avl_Check :: "('k, 'e) avl \<Rightarrow> 32 word \<Rightarrow> (WmiStatusCode \<times> 32 word) option" where
  "Avl_Check s a_MaxHeight =
     (if m_Root s \<noteq> NULL then do {
        n \<leftarrow> rd (blocks s) (m_Root s);
        if m_Parent n = NULL then do {
          (t_StatusCode, t_Count, a_MaxHeight) \<leftarrow> RecursiveCheck (blocks s) (m_Root s) 1 0;
          Some (if t_StatusCode = e_StatusCode_Success \<and> t_Count \<noteq> m_Size s
                then e_StatusCode_Failed else t_StatusCode, a_MaxHeight)
        } else Some (e_StatusCode_Failed, a_MaxHeight)
      } else Some (e_StatusCode_Success, a_MaxHeight))"

subsection \<open>Release and merge\<close>

definition Avl_UnInitialize ::
  "('k, 'e, WmAvlState, 'z) tree_env_scheme \<Rightarrow> ('k, 'e) avl \<Rightarrow> (WmiStatusCode \<times> ('k, 'e) avl) option" where
  "Avl_UnInitialize w s =
     (if m_Root s \<noteq> NULL then do {
        (t_StatusCode, h) \<leftarrow> RecursiveUnInitialize w (blocks s) (m_Root s);
        Some (t_StatusCode, s\<lparr>blocks := h, m_Root := NULL\<rparr>)
      } else Some (e_StatusCode_Success, s))"

text \<open>
  \<open>Merge\<close> moves the root of \<open>a_Tree\<close> over until \<open>a_Tree\<close> is empty or an insertion or deletion
  fails; \<open>w\<close> and \<open>wa\<close> are the environments of the two trees.
\<close>

partial_function (option) Avl_Merge_Loop ::
  "('k::ord, 'e, WmAvlState, 'z) tree_env_scheme \<Rightarrow> ('k, 'e, WmAvlState, 'z) tree_env_scheme
   \<Rightarrow> ('k, 'e) avl \<Rightarrow> ('k, 'e) avl \<Rightarrow> WmiStatusCode
   \<Rightarrow> (WmiStatusCode \<times> ('k, 'e) avl \<times> ('k, 'e) avl) option" where
  "Avl_Merge_Loop w wa s a_Tree t_StatusCode =
     (if m_Root a_Tree \<noteq> NULL \<and> t_StatusCode = e_StatusCode_Success then do {
        n \<leftarrow> rd (blocks a_Tree) (m_Root a_Tree);
        (t_StatusCode, s, t_InsertIterator) \<leftarrow> Avl_Insert w s (m_Key n) (m_Element n) NULL;
        (t_StatusCode, a_Tree) \<leftarrow>
          (if t_StatusCode = e_StatusCode_Success then Avl_Delete wa a_Tree (m_Key n)
           else Some (t_StatusCode, a_Tree));
        Avl_Merge_Loop w wa s a_Tree t_StatusCode
      } else Some (t_StatusCode, s, a_Tree))"

definition Avl_Merge ::
  "('k::ord, 'e, WmAvlState, 'z) tree_env_scheme \<Rightarrow> ('k, 'e, WmAvlState, 'z) tree_env_scheme
   \<Rightarrow> ('k, 'e) avl \<Rightarrow> ('k, 'e) avl \<Rightarrow> (WmiStatusCode \<times> ('k, 'e) avl \<times> ('k, 'e) avl) option" where
  "Avl_Merge w wa s a_Tree = Avl_Merge_Loop w wa s a_Tree e_StatusCode_Success"

end
