(* ===== verification/AvlRotate.thy ===== *)
theory AvlRotate
  imports AvlTree
begin

text \<open>
  What the four rotations of \<open>avltree.cpp\<close> do to the tree the heap holds: the shape changes as in
  the textbook, the states are the ones written, every block is kept and no other node is
  touched. Each proof focuses on the rotated subtree, follows the pointer writes, and closes the
  context around the new subtree.
\<close>

lemma rotate_right_spec:
  assumes "rep s (plug c (Br (Br ll B kb eb sb lr) A ka ea sa r))"
  shows "\<exists>s'. rotate_right s A B stA stB = Some s' \<and>
    rep s' (plug c (Br ll B kb eb stB (Br lr A ka ea stA r))) \<and> heap_keeps s s'"
proof -
  let ?T = "Br (Br ll B kb eb sb lr) A ka ea sa r"
  let ?T' = "Br ll B kb eb stB (Br lr A ka ea stA r)"
  note R = rep_focus [OF assms]
  from assms have D: "distinct (addrs ?T' @ ctx_addrs c)"
    by (auto simp: rep_plug)
  obtain s1 where s1: "relink s (up c) A B = Some s1" "ctx_at (blocks s1) B c"
      "tree_at (blocks s1) (up c) ?T" "m_Root s1 = ctx_root c B" "heap_keeps s s1"
    by (rule relink_focus [OF assms, of B]) simp_all
  have lr: "tree_at (blocks s1) B lr" "distinct (addrs lr)"
    using s1(3) D by simp_all
  obtain h2 where h2: "set_Parent_if (blocks s1) (root_of lr) A = Some h2" "tree_at h2 A lr"
      "\<And>b. b \<noteq> root_of lr \<Longrightarrow> h2 b = blocks s1 b" "dom h2 = dom (blocks s1)"
    using set_Parent_if_tree [OF lr] by blast
  have ne: "A \<noteq> B" "A \<noteq> root_of lr" "B \<noteq> root_of lr" "A \<noteq> NULL" "B \<noteq> NULL"
    using D s1(3) root_of_cases [of lr] by auto
  let ?h = "h2(A \<mapsto> \<lparr>m_Key = ka, m_Element = ea, m_Left = root_of lr, m_Right = root_of r,
                 m_Parent = B, m_State = stA\<rparr>,
               B \<mapsto> \<lparr>m_Key = kb, m_Element = eb, m_Left = root_of ll, m_Right = A,
                 m_Parent = up c, m_State = stB\<rparr>)"
  have run: "rotate_right s A B stA stB = Some (s1\<lparr>blocks := ?h\<rparr>)"
    using R(2) s1(1,3) h2(1) h2(3) [of A] h2(3) [of B] ne
    by (simp add: rotate_right_def write_defs fun_upd_twist)
  have T1: "tree_at (blocks s1) B ll" "tree_at (blocks s1) A r"
    using s1(3) by simp_all
  have dis: "set (addrs ll) \<inter> {A, B, root_of lr} = {}" "set (addrs r) \<inter> {A, B, root_of lr} = {}"
      "set (ctx_addrs c) \<inter> {A, B, root_of lr} = {}" "set (addrs lr) \<inter> {A, B} = {}"
    using D root_notin_tree [OF T1(1), of lr] root_notin_tree [OF T1(2), of lr]
      root_notin_ctx [OF s1(2), of lr] by auto
  have off: "?h a = blocks s1 a" if "a \<notin> {A, B, root_of lr}" for a
    using that h2(3) by simp
  have "tree_at ?h B ll" "tree_at ?h A r"
    by (rule tree_at_agree [OF T1(1)], rule off, use dis(1) in blast)
      (rule tree_at_agree [OF T1(2)], rule off, use dis(2) in blast)
  moreover have "tree_at ?h A lr"
    by (rule tree_at_agree [OF h2(2)]) (use dis(4) in auto)
  ultimately have "tree_at ?h (up c) ?T'"
    using ne by simp
  moreover have "?h a = blocks s1 a" if "a \<in> set (ctx_addrs c)" for a
    by (rule off) (use that dis(3) in blast)
  ultimately have "rep (s1\<lparr>blocks := ?h\<rparr>) (plug c ?T')"
    using s1(2,4) D by (intro rep_close [of "blocks s1"]) auto
  moreover have "dom ?h = dom (blocks s1)"
    using h2(3,4) ne s1(3) by (auto simp: domIff)
  ultimately show ?thesis
    using run s1(5) by (simp add: heap_keeps_def)
qed

lemma rotate_left_spec:
  assumes "rep s (plug c (Br l A ka ea sa (Br rl B kb eb sb rr)))"
  shows "\<exists>s'. rotate_left s A B stA stB = Some s' \<and>
    rep s' (plug c (Br (Br l A ka ea stA rl) B kb eb stB rr)) \<and> heap_keeps s s'"
proof -
  let ?T = "Br l A ka ea sa (Br rl B kb eb sb rr)"
  let ?T' = "Br (Br l A ka ea stA rl) B kb eb stB rr"
  note R = rep_focus [OF assms]
  from assms have D: "distinct (addrs ?T' @ ctx_addrs c)"
    by (auto simp: rep_plug)
  obtain s1 where s1: "relink s (up c) A B = Some s1" "ctx_at (blocks s1) B c"
      "tree_at (blocks s1) (up c) ?T" "m_Root s1 = ctx_root c B" "heap_keeps s s1"
    by (rule relink_focus [OF assms, of B]) simp_all
  have rl: "tree_at (blocks s1) B rl" "distinct (addrs rl)"
    using s1(3) D by simp_all
  obtain h2 where h2: "set_Parent_if (blocks s1) (root_of rl) A = Some h2" "tree_at h2 A rl"
      "\<And>b. b \<noteq> root_of rl \<Longrightarrow> h2 b = blocks s1 b" "dom h2 = dom (blocks s1)"
    using set_Parent_if_tree [OF rl] by blast
  have ne: "A \<noteq> B" "A \<noteq> root_of rl" "B \<noteq> root_of rl" "A \<noteq> NULL" "B \<noteq> NULL"
    using D s1(3) root_of_cases [of rl] by auto
  let ?h = "h2(A \<mapsto> \<lparr>m_Key = ka, m_Element = ea, m_Left = root_of l, m_Right = root_of rl,
                 m_Parent = B, m_State = stA\<rparr>,
               B \<mapsto> \<lparr>m_Key = kb, m_Element = eb, m_Left = A, m_Right = root_of rr,
                 m_Parent = up c, m_State = stB\<rparr>)"
  have run: "rotate_left s A B stA stB = Some (s1\<lparr>blocks := ?h\<rparr>)"
    using R(2) s1(1,3) h2(1) h2(3) [of A] h2(3) [of B] ne
    by (simp add: rotate_left_def write_defs fun_upd_twist)
  have T1: "tree_at (blocks s1) B rr" "tree_at (blocks s1) A l"
    using s1(3) by simp_all
  have dis: "set (addrs rr) \<inter> {A, B, root_of rl} = {}" "set (addrs l) \<inter> {A, B, root_of rl} = {}"
      "set (ctx_addrs c) \<inter> {A, B, root_of rl} = {}" "set (addrs rl) \<inter> {A, B} = {}"
    using D root_notin_tree [OF T1(1), of rl] root_notin_tree [OF T1(2), of rl]
      root_notin_ctx [OF s1(2), of rl] by auto
  have off: "?h a = blocks s1 a" if "a \<notin> {A, B, root_of rl}" for a
    using that h2(3) by simp
  have "tree_at ?h B rr" "tree_at ?h A l"
    by (rule tree_at_agree [OF T1(1)], rule off, use dis(1) in blast)
      (rule tree_at_agree [OF T1(2)], rule off, use dis(2) in blast)
  moreover have "tree_at ?h A rl"
    by (rule tree_at_agree [OF h2(2)]) (use dis(4) in auto)
  ultimately have "tree_at ?h (up c) ?T'"
    using ne by simp
  moreover have "?h a = blocks s1 a" if "a \<in> set (ctx_addrs c)" for a
    by (rule off) (use that dis(3) in blast)
  ultimately have "rep (s1\<lparr>blocks := ?h\<rparr>) (plug c ?T')"
    using s1(2,4) D by (intro rep_close [of "blocks s1"]) auto
  moreover have "dom ?h = dom (blocks s1)"
    using h2(3,4) ne s1(3) by (auto simp: domIff)
  ultimately show ?thesis
    using run s1(5) by (simp add: heap_keeps_def)
qed

lemma rotate_left_right_spec:
  assumes "rep s (plug c (Br (Br ll B kb eb sb (Br cl C kc ec sc cr)) A ka ea sa r))"
  shows "\<exists>s'. rotate_left_right s A B = Some (s', C) \<and>
    rep s' (plug c (Br (Br ll B kb eb (Double_LeftState sc) cl) C kc ec e_Equal (Br cr A ka ea (Double_RightState sc) r))) \<and>
    heap_keeps s s'"
proof -
  let ?T = "Br (Br ll B kb eb sb (Br cl C kc ec sc cr)) A ka ea sa r"
  let ?T' = "Br (Br ll B kb eb (Double_LeftState sc) cl) C kc ec e_Equal (Br cr A ka ea (Double_RightState sc) r)"
  note R = rep_focus [OF assms]
  from assms have D: "distinct (addrs ?T' @ ctx_addrs c)"
    by (auto simp: rep_plug)
  obtain s1 where s1: "relink s (up c) A C = Some s1" "ctx_at (blocks s1) C c"
      "tree_at (blocks s1) (up c) ?T" "m_Root s1 = ctx_root c C" "heap_keeps s s1"
    by (rule relink_focus [OF assms, of C]) simp_all
  have T1: "tree_at (blocks s1) B ll" "tree_at (blocks s1) A r" "tree_at (blocks s1) C cl"
      "tree_at (blocks s1) C cr"
    using s1(3) by simp_all
  have nn: "A \<noteq> NULL" "B \<noteq> NULL" "C \<noteq> NULL"
    using s1(3) by simp_all
  have "A \<noteq> B" "A \<noteq> C" "B \<noteq> C"
    using D by simp_all
  moreover have "root_of cl \<notin> {A, B, C}" "root_of cr \<notin> {A, B, C}"
    using D nn by (simp_all add: root_of_neq)
  ultimately have ne: "A \<noteq> B" "A \<noteq> C" "B \<noteq> C" "root_of cl \<notin> {A, B, C}" "root_of cr \<notin> {A, B, C}"
    by simp_all
  let ?nA = "\<lparr>m_Key = ka, m_Element = ea, m_Left = B, m_Right = root_of r, m_Parent = C, m_State = sa\<rparr>"
  let ?nB = "\<lparr>m_Key = kb, m_Element = eb, m_Left = root_of ll, m_Right = C, m_Parent = C, m_State = sb\<rparr>"
  let ?h1 = "(blocks s1)(A \<mapsto> ?nA, B \<mapsto> ?nB)"
  have cl1: "tree_at ?h1 C cl" "distinct (addrs cl)"
    using T1(3) D by (auto simp: shape_simps)
  obtain h2 where h2: "set_Parent_if ?h1 (root_of cl) B = Some h2" "tree_at h2 B cl"
      "\<And>b. b \<noteq> root_of cl \<Longrightarrow> h2 b = ?h1 b" "dom h2 = dom ?h1"
    using set_Parent_if_tree [OF cl1] by blast
  have "tree_at ?h1 C cr"
    using T1(4) D by (auto simp: shape_simps)
  moreover have "root_of cl \<notin> set (addrs cr)"
    using D by (intro root_notin_tree [OF T1(4)]) auto
  ultimately have cr2: "tree_at h2 C cr" "distinct (addrs cr)"
    using D by (auto elim!: tree_at_agree intro!: h2(3))
  obtain h3 where h3: "set_Parent_if h2 (root_of cr) A = Some h3" "tree_at h3 A cr"
      "\<And>b. b \<noteq> root_of cr \<Longrightarrow> h3 b = h2 b" "dom h3 = dom h2"
    using set_Parent_if_tree [OF cr2] by blast
  have h3v: "h3 a = ?h1 a" if "a \<notin> {root_of cl, root_of cr}" for a
    using that h2(3) h3(3) by simp
  have C1: "blocks s1 A = Some (?nA\<lparr>m_Parent := up c\<rparr>)" "blocks s1 B = Some (?nB\<lparr>m_Parent := A\<rparr>)"
    using s1(3) by simp_all
  have C2: "blocks s1 C = Some \<lparr>m_Key = kc, m_Element = ec, m_Left = root_of cl, m_Right = root_of cr,
      m_Parent = B, m_State = sc\<rparr>"
    using s1(3) by simp
  have ABC: "h3 A = Some ?nA" "h3 B = Some ?nB"
    "h3 C = Some \<lparr>m_Key = kc, m_Element = ec, m_Left = root_of cl, m_Right = root_of cr,
      m_Parent = B, m_State = sc\<rparr>"
    using ne by (simp_all add: h3v C1 C2)
  have C0: "blocks s A = Some (?nA\<lparr>m_Parent := up c\<rparr>)" "blocks s B = Some (?nB\<lparr>m_Parent := A\<rparr>)"
    using R(2) by simp_all
  obtain h where run: "rotate_left_right s A B = Some (s1\<lparr>blocks := h\<rparr>, C)"
    and hA: "h A = Some \<lparr>m_Key = ka, m_Element = ea, m_Left = root_of cr, m_Right = root_of r,
                 m_Parent = C, m_State = Double_RightState sc\<rparr>"
    and hB: "h B = Some \<lparr>m_Key = kb, m_Element = eb, m_Left = root_of ll, m_Right = root_of cl,
                 m_Parent = C, m_State = Double_LeftState sc\<rparr>"
    and hC: "h C = Some \<lparr>m_Key = kc, m_Element = ec, m_Left = B, m_Right = A,
                 m_Parent = up c, m_State = e_Equal\<rparr>"
    and h: "\<And>a. a \<notin> {A, B, C} \<Longrightarrow> h a = h3 a"
  proof -
    have "\<exists>h. rotate_left_right s A B = Some (s1\<lparr>blocks := h\<rparr>, C) \<and>
       h A = Some \<lparr>m_Key = ka, m_Element = ea, m_Left = root_of cr, m_Right = root_of r,
                 m_Parent = C, m_State = Double_RightState sc\<rparr> \<and>
       h B = Some \<lparr>m_Key = kb, m_Element = eb, m_Left = root_of ll, m_Right = root_of cl,
                 m_Parent = C, m_State = Double_LeftState sc\<rparr> \<and>
       h C = Some \<lparr>m_Key = kc, m_Element = ec, m_Left = B, m_Right = A,
                 m_Parent = up c, m_State = e_Equal\<rparr> \<and>
       (\<forall>a. a \<notin> {A, B, C} \<longrightarrow> h a = h3 a)"
      using ne nn
      by (simp add: rotate_left_right_def write_defs blocks_update_eq C0 s1(1) h2(1) h3(1) ABC C1 C2)
    then show thesis using that by blast
  qed
  have "root_of cl \<notin> set (addrs ll)" "root_of cr \<notin> set (addrs ll)"
    by (rule root_notin_tree [OF T1(1)], use D in fastforce)+
  moreover have "root_of cl \<notin> set (addrs r)" "root_of cr \<notin> set (addrs r)"
    by (rule root_notin_tree [OF T1(2)], use D in fastforce)+
  moreover have "root_of cl \<notin> set (ctx_addrs c)" "root_of cr \<notin> set (ctx_addrs c)"
    by (rule root_notin_ctx [OF s1(2)], use D in fastforce)+
  moreover have "root_of cr \<notin> set (addrs cl)"
    by (rule root_notin_tree [OF T1(3)]) (use D in auto)
  ultimately have dis: "set (addrs ll) \<inter> {A, B, C, root_of cl, root_of cr} = {}"
      "set (addrs r) \<inter> {A, B, C, root_of cl, root_of cr} = {}"
      "set (ctx_addrs c) \<inter> {A, B, C, root_of cl, root_of cr} = {}"
      "set (addrs cl) \<inter> {A, B, C, root_of cr} = {}" "set (addrs cr) \<inter> {A, B, C} = {}"
    using D by simp_all
  have off: "h a = blocks s1 a" if "a \<notin> {A, B, C, root_of cl, root_of cr}" for a
    using that h h3v by simp
  have "tree_at h B ll" "tree_at h A r"
    by (rule tree_at_agree [OF T1(1)], rule off, use dis(1) in blast)
      (rule tree_at_agree [OF T1(2)], rule off, use dis(2) in blast)
  moreover have "tree_at h B cl"
  proof (rule tree_at_agree [OF h2(2)])
    fix a assume "a \<in> set (addrs cl)"
    then have "a \<notin> {A, B, C, root_of cr}" using dis(4) by blast
    then show "h a = h2 a" by (simp add: h h3(3))
  qed
  moreover have "tree_at h A cr"
    by (rule tree_at_agree [OF h3(2)], rule h, use dis(5) in blast)
  ultimately have "tree_at h (up c) ?T'"
    using ne nn hA hB hC by simp
  moreover have "h a = blocks s1 a" if "a \<in> set (ctx_addrs c)" for a
    by (rule off) (use that dis(3) in blast)
  ultimately have "rep (s1\<lparr>blocks := h\<rparr>) (plug c ?T')"
    using s1(2,4) D by (intro rep_close [of "blocks s1"]) auto
  moreover have "h a = None \<longleftrightarrow> h3 a = None" for a
    using h [of a] hA hB hC ABC by (cases "a \<in> {A, B, C}") auto
  then have "dom h = dom h3"
    by (simp add: dom_def)
  then have "dom h = dom (blocks s1)"
    using h2(4) h3(4) C1 by auto
  ultimately show ?thesis
    using run s1(5) by (simp add: heap_keeps_def)
qed

lemma rotate_right_left_spec:
  assumes "rep s (plug c (Br l A ka ea sa (Br (Br cl C kc ec sc cr) B kb eb sb rr)))"
  shows "\<exists>s'. rotate_right_left s A B = Some (s', C) \<and>
    rep s' (plug c (Br (Br l A ka ea (Double_LeftState sc) cl) C kc ec e_Equal (Br cr B kb eb (Double_RightState sc) rr))) \<and>
    heap_keeps s s'"
proof -
  let ?T = "Br l A ka ea sa (Br (Br cl C kc ec sc cr) B kb eb sb rr)"
  let ?T' = "Br (Br l A ka ea (Double_LeftState sc) cl) C kc ec e_Equal (Br cr B kb eb (Double_RightState sc) rr)"
  note R = rep_focus [OF assms]
  from assms have D: "distinct (addrs ?T' @ ctx_addrs c)"
    by (auto simp: rep_plug)
  obtain s1 where s1: "relink s (up c) A C = Some s1" "ctx_at (blocks s1) C c"
      "tree_at (blocks s1) (up c) ?T" "m_Root s1 = ctx_root c C" "heap_keeps s s1"
    by (rule relink_focus [OF assms, of C]) simp_all
  have T1: "tree_at (blocks s1) B rr" "tree_at (blocks s1) A l" "tree_at (blocks s1) C cr"
      "tree_at (blocks s1) C cl"
    using s1(3) by simp_all
  have nn: "A \<noteq> NULL" "B \<noteq> NULL" "C \<noteq> NULL"
    using s1(3) by simp_all
  have "A \<noteq> B" "A \<noteq> C" "B \<noteq> C"
    using D by simp_all
  moreover have "root_of cl \<notin> {A, B, C}" "root_of cr \<notin> {A, B, C}"
    using D nn by (simp_all add: root_of_neq)
  ultimately have ne: "A \<noteq> B" "A \<noteq> C" "B \<noteq> C" "root_of cl \<notin> {A, B, C}" "root_of cr \<notin> {A, B, C}"
    by simp_all
  let ?nA = "\<lparr>m_Key = ka, m_Element = ea, m_Left = root_of l, m_Right = B, m_Parent = C, m_State = sa\<rparr>"
  let ?nB = "\<lparr>m_Key = kb, m_Element = eb, m_Left = C, m_Right = root_of rr, m_Parent = C, m_State = sb\<rparr>"
  let ?h1 = "(blocks s1)(A \<mapsto> ?nA, B \<mapsto> ?nB)"
  have cl1: "tree_at ?h1 C cr" "distinct (addrs cr)"
    using T1(3) D by (auto simp: shape_simps)
  obtain h2 where h2: "set_Parent_if ?h1 (root_of cr) B = Some h2" "tree_at h2 B cr"
      "\<And>b. b \<noteq> root_of cr \<Longrightarrow> h2 b = ?h1 b" "dom h2 = dom ?h1"
    using set_Parent_if_tree [OF cl1] by blast
  have "tree_at ?h1 C cl"
    using T1(4) D by (auto simp: shape_simps)
  moreover have "root_of cr \<notin> set (addrs cl)"
    using D by (intro root_notin_tree [OF T1(4)]) auto
  ultimately have cr2: "tree_at h2 C cl" "distinct (addrs cl)"
    using D by (auto elim!: tree_at_agree intro!: h2(3))
  obtain h3 where h3: "set_Parent_if h2 (root_of cl) A = Some h3" "tree_at h3 A cl"
      "\<And>b. b \<noteq> root_of cl \<Longrightarrow> h3 b = h2 b" "dom h3 = dom h2"
    using set_Parent_if_tree [OF cr2] by blast
  have h3v: "h3 a = ?h1 a" if "a \<notin> {root_of cr, root_of cl}" for a
    using that h2(3) h3(3) by simp
  have C1: "blocks s1 A = Some (?nA\<lparr>m_Parent := up c\<rparr>)" "blocks s1 B = Some (?nB\<lparr>m_Parent := A\<rparr>)"
    using s1(3) by simp_all
  have C2: "blocks s1 C = Some \<lparr>m_Key = kc, m_Element = ec, m_Left = root_of cl, m_Right = root_of cr,
      m_Parent = B, m_State = sc\<rparr>"
    using s1(3) by simp
  have ABC: "h3 A = Some ?nA" "h3 B = Some ?nB"
    "h3 C = Some \<lparr>m_Key = kc, m_Element = ec, m_Left = root_of cl, m_Right = root_of cr,
      m_Parent = B, m_State = sc\<rparr>"
    using ne by (simp_all add: h3v C1 C2)
  have C0: "blocks s A = Some (?nA\<lparr>m_Parent := up c\<rparr>)" "blocks s B = Some (?nB\<lparr>m_Parent := A\<rparr>)"
    using R(2) by simp_all
  obtain h where run: "rotate_right_left s A B = Some (s1\<lparr>blocks := h\<rparr>, C)"
    and hA: "h A = Some \<lparr>m_Key = ka, m_Element = ea, m_Left = root_of l, m_Right = root_of cl,
                 m_Parent = C, m_State = Double_LeftState sc\<rparr>"
    and hB: "h B = Some \<lparr>m_Key = kb, m_Element = eb, m_Left = root_of cr, m_Right = root_of rr,
                 m_Parent = C, m_State = Double_RightState sc\<rparr>"
    and hC: "h C = Some \<lparr>m_Key = kc, m_Element = ec, m_Left = A, m_Right = B,
                 m_Parent = up c, m_State = e_Equal\<rparr>"
    and h: "\<And>a. a \<notin> {A, B, C} \<Longrightarrow> h a = h3 a"
  proof -
    have "\<exists>h. rotate_right_left s A B = Some (s1\<lparr>blocks := h\<rparr>, C) \<and>
       h A = Some \<lparr>m_Key = ka, m_Element = ea, m_Left = root_of l, m_Right = root_of cl,
                 m_Parent = C, m_State = Double_LeftState sc\<rparr> \<and>
       h B = Some \<lparr>m_Key = kb, m_Element = eb, m_Left = root_of cr, m_Right = root_of rr,
                 m_Parent = C, m_State = Double_RightState sc\<rparr> \<and>
       h C = Some \<lparr>m_Key = kc, m_Element = ec, m_Left = A, m_Right = B,
                 m_Parent = up c, m_State = e_Equal\<rparr> \<and>
       (\<forall>a. a \<notin> {A, B, C} \<longrightarrow> h a = h3 a)"
      using ne nn
      by (simp add: rotate_right_left_def write_defs blocks_update_eq C0 s1(1) h2(1) h3(1) ABC C1 C2)
    then show thesis using that by blast
  qed
  have "root_of cr \<notin> set (addrs rr)" "root_of cl \<notin> set (addrs rr)"
    by (rule root_notin_tree [OF T1(1)], use D in fastforce)+
  moreover have "root_of cr \<notin> set (addrs l)" "root_of cl \<notin> set (addrs l)"
    by (rule root_notin_tree [OF T1(2)], use D in fastforce)+
  moreover have "root_of cr \<notin> set (ctx_addrs c)" "root_of cl \<notin> set (ctx_addrs c)"
    by (rule root_notin_ctx [OF s1(2)], use D in fastforce)+
  moreover have "root_of cl \<notin> set (addrs cr)"
    by (rule root_notin_tree [OF T1(3)]) (use D in auto)
  ultimately have dis: "set (addrs rr) \<inter> {A, B, C, root_of cr, root_of cl} = {}"
      "set (addrs l) \<inter> {A, B, C, root_of cr, root_of cl} = {}"
      "set (ctx_addrs c) \<inter> {A, B, C, root_of cr, root_of cl} = {}"
      "set (addrs cr) \<inter> {A, B, C, root_of cl} = {}" "set (addrs cl) \<inter> {A, B, C} = {}"
    using D by simp_all
  have off: "h a = blocks s1 a" if "a \<notin> {A, B, C, root_of cr, root_of cl}" for a
    using that h h3v by simp
  have "tree_at h B rr" "tree_at h A l"
    by (rule tree_at_agree [OF T1(1)], rule off, use dis(1) in blast)
      (rule tree_at_agree [OF T1(2)], rule off, use dis(2) in blast)
  moreover have "tree_at h B cr"
  proof (rule tree_at_agree [OF h2(2)])
    fix a assume "a \<in> set (addrs cr)"
    then have "a \<notin> {A, B, C, root_of cl}" using dis(4) by blast
    then show "h a = h2 a" by (simp add: h h3(3))
  qed
  moreover have "tree_at h A cl"
    by (rule tree_at_agree [OF h3(2)], rule h, use dis(5) in blast)
  ultimately have "tree_at h (up c) ?T'"
    using ne nn hA hB hC by simp
  moreover have "h a = blocks s1 a" if "a \<in> set (ctx_addrs c)" for a
    by (rule off) (use that dis(3) in blast)
  ultimately have "rep (s1\<lparr>blocks := h\<rparr>) (plug c ?T')"
    using s1(2,4) D by (intro rep_close [of "blocks s1"]) auto
  moreover have "h a = None \<longleftrightarrow> h3 a = None" for a
    using h [of a] hA hB hC ABC by (cases "a \<in> {A, B, C}") auto
  then have "dom h = dom h3"
    by (simp add: dom_def)
  then have "dom h = dom (blocks s1)"
    using h2(4) h3(4) C1 by auto
  ultimately show ?thesis
    using run s1(5) by (simp add: heap_keeps_def)
qed

end
