(* ===== verification/AvlBalance.thy ===== *)
theory AvlBalance
  imports AvlRotate
begin

fun height :: "('k, 'e, 's) tree \<Rightarrow> nat" where
  "height Tip = 0"
| "height (Br l a k e s r) = Suc (max (height l) (height r))"

fun state_of :: "('k, 'e, WmAvlState) tree \<Rightarrow> WmAvlState" where
  "state_of Tip = e_Equal"
| "state_of (Br l a k e s r) = s"

text \<open>The balance tag against the heights of the two subtrees.\<close>

fun balanced :: "WmAvlState \<Rightarrow> nat \<Rightarrow> nat \<Rightarrow> bool" where
  "balanced e_Equal m n \<longleftrightarrow> m = n"
| "balanced e_LeftHigher m n \<longleftrightarrow> m = Suc n"
| "balanced e_RightHigher m n \<longleftrightarrow> n = Suc m"

fun avl :: "('k, 'e, WmAvlState) tree \<Rightarrow> bool" where
  "avl Tip \<longleftrightarrow> True"
| "avl (Br l a k e s r) \<longleftrightarrow> avl l \<and> avl r \<and> balanced s (height l) (height r)"

text \<open>A context in which a subtree of height \<open>n\<close> is balanced.\<close>

fun avl_ctx :: "('k, 'e, WmAvlState) ctx \<Rightarrow> nat \<Rightarrow> bool" where
  "avl_ctx [] n \<longleftrightarrow> True"
| "avl_ctx (LF a k e s r # c) n \<longleftrightarrow>
     avl r \<and> balanced s n (height r) \<and> avl_ctx c (Suc (max n (height r)))"
| "avl_ctx (RF l a k e s # c) n \<longleftrightarrow>
     avl l \<and> balanced s (height l) n \<and> avl_ctx c (Suc (max (height l) n))"

lemma avl_plug: "avl (plug c t) \<longleftrightarrow> avl t \<and> avl_ctx c (height t)"
  by (induction c t rule: plug.induct) auto

lemma height_0 [simp]: "height t = 0 \<longleftrightarrow> t = Tip"
  by (cases t) auto

text \<open>The logarithmic height bound, in the form \<open>2 ^ (h div 2) \<le> n + 1\<close>.\<close>

lemma avl_height_bound: "avl t \<Longrightarrow> 2 ^ (height t div 2) \<le> length (entries t) + 1"
proof (induction t)
  case (Br l a k e s r)
  let ?h = "max (height l) (height r)"
  have IH: "2 ^ (height l div 2) \<le> length (entries l) + 1" "2 ^ (height r div 2) \<le> length (entries r) + 1"
    using Br by simp_all
  show ?case
  proof (cases "?h = 0")
    case False
    then have h: "Suc ?h div 2 = Suc ((?h - 1) div 2)" by (cases ?h) auto
    have "?h - 1 \<le> height l" "?h - 1 \<le> height r"
      using Br.prems by (cases s; simp)+
    then have "(2::nat) ^ ((?h - 1) div 2) \<le> length (entries l) + 1"
      "(2::nat) ^ ((?h - 1) div 2) \<le> length (entries r) + 1"
      by (auto intro!: order_trans [OF power_increasing IH(1)] order_trans [OF power_increasing IH(2)]
          div_le_mono simp del: One_nat_def)
    moreover have "(2::nat) ^ (Suc ?h div 2) = 2 * 2 ^ ((?h - 1) div 2)"
      by (simp only: h power_Suc)
    ultimately show ?thesis by simp
  qed simp
qed simp

text \<open>What a balance step returns after one side of a node has grown, or has shrunk; \<open>n\<close> is
the height of the subtree before.\<close>

definition grown :: "bool \<Rightarrow> nat \<Rightarrow> ('k, 'e, WmAvlState) tree \<Rightarrow> bool" where
  "grown inc n t \<longleftrightarrow> t \<noteq> Tip \<and> avl t \<and>
     (if inc then height t = Suc n \<and> state_of t \<noteq> e_Equal else height t = n)"

definition shrunk :: "bool \<Rightarrow> nat \<Rightarrow> ('k, 'e, WmAvlState) tree \<Rightarrow> bool" where
  "shrunk dec n t \<longleftrightarrow> avl t \<and> (if dec then Suc (height t) = n else height t = n)"

lemma Insert_LeftBalance_spec:
  assumes "rep s (plug c (Br l A k e st r))" "avl l" "avl r" "height l = Suc h"
    and "balanced st h (height r)" "st = e_LeftHigher \<Longrightarrow> state_of l \<noteq> e_Equal"
  shows "\<exists>s' t' inc. Insert_LeftBalance s A (root_of l) True =
      Some (e_StatusCode_Success, s', root_of t', inc) \<and>
    rep s' (plug c t') \<and> heap_keeps s s' \<and> entries t' = entries (Br l A k e st r) \<and>
    grown inc (Suc (max h (height r))) t' \<and> (inc \<longrightarrow> t' = Br l A k e e_LeftHigher r)"
proof (cases st)
  case e_Equal
  obtain g where g: "set_State (blocks s) A e_LeftHigher = Some g"
    "rep (s\<lparr>blocks := g\<rparr>) (plug c (Br l A k e e_LeftHigher r))" "heap_keeps s (s\<lparr>blocks := g\<rparr>)"
    using set_State_spec [OF assms(1)] by blast
  show ?thesis
    by (intro exI [of _ "s\<lparr>blocks := g\<rparr>"] exI [of _ "Br l A k e e_LeftHigher r"] exI [of _ True])
      (use g assms e_Equal in \<open>simp add: Insert_LeftBalance_def rd_focus(1) [OF assms(1)] grown_def\<close>)
next
  case e_RightHigher
  obtain g where g: "set_State (blocks s) A e_Equal = Some g"
    "rep (s\<lparr>blocks := g\<rparr>) (plug c (Br l A k e e_Equal r))" "heap_keeps s (s\<lparr>blocks := g\<rparr>)"
    using set_State_spec [OF assms(1)] by blast
  show ?thesis
    by (intro exI [of _ "s\<lparr>blocks := g\<rparr>"] exI [of _ "Br l A k e e_Equal r"] exI [of _ False])
      (use g assms e_RightHigher in \<open>simp add: Insert_LeftBalance_def rd_focus(1) [OF assms(1)] grown_def\<close>)
next
  case e_LeftHigher
  obtain ll B kb eb sb lr where l: "l = Br ll B kb eb sb lr"
    using assms(4) by (cases l) auto
  note rdA = rd_focus(1) [OF assms(1)] and rdB = rd_focus_l [OF assms(1) [unfolded l]]
  show ?thesis
  proof (cases sb)
    case e_Equal
    with assms(6) l \<open>st = e_LeftHigher\<close> show ?thesis by simp
  next
    case 2: e_LeftHigher
    obtain s' where s': "rotate_right s A B e_Equal e_Equal = Some s'"
      "rep s' (plug c (Br ll B kb eb e_Equal (Br lr A k e e_Equal r)))" "heap_keeps s s'"
      using rotate_right_spec [OF assms(1) [unfolded l]] by blast
    show ?thesis
      by (intro exI [of _ s'] exI [of _ "Br ll B kb eb e_Equal (Br lr A k e e_Equal r)"] exI [of _ False])
        (use s' assms l e_LeftHigher 2 in \<open>simp add: Insert_LeftBalance_def rdA rdB grown_def\<close>)
  next
    case 3: e_RightHigher
    obtain cl C kc ec sc cr where lr: "lr = Br cl C kc ec sc cr"
      using assms(2) l 3 by (cases lr) auto
    obtain s' where s': "rotate_left_right s A B = Some (s', C)"
      "rep s' (plug c (Br (Br ll B kb eb (Double_LeftState sc) cl) C kc ec e_Equal
          (Br cr A k e (Double_RightState sc) r)))" "heap_keeps s s'"
      using rotate_left_right_spec [OF assms(1) [unfolded l lr]] by blast
    show ?thesis
      by (intro exI [of _ s'] exI [of _ "Br (Br ll B kb eb (Double_LeftState sc) cl) C kc ec e_Equal
          (Br cr A k e (Double_RightState sc) r)"] exI [of _ False])
        (use s' assms l lr e_LeftHigher 3 in \<open>cases sc; simp add: Insert_LeftBalance_def rdA rdB grown_def
          Double_LeftState_def Double_RightState_def\<close>)
  qed
qed


lemma Insert_RightBalance_spec:
  assumes "rep s (plug c (Br l A k e st r))" "avl r" "avl l" "height r = Suc h"
    and "balanced st (height l) h" "st = e_RightHigher \<Longrightarrow> state_of r \<noteq> e_Equal"
  shows "\<exists>s' t' inc. Insert_RightBalance s A (root_of r) True =
      Some (e_StatusCode_Success, s', root_of t', inc) \<and>
    rep s' (plug c t') \<and> heap_keeps s s' \<and> entries t' = entries (Br l A k e st r) \<and>
    grown inc (Suc (max (height l) h)) t' \<and> (inc \<longrightarrow> t' = Br l A k e e_RightHigher r)"
proof (cases st)
  case e_Equal
  obtain g where g: "set_State (blocks s) A e_RightHigher = Some g"
    "rep (s\<lparr>blocks := g\<rparr>) (plug c (Br l A k e e_RightHigher r))" "heap_keeps s (s\<lparr>blocks := g\<rparr>)"
    using set_State_spec [OF assms(1)] by blast
  show ?thesis
    by (intro exI [of _ "s\<lparr>blocks := g\<rparr>"] exI [of _ "Br l A k e e_RightHigher r"] exI [of _ True])
      (use g assms e_Equal in \<open>simp add: Insert_RightBalance_def rd_focus(1) [OF assms(1)] grown_def\<close>)
next
  case e_LeftHigher
  obtain g where g: "set_State (blocks s) A e_Equal = Some g"
    "rep (s\<lparr>blocks := g\<rparr>) (plug c (Br l A k e e_Equal r))" "heap_keeps s (s\<lparr>blocks := g\<rparr>)"
    using set_State_spec [OF assms(1)] by blast
  show ?thesis
    by (intro exI [of _ "s\<lparr>blocks := g\<rparr>"] exI [of _ "Br l A k e e_Equal r"] exI [of _ False])
      (use g assms e_LeftHigher in \<open>simp add: Insert_RightBalance_def rd_focus(1) [OF assms(1)] grown_def\<close>)
next
  case e_RightHigher
  obtain rr B kb eb sb rl where r: "r = Br rl B kb eb sb rr"
    using assms(4) by (cases r) auto
  note rdA = rd_focus(1) [OF assms(1)] and rdB = rd_focus_r [OF assms(1) [unfolded r]]
  show ?thesis
  proof (cases sb)
    case e_Equal
    with assms(6) r \<open>st = e_RightHigher\<close> show ?thesis by simp
  next
    case 2: e_RightHigher
    obtain s' where s': "rotate_left s A B e_Equal e_Equal = Some s'"
      "rep s' (plug c (Br (Br l A k e e_Equal rl) B kb eb e_Equal rr))" "heap_keeps s s'"
      using rotate_left_spec [OF assms(1) [unfolded r]] by blast
    show ?thesis
      by (intro exI [of _ s'] exI [of _ "Br (Br l A k e e_Equal rl) B kb eb e_Equal rr"] exI [of _ False])
        (use s' assms r e_RightHigher 2 in \<open>simp add: Insert_RightBalance_def rdA rdB grown_def\<close>)
  next
    case 3: e_LeftHigher
    obtain cr C kc ec sc cl where rl: "rl = Br cl C kc ec sc cr"
      using assms(2) r 3 by (cases rl) auto
    obtain s' where s': "rotate_right_left s A B = Some (s', C)"
      "rep s' (plug c (Br (Br l A k e (Double_LeftState sc) cl) C kc ec e_Equal (Br cr B kb eb (Double_RightState sc) rr)))" "heap_keeps s s'"
      using rotate_right_left_spec [OF assms(1) [unfolded r rl]] by blast
    show ?thesis
      by (intro exI [of _ s'] exI [of _ "Br (Br l A k e (Double_LeftState sc) cl) C kc ec e_Equal (Br cr B kb eb (Double_RightState sc) rr)"] exI [of _ False])
        (use s' assms r rl e_RightHigher 3 in \<open>cases sc; simp add: Insert_RightBalance_def rdA rdB grown_def
          Double_RightState_def Double_LeftState_def\<close>)
  qed
qed

lemma Delete_LeftBalance_spec:
  assumes "rep s (plug c (Br l A k e st r))" "avl l" "avl r"
    and "balanced st (Suc (height l)) (height r)"
  shows "\<exists>s' t' dec. Delete_LeftBalance s A (root_of r) True =
      Some (e_StatusCode_Success, s', root_of t', dec) \<and>
    rep s' (plug c t') \<and> heap_keeps s s' \<and> entries t' = entries (Br l A k e st r) \<and>
    t' \<noteq> Tip \<and> shrunk dec (Suc (max (Suc (height l)) (height r))) t'"
proof (cases st)
  case e_Equal
  obtain g where g: "set_State (blocks s) A e_RightHigher = Some g"
    "rep (s\<lparr>blocks := g\<rparr>) (plug c (Br l A k e e_RightHigher r))" "heap_keeps s (s\<lparr>blocks := g\<rparr>)"
    using set_State_spec [OF assms(1)] by blast
  show ?thesis
    by (intro exI [of _ "s\<lparr>blocks := g\<rparr>"] exI [of _ "Br l A k e e_RightHigher r"] exI [of _ False])
      (use g assms e_Equal in \<open>simp add: Delete_LeftBalance_def rd_focus(1) [OF assms(1)] shrunk_def\<close>)
next
  case e_LeftHigher
  obtain g where g: "set_State (blocks s) A e_Equal = Some g"
    "rep (s\<lparr>blocks := g\<rparr>) (plug c (Br l A k e e_Equal r))" "heap_keeps s (s\<lparr>blocks := g\<rparr>)"
    using set_State_spec [OF assms(1)] by blast
  show ?thesis
    by (intro exI [of _ "s\<lparr>blocks := g\<rparr>"] exI [of _ "Br l A k e e_Equal r"] exI [of _ True])
      (use g assms e_LeftHigher in \<open>simp add: Delete_LeftBalance_def rd_focus(1) [OF assms(1)] shrunk_def\<close>)
next
  case e_RightHigher
  obtain rl B kb eb sb rr where r: "r = Br rl B kb eb sb rr"
    using assms(4) e_RightHigher by (cases r) auto
  note rdA = rd_focus(1) [OF assms(1)] and rdB = rd_focus_r [OF assms(1) [unfolded r]]
  show ?thesis
  proof (cases sb)
    case 1: e_Equal
    obtain s' where s': "rotate_left s A B e_RightHigher e_LeftHigher = Some s'"
      "rep s' (plug c (Br (Br l A k e e_RightHigher rl) B kb eb e_LeftHigher rr))" "heap_keeps s s'"
      using rotate_left_spec [OF assms(1) [unfolded r]] by blast
    show ?thesis
      by (intro exI [of _ s'] exI [of _ "Br (Br l A k e e_RightHigher rl) B kb eb e_LeftHigher rr"] exI [of _ False])
        (use s' assms r e_RightHigher 1 in \<open>simp add: Delete_LeftBalance_def rdA rdB shrunk_def\<close>)
  next
    case 2: e_RightHigher
    obtain s' where s': "rotate_left s A B e_Equal e_Equal = Some s'"
      "rep s' (plug c (Br (Br l A k e e_Equal rl) B kb eb e_Equal rr))" "heap_keeps s s'"
      using rotate_left_spec [OF assms(1) [unfolded r]] by blast
    show ?thesis
      by (intro exI [of _ s'] exI [of _ "Br (Br l A k e e_Equal rl) B kb eb e_Equal rr"] exI [of _ True])
        (use s' assms r e_RightHigher 2 in \<open>simp add: Delete_LeftBalance_def rdA rdB shrunk_def\<close>)
  next
    case 3: e_LeftHigher
    obtain cl C kc ec sc cr where rl: "rl = Br cl C kc ec sc cr"
      using assms(3) r 3 by (cases rl) auto
    obtain s' where s': "rotate_right_left s A B = Some (s', C)"
      "rep s' (plug c (Br (Br l A k e (Double_LeftState sc) cl) C kc ec e_Equal
          (Br cr B kb eb (Double_RightState sc) rr)))" "heap_keeps s s'"
      using rotate_right_left_spec [OF assms(1) [unfolded r rl]] by blast
    show ?thesis
      by (intro exI [of _ s'] exI [of _ "Br (Br l A k e (Double_LeftState sc) cl) C kc ec e_Equal
          (Br cr B kb eb (Double_RightState sc) rr)"] exI [of _ True])
        (use s' assms r rl e_RightHigher 3 in \<open>cases sc; simp add: Delete_LeftBalance_def rdA rdB shrunk_def
          Double_LeftState_def Double_RightState_def\<close>)
  qed
qed

lemma Delete_RightBalance_spec:
  assumes "rep s (plug c (Br l A k e st r))" "avl r" "avl l"
    and "balanced st (height l) (Suc (height r))"
  shows "\<exists>s' t' dec. Delete_RightBalance s A (root_of l) True =
      Some (e_StatusCode_Success, s', root_of t', dec) \<and>
    rep s' (plug c t') \<and> heap_keeps s s' \<and> entries t' = entries (Br l A k e st r) \<and>
    t' \<noteq> Tip \<and> shrunk dec (Suc (max (height l) (Suc (height r)))) t'"
proof (cases st)
  case e_Equal
  obtain g where g: "set_State (blocks s) A e_LeftHigher = Some g"
    "rep (s\<lparr>blocks := g\<rparr>) (plug c (Br l A k e e_LeftHigher r))" "heap_keeps s (s\<lparr>blocks := g\<rparr>)"
    using set_State_spec [OF assms(1)] by blast
  show ?thesis
    by (intro exI [of _ "s\<lparr>blocks := g\<rparr>"] exI [of _ "Br l A k e e_LeftHigher r"] exI [of _ False])
      (use g assms e_Equal in \<open>simp add: Delete_RightBalance_def rd_focus(1) [OF assms(1)] shrunk_def\<close>)
next
  case e_RightHigher
  obtain g where g: "set_State (blocks s) A e_Equal = Some g"
    "rep (s\<lparr>blocks := g\<rparr>) (plug c (Br l A k e e_Equal r))" "heap_keeps s (s\<lparr>blocks := g\<rparr>)"
    using set_State_spec [OF assms(1)] by blast
  show ?thesis
    by (intro exI [of _ "s\<lparr>blocks := g\<rparr>"] exI [of _ "Br l A k e e_Equal r"] exI [of _ True])
      (use g assms e_RightHigher in \<open>simp add: Delete_RightBalance_def rd_focus(1) [OF assms(1)] shrunk_def\<close>)
next
  case e_LeftHigher
  obtain lr B kb eb sb ll where l: "l = Br ll B kb eb sb lr"
    using assms(4) e_LeftHigher by (cases l) auto
  note rdA = rd_focus(1) [OF assms(1)] and rdB = rd_focus_l [OF assms(1) [unfolded l]]
  show ?thesis
  proof (cases sb)
    case 1: e_Equal
    obtain s' where s': "rotate_right s A B e_LeftHigher e_RightHigher = Some s'"
      "rep s' (plug c (Br ll B kb eb e_RightHigher (Br lr A k e e_LeftHigher r)))" "heap_keeps s s'"
      using rotate_right_spec [OF assms(1) [unfolded l]] by blast
    show ?thesis
      by (intro exI [of _ s'] exI [of _ "Br ll B kb eb e_RightHigher (Br lr A k e e_LeftHigher r)"] exI [of _ False])
        (use s' assms l e_LeftHigher 1 in \<open>simp add: Delete_RightBalance_def rdA rdB shrunk_def\<close>)
  next
    case 2: e_LeftHigher
    obtain s' where s': "rotate_right s A B e_Equal e_Equal = Some s'"
      "rep s' (plug c (Br ll B kb eb e_Equal (Br lr A k e e_Equal r)))" "heap_keeps s s'"
      using rotate_right_spec [OF assms(1) [unfolded l]] by blast
    show ?thesis
      by (intro exI [of _ s'] exI [of _ "Br ll B kb eb e_Equal (Br lr A k e e_Equal r)"] exI [of _ True])
        (use s' assms l e_LeftHigher 2 in \<open>simp add: Delete_RightBalance_def rdA rdB shrunk_def\<close>)
  next
    case 3: e_RightHigher
    obtain cr C kc ec sc cl where lr: "lr = Br cl C kc ec sc cr"
      using assms(3) l 3 by (cases lr) auto
    obtain s' where s': "rotate_left_right s A B = Some (s', C)"
      "rep s' (plug c (Br (Br ll B kb eb (Double_LeftState sc) cl) C kc ec e_Equal (Br cr A k e (Double_RightState sc) r)))" "heap_keeps s s'"
      using rotate_left_right_spec [OF assms(1) [unfolded l lr]] by blast
    show ?thesis
      by (intro exI [of _ s'] exI [of _ "Br (Br ll B kb eb (Double_LeftState sc) cl) C kc ec e_Equal (Br cr A k e (Double_RightState sc) r)"] exI [of _ True])
        (use s' assms l lr e_LeftHigher 3 in \<open>cases sc; simp add: Delete_RightBalance_def rdA rdB shrunk_def
          Double_RightState_def Double_LeftState_def\<close>)
  qed
qed

end
