(* ===== verification/TreeSearch.thy ===== *)
theory TreeSearch
  imports TreeShape
begin

text \<open>
  Searching and iterating, for any tree of the node heap: the descent of the search loops as a
  function on the logical tree, what the loops return in terms of it, and the iterators as
  positions in the list of entries.
\<close>

subsection \<open>Reading at the focus\<close>

lemma rd_root:
  assumes "rep s (plug c t)" "t \<noteq> Tip"
  shows "\<exists>n. rd (blocks s) (root_of t) = Some n"
  using assms by (cases t) (auto simp: rep_plug rd_def)

lemma rep_rd:
  assumes "rep s T" "a \<in> set (addrs T)"
  shows "\<exists>n. rd (blocks s) a = Some n"
  using assms tree_at_dom [of "blocks s" NULL T a] tree_at_nonnull [of "blocks s" NULL T a]
  by (auto simp: rep_def rd_def)

lemma rep_plug_nonnull: "rep s (plug c t) \<Longrightarrow> root_of t = NULL \<longleftrightarrow> t = Tip"
  using root_of_NULL rep_plug by metis

subsection \<open>Descent\<close>

fun locate ::
  "'k::ord \<Rightarrow> ('k, 'e, 's) ctx \<Rightarrow> ('k, 'e, 's) tree \<Rightarrow> ('k, 'e, 's) ctx \<times> ('k, 'e, 's) tree" where
  "locate key c Tip = (c, Tip)"
| "locate key c (Br l a k e s r) =
     (if key = k then (c, Br l a k e s r)
      else if key < k then locate key (LF a k e s r # c) l
      else locate key (RF l a k e s # c) r)"

definition sorted_tree :: "('k::ord, 'e, 's) tree \<Rightarrow> bool" where
  "sorted_tree t \<longleftrightarrow> sorted_wrt (<) (tree_keys t)"

text \<open>The keys left of the hole are below \<open>key\<close>, those right of it above.\<close>

definition slot :: "'k::ord \<Rightarrow> ('k, 'e, 's) ctx \<Rightarrow> bool" where
  "slot key c \<longleftrightarrow> (\<forall>x\<in>set (pre_c c). fst (snd x) < key) \<and> (\<forall>x\<in>set (post_c c). key < fst (snd x))"

lemma locate_plug: "locate key c t = (c', t') \<Longrightarrow> plug c' t' = plug c t"
  by (induction key c t rule: locate.induct) (auto split: if_splits)

lemma locate_shape:
  "locate key c t = (c', t') \<Longrightarrow> t' = Tip \<or> (\<exists>l a e s r. t' = Br l a key e s r)"
  by (induction key c t rule: locate.induct) (auto split: if_splits)

lemma locate_slot:
  assumes "locate key c t = (c', t')" "sorted_tree (plug c t)" "slot key c"
    and "ordered_keys (insert key (set (tree_keys (plug c t))))"
  shows "slot key c'"
  using assms
proof (induction key c t rule: locate.induct)
  case (2 key c l a k e s r)
  note K = "2.prems"(4)
  from "2.prems"(2) have S: "\<forall>x\<in>set (entries l). fst (snd x) < k" "\<forall>x\<in>set (entries r). k < fst (snd x)"
    "\<forall>x\<in>set (pre_c c). fst (snd x) < k" "\<forall>x\<in>set (post_c c). k < fst (snd x)"
    by (auto simp: sorted_tree_def sorted_wrt_append)
  show ?case
  proof (cases "key = k")
    case True
    with 2 show ?thesis by auto
  next
    case False
    show ?thesis
    proof (cases "key < k")
      case True
      have "key < fst (snd x)" if "x \<in> set (entries r)" for x
        by (rule ordered_keys_trans [OF K, of key k]) (use that True S(2) in auto)
      then have "slot key (LF a k e s r # c)"
        using "2.prems"(3) True by (auto simp: slot_def)
      with 2 True False show ?thesis by auto
    next
      case *: False
      with False have "k < key"
        using ordered_keys_total [OF K, of key k] by auto
      have "fst (snd x) < key" if "x \<in> set (entries l)" for x
        by (rule ordered_keys_trans [OF K, of _ k]) (use that \<open>k < key\<close> S(1) in auto)
      then have "slot key (RF l a k e s # c)"
        using "2.prems"(3) \<open>k < key\<close> by (auto simp: slot_def)
      with 2 * False show ?thesis by auto
    qed
  qed
qed simp

lemma filter_below:
  assumes "\<forall>x\<in>set xs. f x < k" "ordered_keys (insert k (f ` set xs))"
  shows "filter (\<lambda>x. f x < k) xs = xs" "filter (\<lambda>x. k < f x) xs = []" "filter (\<lambda>x. f x \<noteq> k) xs = xs"
proof -
  have "\<not> k < f x" "f x \<noteq> k" if "x \<in> set xs" for x
    using ordered_keys_asym [OF assms(2), of "f x" k] ordered_keys_irrefl [OF assms(2), of k] assms(1) that
    by auto
  with assms(1) show "filter (\<lambda>x. f x < k) xs = xs" "filter (\<lambda>x. k < f x) xs = []"
    "filter (\<lambda>x. f x \<noteq> k) xs = xs"
    by (simp_all add: filter_True)
qed

lemma filter_above:
  assumes "\<forall>x\<in>set xs. k < f x" "ordered_keys (insert k (f ` set xs))"
  shows "filter (\<lambda>x. k < f x) xs = xs" "filter (\<lambda>x. f x < k) xs = []" "filter (\<lambda>x. f x \<noteq> k) xs = xs"
proof -
  have "\<not> f x < k" "f x \<noteq> k" if "x \<in> set xs" for x
    using ordered_keys_asym [OF assms(2), of k "f x"] ordered_keys_irrefl [OF assms(2), of k] assms(1) that
    by auto
  with assms(1) show "filter (\<lambda>x. k < f x) xs = xs" "filter (\<lambda>x. f x < k) xs = []"
    "filter (\<lambda>x. f x \<noteq> k) xs = xs"
    by (simp_all add: filter_True)
qed

text \<open>With the key located, the entries below, at and above it.\<close>

lemma slot_filters:
  assumes "slot key c" "ordered_keys (insert key (set (tree_keys (plug c t))))"
  shows "filter (\<lambda>x. fst (snd x) < key) (pre_c c) = pre_c c"
    "filter (\<lambda>x. fst (snd x) < key) (post_c c) = []"
    "filter (\<lambda>x. key < fst (snd x)) (pre_c c) = []"
    "filter (\<lambda>x. key < fst (snd x)) (post_c c) = post_c c"
    "filter (\<lambda>x. fst (snd x) \<noteq> key) (pre_c c) = pre_c c"
    "filter (\<lambda>x. fst (snd x) \<noteq> key) (post_c c) = post_c c"
proof -
  have "(\<lambda>x. fst (snd x)) ` set (pre_c c) \<subseteq> set (tree_keys (plug c t))"
    "(\<lambda>x. fst (snd x)) ` set (post_c c) \<subseteq> set (tree_keys (plug c t))"
    by auto
  then have K: "ordered_keys (insert key ((\<lambda>x. fst (snd x)) ` set (pre_c c)))"
    "ordered_keys (insert key ((\<lambda>x. fst (snd x)) ` set (post_c c)))"
    by (simp_all add: ordered_keys_subset [OF assms(2) insert_mono])
  show "filter (\<lambda>x. fst (snd x) < key) (pre_c c) = pre_c c"
    "filter (\<lambda>x. key < fst (snd x)) (pre_c c) = []"
    "filter (\<lambda>x. fst (snd x) \<noteq> key) (pre_c c) = pre_c c"
    using filter_below [OF _ K(1)] assms(1) by (simp_all add: slot_def)
  show "filter (\<lambda>x. key < fst (snd x)) (post_c c) = post_c c"
    "filter (\<lambda>x. fst (snd x) < key) (post_c c) = []"
    "filter (\<lambda>x. fst (snd x) \<noteq> key) (post_c c) = post_c c"
    using filter_above [OF _ K(2)] assms(1) by (simp_all add: slot_def)
qed

lemma located_absent:
  assumes "locate key [] T = (c, Tip)" "sorted_tree T" "ordered_keys (insert key (set (tree_keys T)))"
  shows "key \<notin> set (tree_keys T)" "pre_c c = filter (\<lambda>x. fst (snd x) < key) (entries T)"
    "post_c c = filter (\<lambda>x. key < fst (snd x)) (entries T)"
proof -
  have T: "T = plug c Tip" using locate_plug [OF assms(1)] by simp
  have s: "slot key c"
    by (rule locate_slot [OF assms(1)]) (use assms(2,3) in \<open>auto simp: slot_def\<close>)
  show "key \<notin> set (tree_keys T)"
    using s ordered_keys_irrefl [OF assms(3), of key] unfolding T by (auto simp: slot_def)
  show "pre_c c = filter (\<lambda>x. fst (snd x) < key) (entries T)"
    "post_c c = filter (\<lambda>x. key < fst (snd x)) (entries T)"
    using slot_filters [OF s assms(3) [unfolded T]] unfolding T by simp_all
qed

lemma located_present:
  assumes "locate key [] T = (c, Br l a k e s r)" "sorted_tree T"
    and "ordered_keys (insert key (set (tree_keys T)))"
  shows "k = key" "key \<in> set (tree_keys T)"
    "entries T = pre_c c @ entries l @ (a, key, e) # entries r @ post_c c"
    "filter (\<lambda>x. fst (snd x) < key) (entries T) = pre_c c @ entries l"
    "filter (\<lambda>x. key < fst (snd x)) (entries T) = entries r @ post_c c"
    "filter (\<lambda>x. fst (snd x) \<noteq> key) (entries T) = pre_c c @ entries l @ entries r @ post_c c"
proof -
  show k: "k = key" using locate_shape [OF assms(1)] by auto
  have T: "T = plug c (Br l a key e s r)" using locate_plug [OF assms(1)] k by simp
  show "key \<in> set (tree_keys T)" unfolding T by simp
  have e: "entries T = (pre_c c @ entries l) @ (a, key, e) # (entries r @ post_c c)"
    unfolding T by simp
  then show "entries T = pre_c c @ entries l @ (a, key, e) # entries r @ post_c c" by simp
  have "ordered_keys ((\<lambda>x. fst (snd x)) ` set (entries T))"
    by (rule ordered_keys_subset [OF assms(3)]) auto
  note split = sorted_filter_split [OF assms(2) [unfolded sorted_tree_def e] this [unfolded e]]
  show "filter (\<lambda>x. fst (snd x) < key) (entries T) = pre_c c @ entries l"
    "filter (\<lambda>x. key < fst (snd x)) (entries T) = entries r @ post_c c"
    "filter (\<lambda>x. fst (snd x) \<noteq> key) (entries T) = pre_c c @ entries l @ entries r @ post_c c"
    using split unfolding e by simp_all
qed

subsection \<open>The search loops\<close>

lemma Find_Loop_locate:
  "tree_at h p t \<Longrightarrow> Find_Loop h (root_of t) key it =
     Some (case snd (locate key c t) of Tip \<Rightarrow> (e_StatusCode_NotFound, it)
       | Br l a k e s r \<Rightarrow> (e_StatusCode_Success, a))"
proof (induction key c t arbitrary: p rule: locate.induct)
  case (1 key c)
  then show ?case by (subst Find_Loop.simps) simp
next
  case (2 key c l a k e s r)
  then show ?case
    using "2.IH" [of a] by (cases "key = k"; cases "key < k"; subst Find_Loop.simps)
      (simp_all add: rd_def CompareElement_def)
qed

subsection \<open>Iterators\<close>

fun first_addr :: "(addr \<times> 'a) list \<Rightarrow> addr" where
  "first_addr [] = NULL"
| "first_addr (x # xs) = fst x"

definition last_addr :: "(addr \<times> 'a) list \<Rightarrow> addr" where
  "last_addr xs = (if xs = [] then NULL else fst (last xs))"

lemma first_addr_append: "first_addr (xs @ ys) = (if xs = [] then first_addr ys else first_addr xs)"
  by (cases xs) auto

lemma last_addr_append: "last_addr (xs @ ys) = (if ys = [] then last_addr xs else last_addr ys)"
  by (simp add: last_addr_def)

lemma entries_Nil [simp]: "entries t = [] \<longleftrightarrow> t = Tip"
  by (cases t) auto

lemma LeftMost_first: "tree_at h p t \<Longrightarrow> LeftMost h (root_of t) = Some (first_addr (entries t))"
proof (induction t arbitrary: p)
  case Tip
  then show ?case by (subst LeftMost.simps) simp
next
  case (Br l a k e s r)
  then have "root_of l = NULL \<longleftrightarrow> l = Tip" using root_of_NULL [of h a l] by simp
  with Br show ?case by (subst LeftMost.simps) (auto simp: rd_def first_addr_append)
qed

lemma RightMost_last: "tree_at h p t \<Longrightarrow> RightMost h (root_of t) = Some (last_addr (entries t))"
proof (induction t arbitrary: p)
  case Tip
  then show ?case by (subst RightMost.simps) (simp add: last_addr_def)
next
  case (Br l a k e s r)
  then have "root_of r = NULL \<longleftrightarrow> r = Tip" using root_of_NULL [of h a r] by simp
  with Br show ?case by (subst RightMost.simps) (auto simp: rd_def last_addr_def)
qed

lemma root_of_disjoint:
  "set (addrs t) \<inter> set (addrs t') = {} \<Longrightarrow> t \<noteq> Tip \<Longrightarrow> root_of t \<noteq> NULL \<Longrightarrow> root_of t' \<noteq> root_of t"
  using root_of_in_addrs [of t] root_of_cases [of t'] by auto

lemma rep_siblings:
  assumes "rep s (plug c (Br l a k e st r))"
  shows "l \<noteq> Tip \<Longrightarrow> root_of r \<noteq> root_of l" "r \<noteq> Tip \<Longrightarrow> root_of l \<noteq> root_of r"
    "root_of l \<noteq> a" "root_of r \<noteq> a"
proof -
  note R = rep_focus [OF assms]
  have n: "root_of l = NULL \<longleftrightarrow> l = Tip" "root_of r = NULL \<longleftrightarrow> r = Tip"
    using R(2) root_of_NULL by auto
  have d: "set (addrs l) \<inter> set (addrs r) = {}" "a \<notin> set (addrs l)" "a \<notin> set (addrs r)" "a \<noteq> NULL"
    using R(2,4) by auto
  show "l \<noteq> Tip \<Longrightarrow> root_of r \<noteq> root_of l" "r \<noteq> Tip \<Longrightarrow> root_of l \<noteq> root_of r"
    using n d root_of_disjoint [of l r] root_of_disjoint [of r l] by (auto simp: Int_commute)
  show "root_of l \<noteq> a" "root_of r \<noteq> a"
    using d root_of_neq by metis+
qed

lemma ClimbRight_post:
  "rep s (plug c t) \<Longrightarrow> t \<noteq> Tip \<Longrightarrow> ClimbRight (blocks s) (root_of t) = Some (first_addr (post_c c))"
proof (induction c t rule: plug.induct)
  case (1 t)
  then obtain l a k e st r where "t = Br l a k e st r" by (cases t) auto
  with 1 show ?case by (subst ClimbRight.simps) (simp add: rep_def rd_def)
next
  case (2 a k e st r c t)
  then obtain l b k' e' st' r' where t: "t = Br l b k' e' st' r'" by (cases t) auto
  note R = 2(2) [simplified]
  show ?case
    using rd_focus [OF R] rd_focus_l [OF R [unfolded t]] rep_siblings(1) [OF R] t
    by (subst ClimbRight.simps) simp
next
  case (3 l a k e st c t)
  then obtain l' b k' e' st' r' where t: "t = Br l' b k' e' st' r'" by (cases t) auto
  note R = 3(2) [simplified]
  show ?case
    using rd_focus [OF R] rd_focus_r [OF R [unfolded t]] 3(1) [OF R] t
    by (subst ClimbRight.simps) simp
qed

lemma ClimbLeft_pre:
  "rep s (plug c t) \<Longrightarrow> t \<noteq> Tip \<Longrightarrow> ClimbLeft (blocks s) (root_of t) = Some (last_addr (pre_c c))"
proof (induction c t rule: plug.induct)
  case (1 t)
  then obtain l a k e st r where "t = Br l a k e st r" by (cases t) auto
  with 1 show ?case by (subst ClimbLeft.simps) (simp add: rep_def rd_def last_addr_def)
next
  case (2 a k e st r c t)
  then obtain l b k' e' st' r' where t: "t = Br l b k' e' st' r'" by (cases t) auto
  note R = 2(2) [simplified]
  show ?case
    using rd_focus [OF R] rd_focus_l [OF R [unfolded t]] 2(1) [OF R] t
    by (subst ClimbLeft.simps) simp
next
  case (3 l a k e st c t)
  then obtain l' b k' e' st' r' where t: "t = Br l' b k' e' st' r'" by (cases t) auto
  note R = 3(2) [simplified]
  show ?case
    using rd_focus [OF R] rd_focus_r [OF R [unfolded t]] rep_siblings(2) [OF R] t
    by (subst ClimbLeft.simps) (simp add: last_addr_def)
qed

lemma Increment_focus:
  assumes "rep s (plug c (Br l a k e st r))"
  shows "Increment (blocks s) a = Some (first_addr (entries r @ post_c c))"
proof -
  have "tree_at (blocks s) a r" "root_of r = NULL \<longleftrightarrow> r = Tip"
    using rep_focus(2) [OF assms] root_of_NULL by auto
  then show ?thesis
    using rd_focus [OF assms] ClimbRight_post [OF assms] LeftMost_first
    by (auto simp: Increment_def first_addr_append)
qed

lemma Decrement_focus:
  assumes "rep s (plug c (Br l a k e st r))"
  shows "Decrement (blocks s) a = Some (last_addr (pre_c c @ entries l))"
proof -
  have "tree_at (blocks s) a l" "root_of l = NULL \<longleftrightarrow> l = Tip"
    using rep_focus(2) [OF assms] root_of_NULL by auto
  then show ?thesis
    using rd_focus [OF assms] ClimbLeft_pre [OF assms] RightMost_last
    by (auto simp: Decrement_def last_addr_append)
qed

lemma focus_exists:
  "a \<in> set (addrs t) \<Longrightarrow> \<exists>d l k e s r. plug c t = plug d (Br l a k e s r)"
proof (induction t arbitrary: c)
  case (Br l b k e s r)
  then consider "a = b" | "a \<in> set (addrs l)" | "a \<in> set (addrs r)" by auto
  then show ?case
  proof cases
    case 2
    with Br.IH(1) [of "LF b k e s r # c"] show ?thesis by simp
  next
    case 3
    with Br.IH(2) [of "RF l b k e s # c"] show ?thesis by simp
  qed blast
qed simp

lemma distinct_fst_split:
  "xs @ (a, u) # ys = xs' @ (a, u') # ys' \<Longrightarrow> distinct (map fst (xs' @ (a, u') # ys')) \<Longrightarrow>
   xs' = xs \<and> u' = u \<and> ys' = ys"
proof (induction xs arbitrary: xs')
  case Nil
  then show ?case by (cases xs') auto
next
  case (Cons x xs)
  then show ?case
  proof (cases xs')
    case Nil
    with Cons.prems show ?thesis by (cases x) auto
  next
    case (Cons x' xs'')
    with Cons.prems Cons.IH [of xs''] show ?thesis by simp
  qed
qed

lemma focus_entries:
  assumes "rep s T" "entries T = xs @ (a, k, e) # ys"
  obtains c l st r where "T = plug c (Br l a k e st r)" "xs = pre_c c @ entries l"
    "ys = entries r @ post_c c"
proof -
  have "a \<in> set (addrs T)"
    using assms(2) by (simp flip: map_fst_entries)
  then obtain c l k' e' st r where T: "T = plug c (Br l a k' e' st r)"
    using focus_exists [of a T "[]"] by auto
  have d: "distinct (map fst (entries T))"
    using assms(1) by (simp add: rep_def map_fst_entries)
  have "(pre_c c @ entries l) @ (a, k', e') # (entries r @ post_c c) = xs @ (a, k, e) # ys"
    using assms(2) unfolding T by simp
  from distinct_fst_split [OF this] d assms(2)
  have "xs = pre_c c @ entries l \<and> (k, e) = (k', e') \<and> ys = entries r @ post_c c" by auto
  with T that show thesis by blast
qed

lemma FindNext_Loop_locate:
  "rep s (plug c t) \<Longrightarrow> t \<noteq> Tip \<Longrightarrow> FindNext_Loop (blocks s) (root_of t) key it =
     Some (Found_or_Null (case locate key c t of (c', t') \<Rightarrow>
       case t' of Tip \<Rightarrow> first_addr (post_c c')
       | Br l a k e st r \<Rightarrow> first_addr (entries r @ post_c c')))"
proof (induction key c t rule: locate.induct)
  case (2 key c l a k e st r)
  note R = "2.prems"(1)
  have n: "root_of l = NULL \<longleftrightarrow> l = Tip" "root_of r = NULL \<longleftrightarrow> r = Tip"
    using rep_focus(2) [OF R] root_of_NULL by auto
  show ?case
    using 2 n rd_focus [OF R] Increment_focus [OF R]
    by (subst FindNext_Loop.simps) (auto simp: CompareElement_def Found_or_Null_def)
qed simp

end
