(* ===== verification/TreeSplice.thy ===== *)
theory TreeSplice
  imports TreeSearch
begin

text \<open>
  Pointer surgery on the node heap: a field write as a total function \<open>upd\<close>, which makes writes to
  different nodes or fields commute, and from it what adding a leaf, splicing a node out and
  putting the successor in the place of a node do to the tree.
\<close>

definition upd ::
  "('k, 'e, 's) node_heap \<Rightarrow> addr \<Rightarrow> (('k, 'e, 's) Node \<Rightarrow> ('k, 'e, 's) Node) \<Rightarrow> ('k, 'e, 's) node_heap" where
  "upd h a f = (\<lambda>x. if x = a \<and> a \<noteq> NULL then map_option f (h x) else h x)"

abbreviation parent_to :: "addr \<Rightarrow> ('k, 'e, 's) Node \<Rightarrow> ('k, 'e, 's) Node" where
  "parent_to q \<equiv> m_Parent_update (\<lambda>_. q)"

fun slot_to :: "('k, 'e, 's) ctx \<Rightarrow> addr \<Rightarrow> ('k, 'e, 's) Node \<Rightarrow> ('k, 'e, 's) Node" where
  "slot_to (RF l a k e s # c) q = m_Right_update (\<lambda>_. q)"
| "slot_to c q = m_Left_update (\<lambda>_. q)"

lemma upd_NULL [simp]: "upd h NULL f = h"
  by (simp add: upd_def)

lemma upd_other [simp]: "x \<noteq> a \<Longrightarrow> upd h a f x = h x"
  by (simp add: upd_def)

lemma upd_same [simp]: "a \<noteq> NULL \<Longrightarrow> upd h a f a = map_option f (h a)"
  by (simp add: upd_def)

lemma dom_upd [simp]: "dom (upd h a f) = dom h"
  by (auto simp: upd_def dom_def split: if_splits)

lemma upd_commute:
  "a \<noteq> b \<or> a = NULL \<or> (\<forall>n. f (g n) = g (f n)) \<Longrightarrow> upd (upd h a f) b g = upd (upd h b g) a f"
  by (auto simp: upd_def fun_eq_iff option.map_comp o_def)

lemma upd_upd: "upd (upd h a f) a g = upd h a (g \<circ> f)"
  by (auto simp: upd_def fun_eq_iff option.map_comp o_def)

lemma rd_upd: "rd (upd h a f) b = (if b = a then map_option f (rd h b) else rd h b)"
  by (auto simp: rd_def upd_def)

lemma set_upd:
  assumes "a \<noteq> NULL" "a \<in> dom h"
  shows "set_Left h a q = Some (upd h a (m_Left_update (\<lambda>_. q)))"
    "set_Right h a q = Some (upd h a (m_Right_update (\<lambda>_. q)))"
    "set_Parent h a q = Some (upd h a (parent_to q))"
  using assms by (auto simp: write_defs upd_def fun_eq_iff)

lemma set_Parent_if_upd:
  "(a \<noteq> NULL \<Longrightarrow> a \<in> dom h) \<Longrightarrow> set_Parent_if h a q = Some (upd h a (parent_to q))"
  by (auto simp: set_Parent_if_def set_upd)

lemma tree_at_upd_other [shape_simps]:
  "a \<notin> set (addrs t) \<Longrightarrow> tree_at (upd h a f) p t = tree_at h p t"
  by (rule tree_at_cong, rule upd_other) blast

lemma ctx_at_upd_other [shape_simps]:
  "a \<notin> set (ctx_addrs c) \<Longrightarrow> ctx_at (upd h a f) q c = ctx_at h q c"
  by (rule ctx_at_cong, rule upd_other) blast

lemma tree_at_reparent:
  "tree_at h p t \<Longrightarrow> distinct (addrs t) \<Longrightarrow> tree_at (upd h (root_of t) (parent_to q)) q t"
  by (cases t) (auto simp: shape_simps)

lemma ctx_at_relink:
  "ctx_at h A c \<Longrightarrow> distinct (ctx_addrs c) \<Longrightarrow> ctx_at (upd h (up c) (slot_to c B)) B c"
  by (cases c rule: up.cases) (auto simp: shape_simps)

lemma rep_root_update: "m_Root s = q \<Longrightarrow> s\<lparr>m_Root := q, blocks := h\<rparr> = s\<lparr>blocks := h\<rparr>"
  by simp

lemma relink_upd:
  assumes "rep s (plug c t)" "t \<noteq> Tip"
  shows "relink s (up c) (root_of t) B =
    Some (s\<lparr>m_Root := ctx_root c B, blocks := upd (blocks s) (up c) (slot_to c B)\<rparr>)"
proof (cases c rule: up.cases)
  case 1
  then show ?thesis by (simp add: relink_def)
next
  case (2 a k e st r c')
  note R = rep_focus [OF assms(1)]
  have "m_Root s = ctx_root c B" using R(1) 2 ctx_root_indep [of c] by simp
  with 2 R(3) show ?thesis
    by (simp add: relink_def rd_def set_upd domIff rep_root_update)
next
  case (3 l a k e st c')
  note R = rep_focus [OF assms(1)]
  have "m_Root s = ctx_root c B" using R(1) 3 ctx_root_indep [of c] by simp
  moreover have "root_of l \<noteq> root_of t"
    using rep_siblings(2) [of s c' l a k e st t] assms 3 by simp
  ultimately show ?thesis
    using 3 R(3) by (simp add: relink_def rd_def set_upd domIff rep_root_update)
qed

subsection \<open>Splicing a node with at most one child out\<close>

lemma splice_out:
  assumes "rep s (plug c (Br l a k e st r))" "t = r \<and> l = Tip \<or> t = l \<and> r = Tip"
  shows "rep (s\<lparr>m_Root := ctx_root c (root_of t),
      blocks := upd (upd (blocks s) (up c) (slot_to c (root_of t))) (root_of t) (parent_to (up c))\<rparr>)
    (plug c t)"
proof -
  note R = rep_focus [OF assms(1)]
  let ?g = "upd (blocks s) (up c) (slot_to c (root_of t))"
  from assms(2) R(2,4) have t: "tree_at (blocks s) a t" "distinct (addrs t)"
    and sub: "set (addrs t) \<subseteq> set (addrs (Br l a k e st r))"
    by auto
  have "up c \<notin> set (addrs t)"
    using rep_up_fresh [OF assms(1)] sub by blast
  then have "tree_at (upd ?g (root_of t) (parent_to (up c))) (up c) t"
    using t by (intro tree_at_reparent [of _ a]) (simp_all add: shape_simps)
  moreover have "ctx_at ?g (root_of t) c"
    by (rule ctx_at_relink [OF R(3,5)])
  moreover have "root_of t \<notin> set (ctx_addrs c)"
    by (rule root_notin_ctx [OF R(3)]) (use R(6) sub in blast)
  moreover have "distinct (addrs t @ ctx_addrs c)"
    using t(2) R(5,6) sub by auto
  ultimately show ?thesis
    by (simp add: rep_plug shape_simps)
qed

subsection \<open>Putting another node in the place of a node\<close>

lemma replace_node:
  assumes "rep s (plug c (Br l a k e st r))" "blocks s b = Some n" "b \<noteq> NULL"
    and "b \<notin> set (addrs (plug c (Br l a k e st r)))"
  shows "rep (s\<lparr>m_Root := ctx_root c b,
      blocks := upd (upd (upd (upd (blocks s) (up c) (slot_to c b)) (root_of l) (parent_to b))
          (root_of r) (parent_to b))
        b (\<lambda>n. n\<lparr>m_Left := root_of l, m_Right := root_of r, m_Parent := up c\<rparr>)\<rparr>)
    (plug c (Br l b (m_Key n) (m_Element n) (m_State n) r))"
proof -
  note R = rep_focus [OF assms(1)]
  let ?g1 = "upd (blocks s) (up c) (slot_to c b)"
  let ?g2 = "upd ?g1 (root_of l) (parent_to b)"
  let ?g3 = "upd ?g2 (root_of r) (parent_to b)"
  let ?g4 = "upd ?g3 b (\<lambda>n. n\<lparr>m_Left := root_of l, m_Right := root_of r, m_Parent := up c\<rparr>)"
  have b: "b \<notin> set (addrs l)" "b \<notin> set (addrs r)" "b \<notin> set (ctx_addrs c)"
    using assms(4) by (auto simp: addrs_plug)
  have d: "distinct (addrs l)" "distinct (addrs r)" "set (addrs l) \<inter> set (addrs r) = {}"
    "set (ctx_addrs c) \<inter> set (addrs l) = {}" "set (ctx_addrs c) \<inter> set (addrs r) = {}"
    using R(4,6) by auto
  have upc: "up c \<notin> set (addrs l)" "up c \<notin> set (addrs r)"
    using rep_up_fresh [OF assms(1)] by auto
  have tr: "tree_at (blocks s) a l" "tree_at (blocks s) a r" using R(2) by auto
  have nin: "root_of l \<notin> set (addrs r)" "root_of r \<notin> set (addrs l)"
    "root_of l \<notin> set (ctx_addrs c)" "root_of r \<notin> set (ctx_addrs c)"
    using root_notin_tree [OF tr(2)] root_notin_tree [OF tr(1)] root_notin_ctx [OF R(3)] d
    by (auto simp: Int_commute)
  have "tree_at ?g2 b l"
    using tree_at_reparent [of ?g1 a l b] tr(1) upc(1) d(1) by (simp add: shape_simps)
  then have "tree_at ?g4 b l"
    using b nin by (simp add: shape_simps)
  moreover have "tree_at ?g3 b r"
    using tree_at_reparent [of ?g2 a r b] tr(2) upc(2) d(2) nin by (simp add: shape_simps)
  then have "tree_at ?g4 b r"
    using b by (simp add: shape_simps)
  moreover have "ctx_at ?g4 b c"
    using ctx_at_relink [OF R(3,5)] b nin by (simp add: shape_simps)
  moreover have "b \<noteq> up c"
    using b(3) assms(3) up_in_ctx [of c] by (cases "c = []") auto
  moreover have "b \<noteq> root_of l" "b \<noteq> root_of r"
    using b assms(3) root_of_neq by metis+
  ultimately show ?thesis
    using assms(2,3) b d R(5) by (auto simp: rep_plug)
qed

subsection \<open>The successor takes the place of a node\<close>

fun left_path :: "('k, 'e, 's) ctx \<Rightarrow> bool" where
  "left_path [] \<longleftrightarrow> True"
| "left_path (LF a k e s r # p) \<longleftrightarrow> left_path p"
| "left_path (RF l a k e s # p) \<longleftrightarrow> False"

lemma up_append: "p \<noteq> [] \<Longrightarrow> up (p @ c) = up p"
  by (cases p rule: up.cases) auto

lemma slot_to_left: "p \<noteq> [] \<Longrightarrow> left_path p \<Longrightarrow> slot_to (p @ c) q = m_Left_update (\<lambda>_. q)"
  by (cases p rule: up.cases) auto

lemma ctx_root_in: "p \<noteq> [] \<Longrightarrow> ctx_root p q \<in> set (ctx_addrs p)"
proof (induction p q rule: ctx_root.induct)
  case (2 a k e s r c q)
  then show ?case by (cases "c = []") auto
next
  case (3 l a k e s c q)
  then show ?case by (cases "c = []") auto
qed simp

lemma ctx_addrs_append [simp]: "ctx_addrs (p @ c) = ctx_addrs p @ ctx_addrs c"
  by (induction p rule: ctx_addrs.induct) auto

lemma ctx_root_append [simp]: "ctx_root (p @ c) q = ctx_root c (ctx_root p q)"
  by (induction p q rule: ctx_root.induct) auto

lemma rep_addr_dom:
  assumes "rep s (plug c t)" "a \<in> set (addrs t) \<union> set (ctx_addrs c)"
  shows "a \<in> dom (blocks s)" "a \<noteq> NULL"
  using assms rep_focus [OF assms(1)] tree_at_dom ctx_at_dom tree_at_nonnull ctx_at_nonnull by blast+

lemma rep_root_dom:
  assumes "rep s (plug c t)" "set (addrs r) \<subseteq> set (addrs t) \<union> set (ctx_addrs c)" "root_of r \<noteq> NULL"
  shows "root_of r \<in> dom (blocks s)"
  by (rule rep_addr_dom(1) [OF assms(1)]) (use root_of_cases [of r] assms(2,3) in auto)

lemma indep_writes:
  assumes "a1 \<noteq> b1 \<or> a1 = NULL" "a1 \<noteq> b2 \<or> a1 = NULL" "a2 \<noteq> b1 \<or> a2 = NULL" "a2 \<noteq> b2 \<or> a2 = NULL"
    and "\<And>n. f3 (g1 n) = g1 (f3 n)" "a3 \<noteq> b2"
  shows "upd (upd (upd (upd (upd h a1 f1) a2 f2) a3 f3) b1 g1) b2 g2 =
     upd (upd (upd (upd (upd h b1 g1) b2 g2) a1 f1) a2 f2) a3 f3"
proof -
  have c: "upd (upd g a1 f1) b1 g1 = upd (upd g b1 g1) a1 f1"
    "upd (upd g a1 f1) b2 g2 = upd (upd g b2 g2) a1 f1"
    "upd (upd g a2 f2) b1 g1 = upd (upd g b1 g1) a2 f2"
    "upd (upd g a2 f2) b2 g2 = upd (upd g b2 g2) a2 f2"
    "upd (upd g a3 f3) b1 g1 = upd (upd g b1 g1) a3 f3"
    "upd (upd g a3 f3) b2 g2 = upd (upd g b2 g2) a3 f3" for g
    by (rule upd_commute, use assms in auto)+
  show ?thesis
    by (simp only: c(5) c(3) c(1) c(6) c(4) c(2))
qed

lemma splice_deep:
  assumes T: "rep s (plug c (Br l N k e st (plug p (Br Tip S kS eS sS rS))))"
    and p: "p \<noteq> []" "left_path p"
  shows "\<exists>s1 h. relink s (up c) N S = Some s1 \<and>
    (\<exists>nS. rd (blocks s1) S = Some nS \<and> m_Parent nS = up p \<and> up p \<noteq> N) \<and>
    Splice_Deep (blocks s1) N S = Some (h, up p) \<and>
    rep (s1\<lparr>blocks := h\<rparr>) (plug (p @ RF l S kS eS sS # c) rS) \<and> heap_keeps s (s1\<lparr>blocks := h\<rparr>)"
proof -
  let ?t = "Br Tip S kS eS sS rS"
  let ?P = "p @ RF l N k e st # c"
  let ?z = "ctx_root p S"
  have P: "rep s (plug ?P ?t)" using T by (simp add: plug_append)
  note R = rep_focus [OF P] and RT = rep_focus [OF T]
  note dom = rep_addr_dom [OF P]
  have z: "ctx_root p q = ?z" for q by (rule ctx_root_indep [OF p(1)])
  have zin: "?z \<in> set (ctx_addrs p)" "up p \<in> set (ctx_addrs p)"
    using ctx_root_in [OF p(1)] up_in_ctx [OF p(1)] by auto
  have dist: "S \<notin> set (addrs l)" "S \<notin> set (addrs rS)" "S \<notin> set (ctx_addrs c)" "S \<notin> set (ctx_addrs p)"
    "S \<noteq> N" "set (ctx_addrs p) \<inter> set (addrs l) = {}" "set (ctx_addrs p) \<inter> set (addrs rS) = {}"
    "set (ctx_addrs p) \<inter> set (ctx_addrs c) = {}" "N \<notin> set (ctx_addrs p)"
    "set (addrs l) \<inter> set (addrs rS) = {}" "set (ctx_addrs c) \<inter> set (addrs rS) = {}"
    "set (ctx_addrs c) \<inter> set (addrs l) = {}" "N \<notin> set (ctx_addrs c)" "N \<notin> set (addrs rS)"
    using R(4,5,6) by auto
  have nn: "S \<noteq> NULL" "N \<noteq> NULL" "up p \<noteq> NULL" "?z \<noteq> NULL"
    using dom(2) zin by auto
  have upc: "up c = NULL \<or> up c \<in> set (ctx_addrs c)"
    using up_in_ctx [of c] by (cases "c = []") auto
  have rl: "root_of l = NULL \<or> root_of l \<in> set (addrs l)" and
    rr: "root_of rS = NULL \<or> root_of rS \<in> set (addrs rS)"
    by (rule root_of_cases)+
  have ne: "S \<noteq> up c" "S \<noteq> root_of l" "S \<noteq> ?z" "S \<noteq> up p" "S \<noteq> root_of rS" "N \<noteq> up c" "up p \<noteq> N"
    using dist upc rl rr zin nn by auto
  have ind: "up c \<noteq> up p \<or> up c = NULL" "up c \<noteq> root_of rS \<or> up c = NULL"
    "root_of l \<noteq> up p \<or> root_of l = NULL" "root_of l \<noteq> root_of rS \<or> root_of l = NULL"
    "?z \<noteq> root_of rS"
    using dist upc rl rr zin nn by auto
  define B1 where "B1 = upd (blocks s) (up c) (slot_to c S)"
  define s1 where "s1 = s\<lparr>m_Root := ctx_root c S, blocks := B1\<rparr>"
  have rl1: "relink s (up c) N S = Some s1"
    using relink_upd [OF T, of S] by (simp add: s1_def B1_def)
  have dB: "dom B1 = dom (blocks s)" by (simp add: B1_def)
  have rdN: "rd (blocks s) N = Some \<lparr>m_Key = k, m_Element = e, m_Left = root_of l, m_Right = ?z,
      m_Parent = up c, m_State = st\<rparr>"
    using rd_focus(1) [OF T] by simp
  have rdS: "rd (blocks s) S = Some \<lparr>m_Key = kS, m_Element = eS, m_Left = NULL, m_Right = root_of rS,
      m_Parent = up p, m_State = sS\<rparr>"
    using rd_focus(1) [OF P] p(1) by (simp add: up_append)
  have rd1: "rd B1 N = rd (blocks s) N" "rd B1 S = rd (blocks s) S"
    using ne by (simp_all add: B1_def rd_upd)
  let ?F = "m_Left_update (\<lambda>_. root_of rS)"
  let ?c3 = "upd (upd (upd (upd B1 (root_of l) (parent_to S)) ?z (parent_to S)) (up p) ?F)
      (root_of rS) (parent_to (up p))"
  let ?h = "upd (upd (upd ?c3 S (m_Left_update (\<lambda>_. root_of l))) S (m_Right_update (\<lambda>_. ?z)))
      S (parent_to (up c))"
  have doms: "root_of l \<noteq> NULL \<Longrightarrow> root_of l \<in> dom (blocks s)" "?z \<in> dom (blocks s)"
    "root_of rS \<noteq> NULL \<Longrightarrow> root_of rS \<in> dom (blocks s)" "up p \<in> dom (blocks s)" "S \<in> dom (blocks s)"
    using rep_root_dom [OF P, of l] rep_root_dom [OF P, of rS] dom(1) zin by auto
  have run: "Splice_Deep B1 N S = Some (?h, up p)"
    using ne nn doms dB
    by (simp add: Splice_Deep_def rd1 rdN rdS set_upd set_Parent_if_upd rd_upd Let_def)
  let ?g = "upd (upd (blocks s) (up p) ?F) (root_of rS) (parent_to (up p))"
  let ?sA = "s\<lparr>m_Root := ctx_root c N, blocks := ?g\<rparr>"
  have "rep ?sA (plug c (Br l N k e st (plug p rS)))"
    using splice_out [OF P, of rS] p by (simp add: up_append slot_to_left plug_append)
  moreover have "blocks ?sA S = Some \<lparr>m_Key = kS, m_Element = eS, m_Left = NULL, m_Right = root_of rS,
      m_Parent = up p, m_State = sS\<rparr>"
    using rdS ne nn by (simp add: rd_def)
  moreover have "S \<notin> set (addrs (plug c (Br l N k e st (plug p rS))))"
    using dist by (simp add: addrs_plug)
  ultimately have rn: "rep (?sA\<lparr>m_Root := ctx_root c S,
      blocks := upd (upd (upd (upd ?g (up c) (slot_to c S)) (root_of l) (parent_to S)) ?z (parent_to S))
        S (\<lambda>n. n\<lparr>m_Left := root_of l, m_Right := ?z, m_Parent := up c\<rparr>)\<rparr>)
    (plug c (Br l S kS eS sS (plug p rS)))"
    using replace_node [of ?sA c l N k e st "plug p rS" S] nn z [of "root_of rS"] by simp
  have "?c3 = upd (upd (upd ?g (up c) (slot_to c S)) (root_of l) (parent_to S)) ?z (parent_to S)"
    unfolding B1_def by (rule indep_writes [OF ind(1-4) _ ind(5)]) simp
  then have "?h = upd (upd (upd (upd ?g (up c) (slot_to c S)) (root_of l) (parent_to S)) ?z (parent_to S))
      S (\<lambda>n. n\<lparr>m_Left := root_of l, m_Right := ?z, m_Parent := up c\<rparr>)"
    by (simp add: upd_upd comp_def)
  with rn have "rep (s1\<lparr>blocks := ?h\<rparr>) (plug (p @ RF l S kS eS sS # c) rS)"
    by (simp add: s1_def plug_append)
  moreover have "heap_keeps s (s1\<lparr>blocks := ?h\<rparr>)"
    by (simp add: heap_keeps_def s1_def dB)
  moreover have "rd (blocks s1) S = rd (blocks s) S"
    by (simp add: s1_def rd1)
  ultimately show ?thesis
    using rl1 run rdS ne by (intro exI [of _ s1] exI [of _ ?h]) (simp add: s1_def)
qed

lemma splice_child:
  assumes T: "rep s (plug c (Br l N k e st (Br Tip S kS eS sS rS)))"
  shows "\<exists>s1 h. relink s (up c) N S = Some s1 \<and>
    (\<exists>nS. rd (blocks s1) S = Some nS \<and> m_Parent nS = N) \<and>
    Splice_Child (blocks s1) N S = Some h \<and>
    rep (s1\<lparr>blocks := h\<rparr>) (plug c (Br l S kS eS sS rS)) \<and> heap_keeps s (s1\<lparr>blocks := h\<rparr>)"
proof -
  let ?P = "RF l N k e st # c"
  have P: "rep s (plug ?P (Br Tip S kS eS sS rS))" using T by simp
  note R = rep_focus [OF P] and RT = rep_focus [OF T]
  note dom = rep_addr_dom [OF P]
  have dist: "S \<notin> set (addrs l)" "S \<notin> set (addrs rS)" "S \<notin> set (ctx_addrs c)" "S \<noteq> N"
    "set (addrs l) \<inter> set (addrs rS) = {}" "set (ctx_addrs c) \<inter> set (addrs rS) = {}"
    "set (ctx_addrs c) \<inter> set (addrs l) = {}" "N \<notin> set (ctx_addrs c)"
    "distinct (addrs l)" "distinct (addrs rS)" "distinct (ctx_addrs c)"
    using R(4,5,6) by auto
  have nn: "S \<noteq> NULL" "N \<noteq> NULL" using dom(2) by auto
  have upc: "up c \<notin> set (addrs l)" "up c \<notin> set (addrs rS)" "S \<noteq> up c" "N \<noteq> up c"
    using rep_up_fresh [OF T] by auto
  have rl: "root_of l = NULL \<or> root_of l \<in> set (addrs l)"
    by (rule root_of_cases)
  have rl_out: "root_of l \<notin> set (addrs rS)" "root_of l \<notin> set (ctx_addrs c)"
    using root_notin_tree [of "blocks s" S rS l] root_notin_ctx [OF RT(3), of l] RT(2) dist
    by (auto simp: Int_commute)
  have ne: "S \<noteq> root_of l" using rl dist nn by auto
  define B1 where "B1 = upd (blocks s) (up c) (slot_to c S)"
  define s1 where "s1 = s\<lparr>m_Root := ctx_root c S, blocks := B1\<rparr>"
  have rl1: "relink s (up c) N S = Some s1"
    using relink_upd [OF T, of S] by (simp add: s1_def B1_def)
  have dB: "dom B1 = dom (blocks s)" by (simp add: B1_def)
  have rdN: "rd B1 N = Some \<lparr>m_Key = k, m_Element = e, m_Left = root_of l, m_Right = S,
      m_Parent = up c, m_State = st\<rparr>"
    using rd_focus(1) [OF T] upc by (simp add: B1_def rd_upd)
  have rdS: "rd B1 S = Some \<lparr>m_Key = kS, m_Element = eS, m_Left = NULL, m_Right = root_of rS,
      m_Parent = N, m_State = sS\<rparr>"
    using rd_focus_r [OF T] upc by (simp add: B1_def rd_upd)
  let ?g = "upd B1 (root_of l) (parent_to S)"
  let ?h = "upd (upd (upd ?g S (parent_to S)) S (m_Left_update (\<lambda>_. root_of l))) S (parent_to (up c))"
  have "root_of l \<noteq> NULL \<Longrightarrow> root_of l \<in> dom (blocks s)" "S \<in> dom (blocks s)"
    using rep_root_dom [OF P, of l] dom(1) by auto
  then have run: "Splice_Child B1 N S = Some ?h"
    using ne nn dB by (simp add: Splice_Child_def rdN rdS set_upd set_Parent_if_upd rd_upd)
  have "tree_at ?g S l"
    using tree_at_reparent [of B1 N l S] RT(2) dist upc by (simp add: B1_def shape_simps)
  then have "tree_at ?h S l" using dist by (simp add: shape_simps)
  moreover have "tree_at ?h S rS"
    using RT(2) rl_out dist upc by (simp add: B1_def shape_simps)
  moreover have "ctx_at ?h S c"
    using ctx_at_relink [OF RT(3,5), of S] rl_out dist by (simp add: B1_def shape_simps)
  moreover have "?h S = Some \<lparr>m_Key = kS, m_Element = eS, m_Left = root_of l, m_Right = root_of rS,
      m_Parent = up c, m_State = sS\<rparr>"
    using rdS nn ne by (simp add: rd_def)
  ultimately have "rep (s1\<lparr>blocks := ?h\<rparr>) (plug c (Br l S kS eS sS rS))"
    using dist nn by (auto simp: rep_plug s1_def)
  then show ?thesis
    using rl1 run rdS dB by (intro exI [of _ s1] exI [of _ ?h]) (simp add: s1_def heap_keeps_def)
qed

subsection \<open>Creating and attaching a leaf\<close>

lemma NewNode_cases:
  assumes "NewNode w st h key e = (sc, a, h')" "heap_alloc_fresh w"
  shows "sc = e_StatusCode_Success \<and> a \<noteq> NULL \<and> h a = None \<and>
      h' = h(a \<mapsto> \<lparr>m_Key = key, m_Element = e, m_Left = NULL, m_Right = NULL, m_Parent = NULL, m_State = st\<rparr>)
    \<or> sc \<noteq> e_StatusCode_Success \<and> a = NULL \<and> (\<forall>b\<in>dom h. h' b = h b) \<and> (heap_free_ok w \<longrightarrow> h' = h)"
proof -
  obtain sn b where n: "WmiAllocator_New w (m_Allocator w) NULL (sizeof_Node w) h = (sn, b)"
    by fastforce
  show ?thesis
  proof (cases "sn = e_StatusCode_Success")
    case False
    with assms n show ?thesis by (auto simp: NewNode_def)
  next
    case True
    note f = New_Success [OF n [unfolded True] assms(2)]
    let ?n = "\<lparr>m_Key = key, m_Element = e, m_Left = NULL, m_Right = NULL, m_Parent = NULL, m_State = st\<rparr>"
    have "m_Heap (m_Allocator w) \<noteq> 0"
      using n True by (auto simp: WmiAllocator_New_def WmiAllocator_New_opt_def split: if_splits)
    then have "heap_free_ok w \<Longrightarrow>
        snd (WmiAllocator_Delete w (m_Allocator w) b (h(b \<mapsto> ?n))) = h"
      using f by (auto simp: Delete_ok)
    moreover have "\<forall>x\<in>dom h. snd (WmiAllocator_Delete w (m_Allocator w) b (h(b \<mapsto> ?n))) x = h x"
      using f by (auto simp: Delete_snd)
    ultimately show ?thesis
      using assms(1) n True f
      by (cases "AssignPair w key e") (auto simp: NewNode_def Let_def)
  qed
qed

lemma rep_frame:
  assumes "rep s T" "\<And>a. a \<in> set (addrs T) \<Longrightarrow> h a = blocks s a"
  shows "rep (s\<lparr>blocks := h\<rparr>) T"
  using assms tree_at_agree [of "blocks s" NULL T h] by (simp add: rep_def)

lemma rep_dom: "rep s T \<Longrightarrow> set (addrs T) \<subseteq> dom (blocks s)"
  by (rule subsetI, rule tree_at_dom) (auto simp: rep_def)

text \<open>A fresh leaf in an empty position.\<close>

abbreviation leaf :: "addr \<Rightarrow> 'k \<Rightarrow> 'e \<Rightarrow> 's \<Rightarrow> ('k, 'e, 's) tree" where
  "leaf a k e st \<equiv> Br Tip a k e st Tip"

lemma attach_leaf:
  assumes "rep s (plug c Tip)" "c \<noteq> []" "a \<noteq> NULL" "blocks s a = None"
  shows "rep (s\<lparr>blocks := upd (upd ((blocks s)(a \<mapsto> \<lparr>m_Key = key, m_Element = e, m_Left = NULL,
      m_Right = NULL, m_Parent = NULL, m_State = st\<rparr>)) a (parent_to (up c))) (up c) (slot_to c a)\<rparr>)
    (plug c (leaf a key e st))" (is "rep (s\<lparr>blocks := ?h\<rparr>) _")
proof -
  note R = rep_focus [OF assms(1)]
  have a: "a \<notin> set (ctx_addrs c)" "a \<noteq> up c"
    using ctx_at_dom [OF R(3), of a] assms(4) up_in_ctx [OF assms(2)] by auto
  let ?g = "upd ((blocks s)(a \<mapsto> \<lparr>m_Key = key, m_Element = e, m_Left = NULL,
      m_Right = NULL, m_Parent = NULL, m_State = st\<rparr>)) a (parent_to (up c))"
  have "ctx_at ?g NULL c"
    using R(3) a by (simp add: shape_simps)
  then have "ctx_at ?h a c"
    by (rule ctx_at_relink [OF _ R(5)])
  moreover have "m_Root s = ctx_root c a"
    using R(1) ctx_root_indep [OF assms(2)] by simp
  ultimately show ?thesis
    using a assms(3) R(5) by (simp add: rep_plug)
qed

lemma attach_run:
  assumes "rep s (plug (LF p k e st r # c) Tip)" "a \<noteq> NULL" "blocks s a = None"
  shows "\<exists>h1 h2. set_Parent ((blocks s)(a \<mapsto> \<lparr>m_Key = key, m_Element = el, m_Left = NULL,
        m_Right = NULL, m_Parent = NULL, m_State = sa\<rparr>)) a p = Some h1 \<and> set_Left h1 p a = Some h2 \<and>
      rep (s\<lparr>blocks := h2\<rparr>) (plug c (Br (leaf a key el sa) p k e st r)) \<and>
      dom h2 = insert a (dom (blocks s))"
proof -
  have p: "p \<in> dom (blocks s)" "p \<noteq> NULL"
    using rep_addr_dom [OF assms(1), of p] by auto
  show ?thesis
    using attach_leaf [OF assms(1) _ assms(2,3), of key el sa] p assms(2) by (simp add: set_upd)
qed

lemma attach_run_right:
  assumes "rep s (plug (RF l p k e st # c) Tip)" "a \<noteq> NULL" "blocks s a = None"
  shows "\<exists>h1 h2. set_Parent ((blocks s)(a \<mapsto> \<lparr>m_Key = key, m_Element = el, m_Left = NULL,
        m_Right = NULL, m_Parent = NULL, m_State = sa\<rparr>)) a p = Some h1 \<and> set_Right h1 p a = Some h2 \<and>
      rep (s\<lparr>blocks := h2\<rparr>) (plug c (Br l p k e st (leaf a key el sa))) \<and>
      dom h2 = insert a (dom (blocks s))"
proof -
  have p: "p \<in> dom (blocks s)" "p \<noteq> NULL"
    using rep_addr_dom [OF assms(1), of p] by auto
  show ?thesis
    using attach_leaf [OF assms(1) _ assms(2,3), of key el sa] p assms(2) by (simp add: set_upd)
qed

subsection \<open>Finding the successor\<close>

lemma left_path_append: "left_path (p @ q) \<longleftrightarrow> left_path p \<and> left_path q"
  by (induction p rule: left_path.induct) auto

lemma leftmost_split:
  "r \<noteq> Tip \<Longrightarrow> \<exists>p S k e st rS. r = plug p (Br Tip S k e st rS) \<and> left_path p"
proof (induction r)
  case (Br l a k e s r)
  show ?case
  proof (cases "l = Tip")
    case True
    then have "Br l a k e s r = plug [] (Br Tip a k e s r)" by simp
    then show ?thesis by (metis left_path.simps(1))
  next
    case False
    with Br.IH(1) obtain p S k' e' st rS where "l = plug p (Br Tip S k' e' st rS)" "left_path p"
      by blast
    then have "Br l a k e s r = plug (p @ [LF a k e s r]) (Br Tip S k' e' st rS)"
      "left_path (p @ [LF a k e s r])"
      by (simp_all add: plug_append left_path_append)
    then show ?thesis by metis
  qed
qed simp

lemma left_path_pre: "left_path p \<Longrightarrow> pre_c p = []"
  by (induction p rule: left_path.induct) auto

lemma Increment_successor:
  assumes "rep s (plug c (Br l N k e st (plug p (Br Tip S kS eS sS rS))))" "left_path p"
  shows "Increment (blocks s) N = Some S"
  using Increment_focus [OF assms(1)] left_path_pre [OF assms(2)] by simp

subsection \<open>Releasing the nodes below a node\<close>

lemma RecursiveUnInitialize_spec:
  assumes "tree_at h p t" "t \<noteq> Tip" "distinct (addrs t)" "heap_free_ok w" "m_Heap (m_Allocator w) \<noteq> 0"
  shows "RecursiveUnInitialize w h (root_of t) =
    Some (e_StatusCode_Success, h |` (- (set (addrs t) - {root_of t})))"
  using assms
proof (induction t arbitrary: h p)
  case (Br l a k e s r)
  have d: "a \<notin> set (addrs l)" "a \<notin> set (addrs r)" "set (addrs l) \<inter> set (addrs r) = {}"
    using Br.prems by auto
  have n: "root_of l = NULL \<longleftrightarrow> l = Tip" "root_of r = NULL \<longleftrightarrow> r = Tip"
    using Br.prems root_of_NULL by auto
  have rdA: "rd h' a = Some \<lparr>m_Key = k, m_Element = e, m_Left = root_of l, m_Right = root_of r,
                 m_Parent = p, m_State = s\<rparr>" if "h' a = h a" for h'
    using Br.prems that by (simp add: rd_def)
  let ?h1 = "h |` (- set (addrs l))"
  have L: "RecursiveUnInitialize w h (root_of l) = Some (e_StatusCode_Success, h |` (- (set (addrs l) - {root_of l})))"
    "snd (WmiAllocator_Delete w (m_Allocator w) (root_of l) (h |` (- (set (addrs l) - {root_of l})))) = ?h1"
    if "l \<noteq> Tip"
    using Br.IH(1) [of h a] Br.prems that root_of_in_addrs [of l]
    by (auto simp: Delete_ok restrict_map_def fun_eq_iff)
  have t1: "tree_at ?h1 a r"
    by (rule tree_at_agree [of h]) (use Br.prems d in \<open>auto simp: restrict_map_def\<close>)
  have R: "RecursiveUnInitialize w ?h1 (root_of r) = Some (e_StatusCode_Success, ?h1 |` (- (set (addrs r) - {root_of r})))"
    "snd (WmiAllocator_Delete w (m_Allocator w) (root_of r) (?h1 |` (- (set (addrs r) - {root_of r}))))
     = ?h1 |` (- set (addrs r))"
    if "r \<noteq> Tip"
    using Br.IH(2) [OF t1] Br.prems that root_of_in_addrs [of r]
    by (auto simp: Delete_ok restrict_map_def fun_eq_iff)
  have e: "l = Tip \<Longrightarrow> ?h1 = h" "r = Tip \<Longrightarrow> ?h1 |` (- set (addrs r)) = ?h1"
    by (simp_all add: restrict_map_def)
  have a1: "?h1 a = h a" using d by simp
  have "RecursiveUnInitialize w h a = Some (e_StatusCode_Success, ?h1 |` (- set (addrs r)))"
  proof (cases "l = Tip")
    case True
    show ?thesis
      using rdA [of h] e n R True
      by (cases "r = Tip"; subst RecursiveUnInitialize.simps) simp_all
  next
    case False
    show ?thesis
      using rdA [of h] rdA [of ?h1] a1 e n R L [OF False] False
      by (cases "r = Tip"; subst RecursiveUnInitialize.simps) simp_all
  qed
  also have "?h1 |` (- set (addrs r)) = h |` (- (set (addrs (Br l a k e s r)) - {a}))"
    using d by (auto simp: restrict_map_def fun_eq_iff)
  finally show ?case by simp
qed simp

end
