(* ===== verification/AvlInsert.thy ===== *)
theory AvlInsert
  imports AvlBalance TreeSplice
begin

text \<open>
  \<open>Insert\<close>: the climb restores the balance, and the whole operation adds exactly one entry in key
  order or leaves the object unchanged.
\<close>

definition avl_inv :: "('k::ord, 'e) avl \<Rightarrow> ('k, 'e, WmAvlState) tree \<Rightarrow> bool" where
  "avl_inv s T \<longleftrightarrow> rep s T \<and> avl T \<and> sorted_tree T \<and> size_ok s T \<and> no_leak s T"

lemma rep_m_Size [simp]: "rep (s\<lparr>m_Size := n\<rparr>) T = rep s T"
  by (simp add: rep_def)

lemma rep_m_Size' [simp]: "rep (s\<lparr>m_Size := n, blocks := h\<rparr>) T = rep (s\<lparr>blocks := h\<rparr>) T"
  by (simp add: rep_def)

lemma entries_addrs: "entries t = entries t' \<Longrightarrow> addrs t = addrs t'"
  by (metis map_fst_entries)

lemma root_of_Br: "t \<noteq> Tip \<Longrightarrow> \<exists>l k e st r. t = Br l (root_of t) k e st r"
  by (cases t) auto

text \<open>One turn of the climbing loop.\<close>

lemma Insert_Climb_step:
  assumes R: "rep s (plug (f # c) t)" and t: "t \<noteq> Tip" "avl t" "height t = Suc n"
    and c: "avl_ctx (f # c) n" and st: "n = 0 \<or> state_of t \<noteq> e_Equal"
  shows "\<exists>s' t' inc m. rep s' (plug c t') \<and> heap_keeps s s' \<and> entries (plug c t') = entries (plug (f # c) t) \<and>
    grown inc m t' \<and> avl_ctx c m \<and> 0 < m \<and>
    (inc \<longrightarrow> Insert_Climb a_Left s (root_of t) True = Insert_Climb a_Left s' (root_of t') True) \<and>
    (\<not> inc \<longrightarrow> Insert_Climb a_Left s (root_of t) True = Some s')"
proof (cases f)
  case (LF A k e sa r)
  note R' = R [unfolded LF plug.simps]
  obtain tl q tk te ts tr where tt: "t = Br tl q tk te ts tr"
    using t(1) by (cases t) auto
  have rdt: "\<exists>nt. rd (blocks s) (root_of t) = Some nt \<and> m_Parent nt = A"
    using rd_focus_l [OF R' [unfolded tt]] tt by simp
  obtain s' t' inc where s': "Insert_LeftBalance s A (root_of t) True =
        Some (e_StatusCode_Success, s', root_of t', inc)"
      "rep s' (plug c t')" "heap_keeps s s'" "entries t' = entries (Br t A k e sa r)"
      "grown inc (Suc (max n (height r))) t'" "inc \<longrightarrow> t' = Br t A k e e_LeftHigher r"
    using Insert_LeftBalance_spec [OF R' t(2) _ t(3), of] c st LF by (cases sa) auto
  have "root_of t \<in> set (addrs (plug c t'))"
    using s'(4) t(1) root_of_in_addrs entries_addrs [OF s'(4)] by (auto simp: addrs_plug)
  then obtain n' where n': "rd (blocks s') (root_of t) = Some n'"
    using rep_rd [OF s'(2)] by blast
  have inc: "inc \<Longrightarrow> m_Parent n' = root_of t'"
    using n' rd_focus_l [of s' c tl q tk te ts tr A k e e_LeftHigher r] s'(2,6) tt by auto
  note rdA = rd_focus [OF R']
  have step: "Insert_Climb a_Left s (root_of t) True =
      Insert_Climb a_Left s' (if a_Left then m_Parent n' else root_of t') inc"
    using rdt rdA s'(1) n' by (subst Insert_Climb.simps) auto
  have "Insert_Climb a_Left s' x False = Some s'" for x
    by (subst Insert_Climb.simps) simp
  with step inc have "inc \<longrightarrow> Insert_Climb a_Left s (root_of t) True = Insert_Climb a_Left s' (root_of t') True"
    "\<not> inc \<longrightarrow> Insert_Climb a_Left s (root_of t) True = Some s'"
    by (cases a_Left; simp)+
  with s' c LF show ?thesis
    by (intro exI [of _ s'] exI [of _ t'] exI [of _ inc] exI [of _ "Suc (max n (height r))"]) auto
next
  case (RF l A k e sa)
  note R' = R [unfolded RF plug.simps]
  obtain tl q tk te ts tr where tt: "t = Br tl q tk te ts tr"
    using t(1) by (cases t) auto
  have rdt: "\<exists>nt. rd (blocks s) (root_of t) = Some nt \<and> m_Parent nt = A"
    using rd_focus_r [OF R' [unfolded tt]] tt by simp
  obtain s' t' inc where s': "Insert_RightBalance s A (root_of t) True =
        Some (e_StatusCode_Success, s', root_of t', inc)"
      "rep s' (plug c t')" "heap_keeps s s'" "entries t' = entries (Br l A k e sa t)"
      "grown inc (Suc (max (height l) n)) t'" "inc \<longrightarrow> t' = Br l A k e e_RightHigher t"
    using Insert_RightBalance_spec [OF R' t(2) _ t(3), of] c st RF by (cases sa) auto
  have "root_of t \<in> set (addrs (plug c t'))"
    using s'(4) t(1) root_of_in_addrs entries_addrs [OF s'(4)] by (auto simp: addrs_plug)
  then obtain n' where n': "rd (blocks s') (root_of t) = Some n'"
    using rep_rd [OF s'(2)] by blast
  have inc: "inc \<Longrightarrow> m_Parent n' = root_of t'"
    using n' rd_focus_r [of s' c l A k e e_RightHigher tl q tk te ts tr] s'(2,6) tt by auto
  note rdA = rd_focus [OF R']
  have step: "Insert_Climb a_Left s (root_of t) True =
      Insert_Climb a_Left s' (if a_Left then m_Parent n' else root_of t') inc"
    using rdt rdA s'(1) n' rep_siblings(2) [OF R' t(1)] by (subst Insert_Climb.simps) auto
  have "Insert_Climb a_Left s' x False = Some s'" for x
    by (subst Insert_Climb.simps) simp
  with step inc have "inc \<longrightarrow> Insert_Climb a_Left s (root_of t) True = Insert_Climb a_Left s' (root_of t') True"
    "\<not> inc \<longrightarrow> Insert_Climb a_Left s (root_of t) True = Some s'"
    by (cases a_Left; simp)+
  with s' c RF show ?thesis
    by (intro exI [of _ s'] exI [of _ t'] exI [of _ inc] exI [of _ "Suc (max (height l) n)"]) auto
qed

lemma Insert_Climb_spec:
  assumes "rep s (plug c t)" "t \<noteq> Tip" "avl t" "height t = Suc n" "avl_ctx c n"
    and "n = 0 \<or> state_of t \<noteq> e_Equal"
  shows "\<exists>s' T. Insert_Climb a_Left s (root_of t) True = Some s' \<and> rep s' T \<and> avl T \<and>
    entries T = entries (plug c t) \<and> heap_keeps s s'"
  using assms
proof (induction c arbitrary: s t n)
  case Nil
  then obtain l k e st r where "t = Br l (root_of t) k e st r"
    using root_of_Br by blast
  then have "\<exists>nt. rd (blocks s) (root_of t) = Some nt \<and> m_Parent nt = NULL"
    using rd_focus(1) [of s "[]" l "root_of t" k e st r] Nil.prems by auto
  then have "Insert_Climb a_Left s (root_of t) True = Some s"
    by (subst Insert_Climb.simps) auto
  with Nil show ?case by (intro exI [of _ s] exI [of _ t]) simp
next
  case (Cons f c)
  obtain s' t' inc m where s': "rep s' (plug c t')" "heap_keeps s s'"
      "entries (plug c t') = entries (plug (f # c) t)" "grown inc m t'" "avl_ctx c m" "0 < m"
      "inc \<longrightarrow> Insert_Climb a_Left s (root_of t) True = Insert_Climb a_Left s' (root_of t') True"
      "\<not> inc \<longrightarrow> Insert_Climb a_Left s (root_of t) True = Some s'"
    using Insert_Climb_step [OF Cons.prems] by blast
  show ?case
  proof (cases inc)
    case False
    with s' have "avl (plug c t')" by (simp add: avl_plug grown_def)
    with s' False show ?thesis
      by (intro exI [of _ s'] exI [of _ "plug c t'"]) simp
  next
    case True
    with s'(4) have t': "t' \<noteq> Tip" "avl t'" "height t' = Suc m" "m = 0 \<or> state_of t' \<noteq> e_Equal"
      by (simp_all add: grown_def)
    then obtain s2 T where "Insert_Climb a_Left s' (root_of t') True = Some s2" "rep s2 T" "avl T"
      "entries T = entries (plug c t')" "heap_keeps s' s2"
      using Cons.IH [OF s'(1) _ _ _ s'(5)] by blast
    with s'(2,3,7) True show ?thesis
      using heap_keeps_trans [OF s'(2)] by (intro exI [of _ s2] exI [of _ T]) simp
  qed
qed

subsection \<open>The insertion itself\<close>

text \<open>
  What \<open>Insert\<close> promises between the entries \<open>pre\<close> and \<open>post\<close>: a new node between them, or a failure
  that leaves every block and, when releases succeed, the whole object as it was.
\<close>

definition insert_result ::
  "('k, 'e, WmAvlState, 'z) tree_env_scheme \<Rightarrow> ('k, 'e) avl \<Rightarrow> (addr \<times> 'k \<times> 'e) list \<Rightarrow> (addr \<times> 'k \<times> 'e) list
   \<Rightarrow> 'k \<Rightarrow> 'e \<Rightarrow> addr \<Rightarrow> (WmiStatusCode \<times> ('k, 'e) avl \<times> addr) option \<Rightarrow> bool" where
  "insert_result w s pre post key e it res \<longleftrightarrow>
     (\<exists>sc s' it' T'. res = Some (sc, s', it') \<and> rep s' T' \<and> avl T' \<and>
       sc = fst (NewNode w e_Equal (blocks s) key e) \<and>
       (sc = e_StatusCode_Success \<and> it' \<noteq> NULL \<and> blocks s it' = None \<and>
          entries T' = pre @ (it', key, e) # post \<and> m_Size s' = m_Size s + 1 \<and>
          dom (blocks s') = insert it' (dom (blocks s))
        \<or> sc \<noteq> e_StatusCode_Success \<and> it' = it \<and> m_Size s' = m_Size s \<and> entries T' = pre @ post \<and>
          (\<forall>b\<in>dom (blocks s). blocks s' b = blocks s b) \<and> (heap_free_ok w \<longrightarrow> s' = s)))"

lemma insert_failed:
  assumes "rep s T" "avl T" "sc \<noteq> e_StatusCode_Success" "\<forall>b\<in>dom (blocks s). h b = blocks s b"
    and "heap_free_ok w \<longrightarrow> h = blocks s" "entries T = pre @ post"
    and "NewNode w e_Equal (blocks s) key e = (sc, x)"
  shows "insert_result w s pre post key e it (Some (sc, s\<lparr>blocks := h\<rparr>, it))"
proof -
  have "rep (s\<lparr>blocks := h\<rparr>) T"
    by (rule rep_frame [OF assms(1)]) (use rep_dom [OF assms(1)] assms(4) in blast)
  then show ?thesis
    unfolding insert_result_def using assms
    by (intro exI [of _ sc] exI [of _ "s\<lparr>blocks := h\<rparr>"] exI [of _ it] exI [of _ T]) auto
qed

lemma insert_done:
  assumes "rep s' T'" "avl T'" "it' \<noteq> NULL" "blocks s it' = None" "entries T' = pre @ (it', key, e) # post"
    and "m_Size s' = m_Size s + 1" "dom (blocks s') = insert it' (dom (blocks s))"
    and "NewNode w e_Equal (blocks s) key e = (e_StatusCode_Success, x)"
  shows "insert_result w s pre post key e it (Some (e_StatusCode_Success, s', it'))"
  unfolding insert_result_def using assms
  by (intro exI [of _ e_StatusCode_Success] exI [of _ s'] exI [of _ it'] exI [of _ T']) simp

lemma Insert_AtLeft_spec:
  assumes R: "rep s (plug (LF p k ek st r # c) Tip)" and A: "avl (plug (LF p k ek st r # c) Tip)"
    and w: "heap_alloc_fresh w"
  shows "insert_result w s (pre_c c) (post_c (LF p k ek st r # c)) key e it
    (Insert_AtLeft w s p key e it)"
proof -
  obtain sc a h where n: "NewNode w e_Equal (blocks s) key e = (sc, a, h)"
    by (metis prod_cases3)
  show ?thesis
  proof (cases "sc = e_StatusCode_Success")
    case False
    then have "Insert_AtLeft w s p key e it = Some (sc, s\<lparr>blocks := h\<rparr>, it)"
      using n NewNode_cases [OF n w] by (simp add: Insert_AtLeft_def)
    moreover have "insert_result w s (pre_c c) (post_c (LF p k ek st r # c)) key e it (Some (sc, s\<lparr>blocks := h\<rparr>, it))"
      by (rule insert_failed [OF R A False]) (use NewNode_cases [OF n w] False n in simp_all)
    ultimately show ?thesis by simp
  next
    case True
    let ?s = "s\<lparr>m_Size := m_Size s + 1\<rparr>"
    from NewNode_cases [OF n w] True have a: "a \<noteq> NULL" "blocks s a = None"
      and h: "h = (blocks s)(a \<mapsto> \<lparr>m_Key = key, m_Element = e, m_Left = NULL, m_Right = NULL,
        m_Parent = NULL, m_State = e_Equal\<rparr>)"
      by auto
    obtain h1 h2 where h2: "set_Parent h a p = Some h1" "set_Left h1 p a = Some h2"
        "rep (?s\<lparr>blocks := h2\<rparr>) (plug c (Br (leaf a key e e_Equal) p k ek st r))"
        "dom h2 = insert a (dom (blocks s))"
      using attach_run [of ?s p k ek st r c a key e e_Equal] R a h by auto
    have bal: "avl r" "balanced st 0 (height r)" "avl_ctx c (Suc (max 0 (height r)))"
      using A by (simp_all add: avl_plug)
    obtain s' t' inc where s': "Insert_LeftBalance (?s\<lparr>blocks := h2\<rparr>) p a True =
          Some (e_StatusCode_Success, s', root_of t', inc)"
        "rep s' (plug c t')" "heap_keeps (?s\<lparr>blocks := h2\<rparr>) s'"
        "entries t' = entries (Br (leaf a key e e_Equal) p k ek st r)"
        "grown inc (Suc (max 0 (height r))) t'"
      using Insert_LeftBalance_spec [OF h2(3) _ bal(1) _ bal(2)] bal(2) by (cases st) auto
    have "\<exists>s'' T. Insert_Climb True s' (root_of t') inc = Some s'' \<and> rep s'' T \<and> avl T \<and>
        entries T = entries (plug c t') \<and> heap_keeps s' s''"
    proof (cases inc)
      case True
      with s'(5) have "t' \<noteq> Tip" "avl t'" "height t' = Suc (Suc (max 0 (height r)))" "state_of t' \<noteq> e_Equal"
        by (simp_all add: grown_def)
      with Insert_Climb_spec [OF s'(2) _ _ _ bal(3)] True show ?thesis by simp
    next
      case False
      with s'(5) bal(3) have "avl (plug c t')" by (simp add: avl_plug grown_def)
      moreover have "Insert_Climb True s' (root_of t') False = Some s'"
        by (subst Insert_Climb.simps) simp
      ultimately show ?thesis
        using s'(2) False by (intro exI [of _ s'] exI [of _ "plug c t'"]) simp
    qed
    then obtain s'' T where s2: "Insert_Climb True s' (root_of t') inc = Some s''" "rep s'' T" "avl T"
        "entries T = entries (plug c t')" "heap_keeps s' s''" by blast
    have "Insert_AtLeft w s p key e it = Some (e_StatusCode_Success, s'', a)"
      using n True h2(1,2) s'(1) s2(1) by (simp add: Insert_AtLeft_def)
    moreover have "insert_result w s (pre_c c) (post_c (LF p k ek st r # c)) key e it (Some (e_StatusCode_Success, s'', a))"
      by (rule insert_done [OF s2(2,3) a]) (use s2(4,5) s'(3,4) h2(4) n True in \<open>simp_all add: heap_keeps_def\<close>)
    ultimately show ?thesis by simp
  qed
qed

lemma Insert_AtRight_spec:
  assumes R: "rep s (plug (RF l p k ek st # c) Tip)" and A: "avl (plug (RF l p k ek st # c) Tip)"
    and w: "heap_alloc_fresh w"
  shows "insert_result w s (pre_c (RF l p k ek st # c)) (post_c c) key e it
    (Insert_AtRight w s p key e it)"
proof -
  obtain sc a h where n: "NewNode w e_Equal (blocks s) key e = (sc, a, h)"
    by (metis prod_cases3)
  show ?thesis
  proof (cases "sc = e_StatusCode_Success")
    case False
    then have "Insert_AtRight w s p key e it = Some (sc, s\<lparr>blocks := h\<rparr>, it)"
      using n NewNode_cases [OF n w] by (simp add: Insert_AtRight_def)
    moreover have "insert_result w s (pre_c (RF l p k ek st # c)) (post_c c) key e it (Some (sc, s\<lparr>blocks := h\<rparr>, it))"
      by (rule insert_failed [OF R A False]) (use NewNode_cases [OF n w] False n in simp_all)
    ultimately show ?thesis by simp
  next
    case True
    let ?s = "s\<lparr>m_Size := m_Size s + 1\<rparr>"
    from NewNode_cases [OF n w] True have a: "a \<noteq> NULL" "blocks s a = None"
      and h: "h = (blocks s)(a \<mapsto> \<lparr>m_Key = key, m_Element = e, m_Left = NULL, m_Right = NULL,
        m_Parent = NULL, m_State = e_Equal\<rparr>)"
      by auto
    obtain h1 h2 where h2: "set_Parent h a p = Some h1" "set_Right h1 p a = Some h2"
        "rep (?s\<lparr>blocks := h2\<rparr>) (plug c (Br l p k ek st (leaf a key e e_Equal)))"
        "dom h2 = insert a (dom (blocks s))"
      using attach_run_right [of ?s l p k ek st c a key e e_Equal] R a h by auto
    have bal: "avl l" "balanced st (height l) 0" "avl_ctx c (Suc (max (height l) 0))"
      using A by (simp_all add: avl_plug)
    obtain s' t' inc where s': "Insert_RightBalance (?s\<lparr>blocks := h2\<rparr>) p a True =
          Some (e_StatusCode_Success, s', root_of t', inc)"
        "rep s' (plug c t')" "heap_keeps (?s\<lparr>blocks := h2\<rparr>) s'"
        "entries t' = entries (Br l p k ek st (leaf a key e e_Equal))"
        "grown inc (Suc (max (height l) 0)) t'"
      using Insert_RightBalance_spec [OF h2(3) _ bal(1) _ bal(2)] bal(2) by (cases st) auto
    have "\<exists>s'' T. Insert_Climb False s' (root_of t') inc = Some s'' \<and> rep s'' T \<and> avl T \<and>
        entries T = entries (plug c t') \<and> heap_keeps s' s''"
    proof (cases inc)
      case True
      with s'(5) have "t' \<noteq> Tip" "avl t'" "height t' = Suc (Suc (max (height l) 0))" "state_of t' \<noteq> e_Equal"
        by (simp_all add: grown_def)
      with Insert_Climb_spec [OF s'(2) _ _ _ bal(3)] True show ?thesis by simp
    next
      case False
      with s'(5) bal(3) have "avl (plug c t')" by (simp add: avl_plug grown_def)
      moreover have "Insert_Climb False s' (root_of t') False = Some s'"
        by (subst Insert_Climb.simps) simp
      ultimately show ?thesis
        using s'(2) False by (intro exI [of _ s'] exI [of _ "plug c t'"]) simp
    qed
    then obtain s'' T where s2: "Insert_Climb False s' (root_of t') inc = Some s''" "rep s'' T" "avl T"
        "entries T = entries (plug c t')" "heap_keeps s' s''" by blast
    have "Insert_AtRight w s p key e it = Some (e_StatusCode_Success, s'', a)"
      using n True h2(1,2) s'(1) s2(1) by (simp add: Insert_AtRight_def)
    moreover have "insert_result w s (pre_c (RF l p k ek st # c)) (post_c c) key e it (Some (e_StatusCode_Success, s'', a))"
      by (rule insert_done [OF s2(2,3) a]) (use s2(4,5) s'(3,4) h2(4) n True in \<open>simp_all add: heap_keeps_def\<close>)
    ultimately show ?thesis by simp
  qed
qed

lemma Insert_Loop_locate:
  "rep s (plug c t) \<Longrightarrow> t \<noteq> Tip \<Longrightarrow> Insert_Loop w s (root_of t) key e it =
     (case locate key c t of (c', t') \<Rightarrow> (case t' of
        Br l a k ek st r \<Rightarrow> Some (e_StatusCode_AlreadyExists, s, it)
      | Tip \<Rightarrow> (case c' of
          LF p k ek st r # c'' \<Rightarrow> Insert_AtLeft w s p key e it
        | RF l p k ek st # c'' \<Rightarrow> Insert_AtRight w s p key e it
        | [] \<Rightarrow> None)))"
proof (induction key c t rule: locate.induct)
  case (2 key c l a k ek st r)
  note R = "2.prems"(1)
  have n: "root_of l = NULL \<longleftrightarrow> l = Tip" "root_of r = NULL \<longleftrightarrow> r = Tip"
    using rep_focus(2) [OF R] root_of_NULL by auto
  show ?case
    using 2 n rd_focus [OF R]
    by (cases "key = k"; cases "key < k"; cases "l = Tip"; cases "r = Tip"; subst Insert_Loop.simps)
      (simp_all add: CompareElement_def)
qed simp

lemma Avl_Insert_spec:
  assumes I: "avl_inv s T" and w: "heap_alloc_fresh w"
    and K: "ordered_keys (insert key (set (tree_keys T)))"
  shows "if key \<in> set (tree_keys T) then Avl_Insert w s key e it = Some (e_StatusCode_AlreadyExists, s, it)
    else insert_result w s (filter (\<lambda>x. fst (snd x) < key) (entries T))
      (filter (\<lambda>x. key < fst (snd x)) (entries T)) key e it (Avl_Insert w s key e it)"
proof (cases "T = Tip")
  case True
  obtain sc a h where n: "NewNode w e_Equal (blocks s) key e = (sc, a, h)"
    by (metis prod_cases3)
  have R: "rep s Tip" "m_Root s = NULL" using I True by (auto simp: avl_inv_def rep_def)
  show ?thesis
  proof (cases "sc = e_StatusCode_Success")
    case False
    then have "Avl_Insert w s key e it = Some (sc, s\<lparr>blocks := h\<rparr>, it)"
      using n R by (simp add: Avl_Insert_def)
    moreover have "insert_result w s [] [] key e it (Some (sc, s\<lparr>blocks := h\<rparr>, it))"
      by (rule insert_failed [OF R(1) _ False]) (use NewNode_cases [OF n w] False n in simp_all)
    ultimately show ?thesis using True by simp
  next
    case sc: True
    from NewNode_cases [OF n w] sc have a: "a \<noteq> NULL" "blocks s a = None"
      and h: "h = (blocks s)(a \<mapsto> \<lparr>m_Key = key, m_Element = e, m_Left = NULL, m_Right = NULL,
        m_Parent = NULL, m_State = e_Equal\<rparr>)"
      by auto
    have "rep (s\<lparr>m_Root := a, m_Size := m_Size s + 1, blocks := h\<rparr>) (leaf a key e e_Equal)"
      using a h by (simp add: rep_def)
    then have "insert_result w s [] [] key e it
        (Some (e_StatusCode_Success, s\<lparr>m_Root := a, m_Size := m_Size s + 1, blocks := h\<rparr>, a))"
      by (rule insert_done [OF _ _ a]) (use h n sc in simp_all)
    with n R sc True show ?thesis
      by (simp add: Avl_Insert_def)
  qed
next
  case False
  have R: "rep s (plug [] T)" "avl T" "sorted_tree T" using I by (auto simp: avl_inv_def)
  have root: "m_Root s = root_of T" "m_Root s \<noteq> NULL"
    using R(1) False rep_plug_nonnull [OF R(1)] by (auto simp: rep_def)
  obtain c' t' where l: "locate key [] T = (c', t')" by fastforce
  have T: "plug c' t' = T" using locate_plug [OF l] by simp
  show ?thesis
  proof (cases t')
    case (Br l a k ek st r)
    with located_present(2) [OF l [unfolded Br] R(3) K] l root
      Insert_Loop_locate [OF R(1) False, of w key e it] Br
    show ?thesis by (simp add: Avl_Insert_def)
  next
    case Tip
    note ab = located_absent [OF l [unfolded Tip] R(3) K]
    have c': "rep s (plug c' Tip)" "avl (plug c' Tip)" using T Tip R(1,2) by auto
    show ?thesis
    proof (cases c' rule: up.cases)
      case 1
      with T Tip False show ?thesis by simp
    next
      case (2 p k ek st r c)
      with Insert_AtLeft_spec [OF c' [unfolded 2] w, of key e it] ab l Tip root
        Insert_Loop_locate [OF R(1) False, of w key e it]
      show ?thesis by (simp add: Avl_Insert_def)
    next
      case (3 lt p k ek st c)
      with Insert_AtRight_spec [OF c' [unfolded 3] w, of key e it] ab l Tip root
        Insert_Loop_locate [OF R(1) False, of w key e it]
      show ?thesis by (simp add: Avl_Insert_def)
    qed
  qed
qed

lemma absent_entries:
  assumes "sorted_tree T" "ordered_keys (insert key (set (tree_keys T)))" "key \<notin> set (tree_keys T)"
  shows "entries T = filter (\<lambda>x. fst (snd x) < key) (entries T) @ filter (\<lambda>x. key < fst (snd x)) (entries T)"
proof -
  obtain c t' where l: "locate key [] T = (c, t')" by fastforce
  have "t' = Tip"
    using locate_shape [OF l] located_present(2) [of key T c] l assms by blast
  with located_absent [OF l [unfolded \<open>t' = Tip\<close>] assms(1,2)] locate_plug [OF l]
  show ?thesis by (metis append.left_neutral entries.simps(1) entries_plug plug.simps(1))
qed

lemma sorted_insert:
  assumes "sorted_wrt (<) (map f xs)" "ordered_keys (insert (f x) (f ` set xs))"
  shows "sorted_wrt (<) (map f (filter (\<lambda>y. f y < f x) xs @ x # filter (\<lambda>y. f x < f y) xs))"
proof -
  have "f y < f z" if "y \<in> set xs" "z \<in> set xs" "f y < f x" "f x < f z" for y z
    by (rule ordered_keys_trans [OF assms(2), of _ "f x"]) (use that in auto)
  moreover have "sorted_wrt (<) (map f (filter P xs))" for P
    using assms(1) by (induction xs) auto
  ultimately show ?thesis
    by (auto simp: sorted_wrt_append)
qed

lemma avl_inv_inserted:
  assumes I: "avl_inv s T" and K: "ordered_keys (insert key (set (tree_keys T)))"
    and k: "key \<notin> set (tree_keys T)"
    and T': "rep s' T'" "avl T'" "m_Size s' = m_Size s + 1" "dom (blocks s') = insert a (dom (blocks s))"
      "entries T' = filter (\<lambda>x. fst (snd x) < key) (entries T) @ (a, key, e) #
         filter (\<lambda>x. key < fst (snd x)) (entries T)"
  shows "avl_inv s' T'"
proof -
  from I have T: "sorted_tree T" "size_ok s T" "no_leak s T" by (auto simp: avl_inv_def)
  note split = absent_entries [OF T(1) K k]
  have "sorted_tree T'"
    using sorted_insert [of "\<lambda>x. fst (snd x)" "entries T" "(a, key, e)"] T(1) K
    by (simp add: sorted_tree_def T'(5) image_image)
  moreover have "length (entries T') = Suc (length (entries T))"
    using arg_cong [OF split, of length] by (simp add: T'(5))
  then have "size_ok s' T'"
    using T(2) T'(3) by (simp add: size_ok_def)
  moreover have "set (entries T') = insert (a, key, e) (set (entries T))"
    using arg_cong [OF split, of set] by (simp add: T'(5))
  then have "set (addrs T') = insert a (set (addrs T))"
    by (simp flip: map_fst_entries)
  then have "no_leak s' T'"
    using T(3) T'(4) by (simp add: no_leak_def)
  ultimately show ?thesis using T'(1,2) by (simp add: avl_inv_def)
qed

text \<open>The contract of \<open>Insert\<close>, every branch.\<close>

lemma Avl_Insert_contract:
  assumes I: "avl_inv s T" and w: "heap_alloc_fresh w"
    and K: "ordered_keys (insert key (set (tree_keys T)))"
  shows "\<exists>sc s' it' T'. Avl_Insert w s key e it = Some (sc, s', it') \<and>
    (key \<in> set (tree_keys T) \<longrightarrow> sc = e_StatusCode_AlreadyExists \<and> s' = s \<and> it' = it) \<and>
    (key \<notin> set (tree_keys T) \<longrightarrow> sc = fst (NewNode w e_Equal (blocks s) key e)) \<and>
    (sc = e_StatusCode_Success \<longrightarrow> avl_inv s' T' \<and> it' \<notin> dom (blocks s) \<and>
       entries T' = filter (\<lambda>x. fst (snd x) < key) (entries T) @ (it', key, e) #
         filter (\<lambda>x. key < fst (snd x)) (entries T)) \<and>
    (sc \<noteq> e_StatusCode_Success \<and> heap_free_ok w \<longrightarrow> s' = s \<and> it' = it)"
proof (cases "key \<in> set (tree_keys T)")
  case True
  with Avl_Insert_spec [OF I w K, of e it] show ?thesis by simp
next
  case False
  with Avl_Insert_spec [OF I w K, of e it]
  have ir: "insert_result w s (filter (\<lambda>x. fst (snd x) < key) (entries T))
      (filter (\<lambda>x. key < fst (snd x)) (entries T)) key e it (Avl_Insert w s key e it)"
    by simp
  then obtain sc s' it' T' where r: "Avl_Insert w s key e it = Some (sc, s', it')" "rep s' T'" "avl T'"
      "sc = fst (NewNode w e_Equal (blocks s) key e)"
    and d: "sc = e_StatusCode_Success \<and> it' \<noteq> NULL \<and> blocks s it' = None \<and>
          entries T' = filter (\<lambda>x. fst (snd x) < key) (entries T) @ (it', key, e) #
            filter (\<lambda>x. key < fst (snd x)) (entries T) \<and> m_Size s' = m_Size s + 1 \<and>
          dom (blocks s') = insert it' (dom (blocks s))
        \<or> sc \<noteq> e_StatusCode_Success \<and> it' = it \<and> (heap_free_ok w \<longrightarrow> s' = s)"
    unfolding insert_result_def by blast
  then have "sc = e_StatusCode_Success \<Longrightarrow> avl_inv s' T'"
    using avl_inv_inserted [OF I K False r(2,3)] by blast
  with r d False show ?thesis
    by (intro exI [of _ sc] exI [of _ s'] exI [of _ it'] exI [of _ T']) (auto simp: domIff)
qed

end
