(* ===== verification/AvlDelete.thy ===== *)
theory AvlDelete
  imports AvlInsert
begin

text \<open>
  \<open>Delete\<close>: the node is taken out, the balance is restored on the path above it, and exactly the
  entry of the key disappears.
\<close>

lemma rep_root_parent:
  assumes "rep s (plug c t)" "t \<noteq> Tip"
  shows "\<exists>n. rd (blocks s) (root_of t) = Some n \<and> m_Parent n = up c"
proof -
  obtain l a k e st r where "t = Br l a k e st r" using assms(2) by (cases t) auto
  with assms(1) rd_focus(1) show ?thesis by fastforce
qed

fun left_hole :: "('k, 'e, 's) ctx \<Rightarrow> bool" where
  "left_hole (LF a k e s r # c) \<longleftrightarrow> True"
| "left_hole c \<longleftrightarrow> False"

lemma parent_side:
  assumes "rep s (plug c t)" "t \<noteq> Tip" "c \<noteq> []"
  shows "\<exists>np. rd (blocks s) (up c) = Some np \<and> (m_Left np = root_of t \<longleftrightarrow> left_hole c) \<and> up c \<noteq> NULL"
proof (cases c rule: up.cases)
  case (2 a k e st r c')
  with rd_focus [of s c' t a k e st r] assms show ?thesis by auto
next
  case (3 l a k e st c')
  with rd_focus [of s c' l a k e st t] rep_siblings(2) [of s c' l a k e st t] assms show ?thesis by auto
qed (use assms in simp)

lemma Delete_Climb_False [simp]: "Delete_Climb s p side False = Some s"
  by (subst Delete_Climb.simps) simp

lemma Delete_Climb_NULL [simp]: "Delete_Climb s NULL side dec = Some s"
  by (subst Delete_Climb.simps) simp

lemma Delete_Balance_False [simp]:
  "Delete_LeftBalance s A B False = Some (e_StatusCode_Success, s, A, False)"
  "Delete_RightBalance s A B False = Some (e_StatusCode_Success, s, A, False)"
  by (simp_all add: Delete_LeftBalance_def Delete_RightBalance_def)

text \<open>One turn of the climb above the deleted node.\<close>

lemma Delete_Climb_step:
  assumes R: "rep s (plug (f # c) t)" and t: "avl t" and c: "avl_ctx (f # c) (Suc (height t))"
  shows "\<exists>s' t' dec m. rep s' (plug c t') \<and> heap_keeps s s' \<and> entries (plug c t') = entries (plug (f # c) t) \<and>
    t' \<noteq> Tip \<and> shrunk dec m t' \<and> avl_ctx c m \<and>
    Delete_Climb s (up (f # c)) (left_hole (f # c)) True = Delete_Climb s' (up c) (left_hole c) dec"
proof (cases f)
  case (LF A k e sa r)
  note R' = R [unfolded LF plug.simps]
  obtain s' t' dec where s': "Delete_LeftBalance s A (root_of r) True =
        Some (e_StatusCode_Success, s', root_of t', dec)"
      "rep s' (plug c t')" "heap_keeps s s'" "entries t' = entries (Br t A k e sa r)" "t' \<noteq> Tip"
      "shrunk dec (Suc (max (Suc (height t)) (height r))) t'"
    using Delete_LeftBalance_spec [OF R' t] c LF by auto
  obtain n' where "rd (blocks s') (root_of t') = Some n'" "m_Parent n' = up c"
    using rep_root_parent [OF s'(2,5)] by blast
  with s'(1) rd_focus [OF R'] LF parent_side [OF s'(2,5)]
  have "Delete_Climb s (up (f # c)) (left_hole (f # c)) True = Delete_Climb s' (up c) (left_hole c) dec"
    by (cases "c = []"; subst Delete_Climb.simps) auto
  with s' c LF show ?thesis
    by (intro exI [of _ s'] exI [of _ t'] exI [of _ dec]
        exI [of _ "Suc (max (Suc (height t)) (height r))"]) simp
next
  case (RF l A k e sa)
  note R' = R [unfolded RF plug.simps]
  obtain s' t' dec where s': "Delete_RightBalance s A (root_of l) True =
        Some (e_StatusCode_Success, s', root_of t', dec)"
      "rep s' (plug c t')" "heap_keeps s s'" "entries t' = entries (Br l A k e sa t)" "t' \<noteq> Tip"
      "shrunk dec (Suc (max (height l) (Suc (height t)))) t'"
    using Delete_RightBalance_spec [OF R' t] c RF by auto
  obtain n' where "rd (blocks s') (root_of t') = Some n'" "m_Parent n' = up c"
    using rep_root_parent [OF s'(2,5)] by blast
  with s'(1) rd_focus [OF R'] RF parent_side [OF s'(2,5)]
  have "Delete_Climb s (up (f # c)) (left_hole (f # c)) True = Delete_Climb s' (up c) (left_hole c) dec"
    by (cases "c = []"; subst Delete_Climb.simps) auto
  with s' c RF show ?thesis
    by (intro exI [of _ s'] exI [of _ t'] exI [of _ dec]
        exI [of _ "Suc (max (height l) (Suc (height t)))"]) simp
qed

lemma Delete_Climb_spec:
  assumes "rep s (plug c t)" "avl_ctx c m" "shrunk dec m t"
  shows "\<exists>s' T. Delete_Climb s (up c) (left_hole c) dec = Some s' \<and> rep s' T \<and> avl T \<and>
    entries T = entries (plug c t) \<and> heap_keeps s s'"
  using assms
proof (induction c arbitrary: s t m dec)
  case Nil
  then show ?case by (intro exI [of _ s] exI [of _ t]) (simp add: shrunk_def)
next
  case (Cons f c)
  show ?case
  proof (cases dec)
    case False
    with Cons.prems have "avl (plug (f # c) t)"
      by (simp add: avl_plug shrunk_def del: plug.simps)
    with False Cons.prems show ?thesis
      by (intro exI [of _ s] exI [of _ "plug (f # c) t"]) simp
  next
    case True
    with Cons.prems have t: "avl t" "avl_ctx (f # c) (Suc (height t))"
      by (simp_all add: shrunk_def)
    obtain s' t' dec' m' where s': "rep s' (plug c t')" "heap_keeps s s'"
        "entries (plug c t') = entries (plug (f # c) t)" "shrunk dec' m' t'" "avl_ctx c m'"
        "Delete_Climb s (up (f # c)) (left_hole (f # c)) True = Delete_Climb s' (up c) (left_hole c) dec'"
      using Delete_Climb_step [OF Cons.prems(1) t] by blast
    obtain s2 T where "Delete_Climb s' (up c) (left_hole c) dec' = Some s2" "rep s2 T" "avl T"
        "entries T = entries (plug c t')" "heap_keeps s' s2"
      using Cons.IH [OF s'(1,5,4)] by blast
    with s' True heap_keeps_trans [OF s'(2)] show ?thesis
      by (intro exI [of _ s2] exI [of _ T]) simp
  qed
qed

subsection \<open>The rebalancing loop of case 4\<close>

fun ctx_height :: "('k, 'e, 's) ctx \<Rightarrow> nat \<Rightarrow> nat" where
  "ctx_height [] n = n"
| "ctx_height (LF a k e s r # c) n = ctx_height c (Suc (max n (height r)))"
| "ctx_height (RF l a k e s # c) n = ctx_height c (Suc (max (height l) n))"

lemma height_plug: "height (plug c t) = ctx_height c (height t)"
  by (induction c t rule: plug.induct) auto

lemma DeleteFixup_Loop_step:
  assumes R: "rep s (plug (LF A k e sa r # q) t)" and c: "avl_ctx (LF A k e sa r # p) m"
    and t: "shrunk dec m t"
  shows "\<exists>s' t' dec'. rep s' (plug q t') \<and> heap_keeps s s' \<and> entries t' = entries (Br t A k e sa r) \<and>
    shrunk dec' (Suc (max m (height r))) t' \<and> avl_ctx p (Suc (max m (height r))) \<and>
    DeleteFixup_Loop s A S dec =
      (if up q \<noteq> S then DeleteFixup_Loop s' (up q) S dec' else Some (e_StatusCode_Success, s', up q, dec'))"
proof (cases dec)
  case True
  note R' = R [unfolded plug.simps]
  have m: "m = Suc (height t)" and t': "avl t" using t True by (simp_all add: shrunk_def)
  obtain s' t' dec' where s': "Delete_LeftBalance s A (root_of r) True =
        Some (e_StatusCode_Success, s', root_of t', dec')"
      "rep s' (plug q t')" "heap_keeps s s'" "entries t' = entries (Br t A k e sa r)" "t' \<noteq> Tip"
      "shrunk dec' (Suc (max m (height r))) t'"
    using Delete_LeftBalance_spec [OF R' t'] c m by auto
  obtain n' where "rd (blocks s') (root_of t') = Some n'" "m_Parent n' = up q"
    using rep_root_parent [OF s'(2,5)] by blast
  with s'(1) rd_focus [OF R'] True
  have "DeleteFixup_Loop s A S dec = (if up q \<noteq> S then DeleteFixup_Loop s' (up q) S dec'
      else Some (e_StatusCode_Success, s', up q, dec'))"
    by (subst DeleteFixup_Loop.simps) simp
  with s' c show ?thesis by (intro exI [of _ s'] exI [of _ t'] exI [of _ dec']) simp
next
  case False
  note R' = R [unfolded plug.simps]
  have "DeleteFixup_Loop s A S dec = (if up q \<noteq> S then DeleteFixup_Loop s (up q) S dec
      else Some (e_StatusCode_Success, s, up q, dec))"
    using rd_focus [OF R'] False by (subst DeleteFixup_Loop.simps) simp
  with R' c t False show ?thesis
    by (intro exI [of _ s] exI [of _ "Br t A k e sa r"] exI [of _ dec]) (simp add: shrunk_def)
qed

lemma DeleteFixup_Loop_spec:
  assumes "rep s (plug (p @ RF l S k e st # c) t)" "p \<noteq> []" "left_path p"
    and "avl_ctx p m" "shrunk dec m t"
  shows "\<exists>s' t' dec'. DeleteFixup_Loop s (up p) S dec = Some (e_StatusCode_Success, s', S, dec') \<and>
    rep s' (plug (RF l S k e st # c) t') \<and> heap_keeps s s' \<and> entries t' = entries (plug p t) \<and>
    shrunk dec' (ctx_height p m) t'"
  using assms
proof (induction p arbitrary: s t m dec)
  case (Cons f p)
  then obtain A ka ea sa r where f: "f = LF A ka ea sa r" and lp: "left_path p"
    by (cases f) auto
  let ?q = "p @ RF l S k e st # c"
  obtain s' t' dec' where s': "rep s' (plug ?q t')" "heap_keeps s s'" "entries t' = entries (Br t A ka ea sa r)"
      "shrunk dec' (Suc (max m (height r))) t'" "avl_ctx p (Suc (max m (height r)))"
      "DeleteFixup_Loop s A S dec = (if up ?q \<noteq> S then DeleteFixup_Loop s' (up ?q) S dec'
         else Some (e_StatusCode_Success, s', up ?q, dec'))"
    using DeleteFixup_Loop_step [of s A ka ea sa r ?q t p m dec S] Cons.prems f by auto
  show ?case
  proof (cases "p = []")
    case True
    with s' f show ?thesis by (intro exI [of _ s'] exI [of _ t'] exI [of _ dec']) simp
  next
    case False
    have "up p \<noteq> S"
      using rep_focus(5) [OF s'(1)] up_in_ctx [OF False] by auto
    then have e: "DeleteFixup_Loop s A S dec = DeleteFixup_Loop s' (up p) S dec'"
      using s'(6) False by (simp add: up_append)
    obtain s2 t2 dec2 where "DeleteFixup_Loop s' (up p) S dec' = Some (e_StatusCode_Success, s2, S, dec2)"
        "rep s2 (plug (RF l S k e st # c) t2)" "heap_keeps s' s2" "entries t2 = entries (plug p t')"
        "shrunk dec2 (ctx_height p (Suc (max m (height r)))) t2"
      using Cons.IH [OF s'(1) False lp s'(5,4)] by blast
    with e f s'(3) heap_keeps_trans [OF s'(2)] show ?thesis
      by (intro exI [of _ s2] exI [of _ t2] exI [of _ dec2]) simp
  qed
qed simp

subsection \<open>Taking the node out\<close>

text \<open>What every case of \<open>DeleteFixup\<close> establishes before the node is released.\<close>

definition taken_out ::
  "('k, 'e) avl \<Rightarrow> ('k, 'e, WmAvlState) ctx \<Rightarrow> ('k, 'e, WmAvlState) tree \<Rightarrow> ('k, 'e, WmAvlState) tree \<Rightarrow> nat
   \<Rightarrow> ('k, 'e) avl \<Rightarrow> bool \<Rightarrow> bool" where
  "taken_out s c l r m s' dec \<longleftrightarrow>
     (\<exists>t'. rep s' (plug c t') \<and> heap_keeps s s' \<and> entries t' = entries l @ entries r \<and> shrunk dec m t')"

lemma DeleteFixup_Splice_spec:
  assumes R: "rep s (plug c (Br l N k e st r))" and A: "avl (Br l N k e st r)"
    and one: "l = Tip \<or> r = Tip"
  shows "\<exists>s' dec. DeleteFixup_Splice s N = Some (s', dec) \<and>
    taken_out s c l r (height (Br l N k e st r)) s' dec"
proof -
  define t where "t = (if l = Tip then r else l)"
  have t: "t = r \<and> l = Tip \<or> t = l \<and> r = Tip" using one by (auto simp: t_def)
  let ?h = "upd (upd (blocks s) (up c) (slot_to c (root_of t))) (root_of t) (parent_to (up c))"
  let ?s1 = "s\<lparr>m_Root := ctx_root c (root_of t), blocks := ?h\<rparr>"
  have R1: "rep ?s1 (plug c t)" by (rule splice_out [OF R t])
  have n: "root_of l = NULL \<longleftrightarrow> l = Tip" "root_of r = NULL \<longleftrightarrow> r = Tip"
    using rep_focus(2) [OF R] root_of_NULL by auto
  have rl: "relink s (up c) N (root_of t) =
      Some (s\<lparr>m_Root := ctx_root c (root_of t), blocks := upd (blocks s) (up c) (slot_to c (root_of t))\<rparr>)"
    using relink_upd [OF R] by simp
  note rdN = rd_focus(1) [OF R]
  show ?thesis
  proof (cases "t = Tip")
    case True
    with t have tips: "l = Tip" "r = Tip" by auto
    with rl rdN True have "DeleteFixup_Splice s N = Some (?s1, True)"
      by (simp add: DeleteFixup_Splice_def)
    moreover have "taken_out s c l r (height (Br l N k e st r)) ?s1 True"
      using R1 True tips by (auto simp: taken_out_def heap_keeps_def shrunk_def)
    ultimately show ?thesis by blast
  next
    case False
    then obtain tl q tk te ts tr where tt: "t = Br tl q tk te ts tr" by (cases t) auto
    obtain g where g: "set_State ?h q st = Some g"
        "rep (?s1\<lparr>blocks := g\<rparr>) (plug c (Br tl q tk te st tr))" "heap_keeps ?s1 (?s1\<lparr>blocks := g\<rparr>)"
      using set_State_spec [OF R1 [unfolded tt], of st] tt by auto
    have q: "q \<noteq> NULL" "q \<in> dom (blocks s)"
      using rep_addr_dom [OF R, of q] t tt by auto
    have P: "set_Parent (upd (blocks s) (up c) (slot_to c q)) q (up c) = Some ?h"
      using q tt by (simp add: set_upd)
    have at: "avl tl" "avl tr" "height tl = 0" "height tr = 0"
      "st = (if l = Tip then e_RightHigher else e_LeftHigher)" "height t = 1"
      using A t tt by (cases st; cases ts; auto)+
    note rdq = rd_focus [OF g(2)]
    have k: "heap_keeps s (?s1\<lparr>blocks := g\<rparr>)"
      using g(3) by (simp add: heap_keeps_def)
    show ?thesis
    proof (cases "l = Tip")
      case True
      with t False have tr: "t = r" by auto
      have rq: "root_of r = q" "root_of t = q" using tr tt by auto
      obtain s' t' dec where s': "Delete_RightBalance (?s1\<lparr>blocks := g\<rparr>) q (root_of tl) True =
          Some (e_StatusCode_Success, s', root_of t', dec)" "rep s' (plug c t')"
          "heap_keeps (?s1\<lparr>blocks := g\<rparr>) s'" "entries t' = entries (Br tl q tk te st tr)"
          "shrunk dec (Suc (max (height tl) (Suc (height tr)))) t'"
        using Delete_RightBalance_spec [OF g(2) at(2,1)] at True by auto
      have "DeleteFixup_Splice s N = Some (s', dec)"
        using rl rdN True q P g(1) s'(1) rdq rq
        by (simp add: DeleteFixup_Splice_def Let_def)
      moreover have "taken_out s c l r (height (Br l N k e st r)) s' dec"
        using s' True tr tt at heap_keeps_trans [OF k s'(3)] by (auto simp: taken_out_def)
      ultimately show ?thesis by blast
    next
      case l: False
      with t one have tl: "t = l" "r = Tip" by auto
      have rq: "root_of l = q" "root_of t = q" using tl tt by auto
      obtain s' t' dec where s': "Delete_LeftBalance (?s1\<lparr>blocks := g\<rparr>) q (root_of tr) True =
          Some (e_StatusCode_Success, s', root_of t', dec)" "rep s' (plug c t')"
          "heap_keeps (?s1\<lparr>blocks := g\<rparr>) s'" "entries t' = entries (Br tl q tk te st tr)"
          "shrunk dec (Suc (max (Suc (height tl)) (height tr))) t'"
        using Delete_LeftBalance_spec [OF g(2) at(1,2)] at l by auto
      have "DeleteFixup_Splice s N = Some (s', dec)"
        using rl rdN l q P g(1) s'(1) rdq rq
        by (simp add: DeleteFixup_Splice_def Let_def)
      moreover have "taken_out s c l r (height (Br l N k e st r)) s' dec"
        using s' l tl tt at heap_keeps_trans [OF k s'(3)] by (auto simp: taken_out_def)
      ultimately show ?thesis by blast
    qed
  qed
qed

text \<open>Cases 3 and 4 end with a right balance of the successor in its new place.\<close>

lemma final_RightBalance:
  assumes R: "rep s (plug c (Br l S k e st t))" and A: "avl l" "shrunk dec m t"
    and b: "balanced st (height l) m"
  shows "\<exists>s' q dec'. Delete_RightBalance s S (root_of l) dec = Some (e_StatusCode_Success, s', q, dec') \<and>
    (\<exists>t'. rep s' (plug c t') \<and> heap_keeps s s' \<and> entries t' = entries l @ (S, k, e) # entries t \<and>
       shrunk dec' (Suc (max (height l) m)) t')"
proof (cases dec)
  case True
  with A(2) have m: "m = Suc (height t)" "avl t" by (simp_all add: shrunk_def)
  obtain s' t' dec' where s': "Delete_RightBalance s S (root_of l) True =
      Some (e_StatusCode_Success, s', root_of t', dec')" "rep s' (plug c t')" "heap_keeps s s'"
      "entries t' = entries (Br l S k e st t)" "shrunk dec' (Suc (max (height l) (Suc (height t)))) t'"
    using Delete_RightBalance_spec [OF R m(2) A(1)] b m(1) by auto
  then show ?thesis using True m(1)
    by (intro exI [of _ s'] exI [of _ "root_of t'"] exI [of _ dec'] conjI exI [of _ t']) simp_all
next
  case False
  with A b have "shrunk False (Suc (max (height l) m)) (Br l S k e st t)" by (auto simp: shrunk_def)
  with R False show ?thesis
    by (intro exI [of _ s] exI [of _ S] exI [of _ False] conjI exI [of _ "Br l S k e st t"]) simp_all
qed

lemma DeleteFixup_two:
  assumes R: "rep s (plug c (Br l N k e st r))" and A: "avl (Br l N k e st r)"
    and two: "l \<noteq> Tip" "r \<noteq> Tip"
  shows "\<exists>S h s1 sc s' q dec nS. Increment (blocks s) N = Some S \<and> set_State (blocks s) S st = Some h \<and>
    relink (s\<lparr>blocks := h\<rparr>) (up c) N S = Some s1 \<and>
    rd (blocks s1) S = Some nS \<and>
    (if m_Parent nS \<noteq> N then DeleteFixup_Case4 s1 N S True else DeleteFixup_Case3 s1 N S True)
      = Some (sc, s', q, dec) \<and>
    taken_out s c l r (height (Br l N k e st r)) s' dec"
proof -
  obtain p S kS eS sS rS where r: "r = plug p (Br Tip S kS eS sS rS)" and p: "left_path p"
    using leftmost_split [OF two(2)] by blast
  have P: "rep s (plug (p @ RF l N k e st # c) (Br Tip S kS eS sS rS))"
    using R r by (simp add: plug_append)
  obtain h where h: "set_State (blocks s) S st = Some h"
      "rep (s\<lparr>blocks := h\<rparr>) (plug (p @ RF l N k e st # c) (Br Tip S kS eS st rS))"
      "heap_keeps s (s\<lparr>blocks := h\<rparr>)"
    using set_State_spec [OF P, of st] by blast
  let ?s = "s\<lparr>blocks := h\<rparr>"
  have R2: "rep ?s (plug c (Br l N k e st (plug p (Br Tip S kS eS st rS))))"
    using h(2) by (simp add: plug_append)
  have inc: "Increment (blocks s) N = Some S"
    using Increment_successor R r p by metis
  have er: "entries r = (S, kS, eS) # entries (plug p rS)"
    using r left_path_pre [OF p] by simp
  have av: "avl l" "avl rS" "avl_ctx p (Suc (height rS))" "balanced st (height l) (height r)"
    "height r = ctx_height p (Suc (height rS))"
    using A r by (auto simp: avl_plug height_plug)
  have sh: "shrunk True (Suc (height rS)) rS" using av(2) by (simp add: shrunk_def)
  show ?thesis
  proof (cases "p = []")
    case True
    obtain s1 g where s1: "relink ?s (up c) N S = Some s1" "\<exists>nS. rd (blocks s1) S = Some nS \<and> m_Parent nS = N"
        "Splice_Child (blocks s1) N S = Some g" "rep (s1\<lparr>blocks := g\<rparr>) (plug c (Br l S kS eS st rS))"
        "heap_keeps ?s (s1\<lparr>blocks := g\<rparr>)"
      using splice_child [of ?s c l N k e st S kS eS st rS] R2 True by auto
    obtain s' q dec t' where s': "Delete_RightBalance (s1\<lparr>blocks := g\<rparr>) S (root_of l) True =
          Some (e_StatusCode_Success, s', q, dec)" "rep s' (plug c t')" "heap_keeps (s1\<lparr>blocks := g\<rparr>) s'"
        "entries t' = entries l @ (S, kS, eS) # entries rS"
        "shrunk dec (Suc (max (height l) (Suc (height rS)))) t'"
      using final_RightBalance [OF s1(4) av(1) sh] av True by auto
    have "DeleteFixup_Case3 s1 N S True = Some (e_StatusCode_Success, s', q, dec)"
      using s1(3) rd_focus [OF s1(4)] s'(1) by (simp add: DeleteFixup_Case3_def)
    moreover have "taken_out s c l r (height (Br l N k e st r)) s' dec"
      using s' er True av(5) heap_keeps_trans [OF h(3) heap_keeps_trans [OF s1(5) s'(3)]]
      by (auto simp: taken_out_def)
    moreover obtain nS where "rd (blocks s1) S = Some nS" "m_Parent nS = N" using s1(2) by blast
    ultimately have "Increment (blocks s) N = Some S \<and> set_State (blocks s) S st = Some h \<and>
      relink ?s (up c) N S = Some s1 \<and> rd (blocks s1) S = Some nS \<and>
      (if m_Parent nS \<noteq> N then DeleteFixup_Case4 s1 N S True else DeleteFixup_Case3 s1 N S True)
        = Some (e_StatusCode_Success, s', q, dec) \<and>
      taken_out s c l r (height (Br l N k e st r)) s' dec"
      using inc h(1) s1(1) by simp
    then show ?thesis by (intro exI)
  next
    case False
    obtain s1 g where s1: "relink ?s (up c) N S = Some s1"
        "\<exists>nS. rd (blocks s1) S = Some nS \<and> m_Parent nS = up p \<and> up p \<noteq> N"
        "Splice_Deep (blocks s1) N S = Some (g, up p)"
        "rep (s1\<lparr>blocks := g\<rparr>) (plug (p @ RF l S kS eS st # c) rS)"
        "heap_keeps ?s (s1\<lparr>blocks := g\<rparr>)"
      using splice_deep [OF R2 False p] by auto
    obtain s2 t2 dec2 where s2: "DeleteFixup_Loop (s1\<lparr>blocks := g\<rparr>) (up p) S True =
          Some (e_StatusCode_Success, s2, S, dec2)" "rep s2 (plug (RF l S kS eS st # c) t2)"
        "heap_keeps (s1\<lparr>blocks := g\<rparr>) s2" "entries t2 = entries (plug p rS)"
        "shrunk dec2 (ctx_height p (Suc (height rS))) t2"
      using DeleteFixup_Loop_spec [OF s1(4) False p av(3) sh] by blast
    have R3: "rep s2 (plug c (Br l S kS eS st t2))" using s2(2) by simp
    obtain s' q dec t' where s': "Delete_RightBalance s2 S (root_of l) dec2 =
          Some (e_StatusCode_Success, s', q, dec)" "rep s' (plug c t')" "heap_keeps s2 s'"
        "entries t' = entries l @ (S, kS, eS) # entries t2"
        "shrunk dec (Suc (max (height l) (ctx_height p (Suc (height rS))))) t'"
      using final_RightBalance [OF R3 av(1) s2(5)] av by auto
    have "DeleteFixup_Case4 s1 N S True = Some (e_StatusCode_Success, s', q, dec)"
      using s1(3) s2(1) rd_focus [OF R3] s'(1) by (simp add: DeleteFixup_Case4_def)
    moreover have "taken_out s c l r (height (Br l N k e st r)) s' dec"
    proof -
      have "heap_keeps s s'"
        using h(3) s1(5) s2(3) s'(3) by (simp add: heap_keeps_def)
      moreover have "entries t' = entries l @ entries r"
        by (simp only: s'(4) s2(4) er)
      moreover have "shrunk dec (height (Br l N k e st r)) t'"
        using s'(5) by (simp only: av(5) height.simps)
      ultimately show ?thesis
        unfolding taken_out_def using s'(2) by blast
    qed
    moreover obtain nS where "rd (blocks s1) S = Some nS" "m_Parent nS \<noteq> N" using s1(2) by auto
    ultimately have "Increment (blocks s) N = Some S \<and> set_State (blocks s) S st = Some h \<and>
      relink ?s (up c) N S = Some s1 \<and> rd (blocks s1) S = Some nS \<and>
      (if m_Parent nS \<noteq> N then DeleteFixup_Case4 s1 N S True else DeleteFixup_Case3 s1 N S True)
        = Some (e_StatusCode_Success, s', q, dec) \<and>
      taken_out s c l r (height (Br l N k e st r)) s' dec"
      using inc h(1) s1(1) by simp
    then show ?thesis by (intro exI)
  qed
qed

lemma DeleteFixup_spec:
  assumes R: "rep s (plug c (Br l N k e st r))" and A: "avl (Br l N k e st r)"
  shows "\<exists>sc s' t' dec. DeleteFixup w s N = Some (sc, s', dec) \<and> rep s' (plug c t') \<and>
    entries t' = entries l @ entries r \<and> shrunk dec (height (Br l N k e st r)) t' \<and>
    m_Size s' = m_Size s \<and>
    (heap_free_ok w \<and> m_Heap (m_Allocator w) \<noteq> 0 \<longrightarrow>
       sc = e_StatusCode_Success \<and> dom (blocks s') = dom (blocks s) - {N})"
proof -
  have n: "root_of l = NULL \<longleftrightarrow> l = Tip" "root_of r = NULL \<longleftrightarrow> r = Tip"
    using rep_focus(2) [OF R] root_of_NULL by auto
  note rdN = rd_focus(1) [OF R]
  have "\<exists>s1 dec. taken_out s c l r (height (Br l N k e st r)) s1 dec \<and>
    DeleteFixup w s N = (let (sc, h) = WmiAllocator_Delete w (m_Allocator w) N (blocks s1)
      in Some (sc, s1\<lparr>blocks := h\<rparr>, dec))"
  proof (cases "l = Tip \<or> r = Tip")
    case True
    obtain s1 dec where "DeleteFixup_Splice s N = Some (s1, dec)"
      "taken_out s c l r (height (Br l N k e st r)) s1 dec"
      using DeleteFixup_Splice_spec [OF R A True] by blast
    moreover have "root_of l = NULL \<or> root_of r = NULL" using n True by simp
    ultimately show ?thesis using rdN
      by (intro exI [of _ s1] exI [of _ dec]) (auto simp: DeleteFixup_def)
  next
    case False
    then have two: "l \<noteq> Tip" "r \<noteq> Tip" by auto
    obtain S h s0 sc s1 q dec nS where "Increment (blocks s) N = Some S" "set_State (blocks s) S st = Some h"
      "relink (s\<lparr>blocks := h\<rparr>) (up c) N S = Some s0" "rd (blocks s0) S = Some nS"
      "(if m_Parent nS \<noteq> N then DeleteFixup_Case4 s0 N S True else DeleteFixup_Case3 s0 N S True)
        = Some (sc, s1, q, dec)" "taken_out s c l r (height (Br l N k e st r)) s1 dec"
      using DeleteFixup_two [OF R A two] by blast
    with rdN n two show ?thesis
      by (intro exI [of _ s1] exI [of _ dec]) (simp add: DeleteFixup_def)
  qed
  then obtain s1 dec t' where d: "DeleteFixup w s N =
      (let (sc, h) = WmiAllocator_Delete w (m_Allocator w) N (blocks s1) in Some (sc, s1\<lparr>blocks := h\<rparr>, dec))"
    and t': "rep s1 (plug c t')" "heap_keeps s s1" "entries t' = entries l @ entries r"
      "shrunk dec (height (Br l N k e st r)) t'"
    by (auto simp: taken_out_def)
  obtain sc h where sh: "WmiAllocator_Delete w (m_Allocator w) N (blocks s1) = (sc, h)" by fastforce
  have "N \<notin> set (addrs (plug c t'))"
  proof -
    have "distinct (addrs (plug c (Br l N k e st r)))" using R by (simp add: rep_def)
    then show ?thesis using t'(3) by (auto simp flip: map_fst_entries)
  qed
  moreover have "h b = blocks s1 b" if "b \<noteq> N" for b
    using that sh Delete_snd [of w "m_Allocator w" N "blocks s1"] by auto
  ultimately have "rep (s1\<lparr>blocks := h\<rparr>) (plug c t')"
    by (intro rep_frame [OF t'(1)]) metis
  moreover have "sc = e_StatusCode_Success \<and> dom h = dom (blocks s) - {N}"
    if "heap_free_ok w \<and> m_Heap (m_Allocator w) \<noteq> 0"
  proof -
    have "sc = e_StatusCode_Success" "h = (blocks s1)(N := None)"
      using sh that Delete_ok [of w "m_Allocator w" N "blocks s1"] by auto
    then show ?thesis using t'(2) by (simp add: heap_keeps_def)
  qed
  ultimately show ?thesis
    using d sh t' by (intro exI [of _ sc] exI [of _ "s1\<lparr>blocks := h\<rparr>"] exI [of _ t'] exI [of _ dec])
      (auto simp: heap_keeps_def)
qed

subsection \<open>The deletion itself\<close>

lemma shrunk_root:
  "shrunk dec m t \<Longrightarrow> avl t"
  by (simp add: shrunk_def)

definition delete_result ::
  "('k, 'e, WmAvlState, 'z) tree_env_scheme \<Rightarrow> ('k, 'e) avl \<Rightarrow> (addr \<times> 'k \<times> 'e) list \<Rightarrow> addr
   \<Rightarrow> (WmiStatusCode \<times> ('k, 'e) avl) option \<Rightarrow> bool" where
  "delete_result w s es a res \<longleftrightarrow>
     (\<exists>sc s' T'. res = Some (sc, s') \<and> rep s' T' \<and> avl T' \<and> entries T' = es \<and> m_Size s' = m_Size s - 1 \<and>
       (heap_free_ok w \<and> m_Heap (m_Allocator w) \<noteq> 0 \<longrightarrow>
          sc = e_StatusCode_Success \<and> dom (blocks s') = dom (blocks s) - {a}))"

lemma Delete_Found_spec:
  assumes R: "rep s (plug c (Br l N k e st r))" and A: "avl (plug c (Br l N k e st r))"
  shows "delete_result w s (pre_c c @ entries l @ entries r @ post_c c) N (Delete_Found w s N)"
proof -
  from A have A': "avl (Br l N k e st r)" "avl_ctx c (height (Br l N k e st r))"
    by (simp_all add: avl_plug)
  note rdN = rd_focus [OF R]
  show ?thesis
  proof (cases "c = []")
    case True
    have "rep (s\<lparr>m_Size := m_Size s - 1\<rparr>) (plug c (Br l N k e st r))" using R by simp
    from DeleteFixup_spec [OF this A'(1), of w] obtain sc s' t' dec where d:
      "DeleteFixup w (s\<lparr>m_Size := m_Size s - 1\<rparr>) N = Some (sc, s', dec)" "rep s' (plug c t')"
      "entries t' = entries l @ entries r" "shrunk dec (height (Br l N k e st r)) t'"
      "m_Size s' = m_Size s - 1"
      "heap_free_ok w \<and> m_Heap (m_Allocator w) \<noteq> 0 \<longrightarrow> sc = e_StatusCode_Success \<and> dom (blocks s') = dom (blocks s) - {N}"
      by auto
    have "Delete_Found w s N = Some (sc, s')"
      using rdN True d(1) by (simp add: Delete_Found_def)
    with d True shrunk_root [OF d(4)] show ?thesis
      unfolding delete_result_def
      by (intro exI [of _ sc] exI [of _ s'] exI [of _ t']) simp
  next
    case False
    obtain np where np: "rd (blocks s) (up c) = Some np" "(m_Left np = N) = left_hole c" "up c \<noteq> NULL"
      using parent_side [OF R _ False] by auto
    from DeleteFixup_spec [OF R A'(1), of w] obtain sc s1 t' dec where d:
      "DeleteFixup w s N = Some (sc, s1, dec)" "rep s1 (plug c t')"
      "entries t' = entries l @ entries r" "shrunk dec (height (Br l N k e st r)) t'"
      "m_Size s1 = m_Size s"
      "heap_free_ok w \<and> m_Heap (m_Allocator w) \<noteq> 0 \<longrightarrow> sc = e_StatusCode_Success \<and> dom (blocks s1) = dom (blocks s) - {N}"
      by auto
    let ?s = "s1\<lparr>m_Size := m_Size s1 - 1\<rparr>"
    obtain s' T where s': "Delete_Climb ?s (up c) (left_hole c) dec = Some s'" "rep s' T" "avl T"
        "entries T = entries (plug c t')" "heap_keeps ?s s'"
      using Delete_Climb_spec [of ?s c t' _ dec, OF _ A'(2) d(4)] d(2) by auto
    have "Delete_Found w s N = Some (e_StatusCode_Success, s')"
      using rdN np d(1) s'(1) by (simp add: Delete_Found_def)
    with s' d(3,5,6) show ?thesis
      unfolding delete_result_def
      by (intro exI [of _ e_StatusCode_Success] exI [of _ s'] exI [of _ T]) (auto simp: heap_keeps_def)
  qed
qed

lemma Delete_Loop_locate:
  "rep s (plug c t) \<Longrightarrow> t \<noteq> Tip \<Longrightarrow> Delete_Loop w s (root_of t) key =
     (case snd (locate key c t) of
        Br l a k ek st r \<Rightarrow> Delete_Found w s a
      | Tip \<Rightarrow> Some (e_StatusCode_NotFound, s))"
proof (induction key c t rule: locate.induct)
  case (2 key c l a k ek st r)
  note R = "2.prems"(1)
  have n: "root_of l = NULL \<longleftrightarrow> l = Tip" "root_of r = NULL \<longleftrightarrow> r = Tip"
    using rep_focus(2) [OF R] root_of_NULL by auto
  show ?case
    using 2 n rd_focus [OF R]
    by (cases "key = k"; cases "key < k"; cases "l = Tip"; cases "r = Tip"; subst Delete_Loop.simps)
      (simp_all add: CompareElement_def)
qed simp

text \<open>The contract of \<open>Delete\<close>, every branch.\<close>

lemma sorted_wrt_filter_map: "sorted_wrt (<) (map f xs) \<Longrightarrow> sorted_wrt (<) (map f (filter P xs))"
  by (induction xs) auto

lemma Avl_Delete_contract:
  assumes I: "avl_inv s T" and K: "ordered_keys (insert key (set (tree_keys T)))"
  shows "\<exists>sc s' T'. Avl_Delete w s key = Some (sc, s') \<and>
    (key \<notin> set (tree_keys T) \<longrightarrow> sc = e_StatusCode_NotFound \<and> s' = s \<and> T' = T) \<and>
    rep s' T' \<and> avl T' \<and> sorted_tree T' \<and> size_ok s' T' \<and>
    entries T' = filter (\<lambda>x. fst (snd x) \<noteq> key) (entries T) \<and>
    (key \<in> set (tree_keys T) \<and> heap_free_ok w \<and> m_Heap (m_Allocator w) \<noteq> 0 \<longrightarrow>
       sc = e_StatusCode_Success \<and> avl_inv s' T')"
proof -
  have R: "rep s (plug [] T)" "avl T" "sorted_tree T" "size_ok s T" "no_leak s T"
    using I by (auto simp: avl_inv_def)
  obtain c t' where l: "locate key [] T = (c, t')" by fastforce
  have T: "plug c t' = T" using locate_plug [OF l] by simp
  have run: "Avl_Delete w s key = (case t' of Br l a k ek st r \<Rightarrow> Delete_Found w s a
      | Tip \<Rightarrow> Some (e_StatusCode_NotFound, s))"
  proof (cases "T = Tip")
    case True
    with R(1) l show ?thesis by (auto simp: Avl_Delete_def rep_def)
  next
    case False
    with R(1) rep_plug_nonnull [OF R(1)] have "m_Root s = root_of T" "m_Root s \<noteq> NULL"
      by (auto simp: rep_def)
    with Delete_Loop_locate [OF R(1) False, of w key] l show ?thesis
      by (simp add: Avl_Delete_def)
  qed
  show ?thesis
  proof (cases t')
    case Tip
    note ab = located_absent [OF l [unfolded Tip] R(3) K]
    have "filter (\<lambda>x. fst (snd x) \<noteq> key) (entries T) = entries T"
      using ab(1) by (auto simp: filter_id_conv)
    with run Tip ab(1) R show ?thesis
      by (intro exI [of _ e_StatusCode_NotFound] exI [of _ s] exI [of _ T]) simp
  next
    case (Br lt a k ek st r)
    note pr = located_present [OF l [unfolded Br] R(3) K]
    have "delete_result w s (pre_c c @ entries lt @ entries r @ post_c c) a (Avl_Delete w s key)"
      using Delete_Found_spec [of s c lt a k ek st r w] T Br R(1,2) run by simp
    then obtain sc s' T' where s': "Avl_Delete w s key = Some (sc, s')" "rep s' T'" "avl T'"
        "entries T' = filter (\<lambda>x. fst (snd x) \<noteq> key) (entries T)" "m_Size s' = m_Size s - 1"
        "heap_free_ok w \<and> m_Heap (m_Allocator w) \<noteq> 0 \<longrightarrow>
           sc = e_StatusCode_Success \<and> dom (blocks s') = dom (blocks s) - {a}"
      unfolding delete_result_def pr(6) by blast
    have "sorted_tree T'"
      using R(3) s'(4) sorted_wrt_filter_map by (auto simp: sorted_tree_def)
    moreover have "length (entries T) = Suc (length (entries T'))"
      using s'(4) pr(3,6) by simp
    then have "size_ok s' T'"
      using R(4) s'(5) by (simp add: size_ok_def)
    moreover have "distinct (map fst (entries T))" using R(1) by (simp add: rep_def map_fst_entries)
    then have "set (addrs T') = set (addrs T) - {a}"
      unfolding map_fst_entries [symmetric] s'(4) pr(6) by (auto simp: pr(3))
    then have "dom (blocks s') = dom (blocks s) - {a} \<Longrightarrow> no_leak s' T'"
      using R(5) by (simp add: no_leak_def)
    ultimately show ?thesis
      using s' pr(2) by (intro exI [of _ sc] exI [of _ s'] exI [of _ T']) (auto simp: avl_inv_def)
  qed
qed

end
