(* ===== verification/AvlContract.thy ===== *)
theory AvlContract
  imports AvlDelete "HOL-Library.Multiset"
begin

text \<open>
  The remaining operations of the AVL tree: searching, the self check, the release of the tree and
  the merge of two trees.
\<close>

subsection \<open>Searching\<close>

abbreviation key_of :: "addr \<times> 'k \<times> 'e \<Rightarrow> 'k" where
  "key_of x \<equiv> fst (snd x)"

lemma Find_Loop_contract:
  assumes "rep s T" "sorted_tree T" "ordered_keys (insert key (set (tree_keys T)))"
  shows "Find_Loop (blocks s) (m_Root s) key it =
    Some (case List.find (\<lambda>x. key_of x = key) (entries T) of
        None \<Rightarrow> (e_StatusCode_NotFound, it) | Some x \<Rightarrow> (e_StatusCode_Success, fst x))"
proof -
  obtain c t' where l: "locate key [] T = (c, t')" by fastforce
  have run: "Find_Loop (blocks s) (m_Root s) key it =
     Some (case t' of Tip \<Rightarrow> (e_StatusCode_NotFound, it) | Br l a k e st r \<Rightarrow> (e_StatusCode_Success, a))"
    using Find_Loop_locate [of "blocks s" NULL T key it "[]"] assms(1) l by (simp add: rep_def)
  show ?thesis
  proof (cases t')
    case Tip
    have "List.find (\<lambda>x. key_of x = key) (entries T) = None"
      using located_absent(1) [OF l [unfolded Tip] assms(2,3)] by (force simp: find_None_iff)
    with run Tip show ?thesis by simp
  next
    case (Br lt a k e st r)
    note pr = located_present [OF l [unfolded Br] assms(2,3)]
    have "set (pre_c c @ entries lt) \<subseteq> {x. key_of x < key}"
      unfolding pr(4) [symmetric] by auto
    then have "\<forall>x\<in>set (pre_c c @ entries lt). key_of x \<noteq> key"
      using ordered_keys_irrefl [OF assms(3), of key] by auto
    then have "List.find (\<lambda>x. key_of x = key) (pre_c c @ entries lt) = None"
      unfolding find_None_iff by blast
    moreover have "List.find P (xs @ ys) = (case List.find P xs of None \<Rightarrow> List.find P ys | Some x \<Rightarrow> Some x)"
      for P and xs ys :: "(addr \<times> 'a \<times> 'b) list"
      by (induction xs) auto
    ultimately have "List.find (\<lambda>x. key_of x = key) ((pre_c c @ entries lt) @ (a, key, e) # entries r @ post_c c)
        = Some (a, key, e)" by (simp split: option.splits)
    with run Br pr(3) show ?thesis by simp
  qed
qed

lemma FindNext_Loop_contract:
  assumes "rep s T" "sorted_tree T" "ordered_keys (insert key (set (tree_keys T)))"
  shows "FindNext_Loop (blocks s) (m_Root s) key it =
    Some (if T = Tip then (e_StatusCode_NotFound, it)
      else Found_or_Null (first_addr (filter (\<lambda>x. key < key_of x) (entries T))))"
proof (cases "T = Tip")
  case True
  with assms(1) show ?thesis by (subst FindNext_Loop.simps) (simp add: rep_def)
next
  case False
  obtain c t' where l: "locate key [] T = (c, t')" by fastforce
  have "m_Root s = root_of T" using assms(1) by (simp add: rep_def)
  with FindNext_Loop_locate [of s "[]" T key it] assms(1) False l
  have run: "FindNext_Loop (blocks s) (m_Root s) key it = Some (Found_or_Null
     (case t' of Tip \<Rightarrow> first_addr (post_c c) | Br l a k e st r \<Rightarrow> first_addr (entries r @ post_c c)))"
    by simp
  show ?thesis
  proof (cases t')
    case Tip
    with run located_absent(3) [OF l [unfolded Tip] assms(2,3)] False show ?thesis by simp
  next
    case (Br lt a k e st r)
    with run located_present(5) [OF l [unfolded Br] assms(2,3)] False show ?thesis by simp
  qed
qed

lemma Increment_entries:
  assumes "rep s T" "entries T = xs @ (a, k, e) # ys"
  shows "Increment (blocks s) a = Some (first_addr ys)" "Decrement (blocks s) a = Some (last_addr xs)"
proof -
  obtain c l st r where T: "T = plug c (Br l a k e st r)" "xs = pre_c c @ entries l"
      "ys = entries r @ post_c c"
    using focus_entries [OF assms] by blast
  show "Increment (blocks s) a = Some (first_addr ys)" "Decrement (blocks s) a = Some (last_addr xs)"
    using Increment_focus [of s c l a k e st r] Decrement_focus [of s c l a k e st r] assms(1) T by simp_all
qed

lemma Begin_End_entries:
  assumes "rep s T"
  shows "Begin s = Some (first_addr (entries T))" "End s = Some (last_addr (entries T))"
  using assms LeftMost_first [of "blocks s" NULL T] RightMost_last [of "blocks s" NULL T]
  by (simp_all add: Begin_def End_def rep_def)

subsection \<open>The self check\<close>

lemma avl_height_32:
  assumes "avl t" "length (entries t) < 2 ^ 32"
  shows "height t \<le> 65"
proof -
  have "(2::nat) ^ (height t div 2) \<le> 2 ^ 32"
    using avl_height_bound [OF assms(1)] assms(2) by linarith
  then have "height t div 2 \<le> 32" by (rule power_le_imp_le_exp [rotated]) simp
  then show ?thesis by linarith
qed

lemma word_less_32: "m < 2 ^ 32 \<Longrightarrow> n < 2 ^ 32 \<Longrightarrow> (of_nat m :: 32 word) < of_nat n \<longleftrightarrow> m < n"
  "m < 2 ^ 32 \<Longrightarrow> n < 2 ^ 32 \<Longrightarrow> (of_nat m :: 32 word) \<le> of_nat n \<longleftrightarrow> m \<le> n"
  "m < 2 ^ 32 \<Longrightarrow> n < 2 ^ 32 \<Longrightarrow> (of_nat m :: 32 word) = of_nat n \<longleftrightarrow> m = n"
  by (simp_all add: word_less_nat_alt word_le_nat_alt word_unat_eq_iff unat_of_nat take_bit_nat_eq_self)

text \<open>
  What \<open>RecursiveCheck\<close> verifies of a tree whose links are right: the side that the tag of a node
  names is higher, by how much is not asked; and a node with a right child says nothing
  about its left subtree, whose status is overwritten.
\<close>

fun leaning :: "WmAvlState \<Rightarrow> nat \<Rightarrow> nat \<Rightarrow> bool" where
  "leaning e_Equal m n \<longleftrightarrow> m = n"
| "leaning e_LeftHigher m n \<longleftrightarrow> n < m"
| "leaning e_RightHigher m n \<longleftrightarrow> m < n"

fun accepted :: "('k, 'e, WmAvlState) tree \<Rightarrow> bool" where
  "accepted Tip \<longleftrightarrow> True"
| "accepted (Br l a k e s r) \<longleftrightarrow> (if r = Tip then accepted l else accepted r) \<and> leaning s (height l) (height r)"

lemma balanced_leaning: "balanced s m n \<Longrightarrow> leaning s m n"
  by (cases s) auto

lemma avl_accepted: "avl t \<Longrightarrow> accepted t"
  by (induction t) (auto intro: balanced_leaning)

lemma height_entries: "height t \<le> length (entries t)"
  by (induction t) auto

lemma RecursiveCheck_accepted:
  assumes "tree_at h p t" "t \<noteq> Tip" "h0 + height t < 2 ^ 32"
  shows "RecursiveCheck h (root_of t) cnt (of_nat h0) =
    Some (if accepted t then e_StatusCode_Success else e_StatusCode_Failed, cnt + of_nat (length (entries t) - 1), of_nat (h0 + height t))"
  using assms
proof (induction t arbitrary: p cnt h0)
  case (Br l a k e s r)
  let ?n = "\<lparr>m_Key = k, m_Element = e, m_Left = root_of l, m_Right = root_of r, m_Parent = p, m_State = s\<rparr>"
  have n: "root_of l = NULL \<longleftrightarrow> l = Tip" "root_of r = NULL \<longleftrightarrow> r = Tip"
    using Br.prems root_of_NULL by auto
  have rdA: "rd h a = Some ?n" using Br.prems by (simp add: rd_def)
  have child: "\<exists>nc. rd h (root_of t) = Some nc \<and> m_Parent nc = a" if "tree_at h a t" "t \<noteq> Tip" for t
    using that by (cases t) (auto simp: rd_def)
  have bal: "h0 + Suc (max (height l) (height r)) < 2 ^ 32"
    using Br.prems by auto
  have L: "l \<noteq> Tip \<Longrightarrow> RecursiveCheck h (root_of l) cnt (of_nat (Suc h0)) =
      Some (if accepted l then e_StatusCode_Success else e_StatusCode_Failed, cnt + of_nat (length (entries l) - 1), of_nat (Suc h0 + height l))" for cnt
    using Br.IH(1) [of a "Suc h0" cnt] Br.prems by auto
  have R: "r \<noteq> Tip \<Longrightarrow> RecursiveCheck h (root_of r) cnt (of_nat (Suc h0)) =
      Some (if accepted r then e_StatusCode_Success else e_StatusCode_Failed, cnt + of_nat (length (entries r) - 1), of_nat (Suc h0 + height r))" for cnt
    using Br.IH(2) [of a "Suc h0" cnt] Br.prems by auto
  have one: "(of_nat h0 :: 32 word) + 1 = of_nat (Suc h0)" by simp
  have len: "t \<noteq> Tip \<Longrightarrow> (of_nat (length (entries t)) :: 32 word) = 1 + of_nat (length (entries t) - Suc 0)"
    for t :: "('a, 'b, WmAvlState) tree"
    by (cases "entries t") auto
  have st: "Check_State s (of_nat (Suc h0 + height l)) (of_nat (Suc h0 + height r)) sc
      = (if leaning s (height l) (height r) then sc else e_StatusCode_Failed)" for sc
    using bal by (cases s) (simp_all add: Check_State_def word_less_32 not_less del: of_nat_Suc of_nat_add)
  have ch: "leaning s (height l) (height r) \<Longrightarrow> Check_Children ?n = e_StatusCode_Success"
    using n by (cases s; cases l; cases r) (auto simp: Check_Children_def)
  have lt: "(of_nat (Suc (h0 + height l)) :: 32 word) < of_nat (Suc (h0 + height r)) \<longleftrightarrow> height l < height r"
    using bal by (subst word_less_32) auto
  obtain nl where nl: "l \<noteq> Tip \<Longrightarrow> rd h (root_of l) = Some nl \<and> m_Parent nl = a"
    using child [of l] Br.prems by auto
  obtain nr where nr: "r \<noteq> Tip \<Longrightarrow> rd h (root_of r) = Some nr \<and> m_Parent nr = a"
    using child [of r] Br.prems by auto
  have "RecursiveCheck h a cnt (of_nat h0) =
      Some (if accepted (Br l a k e s r) then e_StatusCode_Success else e_StatusCode_Failed, cnt + of_nat (length (entries l)) + of_nat (length (entries r)),
        of_nat (h0 + height (Br l a k e s r)))"
    using rdA n nl nr L R st ch lt
    by (cases "l = Tip"; cases "r = Tip"; subst RecursiveCheck.simps)
      (auto simp: Let_def one max_def len simp del: of_nat_Suc of_nat_add)
  then show ?case by (simp add: add.assoc)
qed simp

lemma Avl_Check_contract:
  assumes "rep s T" "length (entries T) < 2 ^ 32"
  shows "Avl_Check s mh = Some (if T = Tip \<or> accepted T \<and> size_ok s T then e_StatusCode_Success else e_StatusCode_Failed,
    if T = Tip then mh else of_nat (height T))"
proof (cases "T = Tip")
  case True
  with assms show ?thesis by (simp add: Avl_Check_def rep_def)
next
  case False
  note I = assms(1)
  have root: "m_Root s = root_of T" "root_of T \<noteq> NULL" "tree_at (blocks s) NULL T"
    using I False rep_plug_nonnull [of s "[]" T] by (auto simp: rep_def)
  obtain n where n: "rd (blocks s) (root_of T) = Some n" "m_Parent n = NULL"
    using rep_root_parent [of s "[]" T] I False by auto
  have "0 + height T < 2 ^ 32" using height_entries [of T] assms(2) by simp
  note RC = RecursiveCheck_accepted [OF root(3) False this, of 1]
  have "(1 :: 32 word) + of_nat (length (entries T) - 1) = m_Size s \<longleftrightarrow> size_ok s T"
    using False by (cases "entries T") (auto simp: size_ok_def)
  with RC root n False show ?thesis
    by (simp add: Avl_Check_def)
qed

subsection \<open>Release\<close>

text \<open>The release frees every node but the root, whose block stays allocated, and keeps \<open>m_Size\<close>.\<close>

lemma Avl_UnInitialize_contract:
  assumes "avl_inv s T" "T \<noteq> Tip" "heap_free_ok w" "m_Heap (m_Allocator w) \<noteq> 0"
  shows "\<exists>s'. Avl_UnInitialize w s = Some (e_StatusCode_Success, s') \<and> m_Root s' = NULL \<and>
    m_Size s' = m_Size s \<and> dom (blocks s') = {root_of T}"
proof -
  have I: "rep s T" "no_leak s T" using assms(1) by (auto simp: avl_inv_def)
  have root: "m_Root s = root_of T" "root_of T \<noteq> NULL" "tree_at (blocks s) NULL T" "distinct (addrs T)"
    using I(1) assms(2) rep_plug_nonnull [of s "[]" T] by (auto simp: rep_def)
  have "dom (blocks s |` (- (set (addrs T) - {root_of T}))) = {root_of T}"
    using I(2) root_of_in_addrs [OF assms(2)] by (auto simp: no_leak_def)
  with RecursiveUnInitialize_spec [OF root(3) assms(2) root(4) assms(3,4)] root(1,2)
  show ?thesis by (simp add: Avl_UnInitialize_def)
qed

subsection \<open>Merge\<close>

definition pairs :: "('k, 'e, 's) tree \<Rightarrow> ('k \<times> 'e) multiset" where
  "pairs T = mset (map snd (entries T))"

lemma keys_pairs: "set (tree_keys T) = fst ` set_mset (pairs T)"
  by (simp add: pairs_def image_image)

lemma pairs_insert:
  assumes "sorted_tree T" "ordered_keys (insert key (set (tree_keys T)))" "key \<notin> set (tree_keys T)"
    and "entries T' = filter (\<lambda>x. key_of x < key) (entries T) @ (a, key, e) #
      filter (\<lambda>x. key < key_of x) (entries T)"
  shows "pairs T' = add_mset (key, e) (pairs T)"
  using arg_cong [OF absent_entries [OF assms(1-3)], of "\<lambda>xs. mset (map snd xs)"]
  by (simp add: pairs_def assms(4))

lemma sorted_tree_split:
  assumes "sorted_tree T" "ordered_keys (set (tree_keys T))" "entries T = xs @ (a, key, e) # ys"
  shows "filter (\<lambda>x. key_of x \<noteq> key) (entries T) = xs @ ys"
proof -
  have "ordered_keys (key_of ` set (entries T))" using assms(2) by simp
  from sorted_filter_split(3) [OF assms(1) [unfolded sorted_tree_def assms(3)] this [unfolded assms(3)]]
  show ?thesis unfolding assms(3) by simp
qed

lemma pairs_delete:
  assumes "sorted_tree T" "ordered_keys (set (tree_keys T))" "(a, key, e) \<in> set (entries T)"
    and "entries T' = filter (\<lambda>x. key_of x \<noteq> key) (entries T)"
  shows "pairs T = add_mset (key, e) (pairs T')" "length (entries T) = Suc (length (entries T'))"
proof -
  obtain xs ys where e: "entries T = xs @ (a, key, e) # ys"
    using split_list [OF assms(3)] by blast
  have "entries T' = xs @ ys"
    using sorted_tree_split [OF assms(1,2) e] assms(4) by simp
  with e show "pairs T = add_mset (key, e) (pairs T')" "length (entries T) = Suc (length (entries T'))"
    by (simp_all add: pairs_def)
qed

text \<open>
  A merge loses nothing and duplicates nothing: the pairs in the two trees together stay the same, and
  a successful merge leaves the source empty.
\<close>

lemma Avl_Merge_Loop_contract:
  assumes "avl_inv s T" "avl_inv a A" "heap_alloc_fresh w" "heap_free_ok w" "heap_free_ok wa"
    and "m_Heap (m_Allocator wa) \<noteq> 0" "ordered_keys (set (tree_keys T) \<union> set (tree_keys A))"
  shows "\<exists>sc' s' a' T' A'. Avl_Merge_Loop w wa s a sc = Some (sc', s', a') \<and>
    avl_inv s' T' \<and> avl_inv a' A' \<and> pairs T' + pairs A' = pairs T + pairs A \<and>
    (sc' = e_StatusCode_Success \<longrightarrow> A' = Tip) \<and>
    (sc = e_StatusCode_Success \<and> set (tree_keys T) \<inter> set (tree_keys A) \<noteq> {} \<longrightarrow> sc' \<noteq> e_StatusCode_Success)"
  using assms
proof (induction "length (entries A)" arbitrary: s a T A sc rule: less_induct)
  case less
  note IT = less.prems(1) and IA = less.prems(2) and K = less.prems(7)
  have RA: "rep a A" "sorted_tree A" using IA by (auto simp: avl_inv_def)
  have ST: "sorted_tree T" using IT by (simp add: avl_inv_def)
  have rootA: "m_Root a = root_of A" "root_of A = NULL \<longleftrightarrow> A = Tip"
    using RA(1) rep_plug_nonnull [of a "[]" A] by (auto simp: rep_def)
  have stop: "Avl_Merge_Loop w wa s a sc' = Some (sc', s, a)"
    if "A = Tip \<or> sc' \<noteq> e_StatusCode_Success" for sc'
    using that rootA by (subst Avl_Merge_Loop.simps) auto
  show ?case
  proof (cases "A = Tip")
    case True
    with stop [of sc] IT IA show ?thesis
      by (intro exI [of _ sc] exI [of _ s] exI [of _ a] exI [of _ T] exI [of _ A]) simp
  next
    case A: False
    show ?thesis
    proof (cases "sc = e_StatusCode_Success")
      case False
      with stop [of sc] IT IA show ?thesis
        by (intro exI [of _ sc] exI [of _ s] exI [of _ a] exI [of _ T] exI [of _ A])
          (auto simp: A)
    next
      case True
      obtain l q k e st r where Aq: "A = Br l q k e st r" using A by (cases A) auto
      have rdA: "rd (blocks a) (m_Root a) = Some \<lparr>m_Key = k, m_Element = e, m_Left = root_of l,
          m_Right = root_of r, m_Parent = NULL, m_State = st\<rparr>" "m_Root a \<noteq> NULL"
        using rd_focus [of a "[]" l q k e st r] RA(1) Aq rootA by auto
      have kA: "k \<in> set (tree_keys A)" "(q, k, e) \<in> set (entries A)" by (simp_all add: Aq)
      have K1: "ordered_keys (insert k (set (tree_keys T)))" "ordered_keys (insert k (set (tree_keys A)))"
        "ordered_keys (set (tree_keys A))"
        by (rule ordered_keys_subset [OF K], use kA in auto)+
      obtain sc1 s1 it1 T1 where i0: "Avl_Insert w s k e NULL = Some (sc1, s1, it1)"
          "k \<in> set (tree_keys T) \<longrightarrow> sc1 = e_StatusCode_AlreadyExists \<and> s1 = s \<and> it1 = NULL"
          "sc1 = e_StatusCode_Success \<longrightarrow> avl_inv s1 T1 \<and> it1 \<notin> dom (blocks s) \<and>
            entries T1 = filter (\<lambda>x. key_of x < k) (entries T) @ (it1, k, e) # filter (\<lambda>x. k < key_of x) (entries T)"
          "sc1 \<noteq> e_StatusCode_Success \<and> heap_free_ok w \<longrightarrow> s1 = s \<and> it1 = NULL"
        using Avl_Insert_contract [OF IT less.prems(3) K1(1), of e NULL] by (elim exE conjE) (rule that)
      then have i: "Avl_Insert w s k e NULL = Some (sc1, s1, it1)"
          "k \<in> set (tree_keys T) \<longrightarrow> sc1 = e_StatusCode_AlreadyExists"
          "sc1 = e_StatusCode_Success \<longrightarrow> avl_inv s1 T1 \<and>
            entries T1 = filter (\<lambda>x. key_of x < k) (entries T) @ (it1, k, e) # filter (\<lambda>x. k < key_of x) (entries T)"
          "sc1 \<noteq> e_StatusCode_Success \<longrightarrow> s1 = s"
        using less.prems(4) by auto
      show ?thesis
      proof (cases "sc1 = e_StatusCode_Success")
        case False
        then have "Avl_Merge_Loop w wa s a sc = Avl_Merge_Loop w wa s a sc1"
          using rdA i(1,4) True by (subst Avl_Merge_Loop.simps) simp
        with stop [of sc1] False IT IA show ?thesis
          by (intro exI [of _ sc1] exI [of _ s] exI [of _ a] exI [of _ T] exI [of _ A]) simp
      next
        case ok: True
        with i(2) have kT: "k \<notin> set (tree_keys T)" by auto
        from ok i(3) have T1: "avl_inv s1 T1" "pairs T1 = add_mset (k, e) (pairs T)"
          using pairs_insert [OF ST K1(1) kT] by blast+
        obtain sc2 a2 A2 where d: "Avl_Delete wa a k = Some (sc2, a2)" "sc2 = e_StatusCode_Success"
            "avl_inv a2 A2" "entries A2 = filter (\<lambda>x. key_of x \<noteq> k) (entries A)"
          using Avl_Delete_contract [OF IA K1(2), of wa] less.prems(5,6) kA(1) by blast
        note pd = pairs_delete [OF RA(2) K1(3) kA(2) d(4)]
        have run: "Avl_Merge_Loop w wa s a sc = Avl_Merge_Loop w wa s1 a2 e_StatusCode_Success"
          using rdA i(1) True ok d(1,2) by (subst Avl_Merge_Loop.simps) simp
        have keys: "set (tree_keys T1) = insert k (set (tree_keys T))"
          "set (tree_keys A2) = set (tree_keys A) - {k}"
          using arg_cong [OF T1(2), of "\<lambda>m. fst ` set_mset m"] d(4) by (auto simp: keys_pairs [symmetric])
        have "ordered_keys (set (tree_keys T1) \<union> set (tree_keys A2))"
          by (rule ordered_keys_subset [OF K]) (use keys kA in auto)
        moreover have "length (entries A2) < length (entries A)" using pd(2) by simp
        ultimately obtain sc' s' a' T' A' where f:
          "Avl_Merge_Loop w wa s1 a2 e_StatusCode_Success = Some (sc', s', a')"
          "avl_inv s' T'" "avl_inv a' A'" "pairs T' + pairs A' = pairs T1 + pairs A2"
          "sc' = e_StatusCode_Success \<longrightarrow> A' = Tip"
          "set (tree_keys T1) \<inter> set (tree_keys A2) \<noteq> {} \<longrightarrow> sc' \<noteq> e_StatusCode_Success"
          using less.hyps [OF _ T1(1) d(3) less.prems(3-6), of e_StatusCode_Success] by blast
        have "set (tree_keys T) \<inter> set (tree_keys A) \<noteq> {} \<Longrightarrow>
            set (tree_keys T1) \<inter> set (tree_keys A2) \<noteq> {}"
          using keys kT by auto
        with f run T1(2) pd(1) show ?thesis
          by (intro exI [of _ sc'] exI [of _ s'] exI [of _ a'] exI [of _ T'] exI [of _ A']) simp
      qed
    qed
  qed
qed

end
