(* ===== verification/AvlClaims.thy ===== *)
theory AvlClaims
  imports AvlContract
begin

text \<open>
  What the AVL tree promises, operation by operation, stated over the logical tree \<open>T\<close> that a
  well-formed object holds: \<open>avl_inv s T\<close> says that every pointer of \<open>s\<close> is the one \<open>T\<close> prescribes,
  that \<open>T\<close> is a balanced search tree with correct tags, that \<open>m_Size\<close> is the number of its nodes and
  that the object holds no other block.
\<close>

subsection \<open>A concrete tree\<close>

definition sample_env :: "(nat, nat, 's) tree_env" where
  "sample_env = \<lparr>HeapAlloc = (\<lambda>hp opt sz bs. if bs 1 = None then 1 else if bs 2 = None then 2
       else if bs 3 = None then 3 else 0),
     HeapReAlloc = (\<lambda>hp opt a sz bs. 0), HeapFree = (\<lambda>hp a. True), HeapSize = (\<lambda>hp opt a. 0),
     HeapCompact = (\<lambda>hp opt. 0), HeapValidate = (\<lambda>hp opt a. True), HeapCreate = (\<lambda>opt sz mx. 1), HeapDestroy = (\<lambda>hp. True),
     GetProcessHeap = 1, GetLastError = STATUS_NO_MEMORY,
     m_Allocator = \<lparr>m_ReferenceCount = 0, m_Heap = 1, m_Options = 0, m_InitialSize = 0, m_MaximumSize = 0\<rparr>,
     sizeof_Node = 40, AssignPair = (\<lambda>k e. Assigned)\<rparr>"

definition sample_tree :: "(nat, nat, WmAvlState) tree" where
  "sample_tree = Br (Br Tip 2 3 30 e_Equal Tip) 1 5 50 e_LeftHigher Tip"

definition sample_avl :: "(nat, nat) avl" where
  "sample_avl = \<lparr>m_Root = 1, m_Size = 2, blocks =
     [1 \<mapsto> \<lparr>m_Key = 5, m_Element = 50, m_Left = 2, m_Right = NULL, m_Parent = NULL, m_State = e_LeftHigher\<rparr>,
      2 \<mapsto> \<lparr>m_Key = 3, m_Element = 30, m_Left = NULL, m_Right = NULL, m_Parent = 1, m_State = e_Equal\<rparr>]\<rparr>"

lemma sample_inv: "avl_inv sample_avl sample_tree"
  by (auto simp: avl_inv_def rep_def sample_avl_def sample_tree_def sorted_tree_def size_ok_def no_leak_def)

lemma sample_keys [simp]: "set (tree_keys sample_tree) = {3, 5}"
  "entries sample_tree = [(2, 3, 30), (1, 5, 50)]" "sample_tree \<noteq> Tip"
  by (simp_all add: sample_tree_def)

lemma sample_heap [simp]: "heap_alloc_fresh sample_env" "heap_free_ok sample_env"
  "m_Heap (m_Allocator sample_env) \<noteq> 0"
  by (simp_all add: sample_env_def heap_alloc_fresh_def heap_free_ok_def)

lemma sample_New: "fst (NewNode sample_env e_Equal (blocks sample_avl) key e) = e_StatusCode_Success"
  by (simp add: NewNode_def WmiAllocator_New_def WmiAllocator_New_opt_def sample_env_def sample_avl_def Let_def)

subsection \<open>Properties\<close>

text \<open>C21. Inserting a key that is not in the tree, when the node can be allocated and its key and
element copied, succeeds, adds exactly one entry at its place in the key order under a fresh node,
leaves every other node where it was (iterators stay valid) and keeps the tree balanced, the size
exact and the heap free of garbage.\<close>

theorem Avl_Insert_adds:
  assumes "avl_inv s T" "heap_alloc_fresh w" "ordered_keys (insert key (set (tree_keys T)))"
    and "key \<notin> set (tree_keys T)" "fst (NewNode w e_Equal (blocks s) key e) = e_StatusCode_Success"
  shows "\<exists>s' a T'. Avl_Insert w s key e it = Some (e_StatusCode_Success, s', a) \<and> avl_inv s' T' \<and>
    a \<notin> dom (blocks s) \<and>
    entries T' = filter (\<lambda>x. key_of x < key) (entries T) @ (a, key, e) # filter (\<lambda>x. key < key_of x) (entries T)"
  using Avl_Insert_contract [OF assms(1-3), of e it] assms(4,5) by (elim exE conjE) auto

theorem Avl_Insert_adds_witness:
  "\<exists>s' a T'. Avl_Insert sample_env sample_avl 4 40 NULL = Some (e_StatusCode_Success, s', a) \<and> avl_inv s' T' \<and>
    entries T' = [(2, 3, 30), (a, 4, 40), (1, 5, 50)]"
  using Avl_Insert_adds [OF sample_inv, of sample_env 4 40 NULL] sample_New by auto

text \<open>C22. Inserting a key that is already in the tree returns \<open>e_StatusCode_AlreadyExists\<close> and changes
neither the tree nor the caller's iterator.\<close>

theorem Avl_Insert_existing:
  assumes "avl_inv s T" "heap_alloc_fresh w" "ordered_keys (insert key (set (tree_keys T)))"
    and "key \<in> set (tree_keys T)"
  shows "Avl_Insert w s key e it = Some (e_StatusCode_AlreadyExists, s, it)"
  using Avl_Insert_contract [OF assms(1-3), of e it] assms(4) by (elim exE conjE) simp

theorem Avl_Insert_existing_witness:
  "Avl_Insert sample_env sample_avl 3 40 NULL = Some (e_StatusCode_AlreadyExists, sample_avl, NULL)"
  by (rule Avl_Insert_existing [OF sample_inv]) simp_all

text \<open>C23. An insertion that fails because the node cannot be allocated, or because copying the key or the
element throws, reports that status and leaves the tree and the caller's iterator unchanged; the block
obtained for the node has been given back.\<close>

theorem Avl_Insert_failure:
  assumes "avl_inv s T" "heap_alloc_fresh w" "ordered_keys (insert key (set (tree_keys T)))"
    and "key \<notin> set (tree_keys T)" "fst (NewNode w e_Equal (blocks s) key e) \<noteq> e_StatusCode_Success" "heap_free_ok w"
  shows "Avl_Insert w s key e it = Some (fst (NewNode w e_Equal (blocks s) key e), s, it)"
  using Avl_Insert_contract [OF assms(1-3), of e it] assms(4-6) by (elim exE conjE) simp

theorem Avl_Insert_failure_witness:
  "Avl_Insert (sample_env\<lparr>AssignPair := \<lambda>k e. Threw_Heap_Exception\<rparr>) sample_avl 4 40 NULL =
     Some (e_StatusCode_OutOfMemory, sample_avl, NULL)"
proof -
  let ?w = "sample_env\<lparr>AssignPair := \<lambda>k e. Threw_Heap_Exception\<rparr> :: (nat, nat, WmAvlState) tree_env"
  have "fst (NewNode ?w e_Equal (blocks sample_avl) 4 40) = e_StatusCode_OutOfMemory"
    by (simp add: NewNode_def WmiAllocator_New_def WmiAllocator_New_opt_def sample_env_def sample_avl_def Let_def)
  moreover have "heap_alloc_fresh ?w" "heap_free_ok ?w"
    by (simp_all add: sample_env_def heap_alloc_fresh_def heap_free_ok_def)
  ultimately show ?thesis
    using Avl_Insert_failure [OF sample_inv, of ?w 4 40 NULL] by simp
qed

text \<open>C24. Deleting a key that is in the tree succeeds and removes exactly the entry of that key: every
other entry keeps its node, key, element and position, and the tree stays balanced, counted and free
of garbage.\<close>

theorem Avl_Delete_removes:
  assumes "avl_inv s T" "ordered_keys (insert key (set (tree_keys T)))" "key \<in> set (tree_keys T)"
    and "heap_free_ok w" "m_Heap (m_Allocator w) \<noteq> 0"
  shows "\<exists>s' T'. Avl_Delete w s key = Some (e_StatusCode_Success, s') \<and> avl_inv s' T' \<and>
    entries T' = filter (\<lambda>x. key_of x \<noteq> key) (entries T)"
  using Avl_Delete_contract [OF assms(1,2), of w] assms(3-5) by (elim exE conjE) auto

theorem Avl_Delete_removes_witness:
  "\<exists>s' T'. Avl_Delete sample_env sample_avl 5 = Some (e_StatusCode_Success, s') \<and> avl_inv s' T' \<and>
    entries T' = [(2, 3, 30)]"
  using Avl_Delete_removes [OF sample_inv, of 5 sample_env] by auto

text \<open>C25. Deleting a key that is not in the tree returns \<open>e_StatusCode_NotFound\<close> and changes nothing.\<close>

theorem Avl_Delete_absent:
  assumes "avl_inv s T" "ordered_keys (insert key (set (tree_keys T)))" "key \<notin> set (tree_keys T)"
  shows "Avl_Delete w s key = Some (e_StatusCode_NotFound, s)"
  using Avl_Delete_contract [OF assms(1,2), of w] assms(3) by (elim exE conjE) simp

theorem Avl_Delete_absent_witness:
  "Avl_Delete sample_env sample_avl 4 = Some (e_StatusCode_NotFound, sample_avl)"
  by (rule Avl_Delete_absent [OF sample_inv]) simp_all

text \<open>C26. \<open>Find\<close> agrees with a linear search of the entries: it returns the node of the key and success,
or \<open>e_StatusCode_NotFound\<close> and the caller's iterator untouched.\<close>

theorem Avl_Find_correct:
  assumes "avl_inv s T" "ordered_keys (insert key (set (tree_keys T)))"
  shows "Avl_Find s key it = Some (case List.find (\<lambda>x. key_of x = key) (entries T) of
    None \<Rightarrow> (e_StatusCode_NotFound, it) | Some x \<Rightarrow> (e_StatusCode_Success, fst x))"
  using assms by (auto simp: Avl_Find_def avl_inv_def Find_Loop_contract)

theorem Avl_Find_correct_witness: "Avl_Find sample_avl 3 NULL = Some (e_StatusCode_Success, 2)"
  using Avl_Find_correct [OF sample_inv, of 3 NULL] by simp

text \<open>C27. \<open>FindNext\<close> returns the first node whose key is greater than the one given, whether or not that
key is in the tree, and \<open>e_StatusCode_NotFound\<close> with a null iterator when there is none; only on an
empty tree is the caller's iterator left alone.\<close>

theorem Avl_FindNext_correct:
  assumes "avl_inv s T" "ordered_keys (insert key (set (tree_keys T)))"
  shows "Avl_FindNext s key it = Some (if T = Tip then (e_StatusCode_NotFound, it)
    else Found_or_Null (first_addr (filter (\<lambda>x. key < key_of x) (entries T))))"
  using assms by (auto simp: Avl_FindNext_def avl_inv_def FindNext_Loop_contract)

theorem Avl_FindNext_correct_witness: "Avl_FindNext sample_avl 4 NULL = Some (e_StatusCode_Success, 1)"
  using Avl_FindNext_correct [OF sample_inv, of 4 NULL] by (simp add: Found_or_Null_def)

text \<open>C28. \<open>Begin\<close> and \<open>Increment\<close> visit the entries in key order and end with the null iterator;
\<open>End\<close> and \<open>Decrement\<close> visit them backwards.\<close>

theorem Iterator_order:
  assumes "avl_inv s T" "entries T = xs @ (a, k, e) # ys"
  shows "Begin s = Some (first_addr (entries T)) \<and> End s = Some (last_addr (entries T)) \<and>
    Increment (blocks s) a = Some (first_addr ys) \<and> Decrement (blocks s) a = Some (last_addr xs)"
  using assms Begin_End_entries [of s T] Increment_entries [of s T xs a k e ys] by (simp add: avl_inv_def)

theorem Iterator_order_witness:
  "Begin sample_avl = Some 2 \<and> Increment (blocks sample_avl) 2 = Some 1 \<and> Decrement (blocks sample_avl) 2 = Some NULL"
  using Iterator_order [OF sample_inv, of "[]" 2 3 30 "[(1, 5, 50)]"] by (simp add: last_addr_def)

text \<open>C29. The built-in \<open>Check\<close> accepts every well-formed tree of less than 2^32 nodes. Of a tree that
is not empty it reports the height, which is at most 65; for the empty tree it leaves the caller's
variable as it was.\<close>

theorem Avl_Check_accepts:
  assumes "avl_inv s T" "length (entries T) < 2 ^ 32"
  shows "Avl_Check s mh = Some (e_StatusCode_Success, if T = Tip then mh else of_nat (height T)) \<and> height T \<le> 65"
  using Avl_Check_contract [of s T mh] avl_height_32 [of T] avl_accepted [of T] assms by (simp add: avl_inv_def)

theorem Avl_Check_accepts_witness:
  "Avl_Check sample_avl 0 = Some (e_StatusCode_Success, 2)"
  using Avl_Check_accepts [OF sample_inv, of 0] by (simp add: sample_tree_def)

definition lopsided :: "(nat, nat) avl" where
  "lopsided = \<lparr>m_Root = 1, m_Size = 3, blocks =
     [1 \<mapsto> \<lparr>m_Key = 1, m_Element = 0, m_Left = NULL, m_Right = 2, m_Parent = NULL, m_State = e_RightHigher\<rparr>,
      2 \<mapsto> \<lparr>m_Key = 2, m_Element = 0, m_Left = NULL, m_Right = 3, m_Parent = 1, m_State = e_RightHigher\<rparr>,
      3 \<mapsto> \<lparr>m_Key = 3, m_Element = 0, m_Left = NULL, m_Right = NULL, m_Parent = 2, m_State = e_Equal\<rparr>]\<rparr>"

text \<open>C30. What \<open>Check\<close> accepts of the trees whose links are right, whatever their tags, shape and count
are: exactly those with the right count in which, at the nodes it looks at, the side that the tag
names is higher. It does not ask by how much, and it looks at the left subtree of a node only if
there is no right one. So it accepts trees that are not balanced.\<close>

theorem Avl_Check_accepts_iff:
  assumes "rep s T" "T \<noteq> Tip" "length (entries T) < 2 ^ 32"
  shows "Avl_Check s mh = Some (if accepted T \<and> size_ok s T then e_StatusCode_Success else e_StatusCode_Failed,
    of_nat (height T))"
  using Avl_Check_contract [of s T mh] assms by simp

definition lopsided_tree :: "(nat, nat, WmAvlState) tree" where
  "lopsided_tree = Br Tip 1 1 0 e_RightHigher (Br Tip 2 2 0 e_RightHigher (Br Tip 3 3 0 e_Equal Tip))"

theorem Avl_Check_accepts_iff_witness:
  "Avl_Check lopsided 0 = Some (e_StatusCode_Success, 3) \<and> \<not> avl lopsided_tree"
proof -
  have "rep lopsided lopsided_tree" "size_ok lopsided lopsided_tree"
    by (simp_all add: rep_def size_ok_def lopsided_def lopsided_tree_def)
  then show ?thesis
    using Avl_Check_accepts_iff [of lopsided lopsided_tree 0] by (simp add: lopsided_tree_def)
qed

text \<open>C31. \<open>UnInitialize\<close> of a tree that has a node releases every node but the root: the block of the
root stays allocated although nothing points to it, and \<open>m_Size\<close> keeps the old count.\<close>

theorem Avl_UnInitialize_leaks_root:
  assumes "avl_inv s T" "T \<noteq> Tip" "heap_free_ok w" "m_Heap (m_Allocator w) \<noteq> 0"
  shows "\<exists>s'. Avl_UnInitialize w s = Some (e_StatusCode_Success, s') \<and> m_Root s' = NULL \<and>
    m_Size s' = m_Size s \<and> dom (blocks s') = {m_Root s}"
  using Avl_UnInitialize_contract [OF assms] assms(1) by (simp add: avl_inv_def rep_def)

theorem Avl_UnInitialize_leaks_root_witness:
  "\<exists>s'. Avl_UnInitialize sample_env sample_avl = Some (e_StatusCode_Success, s') \<and> dom (blocks s') = {1} \<and>
    m_Size s' = 2"
  using Avl_UnInitialize_leaks_root [OF sample_inv, of sample_env] by (auto simp: sample_avl_def)

text \<open>C32. \<open>Merge\<close> neither loses nor duplicates a pair, whether it succeeds or stops at a failing
insertion: the key and element pairs of the two trees together stay the same, and after a success
the source is empty.\<close>

theorem Avl_Merge_conserves:
  assumes "avl_inv s T" "avl_inv a A" "heap_alloc_fresh w" "heap_free_ok w" "heap_free_ok wa"
    and "m_Heap (m_Allocator wa) \<noteq> 0" "ordered_keys (set (tree_keys T) \<union> set (tree_keys A))"
  shows "\<exists>sc s' a' T' A'. Avl_Merge w wa s a = Some (sc, s', a') \<and> avl_inv s' T' \<and> avl_inv a' A' \<and>
    pairs T' + pairs A' = pairs T + pairs A \<and> (A' = Tip \<or> sc \<noteq> e_StatusCode_Success)"
  using Avl_Merge_Loop_contract [OF assms, of e_StatusCode_Success] unfolding Avl_Merge_def by metis

theorem Avl_Merge_conserves_witness:
  "\<exists>sc s' a' T' A'. Avl_Merge sample_env sample_env WmiAvlTree_new sample_avl = Some (sc, s', a') \<and>
    avl_inv s' T' \<and> avl_inv a' A' \<and> pairs T' + pairs A' = {#(3, 30), (5, 50)#}"
proof -
  have "avl_inv (WmiAvlTree_new :: (nat, nat) avl) Tip"
    by (simp add: avl_inv_def rep_def WmiAvlTree_new_def sorted_tree_def size_ok_def no_leak_def)
  then obtain sc s' a' T' A' where "Avl_Merge sample_env sample_env WmiAvlTree_new sample_avl = Some (sc, s', a')"
    "avl_inv s' T'" "avl_inv a' A'" "pairs T' + pairs A' = pairs (Tip :: (nat, nat, WmAvlState) tree) + pairs sample_tree"
    using Avl_Merge_conserves [OF _ sample_inv, of WmiAvlTree_new Tip sample_env sample_env] by auto
  moreover have "pairs (Tip :: (nat, nat, WmAvlState) tree) + pairs sample_tree = {#(3, 30), (5, 50)#}"
    by (simp add: pairs_def)
  ultimately show ?thesis by metis
qed

end
