(* ===== verification/BitsTypes.thy ===== *)
theory BitsTypes
  imports Prelude
begin

text \<open>
  The enumerations, result codes and error records the BITS service shares
  (\<open>src/services/drizzle/idl/bits.idl\<close>, \<open>idl/bitsmsg.mc\<close>, \<open>inc/qmgrlib.h\<close>,
  \<open>newjob/cerror.cpp\<close>). A \<open>HRESULT\<close> is a 32-bit word whose top bit says failure;
  the \<open>BG_\<close> codes are the ones \<open>bitsmsg.mc\<close> assigns under facility \<open>0x20\<close>.
\<close>

unbundle bit_operations_syntax

section \<open>Result codes\<close>

type_synonym HRESULT = "32 word"

abbreviation S_OK :: HRESULT where "S_OK \<equiv> 0"
abbreviation S_FALSE :: HRESULT where "S_FALSE \<equiv> 1"
abbreviation E_NOTIMPL :: HRESULT where "E_NOTIMPL \<equiv> 0x80004001"
abbreviation E_FAIL :: HRESULT where "E_FAIL \<equiv> 0x80004005"
abbreviation E_ACCESSDENIED :: HRESULT where "E_ACCESSDENIED \<equiv> 0x80070005"
abbreviation E_OUTOFMEMORY :: HRESULT where "E_OUTOFMEMORY \<equiv> 0x8007000E"
abbreviation E_INVALIDARG :: HRESULT where "E_INVALIDARG \<equiv> 0x80070057"
abbreviation BG_E_NOT_FOUND :: HRESULT where "BG_E_NOT_FOUND \<equiv> 0x80200001"
abbreviation BG_E_INVALID_STATE :: HRESULT where "BG_E_INVALID_STATE \<equiv> 0x80200002"
abbreviation BG_E_EMPTY :: HRESULT where "BG_E_EMPTY \<equiv> 0x80200003"
abbreviation BG_E_DESTINATION_LOCKED :: HRESULT where "BG_E_DESTINATION_LOCKED \<equiv> 0x8020000D"
abbreviation BG_E_VOLUME_CHANGED :: HRESULT where "BG_E_VOLUME_CHANGED \<equiv> 0x8020000E"
abbreviation BG_E_ERROR_INFORMATION_UNAVAILABLE :: HRESULT where
  "BG_E_ERROR_INFORMATION_UNAVAILABLE \<equiv> 0x8020000F"
abbreviation BG_E_NETWORK_DISCONNECTED :: HRESULT where "BG_E_NETWORK_DISCONNECTED \<equiv> 0x80200010"
abbreviation BG_S_PARTIAL_COMPLETE :: HRESULT where "BG_S_PARTIAL_COMPLETE \<equiv> 0x00200017"
abbreviation BG_S_UNABLE_TO_DELETE_FILES :: HRESULT where "BG_S_UNABLE_TO_DELETE_FILES \<equiv> 0x0020001A"
abbreviation BG_E_INVALID_SERVER_RESPONSE :: HRESULT where "BG_E_INVALID_SERVER_RESPONSE \<equiv> 0x8020001B"
abbreviation BG_E_TOO_MANY_FILES :: HRESULT where "BG_E_TOO_MANY_FILES \<equiv> 0x8020001C"
abbreviation BG_E_STRING_TOO_LONG :: HRESULT where "BG_E_STRING_TOO_LONG \<equiv> 0x80200021"

abbreviation ERROR_FILE_NOT_FOUND :: "32 word" where "ERROR_FILE_NOT_FOUND \<equiv> 2"
abbreviation ERROR_PATH_NOT_FOUND :: "32 word" where "ERROR_PATH_NOT_FOUND \<equiv> 3"
abbreviation ERROR_SHARING_VIOLATION :: "32 word" where "ERROR_SHARING_VIOLATION \<equiv> 32"
abbreviation ERROR_NOT_LOGGED_ON :: "32 word" where "ERROR_NOT_LOGGED_ON \<equiv> 1245"

definition FAILED :: "HRESULT \<Rightarrow> bool" where
  "FAILED hr \<longleftrightarrow> 0x80000000 \<le> hr"

abbreviation SUCCEEDED :: "HRESULT \<Rightarrow> bool" where
  "SUCCEEDED hr \<equiv> \<not> FAILED hr"

definition HRESULT_FROM_WIN32 :: "32 word \<Rightarrow> HRESULT" where
  "HRESULT_FROM_WIN32 x =
     (if x = 0 \<or> 0x80000000 \<le> x then x else (x AND 0xFFFF) OR 0x80070000)"

lemma FAILED_HRESULT_FROM_WIN32 [simp]: "FAILED (HRESULT_FROM_WIN32 x) \<longleftrightarrow> x \<noteq> 0"
proof -
  have "(0x80070000 :: 32 word) \<le> (x AND 0xFFFF) OR 0x80070000"
    by (metis le_word_or2 or.commute)
  then have "(0x80000000 :: 32 word) \<le> (x AND 0xFFFF) OR 0x80070000"
    by (rule order_trans [rotated]) simp
  then show ?thesis
    by (auto simp: FAILED_def HRESULT_FROM_WIN32_def)
qed

lemma HRESULT_FROM_WIN32_eq_0 [simp]: "HRESULT_FROM_WIN32 x = 0 \<longleftrightarrow> x = 0"
  using FAILED_HRESULT_FROM_WIN32 [of x] by (auto simp: HRESULT_FROM_WIN32_def FAILED_def)

section \<open>Enumerations of the job interface\<close>

text \<open>
  A priority arrives as an \<open>int\<close> from the client; a lower number is a more urgent job.
\<close>

abbreviation BG_JOB_PRIORITY_FOREGROUND :: int where "BG_JOB_PRIORITY_FOREGROUND \<equiv> 0"
abbreviation BG_JOB_PRIORITY_HIGH :: int where "BG_JOB_PRIORITY_HIGH \<equiv> 1"
abbreviation BG_JOB_PRIORITY_NORMAL :: int where "BG_JOB_PRIORITY_NORMAL \<equiv> 2"
abbreviation BG_JOB_PRIORITY_LOW :: int where "BG_JOB_PRIORITY_LOW \<equiv> 3"

datatype BG_JOB_STATE =
    BG_JOB_STATE_QUEUED
  | BG_JOB_STATE_CONNECTING
  | BG_JOB_STATE_TRANSFERRING
  | BG_JOB_STATE_SUSPENDED
  | BG_JOB_STATE_ERROR
  | BG_JOB_STATE_TRANSIENT_ERROR
  | BG_JOB_STATE_TRANSFERRED
  | BG_JOB_STATE_ACKNOWLEDGED
  | BG_JOB_STATE_CANCELLED

datatype BG_JOB_TYPE = BG_JOB_TYPE_DOWNLOAD | BG_JOB_TYPE_UPLOAD | BG_JOB_TYPE_UPLOAD_REPLY

abbreviation BG_NOTIFY_JOB_TRANSFERRED :: "32 word" where "BG_NOTIFY_JOB_TRANSFERRED \<equiv> 1"
abbreviation BG_NOTIFY_JOB_ERROR :: "32 word" where "BG_NOTIFY_JOB_ERROR \<equiv> 2"
abbreviation BG_NOTIFY_DISABLE :: "32 word" where "BG_NOTIFY_DISABLE \<equiv> 4"
abbreviation BG_NOTIFY_JOB_MODIFICATION :: "32 word" where "BG_NOTIFY_JOB_MODIFICATION \<equiv> 8"

abbreviation BG_SIZE_UNKNOWN :: "64 word" where "BG_SIZE_UNKNOWN \<equiv> - 1"

abbreviation NanoSec100PerSec :: "64 word" where "NanoSec100PerSec \<equiv> 10000000"

section \<open>Error information\<close>

datatype FILE_DOWNLOAD_RESULT =
    QM_IN_PROGRESS
  | QM_FILE_ABORTED
  | QM_FILE_DONE
  | QM_FILE_TRANSIENT_ERROR
  | QM_FILE_FATAL_ERROR
  | QM_SERVER_FILE_CHANGED

text \<open>\<open>ERROR_SOURCE\<close> values are built from a component and a sub-component as in \<open>qmgrlib.h\<close>.\<close>

abbreviation COMPONENT_MASK :: "32 word" where "COMPONENT_MASK \<equiv> 0xC0000000"
abbreviation COMPONENT_TRANS :: "32 word" where "COMPONENT_TRANS \<equiv> 0x80000000"
abbreviation SOURCE_NONE :: "32 word" where "SOURCE_NONE \<equiv> 0"
abbreviation SOURCE_QMGR_FILE :: "32 word" where "SOURCE_QMGR_FILE \<equiv> 0x40010000"
abbreviation SOURCE_QMGR_QUEUE :: "32 word" where "SOURCE_QMGR_QUEUE \<equiv> 0x40020000"
abbreviation SOURCE_HTTP_CLIENT_CONN :: "32 word" where "SOURCE_HTTP_CLIENT_CONN \<equiv> 0x80010001"

datatype ERROR_STYLE =
  ERROR_STYLE_NONE | ERROR_STYLE_HRESULT | ERROR_STYLE_WIN32 | ERROR_STYLE_HTTP

record QMErrInfo =
  result :: FILE_DOWNLOAD_RESULT
  Code :: "64 word"
  Style :: ERROR_STYLE
  Source :: "32 word"

definition QMErrInfo_new :: QMErrInfo where
  "QMErrInfo_new = \<lparr>result = QM_FILE_DONE, Code = 0, Style = ERROR_STYLE_NONE, Source = SOURCE_NONE\<rparr>"

text \<open>A \<open>HRESULT\<close> is signed and is sign-extended into the 64-bit \<open>Code\<close>.\<close>

definition QMErrInfo_hr :: "FILE_DOWNLOAD_RESULT \<Rightarrow> 32 word \<Rightarrow> HRESULT \<Rightarrow> QMErrInfo" where
  "QMErrInfo_hr res src hr = \<lparr>result = res, Code = scast hr, Style = ERROR_STYLE_HRESULT, Source = src\<rparr>"

definition QMErrInfo_eq :: "QMErrInfo \<Rightarrow> QMErrInfo \<Rightarrow> bool" where
  "QMErrInfo_eq e err \<longleftrightarrow> Source e = Source err \<and> Style e = Style err \<and> Code e = Code err"

text \<open>\<open>CJobError\<close> of \<open>cerror.h\<close>: the back pointer \<open>m_job\<close> is a job handle, or \<open>0\<close>.\<close>

abbreviation NO_FILE_INDEX :: int where "NO_FILE_INDEX \<equiv> - 2147483648"
abbreviation REPLY_FILE_INDEX :: int where "REPLY_FILE_INDEX \<equiv> - 1"

record CJobError =
  m_ErrorSet :: bool
  m_FileIndex :: int
  m_job :: nat
  m_ErrInfo :: QMErrInfo

definition ClearError :: CJobError where
  "ClearError = \<lparr>m_ErrorSet = False, m_FileIndex = 0, m_job = 0,
     m_ErrInfo = \<lparr>result = QM_IN_PROGRESS, Code = 0, Style = ERROR_STYLE_NONE, Source = 0\<rparr>\<rparr>"

definition CJobError_Set :: "nat \<Rightarrow> int \<Rightarrow> QMErrInfo \<Rightarrow> CJobError" where
  "CJobError_Set job FileIndex ErrInfo =
     \<lparr>m_ErrorSet = True, m_FileIndex = FileIndex, m_job = job, m_ErrInfo = ErrInfo\<rparr>"

definition CJobError_eq :: "CJobError \<Rightarrow> CJobError \<Rightarrow> bool" where
  "CJobError_eq e err \<longleftrightarrow>
     m_ErrorSet e = m_ErrorSet err \<and> m_FileIndex e = m_FileIndex err \<and>
     m_job e = m_job err \<and> QMErrInfo_eq (m_ErrInfo e) (m_ErrInfo err)"

text \<open>
  \<open>CJobError::GetOldInterfaceErrors\<close>: the Win32 and the transport result reported to
  the old interface. The first output is \<open>None\<close> where the code leaves the caller's
  variable untouched.
\<close>

definition GetOldInterfaceErrors :: "CJobError \<Rightarrow> 32 word option \<times> 32 word" where
  "GetOldInterfaceErrors e =
     (if \<not> m_ErrorSet e then (Some 0, 0)
      else
        (let GetCode = Code (m_ErrInfo e) in
         (if Style (m_ErrInfo e) = ERROR_STYLE_WIN32 then Some (ucast GetCode)
          else if Style (m_ErrInfo e) = ERROR_STYLE_HRESULT \<and> GetCode AND 0xFFFF0000 = 0x80070000
          then Some (ucast (GetCode AND 0xFFFF))
          else None,
          if Source (m_ErrInfo e) AND COMPONENT_MASK = COMPONENT_TRANS then ucast GetCode else 0)))"

lemma ErrorSet_simps [simp]:
  "m_ErrorSet ClearError = False" "m_ErrorSet (CJobError_Set j i e) = True"
  "m_FileIndex (CJobError_Set j i e) = i" "m_ErrInfo (CJobError_Set j i e) = e"
  by (simp_all add: ClearError_def CJobError_Set_def)

lemma CJobError_eq_ErrorSet: "CJobError_eq e e' \<Longrightarrow> m_ErrorSet e = m_ErrorSet e'"
  by (simp add: CJobError_eq_def)

end
