(* ===== verification/TaskSched.thy ===== *)
theory TaskSched
  imports BitsTypes
begin

text \<open>
  The task scheduler of the BITS service
  (\<open>src/services/drizzle/newjob/tasksched.cpp\<close> and \<open>tasksched.h\<close>): work items wait in a
  list sorted by due time, move to the ready list of their owner's work group when due,
  and run on a worker of that group. The scheduler mutex makes every operation atomic, so
  an operation is a function on the scheduler state. \<open>SystemTime\<close> is the clock the code
  reads; \<open>m_WorkItemTLS\<close> is the work item of the thread that executes the operation. The
  worker threads are not counted, so neither are the semaphores they wait on: a worker
  that was woken is the operation \<open>WorkGroupWorker_take\<close>.

  \<open>FailedAsserts\<close> collects the work items about which an \<open>ASSERT\<close> of the scheduler has
  failed. The asserts modelled are those about the work items: that an acknowledged item
  was cancelled, that an item the scheduler does not hold has no group, and that a worker
  takes items of its own group. Those about the mutex, the semaphores and the owner of the
  reader-writer lock speak of what is not in the model.
\<close>

section \<open>Work items\<close>

text \<open>
  A job object derives from five work items, the manager from one. The handle of a job
  stands for its address; within a job the base subobjects lie in the order of the
  base-class list, which gives the address order that \<open>TaskSchedulerWorkItemSorter\<close>
  falls back on.
\<close>

datatype WorkItem =
    CJobManagerItem
  | CJobInactivityTimeout nat
  | CJobRetryItem nat
  | CJobCallbackItem nat
  | CJobNoProgressItem nat
  | CJobModificationItem nat

fun item_address :: "WorkItem \<Rightarrow> nat \<times> nat" where
  "item_address CJobManagerItem = (0, 0)"
| "item_address (CJobInactivityTimeout j) = (j, 1)"
| "item_address (CJobRetryItem j) = (j, 2)"
| "item_address (CJobCallbackItem j) = (j, 3)"
| "item_address (CJobNoProgressItem j) = (j, 4)"
| "item_address (CJobModificationItem j) = (j, 5)"

lemma item_address_inj: "item_address a = item_address b \<Longrightarrow> a = b"
  by (cases a; cases b) simp_all

instantiation WorkItem :: linorder
begin

definition less_eq_WorkItem :: "WorkItem \<Rightarrow> WorkItem \<Rightarrow> bool" where
  "a \<le> b \<longleftrightarrow> fst (item_address a) < fst (item_address b) \<or>
     fst (item_address a) = fst (item_address b) \<and> snd (item_address a) \<le> snd (item_address b)"

definition less_WorkItem :: "WorkItem \<Rightarrow> WorkItem \<Rightarrow> bool" where
  "a < b \<longleftrightarrow> fst (item_address a) < fst (item_address b) \<or>
     fst (item_address a) = fst (item_address b) \<and> snd (item_address a) < snd (item_address b)"

instance
proof
  fix a b :: WorkItem
  assume "a \<le> b" "b \<le> a"
  then show "a = b"
    by (intro item_address_inj prod_eqI) (auto simp: less_eq_WorkItem_def)
qed (auto simp: less_eq_WorkItem_def less_WorkItem_def)

end

datatype TASK_STATE =
    TASK_STATE_WAITING
  | TASK_STATE_READY
  | TASK_STATE_RUNNING
  | TASK_STATE_CANCELED
  | TASK_STATE_COMPLETE
  | TASK_STATE_NOTHING

text \<open>A work group is named by the user it belongs to (\<open>SidHandle\<close>).\<close>

record TaskSchedulerWorkItem =
  m_InsertionTime :: "64 word"
  m_TimeToRun :: "64 word"
  m_CancelEvent :: bool
  m_ItemComplete :: bool
  m_WorkGroup :: "nat option"
  m_State :: TASK_STATE

definition TaskSchedulerWorkItem_new :: TaskSchedulerWorkItem where
  "TaskSchedulerWorkItem_new =
     \<lparr>m_InsertionTime = 0, m_TimeToRun = 0, m_CancelEvent = True, m_ItemComplete = False,
      m_WorkGroup = None, m_State = TASK_STATE_NOTHING\<rparr>"

record TaskScheduler =
  WorkItems :: "WorkItem \<Rightarrow> TaskSchedulerWorkItem"
  m_WaitingList :: "WorkItem list"
  m_ReadyList :: "nat \<Rightarrow> WorkItem list"
  m_RunningList :: "nat \<Rightarrow> WorkItem list"
  m_WaitableTimer :: "64 word option"
  m_WorkItemTLS :: "WorkItem option"
  m_bShouldDie :: bool
  FailedAsserts :: "WorkItem option list"
  SystemTime :: "64 word"

definition TaskScheduler_new :: "64 word \<Rightarrow> TaskScheduler" where
  "TaskScheduler_new t =
     \<lparr>WorkItems = (\<lambda>_. TaskSchedulerWorkItem_new), m_WaitingList = [], m_ReadyList = (\<lambda>_. []),
      m_RunningList = (\<lambda>_. []), m_WaitableTimer = None, m_WorkItemTLS = None,
      m_bShouldDie = False, FailedAsserts = [], SystemTime = t\<rparr>"

definition set_item :: "WorkItem \<Rightarrow> (TaskSchedulerWorkItem \<Rightarrow> TaskSchedulerWorkItem) \<Rightarrow> TaskScheduler \<Rightarrow> TaskScheduler" where
  "set_item i f ts = ts\<lparr>WorkItems := (WorkItems ts)(i := f (WorkItems ts i))\<rparr>"

definition SCHED_ASSERT :: "bool \<Rightarrow> WorkItem option \<Rightarrow> TaskScheduler \<Rightarrow> TaskScheduler" where
  "SCHED_ASSERT b i ts = (if b then ts else ts\<lparr>FailedAsserts := i # FailedAsserts ts\<rparr>)"

section \<open>Sorted lists of work items\<close>

definition TaskSchedulerWorkItemSorter :: "TaskScheduler \<Rightarrow> WorkItem \<Rightarrow> WorkItem \<Rightarrow> bool" where
  "TaskSchedulerWorkItemSorter ts pA pB =
     (let A = WorkItems ts pA; B = WorkItems ts pB in
      if m_TimeToRun A \<noteq> m_TimeToRun B then m_TimeToRun A < m_TimeToRun B
      else if m_InsertionTime A \<noteq> m_InsertionTime B then m_InsertionTime A < m_InsertionTime B
      else pA < pB)"

fun SortedWorkItemList_insert :: "TaskScheduler \<Rightarrow> WorkItem \<Rightarrow> WorkItem list \<Rightarrow> WorkItem list" where
  "SortedWorkItemList_insert ts val [] = [val]"
| "SortedWorkItemList_insert ts val (iter # rest) =
     (if \<not> TaskSchedulerWorkItemSorter ts iter val then val # iter # rest
      else iter # SortedWorkItemList_insert ts val rest)"

definition SortedWorkItemList_erase :: "WorkItem \<Rightarrow> WorkItem list \<Rightarrow> WorkItem list" where
  "SortedWorkItemList_erase val xs = remove1 val xs"

section \<open>Operations\<close>

definition Reschedule :: "TaskScheduler \<Rightarrow> TaskScheduler" where
  "Reschedule ts =
     (case m_WaitingList ts of
        [] \<Rightarrow> ts\<lparr>m_WaitableTimer := None\<rparr>
      | i # _ \<Rightarrow> ts\<lparr>m_WaitableTimer := Some (m_TimeToRun (WorkItems ts i))\<rparr>)"

definition AddItemToWorkGroup :: "nat \<Rightarrow> WorkItem \<Rightarrow> TaskScheduler \<Rightarrow> TaskScheduler" where
  "AddItemToWorkGroup Sid pWorkItem ts =
     set_item pWorkItem (\<lambda>i. i\<lparr>m_State := TASK_STATE_READY, m_WorkGroup := Some Sid\<rparr>)
       (ts\<lparr>m_ReadyList := (m_ReadyList ts)
             (Sid := SortedWorkItemList_insert ts pWorkItem (m_ReadyList ts Sid))\<rparr>)"

text \<open>\<open>CompleteWorkItem\<close> acts on the work item of the current thread, if it has one.\<close>

definition CompleteWorkItem :: "bool \<Rightarrow> TaskScheduler \<Rightarrow> TaskScheduler" where
  "CompleteWorkItem bCancel ts =
     (case m_WorkItemTLS ts of
        None \<Rightarrow> ts
      | Some i \<Rightarrow>
          set_item i (\<lambda>w. w\<lparr>m_WorkGroup := None,
                 m_State := (if bCancel then TASK_STATE_CANCELED else TASK_STATE_COMPLETE),
                 m_ItemComplete := True\<rparr>)
            (ts\<lparr>m_WorkItemTLS := None,
               m_RunningList := (case m_WorkGroup (WorkItems ts i) of
                  None \<Rightarrow> m_RunningList ts
                | Some g \<Rightarrow> (m_RunningList ts)(g := SortedWorkItemList_erase i (m_RunningList ts g)))\<rparr>))"

text \<open>A thread without a work item waits on no event, which fails: it is not aborted.\<close>

definition PollAbort :: "TaskScheduler \<Rightarrow> bool" where
  "PollAbort ts =
     (case m_WorkItemTLS ts of None \<Rightarrow> False | Some i \<Rightarrow> m_CancelEvent (WorkItems ts i))"

definition AcknowledgeWorkItemCancel :: "TaskScheduler \<Rightarrow> TaskScheduler" where
  "AcknowledgeWorkItemCancel ts =
     CompleteWorkItem True (SCHED_ASSERT (PollAbort ts) (m_WorkItemTLS ts) ts)"

text \<open>
  The branch for an item that runs on another thread sets the item's cancel event and
  waits until that thread has acknowledged, which is \<open>AcknowledgeWorkItemCancel\<close> executed
  with that thread's work item.
\<close>

definition CancelWorkItem :: "WorkItem \<Rightarrow> TaskScheduler \<Rightarrow> bool \<times> TaskScheduler" where
  "CancelWorkItem pWorkItem ts =
     (let w = WorkItems ts pWorkItem in
      if m_ItemComplete w then (True, ts)
      else if m_WorkItemTLS ts = Some pWorkItem then
        (False, AcknowledgeWorkItemCancel (set_item pWorkItem (\<lambda>w. w\<lparr>m_CancelEvent := True\<rparr>) ts))
      else
        (case m_State w of
           TASK_STATE_WAITING \<Rightarrow>
             (False, Reschedule
                (set_item pWorkItem (\<lambda>w. w\<lparr>m_State := TASK_STATE_CANCELED, m_WorkGroup := None\<rparr>)
                  (ts\<lparr>m_WaitingList := SortedWorkItemList_erase pWorkItem (m_WaitingList ts)\<rparr>)))
         | TASK_STATE_READY \<Rightarrow>
             (False,
                set_item pWorkItem (\<lambda>w. w\<lparr>m_State := TASK_STATE_CANCELED, m_WorkGroup := None\<rparr>)
                  (case m_WorkGroup w of
                     None \<Rightarrow> ts
                   | Some g \<Rightarrow> ts\<lparr>m_ReadyList := (m_ReadyList ts)
                        (g := SortedWorkItemList_erase pWorkItem (m_ReadyList ts g))\<rparr>))
         | TASK_STATE_RUNNING \<Rightarrow>
             (False,
                (AcknowledgeWorkItemCancel
                  ((set_item pWorkItem (\<lambda>w. w\<lparr>m_CancelEvent := True\<rparr>) ts)
                     \<lparr>m_WorkItemTLS := Some pWorkItem\<rparr>))\<lparr>m_WorkItemTLS := m_WorkItemTLS ts\<rparr>)
         | _ \<Rightarrow> (True, SCHED_ASSERT (m_WorkGroup w = None) (Some pWorkItem) ts)))"

text \<open>\<open>GetSid\<close> is the virtual function that names the user an item runs for.\<close>

definition InsertWorkItem ::
  "(WorkItem \<Rightarrow> nat) \<Rightarrow> WorkItem \<Rightarrow> 64 word option \<Rightarrow> TaskScheduler \<Rightarrow> TaskScheduler" where
  "InsertWorkItem GetSid pWorkItem pTimeToRun ts =
     (let now = SystemTime ts;
          ts = set_item pWorkItem (\<lambda>w. w\<lparr>m_InsertionTime := now, m_CancelEvent := False,
                 m_ItemComplete := False\<rparr>) ts
      in if pTimeToRun = None \<and> \<not> m_bShouldDie ts then
           AddItemToWorkGroup (GetSid pWorkItem) pWorkItem
             (set_item pWorkItem (\<lambda>w. w\<lparr>m_TimeToRun := m_InsertionTime w\<rparr>) ts)
         else
           (let ts = set_item pWorkItem (\<lambda>w. w\<lparr>m_TimeToRun :=
                       (case pTimeToRun of Some t \<Rightarrow> t | None \<Rightarrow> now), m_State := TASK_STATE_WAITING\<rparr>) ts
            in Reschedule
                 (ts\<lparr>m_WaitingList := SortedWorkItemList_insert ts pWorkItem (m_WaitingList ts)\<rparr>)))"

definition InsertDelayedWorkItem ::
  "(WorkItem \<Rightarrow> nat) \<Rightarrow> WorkItem \<Rightarrow> 64 word \<Rightarrow> TaskScheduler \<Rightarrow> TaskScheduler" where
  "InsertDelayedWorkItem GetSid pWorkItem Delay100Nsec ts =
     InsertWorkItem GetSid pWorkItem (Some (Delay100Nsec + SystemTime ts)) ts"

definition RescheduleDelayedTask :: "WorkItem \<Rightarrow> 64 word \<Rightarrow> TaskScheduler \<Rightarrow> TaskScheduler" where
  "RescheduleDelayedTask pWorkItem Delay100Nsec ts =
     (let w = WorkItems ts pWorkItem;
          requeue = (\<lambda>ts.
            (let ts = set_item pWorkItem (\<lambda>w. w\<lparr>m_TimeToRun := Delay100Nsec + m_InsertionTime w\<rparr>) ts;
                 ts = ts\<lparr>m_WaitingList := SortedWorkItemList_insert ts pWorkItem (m_WaitingList ts)\<rparr>
             in Reschedule
                  (set_item pWorkItem (\<lambda>w. w\<lparr>m_State := TASK_STATE_WAITING, m_WorkGroup := None\<rparr>) ts)))
      in if m_State w = TASK_STATE_READY then
           requeue (case m_WorkGroup w of
                      None \<Rightarrow> ts
                    | Some g \<Rightarrow> ts\<lparr>m_ReadyList := (m_ReadyList ts)
                         (g := SortedWorkItemList_erase pWorkItem (m_ReadyList ts g))\<rparr>)
         else if m_State w = TASK_STATE_WAITING then
           requeue (ts\<lparr>m_WaitingList := SortedWorkItemList_erase pWorkItem (m_WaitingList ts)\<rparr>)
         else ts)"

definition IsWorkItemInScheduler :: "WorkItem \<Rightarrow> TaskScheduler \<Rightarrow> bool" where
  "IsWorkItemInScheduler pWorkItem ts \<longleftrightarrow>
     m_State (WorkItems ts pWorkItem) = TASK_STATE_WAITING \<or>
     m_State (WorkItems ts pWorkItem) = TASK_STATE_READY \<or>
     m_State (WorkItems ts pWorkItem) = TASK_STATE_RUNNING"

text \<open>
  \<open>DispatchWorkItem\<close> moves the due items from the head of the waiting list to the ready
  lists of their groups; the loop looks at the head of what is left each time.
\<close>

fun Dispatch_Loop :: "(WorkItem \<Rightarrow> nat) \<Rightarrow> WorkItem list \<Rightarrow> TaskScheduler \<Rightarrow> TaskScheduler" where
  "Dispatch_Loop GetSid [] ts = ts"
| "Dispatch_Loop GetSid (pHeadItem # rest) ts =
     (if SystemTime ts < m_TimeToRun (WorkItems ts pHeadItem) then ts
      else Dispatch_Loop GetSid rest
             (AddItemToWorkGroup (GetSid pHeadItem) pHeadItem
               (ts\<lparr>m_WaitingList := SortedWorkItemList_erase pHeadItem (m_WaitingList ts)\<rparr>)))"

definition DispatchWorkItem :: "(WorkItem \<Rightarrow> nat) \<Rightarrow> TaskScheduler \<Rightarrow> TaskScheduler" where
  "DispatchWorkItem GetSid ts = Reschedule (Dispatch_Loop GetSid (m_WaitingList ts) ts)"

text \<open>
  A worker that was woken dies when the scheduler is ordered to. Otherwise it takes the
  first ready item of its group, marks it running and makes it the work item of its thread;
  \<open>OnDispatch\<close> then runs the handler. With no ready item the worker is not woken: it waits on
  the group's semaphore, which changes nothing.
\<close>

definition WorkGroupWorker_take :: "nat \<Rightarrow> TaskScheduler \<Rightarrow> TaskScheduler" where
  "WorkGroupWorker_take g ts =
     (if m_bShouldDie ts then ts
      else case m_ReadyList ts g of
        [] \<Rightarrow> ts
      | i # rest \<Rightarrow>
          (let ts = ts\<lparr>m_ReadyList := (m_ReadyList ts)(g := SortedWorkItemList_erase i (m_ReadyList ts g)),
                       m_RunningList := (m_RunningList ts)
                         (g := SortedWorkItemList_insert ts i (m_RunningList ts g))\<rparr>;
               ts = set_item i (\<lambda>w. w\<lparr>m_State := TASK_STATE_RUNNING\<rparr>) ts;
               ts = SCHED_ASSERT (m_WorkGroup (WorkItems ts i) = Some g) (Some i) ts
           in ts\<lparr>m_WorkItemTLS := Some i\<rparr>))"

end
