(* ===== verification/TaskSchedInv.thy ===== *)
theory TaskSchedInv
  imports TaskSched
begin

text \<open>
  Lemmas about the scheduler of \<open>TaskSched\<close>: the well-formedness of its queues and
  timer and that every operation keeps it, what each operation does to the set of
  scheduled items, and the interface \<open>work_scheduler\<close> through which the rest of the
  service uses it.
\<close>

section \<open>Well-formed schedulers\<close>

definition queue_ok :: "TaskScheduler \<Rightarrow> WorkItem list \<Rightarrow> WorkItem set \<Rightarrow> bool" where
  "queue_ok ts xs S \<longleftrightarrow>
     distinct xs \<and> sorted_wrt (TaskSchedulerWorkItemSorter ts) xs \<and> set xs = S"

definition item_ok :: "TaskSchedulerWorkItem \<Rightarrow> bool" where
  "item_ok w \<longleftrightarrow>
     (m_WorkGroup w \<noteq> None \<longleftrightarrow> m_State w = TASK_STATE_READY \<or> m_State w = TASK_STATE_RUNNING) \<and>
     (m_State w \<in> {TASK_STATE_WAITING, TASK_STATE_READY, TASK_STATE_RUNNING} \<longrightarrow> \<not> m_ItemComplete w)"

definition in_state :: "TaskScheduler \<Rightarrow> TASK_STATE \<Rightarrow> nat option \<Rightarrow> WorkItem set" where
  "in_state ts s g = {i. m_State (WorkItems ts i) = s \<and> m_WorkGroup (WorkItems ts i) = g}"

definition timer_ok :: "TaskScheduler \<Rightarrow> bool" where
  "timer_ok ts \<longleftrightarrow> m_WaitableTimer ts =
     (case m_WaitingList ts of [] \<Rightarrow> None | i # _ \<Rightarrow> Some (m_TimeToRun (WorkItems ts i)))"

definition sched_ok :: "TaskScheduler \<Rightarrow> bool" where
  "sched_ok ts \<longleftrightarrow>
     (\<forall>i. item_ok (WorkItems ts i)) \<and>
     queue_ok ts (m_WaitingList ts) (in_state ts TASK_STATE_WAITING None) \<and>
     (\<forall>g. queue_ok ts (m_ReadyList ts g) (in_state ts TASK_STATE_READY (Some g))) \<and>
     (\<forall>g. queue_ok ts (m_RunningList ts g) (in_state ts TASK_STATE_RUNNING (Some g))) \<and>
     (\<forall>i. m_WorkItemTLS ts = Some i \<longrightarrow> m_State (WorkItems ts i) = TASK_STATE_RUNNING)"

text \<open>The sorter is a strict total order that reads nothing but the times of the items.\<close>

lemma sorter_total: "i \<noteq> j \<Longrightarrow> TaskSchedulerWorkItemSorter ts i j \<or> TaskSchedulerWorkItemSorter ts j i"
  by (auto simp: TaskSchedulerWorkItemSorter_def Let_def)

lemma sorter_irrefl [simp]: "\<not> TaskSchedulerWorkItemSorter ts i i"
  by (simp add: TaskSchedulerWorkItemSorter_def)

lemma sorter_trans:
  "TaskSchedulerWorkItemSorter ts i j \<Longrightarrow> TaskSchedulerWorkItemSorter ts j k \<Longrightarrow>
   TaskSchedulerWorkItemSorter ts i k"
  by (auto simp: TaskSchedulerWorkItemSorter_def Let_def split: if_splits)

lemma sorter_cong:
  assumes "m_TimeToRun (WorkItems ts' i) = m_TimeToRun (WorkItems ts i)"
    "m_InsertionTime (WorkItems ts' i) = m_InsertionTime (WorkItems ts i)"
    "m_TimeToRun (WorkItems ts' j) = m_TimeToRun (WorkItems ts j)"
    "m_InsertionTime (WorkItems ts' j) = m_InsertionTime (WorkItems ts j)"
  shows "TaskSchedulerWorkItemSorter ts' i j = TaskSchedulerWorkItemSorter ts i j"
  using assms by (simp add: TaskSchedulerWorkItemSorter_def Let_def)

lemma set_SortedWorkItemList_insert [simp]:
  "set (SortedWorkItemList_insert ts i xs) = insert i (set xs)"
  by (induction xs) auto

lemma distinct_SortedWorkItemList_insert [simp]:
  "distinct (SortedWorkItemList_insert ts i xs) \<longleftrightarrow> i \<notin> set xs \<and> distinct xs"
  by (induction xs) auto

lemma sorted_SortedWorkItemList_insert:
  "sorted_wrt (TaskSchedulerWorkItemSorter ts) xs \<Longrightarrow> i \<notin> set xs \<Longrightarrow>
   sorted_wrt (TaskSchedulerWorkItemSorter ts) (SortedWorkItemList_insert ts i xs)"
proof (induction xs)
  case (Cons x xs)
  then show ?case
    using sorter_total [of i x ts] sorter_trans [of ts i x] by auto
qed simp

lemma sorted_wrt_remove1: "sorted_wrt P xs \<Longrightarrow> sorted_wrt P (remove1 x xs)"
proof (induction xs)
  case (Cons a xs)
  then show ?case using set_remove1_subset [of x xs] by auto
qed simp

lemma queue_ok_insert:
  "queue_ok ts xs S \<Longrightarrow> i \<notin> S \<Longrightarrow> S' = insert i S \<Longrightarrow>
   queue_ok ts (SortedWorkItemList_insert ts i xs) S'"
  by (auto simp: queue_ok_def intro: sorted_SortedWorkItemList_insert)

lemma queue_ok_erase:
  "queue_ok ts xs S \<Longrightarrow> S' = S - {i} \<Longrightarrow> queue_ok ts (SortedWorkItemList_erase i xs) S'"
  by (auto simp: queue_ok_def SortedWorkItemList_erase_def intro: sorted_wrt_remove1)

lemma queue_ok_cong:
  assumes "queue_ok ts xs S" "S' = S"
    "\<And>i. i \<in> S \<Longrightarrow> m_TimeToRun (WorkItems ts' i) = m_TimeToRun (WorkItems ts i) \<and>
       m_InsertionTime (WorkItems ts' i) = m_InsertionTime (WorkItems ts i)"
  shows "queue_ok ts' xs S'"
proof -
  have "sorted_wrt (TaskSchedulerWorkItemSorter ts') xs"
    using assms unfolding queue_ok_def
    by (auto intro!: sorted_wrt_mono_rel [of xs "TaskSchedulerWorkItemSorter ts"]
        simp: sorter_cong [of ts' _ ts])
  then show ?thesis using assms by (simp add: queue_ok_def)
qed

lemma set_item_simps [simp]:
  "WorkItems (set_item i f ts) = (WorkItems ts)(i := f (WorkItems ts i))"
  "m_WaitingList (set_item i f ts) = m_WaitingList ts"
  "m_ReadyList (set_item i f ts) = m_ReadyList ts"
  "m_RunningList (set_item i f ts) = m_RunningList ts"
  "m_WaitableTimer (set_item i f ts) = m_WaitableTimer ts"
  "m_WorkItemTLS (set_item i f ts) = m_WorkItemTLS ts"
  "m_bShouldDie (set_item i f ts) = m_bShouldDie ts"
  "SystemTime (set_item i f ts) = SystemTime ts"
  by (simp_all add: set_item_def)

lemma Reschedule_simps [simp]:
  "WorkItems (Reschedule ts) = WorkItems ts"
  "m_WaitingList (Reschedule ts) = m_WaitingList ts"
  "m_ReadyList (Reschedule ts) = m_ReadyList ts"
  "m_RunningList (Reschedule ts) = m_RunningList ts"
  "m_WorkItemTLS (Reschedule ts) = m_WorkItemTLS ts"
  "m_bShouldDie (Reschedule ts) = m_bShouldDie ts"
  "SystemTime (Reschedule ts) = SystemTime ts"
  by (simp_all add: Reschedule_def split: list.split)

lemma FailedAsserts_simps [simp]:
  "FailedAsserts (set_item i f ts) = FailedAsserts ts"
  "FailedAsserts (Reschedule ts) = FailedAsserts ts"
  by (simp_all add: set_item_def Reschedule_def split: list.split)

lemma SCHED_ASSERT_simps [simp]:
  "WorkItems (SCHED_ASSERT b i ts) = WorkItems ts"
  "m_WaitingList (SCHED_ASSERT b i ts) = m_WaitingList ts"
  "m_ReadyList (SCHED_ASSERT b i ts) = m_ReadyList ts"
  "m_RunningList (SCHED_ASSERT b i ts) = m_RunningList ts"
  "m_WaitableTimer (SCHED_ASSERT b i ts) = m_WaitableTimer ts"
  "m_WorkItemTLS (SCHED_ASSERT b i ts) = m_WorkItemTLS ts"
  "m_bShouldDie (SCHED_ASSERT b i ts) = m_bShouldDie ts"
  "SystemTime (SCHED_ASSERT b i ts) = SystemTime ts"
  "FailedAsserts (SCHED_ASSERT b i ts) = (if b then FailedAsserts ts else i # FailedAsserts ts)"
  "SCHED_ASSERT True i ts = ts"
  by (simp_all add: SCHED_ASSERT_def)

lemma timer_ok_Reschedule [simp]: "timer_ok (Reschedule ts)"
  by (simp add: timer_ok_def Reschedule_def split: list.split)

lemma sorter_update [simp]:
  "TaskSchedulerWorkItemSorter (ts\<lparr>m_WaitingList := a\<rparr>) = TaskSchedulerWorkItemSorter ts"
  "TaskSchedulerWorkItemSorter (ts\<lparr>m_ReadyList := b\<rparr>) = TaskSchedulerWorkItemSorter ts"
  "TaskSchedulerWorkItemSorter (ts\<lparr>m_RunningList := b\<rparr>) = TaskSchedulerWorkItemSorter ts"
  "TaskSchedulerWorkItemSorter (ts\<lparr>m_WorkItemTLS := c\<rparr>) = TaskSchedulerWorkItemSorter ts"
  "TaskSchedulerWorkItemSorter (Reschedule ts) = TaskSchedulerWorkItemSorter ts"
  "TaskSchedulerWorkItemSorter (SCHED_ASSERT p k ts) = TaskSchedulerWorkItemSorter ts"
  by (intro ext; simp add: TaskSchedulerWorkItemSorter_def)+

lemma queue_ok_update [simp]:
  "queue_ok (ts\<lparr>m_WaitingList := a\<rparr>) = queue_ok ts"
  "queue_ok (ts\<lparr>m_ReadyList := b\<rparr>) = queue_ok ts"
  "queue_ok (ts\<lparr>m_RunningList := b\<rparr>) = queue_ok ts"
  "queue_ok (ts\<lparr>m_WorkItemTLS := c\<rparr>) = queue_ok ts"
  "queue_ok (Reschedule ts) = queue_ok ts"
  "queue_ok (SCHED_ASSERT p k ts) = queue_ok ts"
  by (intro ext; simp add: queue_ok_def)+

lemma in_state_update [simp]:
  "in_state (ts\<lparr>m_WaitingList := a\<rparr>) = in_state ts"
  "in_state (ts\<lparr>m_ReadyList := b\<rparr>) = in_state ts"
  "in_state (ts\<lparr>m_RunningList := b\<rparr>) = in_state ts"
  "in_state (ts\<lparr>m_WorkItemTLS := c\<rparr>) = in_state ts"
  "in_state (Reschedule ts) = in_state ts"
  "in_state (SCHED_ASSERT p k ts) = in_state ts"
  by (intro ext; simp add: in_state_def)+

lemma in_state_set_item:
  "in_state (set_item i f ts) s g =
     (if m_State (f (WorkItems ts i)) = s \<and> m_WorkGroup (f (WorkItems ts i)) = g
      then insert i (in_state ts s g) else in_state ts s g - {i})"
  by (auto simp: in_state_def)

lemma in_state_set_same:
  "(\<And>w. m_State (f w) = m_State w \<and> m_WorkGroup (f w) = m_WorkGroup w) \<Longrightarrow>
   in_state (set_item i f ts) = in_state ts"
  by (intro ext) (auto simp: in_state_def)

lemma mem_in_state: "i \<in> in_state ts s g \<longleftrightarrow> m_State (WorkItems ts i) = s \<and> m_WorkGroup (WorkItems ts i) = g"
  by (simp add: in_state_def)

lemma queue_ok_set_item:
  assumes "queue_ok ts xs S" "S' = S" "i \<notin> S \<or>
     (m_TimeToRun (f (WorkItems ts i)) = m_TimeToRun (WorkItems ts i) \<and>
      m_InsertionTime (f (WorkItems ts i)) = m_InsertionTime (WorkItems ts i))"
  shows "queue_ok (set_item i f ts) xs S'"
  using assms by (auto intro: queue_ok_cong)


lemma queue_ok_set_times [simp]:
  "(\<And>w. m_TimeToRun (f w) = m_TimeToRun w \<and> m_InsertionTime (f w) = m_InsertionTime w) \<Longrightarrow>
   queue_ok (set_item i f ts) = queue_ok ts"
  by (intro ext iffI; erule queue_ok_cong; simp)

lemma queue_ok_insert_state:
  "queue_ok ts xs (in_state ts s g) \<Longrightarrow> i \<notin> in_state ts s g \<Longrightarrow>
   queue_ok ts (SortedWorkItemList_insert ts i xs) (insert i (in_state ts s g))"
  by (rule queue_ok_insert) simp_all

lemma queue_ok_erase_state:
  "queue_ok ts xs (in_state ts s g) \<Longrightarrow>
   queue_ok ts (SortedWorkItemList_erase i xs) (in_state ts s g - {i})"
  by (rule queue_ok_erase) simp_all

lemma queue_ok_not_in_state:
  "queue_ok ts xs (in_state ts s g) \<Longrightarrow> i \<notin> in_state ts s g \<Longrightarrow> queue_ok ts xs (in_state ts s g - {i})"
  by simp

lemma sched_ok_item: "sched_ok ts \<Longrightarrow> item_ok (WorkItems ts i)"
  by (simp add: sched_ok_def)

lemma sched_ok_group:
  assumes "sched_ok ts" "m_State (WorkItems ts i) = TASK_STATE_READY \<or> m_State (WorkItems ts i) = TASK_STATE_RUNNING"
  obtains g where "m_WorkGroup (WorkItems ts i) = Some g"
  using sched_ok_item [OF assms(1), of i] assms(2) by (auto simp: item_ok_def)

lemma sched_ok_no_group:
  "sched_ok ts \<Longrightarrow> m_State (WorkItems ts i) \<notin> {TASK_STATE_READY, TASK_STATE_RUNNING} \<Longrightarrow>
   m_WorkGroup (WorkItems ts i) = None"
  using sched_ok_item [of ts i] by (auto simp: item_ok_def)

lemma sched_ok_TLS: "sched_ok ts \<Longrightarrow> m_WorkItemTLS ts = Some i \<Longrightarrow> m_State (WorkItems ts i) = TASK_STATE_RUNNING"
  by (simp add: sched_ok_def)

lemma TASK_STATE_neqs [simp]:
  "IsWorkItemInScheduler i ts \<longleftrightarrow>
     m_State (WorkItems ts i) \<in> {TASK_STATE_WAITING, TASK_STATE_READY, TASK_STATE_RUNNING}"
  by (simp add: IsWorkItemInScheduler_def)

declare TASK_STATE_neqs [simp del]

lemma in_sched_ASSERT [simp]: "IsWorkItemInScheduler i (SCHED_ASSERT p k ts) = IsWorkItemInScheduler i ts"
  by (simp add: IsWorkItemInScheduler_def)

lemma sched_ok_Complete: "sched_ok ts \<Longrightarrow> sched_ok (CompleteWorkItem b ts)"
proof (cases "m_WorkItemTLS ts")
  case None
  then show "sched_ok ts \<Longrightarrow> ?thesis" by (simp add: CompleteWorkItem_def)
next
  case (Some i)
  assume ok: "sched_ok ts"
  then have run: "m_State (WorkItems ts i) = TASK_STATE_RUNNING" using Some by (rule sched_ok_TLS)
  obtain g where g: "m_WorkGroup (WorkItems ts i) = Some g"
    using sched_ok_group [OF ok] run by blast
  show ?thesis
    using ok run g Some
    unfolding sched_ok_def CompleteWorkItem_def
    by (auto simp: in_state_set_item mem_in_state item_ok_def
        intro!: queue_ok_erase_state queue_ok_not_in_state)
qed


lemma Complete_other:
  "m_WorkItemTLS ts = Some i \<Longrightarrow> j \<noteq> i \<Longrightarrow> WorkItems (CompleteWorkItem b ts) j = WorkItems ts j"
  by (simp add: CompleteWorkItem_def)

lemma Complete_self:
  "m_WorkItemTLS ts = Some i \<Longrightarrow> m_State (WorkItems (CompleteWorkItem b ts) i) =
     (if b then TASK_STATE_CANCELED else TASK_STATE_COMPLETE)"
  by (simp add: CompleteWorkItem_def)

lemma sched_ok_TLS_update:
  "sched_ok ts \<Longrightarrow> c = None \<or> (\<exists>i. c = Some i \<and> m_State (WorkItems ts i) = TASK_STATE_RUNNING) \<Longrightarrow>
   sched_ok (ts\<lparr>m_WorkItemTLS := c\<rparr>)"
  unfolding sched_ok_def by auto

lemma sched_ok_CancelEvent: "sched_ok ts \<Longrightarrow> sched_ok (set_item i (\<lambda>w. w\<lparr>m_CancelEvent := b\<rparr>) ts)"
  unfolding sched_ok_def
  by (auto simp: in_state_set_same item_ok_def)

lemma sched_ok_unqueue_waiting:
  assumes ok: "sched_ok ts" and w: "m_State (WorkItems ts i) = TASK_STATE_WAITING"
  shows "sched_ok (set_item i (\<lambda>w. w\<lparr>m_State := TASK_STATE_CANCELED, m_WorkGroup := None\<rparr>)
           (ts\<lparr>m_WaitingList := SortedWorkItemList_erase i (m_WaitingList ts)\<rparr>))"
proof -
  have "m_WorkGroup (WorkItems ts i) = None" using sched_ok_no_group [OF ok] w by simp
  then show ?thesis
    using ok w unfolding sched_ok_def
    by (auto simp: in_state_set_item mem_in_state item_ok_def
        intro!: queue_ok_erase_state queue_ok_not_in_state)
qed

lemma sched_ok_unqueue_ready:
  assumes ok: "sched_ok ts" and w: "m_State (WorkItems ts i) = TASK_STATE_READY"
    and g: "m_WorkGroup (WorkItems ts i) = Some g"
  shows "sched_ok (set_item i (\<lambda>w. w\<lparr>m_State := TASK_STATE_CANCELED, m_WorkGroup := None\<rparr>)
           (ts\<lparr>m_ReadyList := (m_ReadyList ts)(g := SortedWorkItemList_erase i (m_ReadyList ts g))\<rparr>))"
  using ok w g unfolding sched_ok_def
  by (auto simp: in_state_set_item mem_in_state item_ok_def
      intro!: queue_ok_erase_state queue_ok_not_in_state)

lemma sched_ok_Reschedule [simp]: "sched_ok (Reschedule ts) = sched_ok ts"
  by (simp add: sched_ok_def)

lemma sched_ok_ASSERT [simp]: "sched_ok (SCHED_ASSERT p k ts) = sched_ok ts"
  by (simp add: sched_ok_def)

lemma sched_ok_Acknowledge: "sched_ok ts \<Longrightarrow> sched_ok (AcknowledgeWorkItemCancel ts)"
  by (simp add: AcknowledgeWorkItemCancel_def sched_ok_Complete)

lemma sched_ok_Cancel: "sched_ok ts \<Longrightarrow> sched_ok (snd (CancelWorkItem i ts))"
proof -
  assume ok: "sched_ok ts"
  have run: "m_State (WorkItems ts i) = TASK_STATE_RUNNING \<Longrightarrow>
    sched_ok (AcknowledgeWorkItemCancel ((set_item i (\<lambda>w. w\<lparr>m_CancelEvent := True\<rparr>) ts)\<lparr>m_WorkItemTLS := Some i\<rparr>))"
    using ok by (intro sched_ok_Acknowledge sched_ok_TLS_update sched_ok_CancelEvent) auto
  have tls: "m_WorkItemTLS ts = Some j \<Longrightarrow> m_State (WorkItems ts j) = TASK_STATE_RUNNING" for j
    using ok by (rule sched_ok_TLS)
  show ?thesis
  proof (cases "m_State (WorkItems ts i)")
    case TASK_STATE_WAITING
    then show ?thesis
      using ok tls by (auto simp: CancelWorkItem_def Let_def intro: sched_ok_unqueue_waiting)
  next
    case TASK_STATE_READY
    moreover obtain g where "m_WorkGroup (WorkItems ts i) = Some g"
      using sched_ok_group [OF ok] TASK_STATE_READY by blast
    ultimately show ?thesis
      using ok tls by (auto simp: CancelWorkItem_def Let_def intro: sched_ok_unqueue_ready)
  next
    case TASK_STATE_RUNNING
    obtain g where g: "m_WorkGroup (WorkItems ts i) = Some g"
      using sched_ok_group [OF ok] TASK_STATE_RUNNING by blast
    show ?thesis
    proof (cases "m_ItemComplete (WorkItems ts i) \<or> m_WorkItemTLS ts = Some i")
      case True
      then show ?thesis
        using ok sched_ok_Acknowledge [OF sched_ok_CancelEvent [OF ok]]
        by (auto simp: CancelWorkItem_def Let_def)
    next
      case False
      have "sched_ok ((AcknowledgeWorkItemCancel ((set_item i (\<lambda>w. w\<lparr>m_CancelEvent := True\<rparr>) ts)
              \<lparr>m_WorkItemTLS := Some i\<rparr>))\<lparr>m_WorkItemTLS := m_WorkItemTLS ts\<rparr>)"
        using False tls
        by (intro sched_ok_TLS_update run TASK_STATE_RUNNING)
          (cases "m_WorkItemTLS ts"; simp add: AcknowledgeWorkItemCancel_def Complete_other)
      then show ?thesis
        using False TASK_STATE_RUNNING by (simp add: CancelWorkItem_def Let_def)
    qed
  qed (use ok tls in \<open>auto simp: CancelWorkItem_def Let_def\<close>)
qed

lemma SortedWorkItemList_insert_cong:
  assumes "\<And>j. j = i \<or> j \<in> set xs \<Longrightarrow> m_TimeToRun (WorkItems ts' j) = m_TimeToRun (WorkItems ts j) \<and>
     m_InsertionTime (WorkItems ts' j) = m_InsertionTime (WorkItems ts j)"
  shows "SortedWorkItemList_insert ts' i xs = SortedWorkItemList_insert ts i xs"
  using assms
proof (induction xs)
  case (Cons x xs)
  have "SortedWorkItemList_insert ts' i xs = SortedWorkItemList_insert ts i xs"
    by (rule Cons.IH, rule Cons.prems) auto
  moreover have "TaskSchedulerWorkItemSorter ts' x i = TaskSchedulerWorkItemSorter ts x i"
    using Cons.prems by (intro sorter_cong) simp_all
  ultimately show ?case by simp
qed simp

lemma SortedWorkItemList_insert_update [simp]:
  "SortedWorkItemList_insert (ts\<lparr>m_WaitingList := a\<rparr>) = SortedWorkItemList_insert ts"
  "SortedWorkItemList_insert (ts\<lparr>m_ReadyList := b\<rparr>) = SortedWorkItemList_insert ts"
  "SortedWorkItemList_insert (ts\<lparr>m_RunningList := b\<rparr>) = SortedWorkItemList_insert ts"
  by (intro ext SortedWorkItemList_insert_cong; simp)+

lemma sched_ok_make_ready:
  assumes ok: "sched_ok ts" and w: "m_State (WorkItems ts i) = TASK_STATE_WAITING"
  shows "sched_ok (AddItemToWorkGroup g i
           (ts\<lparr>m_WaitingList := SortedWorkItemList_erase i (m_WaitingList ts)\<rparr>))"
  using ok w unfolding sched_ok_def AddItemToWorkGroup_def
  by (auto simp: in_state_set_item mem_in_state item_ok_def
      intro!: queue_ok_insert_state queue_ok_erase_state queue_ok_not_in_state)

lemma sched_ok_times:
  assumes "sched_ok ts" "\<not> IsWorkItemInScheduler i ts"
    "\<And>w. m_State (f w) = m_State w \<and> m_WorkGroup (f w) = m_WorkGroup w"
  shows "sched_ok (set_item i f ts)"
  using assms unfolding sched_ok_def
  by (auto simp: in_state_set_item mem_in_state item_ok_def TASK_STATE_neqs
      intro!: queue_ok_set_item)

lemma sched_ok_new_ready:
  assumes ok: "sched_ok ts" and w: "\<not> IsWorkItemInScheduler i ts"
    and c: "\<not> m_ItemComplete (WorkItems ts i)"
  shows "sched_ok (AddItemToWorkGroup g i ts)"
proof -
  have "m_WorkGroup (WorkItems ts i) = None"
    using sched_ok_no_group [OF ok, of i] w by (simp add: TASK_STATE_neqs)
  then show ?thesis
    using ok w c unfolding sched_ok_def AddItemToWorkGroup_def
    by (auto simp: in_state_set_item mem_in_state item_ok_def TASK_STATE_neqs
        intro!: queue_ok_insert_state queue_ok_not_in_state)
qed

lemma sched_ok_new_waiting:
  assumes ok: "sched_ok ts" and w: "\<not> IsWorkItemInScheduler i ts"
    and c: "\<not> m_ItemComplete (WorkItems ts i)"
  shows "sched_ok (set_item i (\<lambda>w. w\<lparr>m_State := TASK_STATE_WAITING\<rparr>)
           (ts\<lparr>m_WaitingList := SortedWorkItemList_insert ts i (m_WaitingList ts)\<rparr>))"
proof -
  have "m_WorkGroup (WorkItems ts i) = None"
    using sched_ok_no_group [OF ok, of i] w by (simp add: TASK_STATE_neqs)
  then show ?thesis
    using ok w c unfolding sched_ok_def
    by (auto simp: in_state_set_item mem_in_state item_ok_def TASK_STATE_neqs
        intro!: queue_ok_insert_state queue_ok_not_in_state)
qed

lemma set_item_ext: "f (WorkItems ts i) = g (WorkItems ts i) \<Longrightarrow> set_item i f ts = set_item i g ts"
  by (simp add: set_item_def)

lemma set_item_twice: "set_item i f (set_item i g ts) = set_item i (\<lambda>w. f (g w)) ts"
  by (simp add: set_item_def)

lemma set_item_WaitingList:
  "(set_item i f ts)\<lparr>m_WaitingList := xs\<rparr> = set_item i f (ts\<lparr>m_WaitingList := xs\<rparr>)"
  by (simp add: set_item_def)


section \<open>Every operation keeps the scheduler well-formed\<close>

lemma InsertWorkItem_ready:
  "\<not> m_bShouldDie ts \<Longrightarrow> InsertWorkItem sid i None ts =
     AddItemToWorkGroup (sid i) i (set_item i (\<lambda>w. w\<lparr>m_InsertionTime := SystemTime ts,
       m_CancelEvent := False, m_ItemComplete := False, m_TimeToRun := SystemTime ts\<rparr>) ts)"
  by (simp add: InsertWorkItem_def Let_def set_item_twice)

lemma InsertWorkItem_waiting:
  assumes "t = Some d \<or> t = None \<and> m_bShouldDie ts \<and> d = SystemTime ts"
    and "ts' = set_item i (\<lambda>w. w\<lparr>m_InsertionTime := SystemTime ts,
       m_CancelEvent := False, m_ItemComplete := False, m_TimeToRun := d\<rparr>) ts"
  shows "InsertWorkItem sid i t ts =
     Reschedule (set_item i (\<lambda>w. w\<lparr>m_State := TASK_STATE_WAITING\<rparr>)
       (ts'\<lparr>m_WaitingList := SortedWorkItemList_insert ts' i (m_WaitingList ts)\<rparr>))"
proof -
  have "SortedWorkItemList_insert (set_item i (\<lambda>w. w\<lparr>m_State := TASK_STATE_WAITING\<rparr>) ts') i xs =
     SortedWorkItemList_insert ts' i xs" for xs
    by (rule SortedWorkItemList_insert_cong) simp
  then show ?thesis
    using assms by (auto simp: InsertWorkItem_def Let_def set_item_twice set_item_WaitingList)
qed

lemma sched_ok_Insert:
  assumes ok: "sched_ok ts" and w: "\<not> IsWorkItemInScheduler i ts"
  shows "sched_ok (InsertWorkItem sid i t ts)"
proof (cases "t = None \<and> \<not> m_bShouldDie ts")
  case True
  then show ?thesis
    using w by (simp add: InsertWorkItem_ready TASK_STATE_neqs sched_ok_new_ready sched_ok_times [OF ok w])
next
  case False
  then obtain d where d: "t = Some d \<or> t = None \<and> m_bShouldDie ts \<and> d = SystemTime ts"
    by (cases t) auto
  define ts' where "ts' = set_item i (\<lambda>w. w\<lparr>m_InsertionTime := SystemTime ts,
     m_CancelEvent := False, m_ItemComplete := False, m_TimeToRun := d\<rparr>) ts"
  have "sched_ok ts'"
    unfolding ts'_def by (rule sched_ok_times [OF ok w]) simp
  moreover have "\<not> IsWorkItemInScheduler i ts'" "\<not> m_ItemComplete (WorkItems ts' i)"
    "m_WaitingList ts' = m_WaitingList ts"
    using w by (simp_all add: ts'_def TASK_STATE_neqs)
  ultimately show ?thesis
    using sched_ok_new_waiting [of ts' i] by (simp add: InsertWorkItem_waiting [OF d ts'_def])
qed

lemma RescheduleDelayedTask_eq:
  assumes "m_State (WorkItems ts i) = TASK_STATE_READY \<or> m_State (WorkItems ts i) = TASK_STATE_WAITING"
    and "ts1 = (if m_State (WorkItems ts i) = TASK_STATE_READY
        then (case m_WorkGroup (WorkItems ts i) of None \<Rightarrow> ts
              | Some g \<Rightarrow> ts\<lparr>m_ReadyList := (m_ReadyList ts)(g := SortedWorkItemList_erase i (m_ReadyList ts g))\<rparr>)
        else ts\<lparr>m_WaitingList := SortedWorkItemList_erase i (m_WaitingList ts)\<rparr>)"
    and "ts2 = set_item i (\<lambda>w. w\<lparr>m_TimeToRun := d + m_InsertionTime w\<rparr>)
        (set_item i (\<lambda>w. w\<lparr>m_State := TASK_STATE_CANCELED, m_WorkGroup := None\<rparr>) ts1)"
  shows "RescheduleDelayedTask i d ts =
     Reschedule (set_item i (\<lambda>w. w\<lparr>m_State := TASK_STATE_WAITING\<rparr>)
       (ts2\<lparr>m_WaitingList := SortedWorkItemList_insert ts2 i (m_WaitingList ts2)\<rparr>))"
proof -
  have "SortedWorkItemList_insert ts2 i xs =
     SortedWorkItemList_insert (set_item i (\<lambda>w. w\<lparr>m_TimeToRun := d + m_InsertionTime w\<rparr>) ts1) i xs" for xs
    by (rule SortedWorkItemList_insert_cong) (simp add: assms(3))
  then show ?thesis
    using assms(1)
    by (auto simp: RescheduleDelayedTask_def Let_def assms(2,3) set_item_twice set_item_WaitingList
        split: option.split)
      (intro arg_cong [where f = Reschedule] set_item_ext; simp)+
qed

lemma sched_ok_RescheduleDelayed:
  assumes ok: "sched_ok ts"
  shows "sched_ok (RescheduleDelayedTask i d ts)"
proof (cases "m_State (WorkItems ts i) = TASK_STATE_READY \<or> m_State (WorkItems ts i) = TASK_STATE_WAITING")
  case True
  define ts1 where "ts1 = (if m_State (WorkItems ts i) = TASK_STATE_READY
      then (case m_WorkGroup (WorkItems ts i) of None \<Rightarrow> ts
            | Some g \<Rightarrow> ts\<lparr>m_ReadyList := (m_ReadyList ts)(g := SortedWorkItemList_erase i (m_ReadyList ts g))\<rparr>)
      else ts\<lparr>m_WaitingList := SortedWorkItemList_erase i (m_WaitingList ts)\<rparr>)"
  define ts0 where "ts0 = set_item i (\<lambda>w. w\<lparr>m_State := TASK_STATE_CANCELED, m_WorkGroup := None\<rparr>) ts1"
  define ts2 where "ts2 = set_item i (\<lambda>w. w\<lparr>m_TimeToRun := d + m_InsertionTime w\<rparr>) ts0"
  have 0: "sched_ok ts0"
  proof (cases "m_State (WorkItems ts i) = TASK_STATE_READY")
    case True
    then obtain g where "m_WorkGroup (WorkItems ts i) = Some g"
      using sched_ok_group [OF ok] by blast
    then show ?thesis
      using True sched_ok_unqueue_ready [OF ok] by (simp add: ts0_def ts1_def)
  next
    case False
    then show ?thesis
      using \<open>_ \<or> _\<close> sched_ok_unqueue_waiting [OF ok] by (simp add: ts0_def ts1_def)
  qed
  have 1: "\<not> IsWorkItemInScheduler i ts0"
    by (simp add: ts0_def TASK_STATE_neqs)
  have 2: "sched_ok ts2"
    unfolding ts2_def by (rule sched_ok_times [OF 0 1]) simp
  have "\<not> m_ItemComplete (WorkItems ts i)"
    using sched_ok_item [OF ok, of i] True by (auto simp: item_ok_def)
  then have "\<not> m_ItemComplete (WorkItems ts2 i)"
    by (simp add: ts2_def ts0_def ts1_def split: option.split)
  moreover have "\<not> IsWorkItemInScheduler i ts2"
    using 1 by (simp add: ts2_def TASK_STATE_neqs)
  ultimately show ?thesis
    using sched_ok_new_waiting [OF 2] RescheduleDelayedTask_eq [OF True ts1_def]
    by (simp add: ts2_def ts0_def)
qed (simp add: RescheduleDelayedTask_def Let_def ok)

lemma sched_ok_Dispatch_Loop:
  "sched_ok ts \<Longrightarrow> xs = m_WaitingList ts \<Longrightarrow> sched_ok (Dispatch_Loop sid xs ts)"
proof (induction sid xs ts rule: Dispatch_Loop.induct)
  case (2 sid i rest ts)
  have w: "m_State (WorkItems ts i) = TASK_STATE_WAITING"
    using 2(2,3) unfolding sched_ok_def queue_ok_def
    by (metis (mono_tags, lifting) in_state_def list.set_intros(1) mem_Collect_eq)
  have "sched_ok (AddItemToWorkGroup (sid i) i
           (ts\<lparr>m_WaitingList := SortedWorkItemList_erase i (m_WaitingList ts)\<rparr>))"
    using 2(2) w by (rule sched_ok_make_ready)
  moreover have "rest = SortedWorkItemList_erase i (m_WaitingList ts)"
    using 2(3) by (simp add: SortedWorkItemList_erase_def flip: 2(3))
  ultimately have "\<not> SystemTime ts < m_TimeToRun (WorkItems ts i) \<Longrightarrow>
    sched_ok (Dispatch_Loop sid rest (AddItemToWorkGroup (sid i) i
           (ts\<lparr>m_WaitingList := SortedWorkItemList_erase i (m_WaitingList ts)\<rparr>)))"
    by (intro 2(1)) (simp_all add: AddItemToWorkGroup_def)
  then show ?case
    using 2(2) by (simp only: Dispatch_Loop.simps split: if_split) simp
qed simp

lemma sched_ok_Dispatch: "sched_ok ts \<Longrightarrow> sched_ok (DispatchWorkItem sid ts)"
  by (simp add: DispatchWorkItem_def sched_ok_Dispatch_Loop)

lemma sched_ok_take: "sched_ok ts \<Longrightarrow> sched_ok (WorkGroupWorker_take g ts)"
proof (cases "m_ReadyList ts g")
  case (Cons i rest)
  assume ok: "sched_ok ts"
  then have "i \<in> in_state ts TASK_STATE_READY (Some g)"
    using Cons unfolding sched_ok_def queue_ok_def by (metis list.set_intros(1))
  then have i: "m_State (WorkItems ts i) = TASK_STATE_READY" "m_WorkGroup (WorkItems ts i) = Some g"
    by (simp_all add: in_state_def)
  define ts1 where "ts1 = ts\<lparr>m_ReadyList := (m_ReadyList ts)(g := SortedWorkItemList_erase i (m_ReadyList ts g)),
     m_RunningList := (m_RunningList ts)(g := SortedWorkItemList_insert ts i (m_RunningList ts g))\<rparr>"
  have "sched_ok ((set_item i (\<lambda>w. w\<lparr>m_State := TASK_STATE_RUNNING\<rparr>) ts1)\<lparr>m_WorkItemTLS := Some i\<rparr>)"
    using ok i unfolding sched_ok_def ts1_def
    by (auto simp: in_state_set_item mem_in_state item_ok_def
        intro!: queue_ok_insert_state queue_ok_erase_state queue_ok_not_in_state)
  then show ?thesis
    using Cons ok i by (simp add: WorkGroupWorker_take_def ts1_def Let_def)
qed (simp add: WorkGroupWorker_take_def)

lemma sched_ok_new: "sched_ok (TaskScheduler_new t)"
  by (simp add: sched_ok_def TaskScheduler_new_def TaskSchedulerWorkItem_new_def item_ok_def
      queue_ok_def in_state_def)

lemma new_not_held [simp]: "\<not> IsWorkItemInScheduler i (TaskScheduler_new t)"
  by (simp add: IsWorkItemInScheduler_def TaskScheduler_new_def TaskSchedulerWorkItem_new_def)

lemma timer_ok_cong:
  "timer_ok ts \<Longrightarrow> m_WaitableTimer ts' = m_WaitableTimer ts \<Longrightarrow> m_WaitingList ts' = m_WaitingList ts \<Longrightarrow>
   (\<And>i. m_TimeToRun (WorkItems ts' i) = m_TimeToRun (WorkItems ts i)) \<Longrightarrow> timer_ok ts'"
  by (simp add: timer_ok_def split: list.splits)

lemma timer_ok_ASSERT [simp]: "timer_ok (SCHED_ASSERT p k ts) = timer_ok ts"
  by (simp add: timer_ok_def split: list.split)

lemma timer_ok_Complete: "timer_ok ts \<Longrightarrow> timer_ok (CompleteWorkItem b ts)"
  by (erule timer_ok_cong) (simp_all add: CompleteWorkItem_def split: option.split)

lemma timer_ok_Acknowledge: "timer_ok ts \<Longrightarrow> timer_ok (AcknowledgeWorkItemCancel ts)"
  by (simp add: AcknowledgeWorkItemCancel_def timer_ok_Complete)

lemma timer_ok_Cancel: "timer_ok ts \<Longrightarrow> timer_ok (snd (CancelWorkItem i ts))"
proof -
  assume t: "timer_ok ts"
  have ack: "timer_ok (AcknowledgeWorkItemCancel s)" if "timer_ok s" for s
    using that by (simp add: AcknowledgeWorkItemCancel_def timer_ok_Complete)
  have 1: "timer_ok (set_item i (\<lambda>w. w\<lparr>m_CancelEvent := True\<rparr>) ts)"
    using t by (rule timer_ok_cong) auto
  have 2: "timer_ok (ts'\<lparr>m_WorkItemTLS := c\<rparr>)" if "timer_ok ts'" for ts' c
    using that by (rule timer_ok_cong) auto
  have 3: "timer_ok (set_item i (\<lambda>w. w\<lparr>m_State := s, m_WorkGroup := None\<rparr>) (ts\<lparr>m_ReadyList := r\<rparr>))" for s r
    using t by (rule timer_ok_cong) auto
  have 4: "timer_ok (set_item i (\<lambda>w. w\<lparr>m_State := s, m_WorkGroup := None\<rparr>) ts)" for s
    using t by (rule timer_ok_cong) auto
  show ?thesis
    using t by (auto simp: CancelWorkItem_def Let_def intro!: 2 ack 1 3 4 split: TASK_STATE.split option.split)
qed

lemma timer_ok_take: "timer_ok ts \<Longrightarrow> timer_ok (WorkGroupWorker_take g ts)"
  by (erule timer_ok_cong) (simp_all add: WorkGroupWorker_take_def Let_def split: list.split)

lemma timer_ok_AddItem: "timer_ok ts \<Longrightarrow> timer_ok (AddItemToWorkGroup g i ts)"
  by (erule timer_ok_cong) (simp_all add: AddItemToWorkGroup_def)

lemma timer_ok_RescheduleDelayed: "timer_ok ts \<Longrightarrow> timer_ok (RescheduleDelayedTask i d ts)"
  by (simp add: RescheduleDelayedTask_def Let_def)

lemma timer_ok_Dispatch: "timer_ok (DispatchWorkItem sid ts)"
  by (simp add: DispatchWorkItem_def)


lemma timer_ok_Insert:
  assumes "sched_ok ts" "timer_ok ts" "\<not> IsWorkItemInScheduler i ts"
  shows "timer_ok (InsertWorkItem sid i t ts)"
proof -
  have "m_WaitingList ts = k # ks \<Longrightarrow> k \<noteq> i" for k ks
    using assms(1,3) unfolding sched_ok_def queue_ok_def
    by (metis (mono_tags, lifting) TASK_STATE_neqs in_state_def insert_iff list.set_intros(1) mem_Collect_eq)
  then show ?thesis
    using assms(2)
    by (auto simp: InsertWorkItem_def Let_def AddItemToWorkGroup_def timer_ok_def [of ts] split: list.splits)
      (simp add: timer_ok_def split: list.split)+
qed

section \<open>What the operations do\<close>

lemma in_sched_Complete:
  "IsWorkItemInScheduler k (CompleteWorkItem b ts) \<longleftrightarrow>
     IsWorkItemInScheduler k ts \<and> m_WorkItemTLS ts \<noteq> Some k"
  by (auto simp: CompleteWorkItem_def TASK_STATE_neqs split: option.split)

lemma TLS_Complete [simp]: "m_WorkItemTLS (CompleteWorkItem b ts) = None"
  by (simp add: CompleteWorkItem_def split: option.split)

lemma sched_ok_not_complete:
  "sched_ok ts \<Longrightarrow> IsWorkItemInScheduler i ts \<Longrightarrow> \<not> m_ItemComplete (WorkItems ts i)"
  using sched_ok_item [of ts i] by (auto simp: item_ok_def TASK_STATE_neqs)

lemma in_sched_Cancel:
  assumes "sched_ok ts"
  shows "IsWorkItemInScheduler k (snd (CancelWorkItem i ts)) \<longleftrightarrow> k \<noteq> i \<and> IsWorkItemInScheduler k ts"
  using sched_ok_not_complete [OF assms, of i] sched_ok_TLS [OF assms, of i]
  by (auto simp: CancelWorkItem_def Let_def TASK_STATE_neqs AcknowledgeWorkItemCancel_def
      CompleteWorkItem_def split: TASK_STATE.splits option.splits)

lemma TLS_Cancel:
  assumes "sched_ok ts"
  shows "m_WorkItemTLS (snd (CancelWorkItem i ts)) =
     (if m_WorkItemTLS ts = Some i then None else m_WorkItemTLS ts)"
  using sched_ok_not_complete [OF assms, of i] sched_ok_TLS [OF assms, of i]
  by (auto simp: CancelWorkItem_def Let_def TASK_STATE_neqs AcknowledgeWorkItemCancel_def
      CompleteWorkItem_def split: TASK_STATE.splits option.splits)

lemma fst_CancelWorkItem:
  assumes "sched_ok ts"
  shows "fst (CancelWorkItem i ts) \<longleftrightarrow> \<not> IsWorkItemInScheduler i ts"
  using sched_ok_not_complete [OF assms, of i] sched_ok_TLS [OF assms, of i]
  by (auto simp: CancelWorkItem_def Let_def TASK_STATE_neqs split: TASK_STATE.splits)

lemma in_sched_Insert:
  "IsWorkItemInScheduler k (InsertWorkItem sid i t ts) \<longleftrightarrow> k = i \<or> IsWorkItemInScheduler k ts"
  by (auto simp: InsertWorkItem_def Let_def TASK_STATE_neqs AddItemToWorkGroup_def)

lemma TLS_Insert [simp]: "m_WorkItemTLS (InsertWorkItem sid i t ts) = m_WorkItemTLS ts"
  by (simp add: InsertWorkItem_def Let_def AddItemToWorkGroup_def)

lemma in_sched_RescheduleDelayed:
  "IsWorkItemInScheduler k (RescheduleDelayedTask i d ts) \<longleftrightarrow> IsWorkItemInScheduler k ts"
  by (auto simp: RescheduleDelayedTask_def Let_def TASK_STATE_neqs split: option.splits)

lemma TLS_RescheduleDelayed [simp]: "m_WorkItemTLS (RescheduleDelayedTask i d ts) = m_WorkItemTLS ts"
  by (auto simp: RescheduleDelayedTask_def Let_def split: option.splits)

lemma take_cases:
  assumes "sched_ok ts"
  obtains "WorkGroupWorker_take g ts = ts"
  | i where "m_State (WorkItems ts i) = TASK_STATE_READY"
      "m_WorkItemTLS (WorkGroupWorker_take g ts) = Some i"
      "\<And>k. IsWorkItemInScheduler k (WorkGroupWorker_take g ts) \<longleftrightarrow> IsWorkItemInScheduler k ts"
proof (cases "m_ReadyList ts g")
  case (Cons i rest)
  have "i \<in> in_state ts TASK_STATE_READY (Some g)"
    using Cons assms unfolding sched_ok_def queue_ok_def by (metis list.set_intros(1))
  then have i: "m_State (WorkItems ts i) = TASK_STATE_READY" by (simp add: in_state_def)
  show ?thesis
  proof (cases "m_bShouldDie ts")
    case False
    show ?thesis
      by (rule that(2) [OF i])
        (use Cons i False in \<open>auto simp: WorkGroupWorker_take_def Let_def TASK_STATE_neqs\<close>)
  qed (use that(1) in \<open>simp add: WorkGroupWorker_take_def\<close>)
qed (use that(1) in \<open>simp add: WorkGroupWorker_take_def\<close>)

text \<open>Dispatching takes the due prefix, which in a sorted list is the set of due items.\<close>

lemma Dispatch_Loop_frame:
  "i \<notin> set xs \<Longrightarrow> WorkItems (Dispatch_Loop sid xs ts) i = WorkItems ts i"
  by (induction sid xs ts rule: Dispatch_Loop.induct) (auto simp: AddItemToWorkGroup_def)

lemma Dispatch_Loop_time [simp]: "SystemTime (Dispatch_Loop sid xs ts) = SystemTime ts"
  by (induction sid xs ts rule: Dispatch_Loop.induct) (auto simp: AddItemToWorkGroup_def)

lemma Dispatch_Loop_waiting:
  "distinct xs \<Longrightarrow> xs = m_WaitingList ts \<Longrightarrow>
   m_WaitingList (Dispatch_Loop sid xs ts) =
     dropWhile (\<lambda>i. \<not> SystemTime ts < m_TimeToRun (WorkItems ts i)) xs"
proof (induction sid xs ts rule: Dispatch_Loop.induct)
  case (2 sid i rest ts)
  let ?ts = "AddItemToWorkGroup (sid i) i (ts\<lparr>m_WaitingList := SortedWorkItemList_erase i (m_WaitingList ts)\<rparr>)"
  have r: "rest = SortedWorkItemList_erase i (m_WaitingList ts)"
    by (simp add: SortedWorkItemList_erase_def flip: 2(3))
  have "\<not> SystemTime ts < m_TimeToRun (WorkItems ts i) \<Longrightarrow>
      m_WaitingList (Dispatch_Loop sid rest ?ts) =
        dropWhile (\<lambda>k. \<not> SystemTime ?ts < m_TimeToRun (WorkItems ?ts k)) rest"
    using 2(2) r by (intro 2(1)) (simp_all add: AddItemToWorkGroup_def)
  moreover have "m_TimeToRun (WorkItems ?ts k) = m_TimeToRun (WorkItems ts k)" "SystemTime ?ts = SystemTime ts" for k
    by (simp_all add: AddItemToWorkGroup_def)
  ultimately show ?case
    by (simp only: Dispatch_Loop.simps split: if_split) (simp add: 2(3) [symmetric])
qed simp

lemma dropWhile_sorted:
  assumes "sorted_wrt P xs" "\<And>x y. P x y \<Longrightarrow> Q y \<Longrightarrow> Q x"
  shows "dropWhile Q xs = filter (\<lambda>x. \<not> Q x) xs"
  using assms(1)
proof (induction xs)
  case (Cons x xs)
  show ?case
  proof (cases "Q x")
    case False
    then have "filter (\<lambda>x. \<not> Q x) xs = xs"
      using Cons.prems assms(2) by (auto simp: filter_id_conv)
    then show ?thesis using False by simp
  qed (use Cons in simp)
qed simp

lemma Dispatch_waiting:
  assumes "sched_ok ts"
  shows "m_WaitingList (DispatchWorkItem sid ts) =
    filter (\<lambda>i. SystemTime ts < m_TimeToRun (WorkItems ts i)) (m_WaitingList ts)"
proof -
  have q: "distinct (m_WaitingList ts)" "sorted_wrt (TaskSchedulerWorkItemSorter ts) (m_WaitingList ts)"
    using assms by (auto simp: sched_ok_def queue_ok_def)
  have "TaskSchedulerWorkItemSorter ts x y \<Longrightarrow> \<not> SystemTime ts < m_TimeToRun (WorkItems ts y) \<Longrightarrow>
    \<not> SystemTime ts < m_TimeToRun (WorkItems ts x)" for x y
    by (auto simp: TaskSchedulerWorkItemSorter_def Let_def split: if_splits)
  then show ?thesis
    using dropWhile_sorted [OF q(2), of "\<lambda>i. \<not> SystemTime ts < m_TimeToRun (WorkItems ts i)"]
    by (simp add: DispatchWorkItem_def Dispatch_Loop_waiting [OF q(1) refl])
qed

lemma Dispatch_Loop_state:
  "distinct xs \<Longrightarrow> i \<in> set xs \<Longrightarrow>
   WorkItems (Dispatch_Loop sid xs ts) i = WorkItems ts i \<or>
   WorkItems (Dispatch_Loop sid xs ts) i =
     (WorkItems ts i)\<lparr>m_State := TASK_STATE_READY, m_WorkGroup := Some (sid i)\<rparr>"
proof (induction sid xs ts rule: Dispatch_Loop.induct)
  case (2 sid k rest ts)
  then show ?case
    by (cases "i = k") (auto simp: Dispatch_Loop_frame AddItemToWorkGroup_def)
qed simp

lemma Dispatch_in_sched:
  assumes "sched_ok ts"
  shows "IsWorkItemInScheduler i (DispatchWorkItem sid ts) \<longleftrightarrow> IsWorkItemInScheduler i ts"
proof (cases "i \<in> set (m_WaitingList ts)")
  case True
  moreover have "distinct (m_WaitingList ts)" "IsWorkItemInScheduler i ts"
    using assms True by (auto simp: sched_ok_def queue_ok_def in_state_def TASK_STATE_neqs)
  ultimately show ?thesis
    using Dispatch_Loop_state [of "m_WaitingList ts" i sid ts]
    by (auto simp: DispatchWorkItem_def TASK_STATE_neqs)
next
  case False
  then show ?thesis by (simp add: DispatchWorkItem_def TASK_STATE_neqs Dispatch_Loop_frame)
qed


section \<open>The scheduler as the service sees it\<close>

text \<open>
  The service can insert the modification item of a job twice (the counter it relies on
  wraps, see \<open>ScheduleModificationCallback\<close>), which breaks the queues for that item. So
  the service is verified against a property of each other item on its own, here called
  tracked: it is in the waiting list, or in the ready list of its group, exactly as often
  as its state says, is not marked complete while it is held, has no group while it is not,
  and no assert about it has failed. A scheduler is live if that holds of every tracked item
  and the asserts that failed were about some work item.
\<close>

fun tracked :: "WorkItem \<Rightarrow> bool" where
  "tracked (CJobModificationItem h) \<longleftrightarrow> False"
| "tracked _ \<longleftrightarrow> True"

definition item_live :: "TaskScheduler \<Rightarrow> WorkItem \<Rightarrow> bool" where
  "item_live ts i \<longleftrightarrow>
     count_list (m_WaitingList ts) i = (if m_State (WorkItems ts i) = TASK_STATE_WAITING then 1 else 0) \<and>
     (\<forall>g. count_list (m_ReadyList ts g) i =
        (if m_State (WorkItems ts i) = TASK_STATE_READY \<and> m_WorkGroup (WorkItems ts i) = Some g
         then 1 else 0)) \<and>
     (IsWorkItemInScheduler i ts \<longrightarrow> \<not> m_ItemComplete (WorkItems ts i)) \<and>
     (\<not> IsWorkItemInScheduler i ts \<longrightarrow> m_WorkGroup (WorkItems ts i) = None) \<and>
     (Some i \<notin> set (FailedAsserts ts)) \<and>
     (m_WorkItemTLS ts = Some i \<longrightarrow> m_State (WorkItems ts i) = TASK_STATE_RUNNING)"

definition live :: "TaskScheduler \<Rightarrow> bool" where
  "live ts \<longleftrightarrow> (\<forall>i. tracked i \<longrightarrow> item_live ts i) \<and> None \<notin> set (FailedAsserts ts)"

locale work_scheduler =
  fixes ok :: "'s \<Rightarrow> bool"
    and sound :: "'i \<Rightarrow> bool"
    and scheduled :: "'i \<Rightarrow> 's \<Rightarrow> bool"
    and insert_item :: "'i \<Rightarrow> 't \<Rightarrow> 's \<Rightarrow> 's"
    and cancel_item :: "'i \<Rightarrow> 's \<Rightarrow> 's"
  assumes ok_insert: "ok s \<Longrightarrow> \<not> sound i \<or> \<not> scheduled i s \<Longrightarrow> ok (insert_item i t s)"
    and ok_cancel: "ok s \<Longrightarrow> ok (cancel_item i s)"
    and scheduled_insert: "scheduled k (insert_item i t s) \<longleftrightarrow> k = i \<or> scheduled k s"
    and scheduled_cancel:
      "ok s \<Longrightarrow> sound k \<Longrightarrow> scheduled k (cancel_item i s) \<longleftrightarrow> k \<noteq> i \<and> scheduled k s"
begin

lemma ok_restart: "ok s \<Longrightarrow> ok (insert_item i t (cancel_item i s))"
  by (cases "sound i") (auto intro!: ok_insert ok_cancel simp: scheduled_cancel)

lemma scheduled_restart:
  "ok s \<Longrightarrow> sound k \<Longrightarrow> scheduled k (insert_item i t (cancel_item i s)) \<longleftrightarrow> k = i \<or> scheduled k s"
  by (auto simp: scheduled_insert scheduled_cancel)

lemma restart_if:
  "ok s \<Longrightarrow> sound k \<Longrightarrow>
   scheduled k (if scheduled i s then insert_item i t (cancel_item i s) else s) \<longleftrightarrow> scheduled k s"
  by (auto simp: scheduled_restart)

lemma ok_once: "ok s \<Longrightarrow> ok (if scheduled i s then s else insert_item i t s)"
  by (simp add: ok_insert)

lemma once: "scheduled k (if scheduled i s then s else insert_item i t s) \<longleftrightarrow> k = i \<or> scheduled k s"
  by (auto simp: scheduled_insert)

lemma ok_cancel_all: "ok s \<Longrightarrow> ok (fold cancel_item xs s)"
  by (induction xs arbitrary: s) (simp_all add: ok_cancel)

lemma cancel_all:
  "ok s \<Longrightarrow> sound k \<Longrightarrow> scheduled k (fold cancel_item xs s) \<longleftrightarrow> k \<notin> set xs \<and> scheduled k s"
  by (induction xs arbitrary: s) (auto simp: ok_cancel scheduled_cancel)

end

lemma count_list_insert [simp]:
  "count_list (SortedWorkItemList_insert ts i xs) k = (if k = i then 1 else 0) + count_list xs k"
  by (induction xs) auto

lemma count_list_remove1: "count_list (remove1 x xs) y = count_list xs y - (if x = y then 1 else 0)"
proof (induction xs)
  case (Cons a xs)
  have "x \<in> set xs \<Longrightarrow> 0 < count_list xs x" by (metis count_list_0_iff gr0I)
  then show ?case using Cons by (auto simp: remove1_idem)
qed simp

lemma count_list_distinct: "distinct xs \<Longrightarrow> count_list xs x = (if x \<in> set xs then 1 else 0)"
  by (induction xs) auto

lemma count_list_erase [simp]:
  "count_list (SortedWorkItemList_erase i xs) k = count_list xs k - (if i = k then 1 else 0)"
  by (simp add: SortedWorkItemList_erase_def count_list_remove1)

lemma sched_ok_live: "sched_ok ts \<Longrightarrow> FailedAsserts ts = [] \<Longrightarrow> live ts"
proof -
  assume ok: "sched_ok ts" and a: "FailedAsserts ts = []"
  have c: "queue_ok ts xs S \<Longrightarrow> count_list xs i = (if i \<in> S then 1 else 0)" for xs S i
    by (auto simp: queue_ok_def count_list_distinct)
  have w: "count_list (m_WaitingList ts) i = (if i \<in> in_state ts TASK_STATE_WAITING None then 1 else 0)" for i
    using ok by (intro c) (simp add: sched_ok_def)
  have r: "count_list (m_ReadyList ts g) i = (if i \<in> in_state ts TASK_STATE_READY (Some g) then 1 else 0)" for i g
    using ok by (intro c) (simp add: sched_ok_def)
  have "item_live ts i" for i
    using sched_ok_no_group [OF ok, of i] sched_ok_not_complete [OF ok, of i] sched_ok_TLS [OF ok, of i]
    unfolding item_live_def w r by (auto simp: mem_in_state a TASK_STATE_neqs)
  then show ?thesis by (simp add: live_def a)
qed

lemma live_new [simp]: "live (TaskScheduler_new t)"
  by (rule sched_ok_live [OF sched_ok_new]) (simp add: TaskScheduler_new_def)

text \<open>The asserts: which operations check one, and when it fails.\<close>

lemma PollAbort_TLS [simp]:
  "PollAbort (ts\<lparr>m_WorkItemTLS := Some i\<rparr>) = m_CancelEvent (WorkItems ts i)"
  by (simp add: PollAbort_def)

lemma PollAbort_cancelled:
  "m_WorkItemTLS ts = Some i \<Longrightarrow> PollAbort (set_item i (\<lambda>w. w\<lparr>m_CancelEvent := True\<rparr>) ts)"
  by (simp add: PollAbort_def)

lemma asserts_Complete [simp]: "FailedAsserts (CompleteWorkItem b ts) = FailedAsserts ts"
  by (simp add: CompleteWorkItem_def split: option.split)

lemma asserts_Acknowledge:
  "PollAbort ts \<Longrightarrow> FailedAsserts (AcknowledgeWorkItemCancel ts) = FailedAsserts ts"
  by (simp add: AcknowledgeWorkItemCancel_def)

lemma asserts_Insert [simp]: "FailedAsserts (InsertWorkItem sid i t ts) = FailedAsserts ts"
  by (simp add: InsertWorkItem_def Let_def AddItemToWorkGroup_def)

lemma asserts_RescheduleDelayed [simp]: "FailedAsserts (RescheduleDelayedTask i d ts) = FailedAsserts ts"
  by (simp add: RescheduleDelayedTask_def Let_def split: option.split)

lemma asserts_AddItem [simp]: "FailedAsserts (AddItemToWorkGroup g i ts) = FailedAsserts ts"
  by (simp add: AddItemToWorkGroup_def)

lemma asserts_Dispatch [simp]: "FailedAsserts (DispatchWorkItem sid ts) = FailedAsserts ts"
proof -
  have "FailedAsserts (Dispatch_Loop sid xs ts) = FailedAsserts ts" for xs
    by (induction sid xs ts rule: Dispatch_Loop.induct) auto
  then show ?thesis by (simp add: DispatchWorkItem_def)
qed

lemma asserts_Cancel:
  "FailedAsserts (snd (CancelWorkItem i ts)) = FailedAsserts ts \<or>
   FailedAsserts (snd (CancelWorkItem i ts)) = Some i # FailedAsserts ts \<and>
     \<not> IsWorkItemInScheduler i ts \<and> m_WorkGroup (WorkItems ts i) \<noteq> None"
  by (cases "m_State (WorkItems ts i)")
    (auto simp: CancelWorkItem_def Let_def TASK_STATE_neqs AcknowledgeWorkItemCancel_def
      PollAbort_cancelled split: option.split)

lemma asserts_take:
  "FailedAsserts (WorkGroupWorker_take g ts) = FailedAsserts ts \<or>
   (\<exists>i rest. m_ReadyList ts g = i # rest \<and> m_WorkGroup (WorkItems ts i) \<noteq> Some g \<and>
     FailedAsserts (WorkGroupWorker_take g ts) = Some i # FailedAsserts ts)"
  by (auto simp: WorkGroupWorker_take_def Let_def split: list.split)

lemma sched_ok_no_assert_Cancel:
  "sched_ok ts \<Longrightarrow> FailedAsserts (snd (CancelWorkItem i ts)) = FailedAsserts ts"
  using asserts_Cancel [of i ts] sched_ok_no_group [of ts i] by (auto simp: TASK_STATE_neqs)

lemma sched_ok_no_assert_take:
  assumes "sched_ok ts"
  shows "FailedAsserts (WorkGroupWorker_take g ts) = FailedAsserts ts"
proof -
  have "m_ReadyList ts g = i # rest \<Longrightarrow> m_WorkGroup (WorkItems ts i) = Some g" for i rest
    using assms unfolding sched_ok_def queue_ok_def
    by (metis (mono_tags, lifting) in_state_def list.set_intros(1) mem_Collect_eq)
  then show ?thesis using asserts_take [of g ts] by metis
qed

lemma item_live_Complete: "item_live ts i \<Longrightarrow> item_live (CompleteWorkItem b ts) i"
  by (auto simp: item_live_def CompleteWorkItem_def TASK_STATE_neqs split: option.split)

lemma item_live_Acknowledge:
  "item_live ts i \<Longrightarrow> PollAbort ts \<Longrightarrow> item_live (AcknowledgeWorkItemCancel ts) i"
  by (simp add: AcknowledgeWorkItemCancel_def item_live_Complete)

lemma item_live_TLS:
  "item_live ts i \<Longrightarrow> c = Some i \<longrightarrow> m_State (WorkItems ts i) = TASK_STATE_RUNNING \<Longrightarrow>
   item_live (ts\<lparr>m_WorkItemTLS := c\<rparr>) i"
  by (simp add: item_live_def TASK_STATE_neqs)

lemma live_time [simp]: "live (ts\<lparr>SystemTime := t\<rparr>) = live ts"
  by (simp add: live_def item_live_def TASK_STATE_neqs)

lemma item_live_Insert:
  "item_live ts k \<Longrightarrow> i = k \<longrightarrow> \<not> IsWorkItemInScheduler i ts \<Longrightarrow>
   item_live (InsertWorkItem sid i t ts) k"
  by (auto simp: item_live_def InsertWorkItem_def Let_def TASK_STATE_neqs AddItemToWorkGroup_def)

lemma item_live_Cancel: "item_live ts k \<Longrightarrow> item_live (snd (CancelWorkItem i ts)) k"
  by (cases "i = k"; cases "m_State (WorkItems ts i)"; cases "m_WorkGroup (WorkItems ts i)")
    (auto simp: item_live_def CancelWorkItem_def Let_def TASK_STATE_neqs AcknowledgeWorkItemCancel_def
      CompleteWorkItem_def PollAbort_cancelled split: option.splits)

lemma item_live_RescheduleDelayed: "item_live ts k \<Longrightarrow> item_live (RescheduleDelayedTask i d ts) k"
  by (cases "i = k"; cases "m_State (WorkItems ts i)"; cases "m_WorkGroup (WorkItems ts i)")
    (auto simp: item_live_def RescheduleDelayedTask_def Let_def TASK_STATE_neqs)

lemma item_live_in_sched_Cancel:
  "item_live ts k \<Longrightarrow>
   IsWorkItemInScheduler k (snd (CancelWorkItem i ts)) \<longleftrightarrow> k \<noteq> i \<and> IsWorkItemInScheduler k ts"
  by (cases "i = k"; cases "m_State (WorkItems ts i)"; cases "m_WorkGroup (WorkItems ts i)")
    (auto simp: item_live_def CancelWorkItem_def Let_def TASK_STATE_neqs AcknowledgeWorkItemCancel_def
      CompleteWorkItem_def split: option.splits)

lemma live_Complete [simp]: "live ts \<Longrightarrow> live (CompleteWorkItem b ts)"
  by (simp add: live_def item_live_Complete)

lemma live_Acknowledge [simp]: "live ts \<Longrightarrow> PollAbort ts \<Longrightarrow> live (AcknowledgeWorkItemCancel ts)"
  by (simp add: AcknowledgeWorkItemCancel_def)

lemma live_TLS:
  "live ts \<Longrightarrow> (\<And>i. c = Some i \<Longrightarrow> m_State (WorkItems ts i) = TASK_STATE_RUNNING) \<Longrightarrow>
   live (ts\<lparr>m_WorkItemTLS := c\<rparr>)"
  by (simp add: live_def item_live_TLS)

lemma live_Cancel [simp]: "live ts \<Longrightarrow> live (snd (CancelWorkItem i ts))"
  using asserts_Cancel [of i ts] by (auto simp: live_def item_live_Cancel)

lemma live_RescheduleDelayed [simp]: "live ts \<Longrightarrow> live (RescheduleDelayedTask i d ts)"
  by (simp add: live_def item_live_RescheduleDelayed)

lemma live_Insert:
  "live ts \<Longrightarrow> \<not> tracked i \<or> \<not> IsWorkItemInScheduler i ts \<Longrightarrow> live (InsertWorkItem sid i t ts)"
  by (auto simp: live_def intro: item_live_Insert)

lemma live_in_sched_Cancel:
  "live ts \<Longrightarrow> tracked k \<Longrightarrow>
   IsWorkItemInScheduler k (snd (CancelWorkItem i ts)) \<longleftrightarrow> k \<noteq> i \<and> IsWorkItemInScheduler k ts"
  by (simp add: live_def item_live_in_sched_Cancel)

interpretation live: work_scheduler live tracked IsWorkItemInScheduler "InsertWorkItem sid"
  "\<lambda>i ts. snd (CancelWorkItem i ts)" for sid
  by unfold_locales (auto simp: in_sched_Insert live_in_sched_Cancel live_Insert)

lemma item_live_make_ready:
  assumes "item_live ts k" "i = k \<longrightarrow> i \<in> set (m_WaitingList ts)"
  shows "item_live (AddItemToWorkGroup g i
      (ts\<lparr>m_WaitingList := SortedWorkItemList_erase i (m_WaitingList ts)\<rparr>)) k"
proof -
  have "k \<in> set (m_WaitingList ts) \<Longrightarrow> m_State (WorkItems ts k) = TASK_STATE_WAITING"
    using assms(1) count_list_0_iff [of "m_WaitingList ts" k]
    by (auto simp: item_live_def split: if_splits)
  then show ?thesis
    using assms by (auto simp: item_live_def AddItemToWorkGroup_def TASK_STATE_neqs)
qed

lemma live_Dispatch_Loop:
  "live ts \<Longrightarrow> xs = m_WaitingList ts \<Longrightarrow> live (Dispatch_Loop sid xs ts)"
proof (induction sid xs ts rule: Dispatch_Loop.induct)
  case (2 sid i rest ts)
  let ?ts = "AddItemToWorkGroup (sid i) i (ts\<lparr>m_WaitingList := SortedWorkItemList_erase i (m_WaitingList ts)\<rparr>)"
  have "i \<in> set (m_WaitingList ts)"
    by (simp flip: 2(3))
  then have "live ?ts"
    using 2(2) unfolding live_def by (auto intro!: item_live_make_ready)
  moreover have "rest = m_WaitingList ?ts"
    by (simp add: AddItemToWorkGroup_def SortedWorkItemList_erase_def flip: 2(3))
  ultimately have "\<not> SystemTime ts < m_TimeToRun (WorkItems ts i) \<Longrightarrow> live (Dispatch_Loop sid rest ?ts)"
    by (intro 2(1)) simp_all
  then show ?case
    using 2(2) by (simp only: Dispatch_Loop.simps split: if_split) simp
qed simp

lemma live_Dispatch: "live ts \<Longrightarrow> live (DispatchWorkItem sid ts)"
  using live_Dispatch_Loop [of ts "m_WaitingList ts" sid]
  by (simp add: DispatchWorkItem_def live_def item_live_def TASK_STATE_neqs)

lemma live_take: "live ts \<Longrightarrow> live (WorkGroupWorker_take g ts)"
proof (cases "m_bShouldDie ts \<or> m_ReadyList ts g = []")
  case False
  then obtain i rest where Cons: "m_ReadyList ts g = i # rest"
    by (meson neq_Nil_conv)
  assume l: "live ts"
  define ts1 where "ts1 = set_item i (\<lambda>w. w\<lparr>m_State := TASK_STATE_RUNNING\<rparr>)
      (ts\<lparr>m_ReadyList := (m_ReadyList ts)(g := SortedWorkItemList_erase i (m_ReadyList ts g)),
         m_RunningList := (m_RunningList ts)
           (g := SortedWorkItemList_insert ts i (m_RunningList ts g))\<rparr>)"
  have eq: "WorkGroupWorker_take g ts =
      (SCHED_ASSERT (m_WorkGroup (WorkItems ts i) = Some g) (Some i) ts1)\<lparr>m_WorkItemTLS := Some i\<rparr>"
    using Cons False by (simp add: WorkGroupWorker_take_def Let_def ts1_def)
  have "item_live (WorkGroupWorker_take g ts) k" if k: "item_live ts k" for k
  proof -
    have "i = k \<Longrightarrow> m_State (WorkItems ts k) = TASK_STATE_READY \<and> m_WorkGroup (WorkItems ts k) = Some g"
    proof (rule ccontr)
      assume "i = k" and n: "\<not> (m_State (WorkItems ts k) = TASK_STATE_READY \<and> m_WorkGroup (WorkItems ts k) = Some g)"
      have "count_list (m_ReadyList ts g) k = 0"
        using k n by (simp add: item_live_def)
      then show False
        using Cons \<open>i = k\<close> by (simp add: count_list_0_iff)
    qed
    then show ?thesis
      using k unfolding eq ts1_def by (cases "i = k") (simp_all add: item_live_def TASK_STATE_neqs)
  qed
  moreover have "None \<notin> set (FailedAsserts (WorkGroupWorker_take g ts))"
    using asserts_take [of g ts] l by (auto simp: live_def)
  ultimately show ?thesis using l by (simp add: live_def)
qed (auto simp: WorkGroupWorker_take_def split: list.split)

end
