(* ===== verification/TaskSchedClaims.thy ===== *)
theory TaskSchedClaims
  imports TaskSchedInv
begin

text \<open>
  Properties of the task scheduler: the invariant of its queues and its timer over every
  sequence of operations, what dispatching, cancelling and rescheduling do, and that a due
  item runs once the workers of its group have taken what is ahead of it.
\<close>

section \<open>Reachable schedulers\<close>


lemma sorter_SystemTime [simp]:
  "TaskSchedulerWorkItemSorter (ts\<lparr>SystemTime := t\<rparr>) = TaskSchedulerWorkItemSorter ts"
  "TaskSchedulerWorkItemSorter (ts\<lparr>m_bShouldDie := d\<rparr>) = TaskSchedulerWorkItemSorter ts"
  by (intro ext; simp add: TaskSchedulerWorkItemSorter_def)+





section \<open>Dispatching\<close>

lemma Dispatch_Loop_item:
  "distinct xs \<Longrightarrow> WorkItems (Dispatch_Loop sid xs ts) i =
     (if i \<in> set (takeWhile (\<lambda>i. \<not> SystemTime ts < m_TimeToRun (WorkItems ts i)) xs)
      then (WorkItems ts i)\<lparr>m_State := TASK_STATE_READY, m_WorkGroup := Some (sid i)\<rparr>
      else WorkItems ts i)"
proof (induction sid xs ts rule: Dispatch_Loop.induct)
  case (2 sid h rest ts)
  let ?ts = "AddItemToWorkGroup (sid h) h (ts\<lparr>m_WaitingList := SortedWorkItemList_erase h (m_WaitingList ts)\<rparr>)"
  have 1: "WorkItems ?ts k = (if k = h then (WorkItems ts h)\<lparr>m_State := TASK_STATE_READY,
      m_WorkGroup := Some (sid h)\<rparr> else WorkItems ts k)" "SystemTime ?ts = SystemTime ts" for k
    by (simp_all add: AddItemToWorkGroup_def)
  have tw: "takeWhile (\<lambda>i. \<not> SystemTime ?ts < m_TimeToRun (WorkItems ?ts i)) rest =
      takeWhile (\<lambda>i. \<not> SystemTime ts < m_TimeToRun (WorkItems ts i)) rest"
    by (rule takeWhile_cong) (simp_all add: 1)
  have "h \<notin> set rest" "distinct rest" using 2(2) by simp_all
  then have h: "h \<notin> set (takeWhile P rest)" for P using set_takeWhileD by metis
  have IH: "\<not> SystemTime ts < m_TimeToRun (WorkItems ts h) \<Longrightarrow>
      WorkItems (Dispatch_Loop sid rest ?ts) i =
        (if i \<in> set (takeWhile (\<lambda>i. \<not> SystemTime ts < m_TimeToRun (WorkItems ts i)) rest)
         then (WorkItems ?ts i)\<lparr>m_State := TASK_STATE_READY, m_WorkGroup := Some (sid i)\<rparr>
         else WorkItems ?ts i)"
    using 2(1) [OF _ \<open>distinct rest\<close>] unfolding tw by simp
  show ?case
    by (cases "SystemTime ts < m_TimeToRun (WorkItems ts h)") (use IH h in \<open>simp_all add: 1(1)\<close>)
qed simp

lemma takeWhile_sorted:
  assumes "sorted_wrt P xs" "\<And>x y. P x y \<Longrightarrow> Q y \<Longrightarrow> Q x"
  shows "set (takeWhile Q xs) = {x \<in> set xs. Q x}"
  using assms(1)
proof (induction xs)
  case (Cons x xs)
  then show ?case using assms(2) by (cases "Q x") auto
qed simp

abbreviation due :: "TaskScheduler \<Rightarrow> WorkItem \<Rightarrow> bool" where
  "due ts i \<equiv> m_TimeToRun (WorkItems ts i) \<le> SystemTime ts"

lemma Dispatch_item:
  assumes "sched_ok ts"
  shows "WorkItems (DispatchWorkItem sid ts) i =
    (if i \<in> set (m_WaitingList ts) \<and> due ts i
     then (WorkItems ts i)\<lparr>m_State := TASK_STATE_READY, m_WorkGroup := Some (sid i)\<rparr>
     else WorkItems ts i)"
proof -
  have q: "distinct (m_WaitingList ts)" "sorted_wrt (TaskSchedulerWorkItemSorter ts) (m_WaitingList ts)"
    using assms by (auto simp: sched_ok_def queue_ok_def)
  have "TaskSchedulerWorkItemSorter ts x y \<Longrightarrow> \<not> SystemTime ts < m_TimeToRun (WorkItems ts y) \<Longrightarrow>
    \<not> SystemTime ts < m_TimeToRun (WorkItems ts x)" for x y
    by (auto simp: TaskSchedulerWorkItemSorter_def Let_def split: if_splits)
  then show ?thesis
    using takeWhile_sorted [OF q(2), of "\<lambda>i. \<not> SystemTime ts < m_TimeToRun (WorkItems ts i)"]
    by (auto simp: DispatchWorkItem_def Dispatch_Loop_item [OF q(1)] not_less)
qed

text \<open>C35. Dispatching leaves exactly the items that are not due waiting, in their order, and
  moves every due item to the ready list of its owner's group, where it joins the items that
  were there; each list stays sorted.\<close>
theorem Dispatch_due:
  assumes "sched_ok ts"
  shows "m_WaitingList (DispatchWorkItem sid ts) = filter (\<lambda>i. \<not> due ts i) (m_WaitingList ts) \<and>
    set (m_ReadyList (DispatchWorkItem sid ts) g) =
      set (m_ReadyList ts g) \<union> {i \<in> set (m_WaitingList ts). due ts i \<and> sid i = g} \<and>
    sorted_wrt (TaskSchedulerWorkItemSorter ts) (m_ReadyList (DispatchWorkItem sid ts) g)"
proof (intro conjI)
  show "m_WaitingList (DispatchWorkItem sid ts) = filter (\<lambda>i. \<not> due ts i) (m_WaitingList ts)"
    using Dispatch_waiting [OF assms] by (simp add: not_le)
  have w: "i \<in> set (m_WaitingList ts) \<longleftrightarrow> m_State (WorkItems ts i) = TASK_STATE_WAITING \<and>
      m_WorkGroup (WorkItems ts i) = None" for i
    using assms by (simp add: sched_ok_def queue_ok_def mem_in_state)
  have r: "sched_ok ts' \<Longrightarrow> set (m_ReadyList ts' g) = in_state ts' TASK_STATE_READY (Some g) \<and>
      sorted_wrt (TaskSchedulerWorkItemSorter ts') (m_ReadyList ts' g)" for ts'
    by (simp add: sched_ok_def queue_ok_def)
  have ok: "sched_ok (DispatchWorkItem sid ts)" using assms by (rule sched_ok_Dispatch)
  show "set (m_ReadyList (DispatchWorkItem sid ts) g) =
      set (m_ReadyList ts g) \<union> {i \<in> set (m_WaitingList ts). due ts i \<and> sid i = g}"
    using conjunct1 [OF r [OF assms]] conjunct1 [OF r [OF ok]] w
    by (auto simp: mem_in_state Dispatch_item [OF assms] split: if_splits)
  have "TaskSchedulerWorkItemSorter (DispatchWorkItem sid ts) = TaskSchedulerWorkItemSorter ts"
    by (intro ext sorter_cong) (simp_all add: Dispatch_item [OF assms])
  then show "sorted_wrt (TaskSchedulerWorkItemSorter ts) (m_ReadyList (DispatchWorkItem sid ts) g)"
    using r [OF ok] by simp
qed

lemma Dispatch_due_witness:
  "let ts = (InsertWorkItem (\<lambda>_. 7) (CJobRetryItem 1) (Some 9)
      (InsertWorkItem (\<lambda>_. 7) CJobManagerItem (Some 4) (TaskScheduler_new 5)))
   in sched_ok ts \<and> m_WaitingList (DispatchWorkItem (\<lambda>_. 7) ts) = [CJobRetryItem 1] \<and>
      CJobManagerItem \<in> set (m_ReadyList (DispatchWorkItem (\<lambda>_. 7) ts) 7)"
proof -
  define ts where "ts = (InsertWorkItem (\<lambda>_. 7) (CJobRetryItem 1) (Some 9)
      (InsertWorkItem (\<lambda>_. 7) CJobManagerItem (Some 4) (TaskScheduler_new 5)))"
  have "sched_ok ts"
    unfolding ts_def
    by (intro sched_ok_Insert sched_ok_new) (simp_all add: in_sched_Insert)
  moreover have "m_WaitingList ts = [CJobManagerItem, CJobRetryItem 1]" "SystemTime ts = 5"
    "m_TimeToRun (WorkItems ts CJobManagerItem) = 4" "m_TimeToRun (WorkItems ts (CJobRetryItem 1)) = 9"
    by (simp_all add: ts_def InsertWorkItem_def TaskScheduler_new_def Let_def TaskSchedulerWorkItemSorter_def)
  ultimately show ?thesis
    using Dispatch_due [of ts "\<lambda>_. 7" 7] unfolding ts_def [symmetric] Let_def by simp
qed

section \<open>Cancelling and rescheduling\<close>

lemma Cancel_frame:
  "k \<noteq> i \<Longrightarrow> WorkItems (snd (CancelWorkItem i ts)) k = WorkItems ts k"
  by (auto simp: CancelWorkItem_def Let_def AcknowledgeWorkItemCancel_def CompleteWorkItem_def
      split: TASK_STATE.split option.splits)

text \<open>C36. Cancelling an item says whether the scheduler did not hold it, takes it out of every
  list whatever its state was, also when it is the running item of this or of another
  thread, and touches no other item.\<close>
theorem Cancel_removes:
  assumes "sched_ok ts"
  shows "(fst (CancelWorkItem i ts) \<longleftrightarrow> \<not> IsWorkItemInScheduler i ts) \<and>
    i \<notin> set (m_WaitingList (snd (CancelWorkItem i ts))) \<and>
    (\<forall>g. i \<notin> set (m_ReadyList (snd (CancelWorkItem i ts)) g) \<and>
         i \<notin> set (m_RunningList (snd (CancelWorkItem i ts)) g)) \<and>
    (\<forall>k. k \<noteq> i \<longrightarrow> WorkItems (snd (CancelWorkItem i ts)) k = WorkItems ts k)"
proof -
  let ?ts = "snd (CancelWorkItem i ts)"
  have "\<not> IsWorkItemInScheduler i ?ts"
    using in_sched_Cancel [OF assms] by simp
  moreover have "sched_ok ?ts"
    using assms by (rule sched_ok_Cancel)
  ultimately show ?thesis
    using fst_CancelWorkItem [OF assms]
    by (auto simp: sched_ok_def queue_ok_def mem_in_state TASK_STATE_neqs Cancel_frame)
qed

lemma Cancel_removes_witness:
  "\<not> fst (CancelWorkItem CJobManagerItem (InsertWorkItem (\<lambda>_. 7) CJobManagerItem (Some 4) (TaskScheduler_new 5)))"
proof -
  have "sched_ok (InsertWorkItem (\<lambda>_. 7) CJobManagerItem (Some 4) (TaskScheduler_new 5))"
    by (intro sched_ok_Insert sched_ok_new) (simp_all add: in_sched_Insert)
  from Cancel_removes [OF this, of CJobManagerItem] show ?thesis
    by (simp add: in_sched_Insert)
qed

text \<open>C37. Rescheduling a held item that does not run yet makes it wait until the new delay has
  passed since it was first inserted, not since now, also when it was ready already; an
  item that runs or is not held is left alone.\<close>
theorem RescheduleDelayedTask_from_insertion:
  assumes "sched_ok ts"
  shows "WorkItems (RescheduleDelayedTask i d ts) i =
    (if m_State (WorkItems ts i) \<in> {TASK_STATE_WAITING, TASK_STATE_READY}
     then (WorkItems ts i)\<lparr>m_TimeToRun := d + m_InsertionTime (WorkItems ts i),
            m_State := TASK_STATE_WAITING, m_WorkGroup := None\<rparr>
     else WorkItems ts i) \<and>
   (\<forall>k. IsWorkItemInScheduler k (RescheduleDelayedTask i d ts) \<longleftrightarrow> IsWorkItemInScheduler k ts) \<and>
   sched_ok (RescheduleDelayedTask i d ts)"
  using sched_ok_RescheduleDelayed [OF assms]
  by (auto simp: in_sched_RescheduleDelayed)
    (auto simp: RescheduleDelayedTask_def Let_def split: option.split)

lemma RescheduleDelayedTask_from_insertion_witness:
  "m_TimeToRun (WorkItems (RescheduleDelayedTask CJobManagerItem 2
     (InsertWorkItem (\<lambda>_. 7) CJobManagerItem (Some 99) (TaskScheduler_new 5))) CJobManagerItem) = 7"
proof -
  have "sched_ok (InsertWorkItem (\<lambda>_. 7) CJobManagerItem (Some 99) (TaskScheduler_new 5))"
    by (intro sched_ok_Insert sched_ok_new) (simp_all add: in_sched_Insert)
  from RescheduleDelayedTask_from_insertion [OF this, of CJobManagerItem 2] show ?thesis
    by (simp add: InsertWorkItem_def Let_def TaskScheduler_new_def)
qed

section \<open>A due item runs\<close>

lemma take_die [simp]: "m_bShouldDie (WorkGroupWorker_take g ts) = m_bShouldDie ts"
  by (simp add: WorkGroupWorker_take_def Let_def split: list.split)

lemma Dispatch_die [simp]: "m_bShouldDie (DispatchWorkItem sid ts) = m_bShouldDie ts"
proof -
  have "m_bShouldDie (Dispatch_Loop sid xs ts) = m_bShouldDie ts" for xs
    by (induction sid xs ts rule: Dispatch_Loop.induct) (auto simp: AddItemToWorkGroup_def)
  then show ?thesis by (simp add: DispatchWorkItem_def)
qed

lemma take_ready:
  "\<not> m_bShouldDie ts \<Longrightarrow> m_ReadyList (WorkGroupWorker_take g ts) g = tl (m_ReadyList ts g)"
  by (cases "m_ReadyList ts g") (simp_all add: WorkGroupWorker_take_def Let_def SortedWorkItemList_erase_def)

lemma takes_die [simp]: "m_bShouldDie ((WorkGroupWorker_take g ^^ n) ts) = m_bShouldDie ts"
  by (induction n) simp_all

lemma takes_ready:
  "\<not> m_bShouldDie ts \<Longrightarrow> m_ReadyList ((WorkGroupWorker_take g ^^ n) ts) g = drop n (m_ReadyList ts g)"
proof (induction n)
  case (Suc n)
  then show ?case by (simp add: take_ready drop_Suc tl_drop)
qed simp

lemma take_TLS:
  "\<not> m_bShouldDie ts \<Longrightarrow> m_ReadyList ts g = i # rest \<Longrightarrow>
   m_WorkItemTLS (WorkGroupWorker_take g ts) = Some i"
  by (simp add: WorkGroupWorker_take_def Let_def)

text \<open>C38. While the scheduler has not been ordered to die, an item that is due when it
  dispatches does run: after at most as many takes of its group's workers as the group has
  ready items, a worker executes it, and the items taken before it come before it in the
  order of due times.\<close>
theorem Scheduler_runs_due:
  assumes "sched_ok ts" "i \<in> set (m_WaitingList ts)" "due ts i" "\<not> m_bShouldDie ts"
  shows "\<exists>n < length (m_ReadyList (DispatchWorkItem sid ts) (sid i)).
    m_WorkItemTLS ((WorkGroupWorker_take (sid i) ^^ Suc n) (DispatchWorkItem sid ts)) = Some i \<and>
    (\<forall>k < n. TaskSchedulerWorkItemSorter (DispatchWorkItem sid ts)
       (m_ReadyList (DispatchWorkItem sid ts) (sid i) ! k) i)"
proof -
  let ?ts = "DispatchWorkItem sid ts" and ?g = "sid i"
  have ok: "sched_ok ?ts" using assms(1) by (rule sched_ok_Dispatch)
  have "i \<in> in_state ?ts TASK_STATE_READY (Some ?g)"
    using assms by (simp add: mem_in_state Dispatch_item)
  then obtain n where n: "n < length (m_ReadyList ?ts ?g)" "m_ReadyList ?ts ?g ! n = i"
    using ok unfolding sched_ok_def queue_ok_def by (metis in_set_conv_nth)
  have "m_ReadyList ((WorkGroupWorker_take ?g ^^ n) ?ts) ?g = i # drop (Suc n) (m_ReadyList ?ts ?g)"
    using n assms(4) by (simp add: takes_ready flip: Cons_nth_drop_Suc)
  then have "m_WorkItemTLS ((WorkGroupWorker_take ?g ^^ Suc n) ?ts) = Some i"
    using assms(4) by (simp add: take_TLS)
  moreover have "TaskSchedulerWorkItemSorter ?ts (m_ReadyList ?ts ?g ! k) i" if "k < n" for k
    using ok n that unfolding sched_ok_def queue_ok_def by (metis sorted_wrt_nth_less)
  ultimately show ?thesis using n(1) by blast
qed

lemma Scheduler_runs_due_witness:
  "\<exists>n. m_WorkItemTLS ((WorkGroupWorker_take 7 ^^ Suc n) (DispatchWorkItem (\<lambda>_. 7)
     (InsertWorkItem (\<lambda>_. 7) CJobManagerItem (Some 4) (TaskScheduler_new 5)))) = Some CJobManagerItem"
proof -
  let ?ts = "InsertWorkItem (\<lambda>_. 7) CJobManagerItem (Some 4) (TaskScheduler_new 5)"
  have "sched_ok ?ts"
    by (intro sched_ok_Insert sched_ok_new) (simp_all add: in_sched_Insert)
  moreover have "CJobManagerItem \<in> set (m_WaitingList ?ts)" "due ?ts CJobManagerItem" "\<not> m_bShouldDie ?ts"
    by (simp_all add: InsertWorkItem_def Let_def TaskScheduler_new_def)
  ultimately show ?thesis
    using Scheduler_runs_due [of ?ts CJobManagerItem "\<lambda>_. 7"] by blast
qed

end
