(* ===== verification/BitsFile.thy ===== *)
theory BitsFile
  imports BitsTypes "HOL-Library.Char_ord" "HOL-Library.Sublist"
begin

text \<open>
  The files of a BITS job (\<open>src/services/drizzle/newjob/cfile.cpp\<close>, \<open>cfile.h\<close>). The
  operating system is the parameter \<open>FileApi\<close> over a file-system state of any type: a
  call returns the Win32 error, \<open>0\<close> for success (\<open>GetLastError\<close> after a failing call).
  The entries from \<open>CrackFileName\<close> on stand for the thin wrappers around system calls
  at the top of \<open>cfile.cpp\<close>, which throw the \<open>HRESULT\<close> on the left of the sum. The last
  three are the calls around impersonation: \<open>CoImpersonateClient\<close> (\<open>CNestedImpersonation\<close>)
  with the user the caller is, the copy of the token of a user who is logged on, and the
  event log entry of a cancellation by another user; each throws when its result fails.
\<close>

record DriveInfo =
  VolumePath :: string
  DriveType :: "32 word"
  CanonicalPath :: string
  SerialNumber :: "32 word"

record 'fs FileApi =
  GetFileAttributes :: "string \<Rightarrow> 'fs \<Rightarrow> 32 word + 32 word"
  SetFileAttributes :: "string \<Rightarrow> 32 word \<Rightarrow> 'fs \<Rightarrow> 32 word \<times> 'fs"
  MoveFileEx :: "string \<Rightarrow> string \<Rightarrow> 'fs \<Rightarrow> 32 word \<times> 'fs"
  DeleteFile :: "string \<Rightarrow> 'fs \<Rightarrow> 32 word \<times> 'fs"
  CrackFileName :: "string \<Rightarrow> HRESULT + string"
  VolumeOf :: "string \<Rightarrow> 'fs \<Rightarrow> HRESULT + DriveInfo"
  CreateTempFile :: "string \<Rightarrow> 'fs \<Rightarrow> (HRESULT + string) \<times> 'fs"
  CheckFileWritability :: "string \<Rightarrow> 'fs \<Rightarrow> HRESULT"
  OpenFileForUpload :: "string \<Rightarrow> 'fs \<Rightarrow> HRESULT + 64 word \<times> 64 word"
  CoImpersonateClient :: "'fs \<Rightarrow> HRESULT \<times> nat"
  CopyUserToken :: "nat \<Rightarrow> 'fs \<Rightarrow> HRESULT"
  ReportJobCancellation :: "'fs \<Rightarrow> HRESULT"

record CFile =
  m_RemoteName :: string
  m_LocalName :: string
  m_TemporaryName :: string
  m_LocalFileTime :: "64 word"
  m_BytesTotal :: "64 word"
  m_BytesTransferred :: "64 word"
  m_Completed :: bool
  m_VolumePath :: string
  m_CanonicalVolumePath :: string
  m_DriveType :: "32 word"
  m_VolumeSerialNumber :: "32 word"

section \<open>Names\<close>

text \<open>\<open>_wcsicmp\<close> in the C locale; \<open>iswalpha\<close> on the letters of a drive.\<close>

definition to_lower :: "char \<Rightarrow> char" where
  "to_lower c = (if CHR ''A'' \<le> c \<and> c \<le> CHR ''Z'' then char_of (of_char c + 32 :: nat) else c)"

definition wcsicmp_eq :: "string \<Rightarrow> string \<Rightarrow> bool" where
  "wcsicmp_eq a b \<longleftrightarrow> map to_lower a = map to_lower b"

definition iswalpha :: "char \<Rightarrow> bool" where
  "iswalpha c \<longleftrightarrow> CHR ''a'' \<le> to_lower c \<and> to_lower c \<le> CHR ''z''"

abbreviation bslash :: char where "bslash \<equiv> CHR 0x5C"

definition IsUncPath :: "string \<Rightarrow> bool" where
  "IsUncPath Path \<longleftrightarrow> prefix [bslash, bslash] Path"

definition IsAbsolutePath :: "string \<Rightarrow> bool" where
  "IsAbsolutePath Path \<longleftrightarrow>
     prefix [bslash, bslash] Path \<or>
     (case Path of c # d # e # _ \<Rightarrow> iswalpha c \<and> d = CHR '':'' \<and> e = bslash | _ \<Rightarrow> False)"

abbreviation INTERNET_MAX_URL_LENGTH :: nat where "INTERNET_MAX_URL_LENGTH \<equiv> 2083"

definition VerifyRemoteName :: "string option \<Rightarrow> bool" where
  "VerifyRemoteName name =
     (case name of
        None \<Rightarrow> False
      | Some n \<Rightarrow>
          if \<not> prefix ''http://'' n \<and> \<not> prefix ''https://'' n then False
          else if INTERNET_MAX_URL_LENGTH < size n then False
          else True)"

definition IsDriveTypeRemote :: "32 word \<Rightarrow> bool" where
  "IsDriveTypeRemote t \<longleftrightarrow> t = 0 \<or> t = 1 \<or> t = 4"

definition IsReportableFileDeletionError :: "HRESULT \<Rightarrow> string \<Rightarrow> bool" where
  "IsReportableFileDeletionError Hr Path =
     (if Hr = HRESULT_FROM_WIN32 ERROR_FILE_NOT_FOUND then False
      else if Hr = HRESULT_FROM_WIN32 ERROR_PATH_NOT_FOUND \<and> \<not> IsUncPath Path then False
      else True)"

section \<open>Construction\<close>

text \<open>
  \<open>VerifyLocalName\<close> fills in the drive information, creates the temporary file of a
  download and reads the size of an upload; a throw is the \<open>HRESULT\<close> on the left. On the
  writability failure the temporary file just created is deleted again.
\<close>

definition VerifyLocalName ::
  "('fs, 'z) FileApi_scheme \<Rightarrow> BG_JOB_TYPE \<Rightarrow> CFile \<Rightarrow> string \<Rightarrow> 'fs \<Rightarrow> (HRESULT + CFile) \<times> 'fs" where
  "VerifyLocalName api FileType f name s =
     (if \<not> IsAbsolutePath name then (Inl E_INVALIDARG, s)
      else if prefix [bslash, bslash, CHR ''?'', bslash] name then (Inl E_INVALIDARG, s)
      else case CrackFileName api name of
        Inl hr \<Rightarrow> (Inl hr, s)
      | Inr DirectoryName \<Rightarrow>
          (case VolumeOf api DirectoryName s of
             Inl hr \<Rightarrow> (Inl hr, s)
           | Inr info \<Rightarrow>
               (let remote = IsDriveTypeRemote (DriveType info);
                    f = f\<lparr>m_VolumePath := VolumePath info,
                          m_CanonicalVolumePath := (if remote then [] else CanonicalPath info),
                          m_DriveType := DriveType info,
                          m_VolumeSerialNumber := (if remote then 0 else SerialNumber info)\<rparr>
                in if FileType = BG_JOB_TYPE_DOWNLOAD then
                     (case CreateTempFile api DirectoryName s of
                        (Inl hr, s) \<Rightarrow> (Inl hr, s)
                      | (Inr temp, s) \<Rightarrow>
                          (let hr = CheckFileWritability api name s
                           in if FAILED hr then (Inl hr, snd (DeleteFile api temp s))
                              else (Inr (f\<lparr>m_TemporaryName := temp\<rparr>), s)))
                   else
                     (case OpenFileForUpload api name s of
                        Inl hr \<Rightarrow> (Inl hr, s)
                      | Inr (file_size, t) \<Rightarrow>
                          (Inr (f\<lparr>m_BytesTotal := file_size, m_LocalFileTime := t\<rparr>), s)))))"

definition CFile_create ::
  "('fs, 'z) FileApi_scheme \<Rightarrow> BG_JOB_TYPE \<Rightarrow> string \<Rightarrow> string \<Rightarrow> 'fs \<Rightarrow> (HRESULT + CFile) \<times> 'fs" where
  "CFile_create api FileType RemoteName LocalName s =
     (let f = \<lparr>m_RemoteName = RemoteName, m_LocalName = LocalName, m_TemporaryName = [],
               m_LocalFileTime = 0, m_BytesTotal = BG_SIZE_UNKNOWN, m_BytesTransferred = 0,
               m_Completed = False, m_VolumePath = [], m_CanonicalVolumePath = [],
               m_DriveType = 0, m_VolumeSerialNumber = 0\<rparr>
      in if \<not> VerifyRemoteName (Some RemoteName) then (Inl E_INVALIDARG, s)
         else VerifyLocalName api FileType f LocalName s)"

section \<open>Transfer state\<close>

definition ReceivedAllData :: "CFile \<Rightarrow> bool" where
  "ReceivedAllData f \<longleftrightarrow> m_BytesTotal f = m_BytesTransferred f"

definition IsCanonicalVolume :: "CFile \<Rightarrow> string \<Rightarrow> bool" where
  "IsCanonicalVolume f CanonicalVolume \<longleftrightarrow> wcsicmp_eq (m_CanonicalVolumePath f) CanonicalVolume"

text \<open>The volume tests of \<open>CFile::OnDiskChange\<close> and \<open>CFile::OnDismount\<close>: whether the job fails.\<close>

definition DiskChange_bFail :: "CFile \<Rightarrow> string \<Rightarrow> 32 word \<Rightarrow> bool" where
  "DiskChange_bFail f CanonicalVolume VolumeSerialNumber \<longleftrightarrow>
     wcsicmp_eq (m_CanonicalVolumePath f) CanonicalVolume \<and>
     VolumeSerialNumber = m_VolumeSerialNumber f"

definition Dismount_bFail :: "CFile \<Rightarrow> string \<Rightarrow> bool" where
  "Dismount_bFail f CanonicalVolume \<longleftrightarrow> wcsicmp_eq (m_CanonicalVolumePath f) CanonicalVolume"

text \<open>
  What \<open>ValidateDriveInfo\<close> finds: the drive is as recorded, the volume changed, or the
  drive cannot be read, with the error to report.
\<close>

datatype DriveCheck = Drive_Valid | Drive_Changed QMErrInfo | Drive_Error QMErrInfo

abbreviation ERROR_ACCESS_DENIED :: "32 word" where "ERROR_ACCESS_DENIED \<equiv> 5"

definition ValidateDriveInfo :: "HRESULT + DriveInfo \<Rightarrow> CFile \<Rightarrow> DriveCheck" where
  "ValidateDriveInfo drive f =
     (case drive of
        Inl Hr \<Rightarrow>
          Drive_Error (QMErrInfo_hr QM_FILE_TRANSIENT_ERROR SOURCE_QMGR_FILE
            (if Hr = HRESULT_FROM_WIN32 ERROR_ACCESS_DENIED then BG_E_DESTINATION_LOCKED else Hr))
      | Inr info \<Rightarrow>
          (let remote = IsDriveTypeRemote (DriveType info) in
           if wcsicmp_eq (VolumePath info) (m_VolumePath f) \<and>
              wcsicmp_eq (if remote then [] else CanonicalPath info) (m_CanonicalVolumePath f) \<and>
              m_DriveType f = DriveType info \<and>
              m_VolumeSerialNumber f = (if remote then 0 else SerialNumber info)
           then Drive_Valid
           else Drive_Changed (QMErrInfo_hr QM_FILE_FATAL_ERROR SOURCE_QMGR_FILE BG_E_VOLUME_CHANGED)))"

section \<open>Committing and deleting the temporary file\<close>

definition DeleteTempFile :: "('fs, 'z) FileApi_scheme \<Rightarrow> CFile \<Rightarrow> 'fs \<Rightarrow> HRESULT \<times> 'fs" where
  "DeleteTempFile api f s = (case DeleteFile api (m_TemporaryName f) s of (e, s) \<Rightarrow> (HRESULT_FROM_WIN32 e, s))"

abbreviation FILE_ATTRIBUTE_NORMAL :: "32 word" where "FILE_ATTRIBUTE_NORMAL \<equiv> 0x80"

abbreviation dwMaxRetries :: nat where "dwMaxRetries \<equiv> 10"

text \<open>
  The retry loop of \<open>MoveTempFile\<close> with \<open>n\<close> iterations left, so \<open>i = dwMaxRetries - n\<close>.
  The result is \<open>None\<close> when the file was moved, else the last error.
\<close>

primrec MoveTempFile_Loop ::
  "('fs, 'z) FileApi_scheme \<Rightarrow> CFile \<Rightarrow> nat \<Rightarrow> 32 word \<Rightarrow> 'fs \<Rightarrow> 32 word option \<times> 'fs" where
  "MoveTempFile_Loop api f 0 dwError s = (Some dwError, s)"
| "MoveTempFile_Loop api f (Suc n) dwError s =
     (case MoveFileEx api (m_TemporaryName f) (m_LocalName f) s of (e, s) \<Rightarrow>
        if e = 0 then (None, s)
        else if 3 < dwMaxRetries - Suc n \<and> e \<noteq> ERROR_SHARING_VIOLATION then (Some e, s)
        else MoveTempFile_Loop api f n e s)"

text \<open>The first result is the outcome of \<open>ASSERT( !m_Completed )\<close>.\<close>

definition MoveTempFile ::
  "('fs, 'z) FileApi_scheme \<Rightarrow> CFile \<Rightarrow> 'fs \<Rightarrow> bool \<times> HRESULT \<times> CFile \<times> 'fs" where
  "MoveTempFile api f s =
     (\<not> m_Completed f,
      case GetFileAttributes api (m_TemporaryName f) s of
        Inl dwError \<Rightarrow> (HRESULT_FROM_WIN32 dwError, f, s)
      | Inr dwFileAttributes \<Rightarrow>
          (case SetFileAttributes api (m_TemporaryName f) FILE_ATTRIBUTE_NORMAL s of (dwError, s) \<Rightarrow>
             if dwError \<noteq> 0 then (HRESULT_FROM_WIN32 dwError, f, s)
             else
               (case MoveTempFile_Loop api f dwMaxRetries 0 s of
                  (None, s) \<Rightarrow> (S_OK, f\<lparr>m_Completed := True\<rparr>, s)
                | (Some dwError, s) \<Rightarrow>
                    (HRESULT_FROM_WIN32 dwError, f,
                     snd (SetFileAttributes api (m_TemporaryName f) dwFileAttributes s)))))"

definition ChangedOnServer :: "('fs, 'z) FileApi_scheme \<Rightarrow> CFile \<Rightarrow> 'fs \<Rightarrow> CFile \<times> 'fs" where
  "ChangedOnServer api f s =
     (f\<lparr>m_BytesTransferred := 0, m_Completed := False, m_BytesTotal := BG_SIZE_UNKNOWN\<rparr>,
      snd (DeleteTempFile api f s))"

end
