(* ===== verification/BitsState.thy ===== *)
theory BitsState
  imports BitsFile TaskSched
begin

text \<open>
  The state of the BITS service and the primitives every operation uses: the job object
  (\<open>CJob\<close> and \<open>CUploadJob\<close> of \<open>newjob/cjob.h\<close>), the manager (\<open>CJobManager\<close> of
  \<open>newjob/cmanager.h\<close>), reference counts, modification callbacks, serialization and the
  state change itself. A job is named by its handle (its address); \<open>Jobs\<close> is the heap of
  job objects. A job of C++ type \<open>CUploadJob\<close> has \<open>m_UploadData = Some _\<close>.

  The writer lock makes every operation atomic between its acquisition and release, so an
  operation is a function on the service state. The \<open>ASSERT\<close>s of jobs, files and manager
  are recorded in \<open>AssertionFailed\<close>, those of the scheduler in its \<open>FailedAsserts\<close>, and the
  use of a \<open>NULL\<close> pointer, with the function it happens in, in \<open>AccessViolations\<close>. Left
  out are the asserts that a thread holds the writer lock, that a system call on a timer
  succeeded, that a \<open>switch\<close> over an enumeration has no other case, and the one in
  \<open>CheckStateTransition\<close>, whose condition is a string literal and so never fails.
\<close>

section \<open>Jobs\<close>

datatype UPLOAD_STATE =
    UPLOAD_STATE_CREATE_SESSION
  | UPLOAD_STATE_SEND_DATA
  | UPLOAD_STATE_GET_REPLY
  | UPLOAD_STATE_CLOSE_SESSION
  | UPLOAD_STATE_CLOSED
  | UPLOAD_STATE_CANCEL_SESSION
  | UPLOAD_STATE_CANCELLED

record UPLOAD_DATA =
  State :: UPLOAD_STATE
  fSchedulable :: bool
  HostId :: string
  HostIdFallbackTimeout :: "32 word"
  HostIdNoProgressStartTime :: "64 word"

definition UPLOAD_DATA_new :: UPLOAD_DATA where
  "UPLOAD_DATA_new =
     \<lparr>State = UPLOAD_STATE_CREATE_SESSION, fSchedulable = True, HostId = [],
      HostIdFallbackTimeout = 0xFFFFFFFF, HostIdNoProgressStartTime = 0\<rparr>"

text \<open>
  \<open>m_NotifyPointer\<close> is the client's callback interface, if set. An old-style group
  interface, if there is one, carries a notification pointer of its own. \<open>m_refs\<close> is the
  reference count of the job's external interface.
\<close>

record CJob =
  m_id :: nat
  m_type :: BG_JOB_TYPE
  m_priority :: int
  m_state :: BG_JOB_STATE
  m_NotifySid :: nat
  m_name :: string
  m_description :: string
  m_NotifyPointer :: "nat option"
  m_NotifyFlags :: "32 word"
  m_NotifyProgram :: string
  m_NotifyParameters :: string
  m_OldExternalGroupInterface :: "nat option option"
  m_OldExternalJobInterface :: bool
  m_CurrentFile :: nat
  m_files :: "CFile list"
  m_error :: CJobError
  m_retries :: "32 word"
  m_MinimumRetryDelay :: "32 word"
  m_NoProgressTimeout :: "32 word"
  m_CreationTime :: "64 word"
  m_LastAccessTime :: "64 word"
  m_ModificationTime :: "64 word"
  m_TransferCompletionTime :: "64 word"
  m_SerializeTime :: "64 word"
  m_fVolumeLocked :: bool
  m_FilesVerified :: bool
  m_ModificationsPending :: "32 word"
  m_refs :: int
  m_UploadData :: "UPLOAD_DATA option"
  m_ReplyFile :: "CFile option"
  m_ReplyFileName :: string
  m_fOwnReplyFileName :: bool

abbreviation is_upload :: "CJob \<Rightarrow> bool" where
  "is_upload j \<equiv> m_UploadData j \<noteq> None"

definition IsRunning :: "CJob \<Rightarrow> bool" where
  "IsRunning j \<longleftrightarrow> m_state j = BG_JOB_STATE_TRANSFERRING \<or> m_state j = BG_JOB_STATE_CONNECTING"

definition CJob_IsRunnable :: "CJob \<Rightarrow> bool" where
  "CJob_IsRunnable j =
     (if m_fVolumeLocked j then False
      else m_state j = BG_JOB_STATE_TRANSFERRING \<or> m_state j = BG_JOB_STATE_CONNECTING \<or>
           m_state j = BG_JOB_STATE_QUEUED)"

definition CUploadJob_IsRunnable :: "CJob \<Rightarrow> UPLOAD_DATA \<Rightarrow> bool" where
  "CUploadJob_IsRunnable j d =
     (if m_fVolumeLocked j then False
      else case m_state j of
          BG_JOB_STATE_SUSPENDED \<Rightarrow> False
        | BG_JOB_STATE_ERROR \<Rightarrow> False
        | BG_JOB_STATE_TRANSIENT_ERROR \<Rightarrow> False
        | _ \<Rightarrow> fSchedulable d \<and> State d \<noteq> UPLOAD_STATE_CLOSED \<and> State d \<noteq> UPLOAD_STATE_CANCELLED)"

text \<open>The virtual function.\<close>

definition IsRunnable :: "CJob \<Rightarrow> bool" where
  "IsRunnable j =
     (case m_UploadData j of None \<Rightarrow> CJob_IsRunnable j | Some d \<Rightarrow> CUploadJob_IsRunnable j d)"

definition GetCurrentFile :: "CJob \<Rightarrow> CFile option" where
  "GetCurrentFile j = (if m_CurrentFile j < length (m_files j) then Some (m_files j ! m_CurrentFile j) else None)"

definition IsEmpty :: "CJob \<Rightarrow> bool" where
  "IsEmpty j \<longleftrightarrow> length (m_files j) = 0"

definition GetFileIndex :: "CJob \<Rightarrow> int \<Rightarrow> CFile option" where
  "GetFileIndex j index =
     (if is_upload j \<and> index = REPLY_FILE_INDEX then m_ReplyFile j
      else if is_upload j \<and> index = NO_FILE_INDEX then None
      else if index < 0 then None
      else if int (length (m_files j)) \<le> index then None
      else Some (m_files j ! nat index))"

definition SessionInProgress :: "UPLOAD_DATA \<Rightarrow> bool" where
  "SessionInProgress d \<longleftrightarrow>
     State d = UPLOAD_STATE_SEND_DATA \<or> State d = UPLOAD_STATE_GET_REPLY \<or>
     State d = UPLOAD_STATE_CLOSE_SESSION"

definition IsCallbackEnabled :: "32 word \<Rightarrow> CJob \<Rightarrow> bool" where
  "IsCallbackEnabled flag j =
     (if m_NotifyFlags j AND flag = 0 \<or> m_NotifyFlags j AND BG_NOTIFY_DISABLE \<noteq> 0 then False
      else case m_OldExternalGroupInterface j of
          Some pif \<Rightarrow> pif \<noteq> None
        | None \<Rightarrow> \<not> (m_NotifyPointer j = None \<and> size (m_NotifyProgram j) = 0))"

definition CheckStateTransition :: "BG_JOB_STATE \<Rightarrow> BG_JOB_STATE \<Rightarrow> bool" where
  "CheckStateTransition Old New =
     (case Old of
        BG_JOB_STATE_TRANSFERRING \<Rightarrow> New \<noteq> BG_JOB_STATE_CONNECTING
      | BG_JOB_STATE_ACKNOWLEDGED \<Rightarrow> False
      | BG_JOB_STATE_CANCELLED \<Rightarrow> False
      | _ \<Rightarrow> True)"

definition ShouldClearError :: "BG_JOB_STATE \<Rightarrow> bool" where
  "ShouldClearError state =
     (case state of
        BG_JOB_STATE_QUEUED \<Rightarrow> False
      | BG_JOB_STATE_CONNECTING \<Rightarrow> False
      | BG_JOB_STATE_TRANSFERRING \<Rightarrow> True
      | BG_JOB_STATE_SUSPENDED \<Rightarrow> True
      | BG_JOB_STATE_ERROR \<Rightarrow> False
      | BG_JOB_STATE_TRANSIENT_ERROR \<Rightarrow> False
      | BG_JOB_STATE_TRANSFERRED \<Rightarrow> True
      | BG_JOB_STATE_ACKNOWLEDGED \<Rightarrow> True
      | BG_JOB_STATE_CANCELLED \<Rightarrow> True)"

definition AreRemoteSizesKnown :: "CJob \<Rightarrow> bool" where
  "AreRemoteSizesKnown j \<longleftrightarrow> (\<forall>f\<in>set (m_files j). m_BytesTotal f \<noteq> BG_SIZE_UNKNOWN)"

section \<open>The service\<close>

text \<open>
  \<open>AddressCount\<close> is what the network monitor reports, \<open>m_Users\<close> the users logged on.
  \<open>StateFile\<close> is the content of the state file, the two job lists as written.
  \<open>MetadataError\<close> is the Win32 error of growing the metadata on disk, \<open>0\<close> if it succeeds;
  \<open>StateFileFails\<close> says whether writing the state file fails.
\<close>

record 'fs CJobManager =
  Jobs :: "nat \<Rightarrow> CJob"
  m_OnlineJobs :: "nat list"
  m_OfflineJobs :: "nat list"
  m_CurrentJob :: "nat option"
  m_TaskScheduler :: TaskScheduler
  m_hQuantumTimer :: "64 word option"
  AddressCount :: nat
  m_Users :: "nat list"
  m_JobInactivityTimeout :: "64 word"
  m_TimeQuantaLength :: "64 word"
  ServiceShuttingDown :: bool
  MetadataError :: "32 word"
  StateFileFails :: bool
  StateFile :: "((nat \<times> CJob) list \<times> (nat \<times> CJob) list) option"
  FileSystem :: 'fs
  AssertionFailed :: bool
  AccessViolations :: "string list"

definition upd_job :: "nat \<Rightarrow> (CJob \<Rightarrow> CJob) \<Rightarrow> 'fs CJobManager \<Rightarrow> 'fs CJobManager" where
  "upd_job h f s = s\<lparr>Jobs := (Jobs s)(h := f (Jobs s h))\<rparr>"

definition upd_sched :: "(TaskScheduler \<Rightarrow> TaskScheduler) \<Rightarrow> 'fs CJobManager \<Rightarrow> 'fs CJobManager" where
  "upd_sched f s = s\<lparr>m_TaskScheduler := f (m_TaskScheduler s)\<rparr>"

definition ASSERT :: "bool \<Rightarrow> 'fs CJobManager \<Rightarrow> 'fs CJobManager" where
  "ASSERT b s = s\<lparr>AssertionFailed := AssertionFailed s \<or> \<not> b\<rparr>"

definition null_pointer :: "string \<Rightarrow> 'fs CJobManager \<Rightarrow> 'fs CJobManager" where
  "null_pointer site s = s\<lparr>AccessViolations := AccessViolations s @ [site]\<rparr>"

abbreviation now :: "'fs CJobManager \<Rightarrow> 64 word" where
  "now s \<equiv> SystemTime (m_TaskScheduler s)"

section \<open>Work items of the service\<close>

text \<open>The manager's item runs as local system, named \<open>0\<close>; an item of a job as its owner.\<close>

fun GetSid :: "'fs CJobManager \<Rightarrow> WorkItem \<Rightarrow> nat" where
  "GetSid s CJobManagerItem = 0"
| "GetSid s (CJobInactivityTimeout h) = m_NotifySid (Jobs s h)"
| "GetSid s (CJobRetryItem h) = m_NotifySid (Jobs s h)"
| "GetSid s (CJobCallbackItem h) = m_NotifySid (Jobs s h)"
| "GetSid s (CJobNoProgressItem h) = m_NotifySid (Jobs s h)"
| "GetSid s (CJobModificationItem h) = m_NotifySid (Jobs s h)"

abbreviation InScheduler :: "WorkItem \<Rightarrow> 'fs CJobManager \<Rightarrow> bool" where
  "InScheduler i s \<equiv> IsWorkItemInScheduler i (m_TaskScheduler s)"

definition Cancel_item :: "WorkItem \<Rightarrow> 'fs CJobManager \<Rightarrow> 'fs CJobManager" where
  "Cancel_item i = upd_sched (\<lambda>ts. snd (CancelWorkItem i ts))"

definition Insert_item :: "WorkItem \<Rightarrow> 64 word option \<Rightarrow> 'fs CJobManager \<Rightarrow> 'fs CJobManager" where
  "Insert_item i t s = upd_sched (InsertWorkItem (GetSid s) i t) s"

definition Insert_delayed :: "WorkItem \<Rightarrow> 64 word \<Rightarrow> 'fs CJobManager \<Rightarrow> 'fs CJobManager" where
  "Insert_delayed i d s = upd_sched (InsertDelayedWorkItem (GetSid s) i d) s"

definition Complete_item :: "'fs CJobManager \<Rightarrow> 'fs CJobManager" where
  "Complete_item = upd_sched (CompleteWorkItem False)"

definition Acknowledge_item :: "'fs CJobManager \<Rightarrow> 'fs CJobManager" where
  "Acknowledge_item = upd_sched AcknowledgeWorkItemCancel"

definition ScheduleDelayedTask :: "WorkItem \<Rightarrow> 32 word \<Rightarrow> 'fs CJobManager \<Rightarrow> 'fs CJobManager" where
  "ScheduleDelayedTask task SecondsOfDelay s =
     Insert_item task (Some (now s + NanoSec100PerSec * ucast SecondsOfDelay)) s"

section \<open>Serialization, modification callbacks and times\<close>

text \<open>
  What is written of a job: a running job is stored as queued. Writing stamps
  \<open>m_SerializeTime\<close> on every job in the lists.
\<close>

definition CJob_Serialize :: "CJob \<Rightarrow> CJob" where
  "CJob_Serialize j = j\<lparr>m_state := (if IsRunning j then BG_JOB_STATE_QUEUED else m_state j)\<rparr>"

definition Serialize :: "'fs CJobManager \<Rightarrow> 'fs CJobManager" where
  "Serialize s =
     (if StateFileFails s then s
      else s\<lparr>StateFile := Some (map (\<lambda>h. (h, CJob_Serialize (Jobs s h))) (m_OnlineJobs s),
                              map (\<lambda>h. (h, CJob_Serialize (Jobs s h))) (m_OfflineJobs s)),
             Jobs := (\<lambda>h. if h \<in> set (m_OnlineJobs s) \<or> h \<in> set (m_OfflineJobs s)
                          then (Jobs s h)\<lparr>m_SerializeTime := now s\<rparr> else Jobs s h)\<rparr>)"

definition ScheduleModificationCallback :: "nat \<Rightarrow> 'fs CJobManager \<Rightarrow> 'fs CJobManager" where
  "ScheduleModificationCallback h s =
     (if m_OldExternalGroupInterface (Jobs s h) \<noteq> None then s
      else if \<not> IsCallbackEnabled BG_NOTIFY_JOB_MODIFICATION (Jobs s h) then s
      else
        (let s = (if m_ModificationsPending (Jobs s h) = 0
                  then Insert_item (CJobModificationItem h) None
                         (upd_job h (\<lambda>j. j\<lparr>m_refs := m_refs j + 1\<rparr>) s)
                  else s)
         in upd_job h (\<lambda>j. j\<lparr>m_ModificationsPending := m_ModificationsPending j + 1\<rparr>) s))"

definition UpdateLastAccessTime :: "nat \<Rightarrow> 'fs CJobManager \<Rightarrow> 'fs CJobManager" where
  "UpdateLastAccessTime h s = upd_job h (\<lambda>j. j\<lparr>m_LastAccessTime := now s\<rparr>) s"

definition SetModificationTime :: "nat \<Rightarrow> 'fs CJobManager \<Rightarrow> 'fs CJobManager" where
  "SetModificationTime h s = upd_job h (\<lambda>j. j\<lparr>m_ModificationTime := now s\<rparr>) s"

definition SetCompletionTime :: "nat \<Rightarrow> 'fs CJobManager \<Rightarrow> 'fs CJobManager" where
  "SetCompletionTime h s =
     SetModificationTime h (upd_job h (\<lambda>j. j\<lparr>m_TransferCompletionTime := now s\<rparr>) s)"

definition restart_inactivity :: "nat \<Rightarrow> 'fs CJobManager \<Rightarrow> 'fs CJobManager" where
  "restart_inactivity h s =
     (if InScheduler (CJobInactivityTimeout h) s
      then Insert_delayed (CJobInactivityTimeout h) (m_JobInactivityTimeout s)
             (Cancel_item (CJobInactivityTimeout h) s)
      else s)"

definition UpdateModificationTime :: "bool \<Rightarrow> nat \<Rightarrow> 'fs CJobManager \<Rightarrow> 'fs CJobManager" where
  "UpdateModificationTime fNotify h s =
     (let s = UpdateLastAccessTime h (SetModificationTime h s)
      in if fNotify
         then Serialize (ScheduleModificationCallback h (restart_inactivity h s))
         else s)"

definition SetState :: "nat \<Rightarrow> BG_JOB_STATE \<Rightarrow> 'fs CJobManager \<Rightarrow> 'fs CJobManager" where
  "SetState h state s =
     (if m_state (Jobs s h) = state then s
      else
        (let s = upd_job h (\<lambda>j. j\<lparr>m_state := state\<rparr>) s;
             s = (if ShouldClearError state then upd_job h (\<lambda>j. j\<lparr>m_error := ClearError\<rparr>) s else s);
             s = (if state \<noteq> BG_JOB_STATE_TRANSIENT_ERROR then Cancel_item (CJobRetryItem h) s else s)
         in UpdateModificationTime False h s))"

definition RecordError :: "nat \<Rightarrow> QMErrInfo \<Rightarrow> int \<Rightarrow> 'fs CJobManager \<Rightarrow> 'fs CJobManager" where
  "RecordError h ErrInfo FileIndex = upd_job h (\<lambda>j. j\<lparr>m_error := CJobError_Set h FileIndex ErrInfo\<rparr>)"

abbreviation INFINITE :: "32 word" where "INFINITE \<equiv> 0xFFFFFFFF"

definition SetTransientError ::
  "nat \<Rightarrow> QMErrInfo \<Rightarrow> int \<Rightarrow> bool \<Rightarrow> bool \<Rightarrow> 'fs CJobManager \<Rightarrow> 'fs CJobManager" where
  "SetTransientError h ErrInfo FileIndex fRetryLater fUpdateTime s =
     (let s = (if m_state (Jobs s h) = BG_JOB_STATE_TRANSFERRING
               then upd_job h (\<lambda>j. j\<lparr>m_retries := m_retries j + 1\<rparr>) s else s);
          s = (if m_state (Jobs s h) \<noteq> BG_JOB_STATE_CANCELLED \<and>
                  m_state (Jobs s h) \<noteq> BG_JOB_STATE_ACKNOWLEDGED
               then SetState h BG_JOB_STATE_TRANSIENT_ERROR s
               else ASSERT (m_type (Jobs s h) \<noteq> BG_JOB_TYPE_DOWNLOAD) s);
          s = RecordError h ErrInfo FileIndex s;
          s = (if m_NoProgressTimeout (Jobs s h) \<noteq> INFINITE \<and> \<not> InScheduler (CJobNoProgressItem h) s
               then ScheduleDelayedTask (CJobNoProgressItem h) (m_NoProgressTimeout (Jobs s h)) s else s);
          s = (if fRetryLater \<and> \<not> InScheduler (CJobRetryItem h) s
               then ScheduleDelayedTask (CJobRetryItem h) (m_MinimumRetryDelay (Jobs s h)) s else s)
      in if fUpdateTime then UpdateModificationTime True h s else s)"

definition RecalcTransientError :: "bool \<Rightarrow> nat \<Rightarrow> 'fs CJobManager \<Rightarrow> 'fs CJobManager" where
  "RecalcTransientError ForResume h s =
     (if \<not> ForResume \<and> m_state (Jobs s h) \<in>
           {BG_JOB_STATE_ERROR, BG_JOB_STATE_TRANSFERRED, BG_JOB_STATE_SUSPENDED} then s
      else
        (let OldState = m_state (Jobs s h); OldError = m_error (Jobs s h);
             s = (if m_state (Jobs s h) \<noteq> BG_JOB_STATE_CANCELLED \<and>
                     m_state (Jobs s h) \<noteq> BG_JOB_STATE_ACKNOWLEDGED
                  then SetState h BG_JOB_STATE_QUEUED s
                  else ASSERT (m_type (Jobs s h) \<noteq> BG_JOB_TYPE_DOWNLOAD) s);
             s = Cancel_item (CJobRetryItem h) s;
             s = (if m_fVolumeLocked (Jobs s h)
                  then SetTransientError h (QMErrInfo_hr QM_FILE_TRANSIENT_ERROR SOURCE_HTTP_CLIENT_CONN
                         BG_E_DESTINATION_LOCKED) (int (m_CurrentFile (Jobs s h))) False False s
                  else if AddressCount s = 0
                  then SetTransientError h (QMErrInfo_hr QM_FILE_TRANSIENT_ERROR SOURCE_HTTP_CLIENT_CONN
                         BG_E_NETWORK_DISCONNECTED) (int (m_CurrentFile (Jobs s h))) False False s
                  else s);
             s = (if m_state (Jobs s h) \<noteq> OldState \<or> \<not> CJobError_eq (m_error (Jobs s h)) OldError
                  then ScheduleModificationCallback h s else s)
         in if OldState = BG_JOB_STATE_TRANSFERRING \<and>
               m_state (Jobs s h) = BG_JOB_STATE_TRANSIENT_ERROR
            then upd_job h (\<lambda>j. j\<lparr>m_retries := m_retries j + 1\<rparr>) s else s))"

end
