(* ===== verification/BitsEngine.thy ===== *)
theory BitsEngine
  imports BitsState
begin

text \<open>
  The operations of jobs and of the manager (\<open>newjob/cjob.cpp\<close>, \<open>newjob/cmanager.cpp\<close>).
  A virtual function of \<open>CJob\<close> that \<open>CUploadJob\<close> overrides is a definition of its own that
  chooses the body by \<open>m_UploadData\<close>. Functions returning a result give the result first.
\<close>

section \<open>The job lists and the current job\<close>

definition CJobList_Add :: "nat \<Rightarrow> nat list \<Rightarrow> nat list" where
  "CJobList_Add job xs = xs @ [job]"

definition CJobList_Remove :: "nat \<Rightarrow> nat list \<Rightarrow> bool \<times> nat list" where
  "CJobList_Remove job xs = (job \<in> set xs, remove1 job xs)"

definition MoveJobOffline :: "nat \<Rightarrow> 'fs CJobManager \<Rightarrow> 'fs CJobManager" where
  "MoveJobOffline job s =
     s\<lparr>m_OnlineJobs := snd (CJobList_Remove job (m_OnlineJobs s)),
       m_OfflineJobs := CJobList_Add job (m_OfflineJobs s)\<rparr>"

definition AppendOnline :: "nat \<Rightarrow> 'fs CJobManager \<Rightarrow> 'fs CJobManager" where
  "AppendOnline job s =
     (case CJobList_Remove job (m_OnlineJobs s) of (removed, online) \<Rightarrow>
        s\<lparr>m_OnlineJobs := CJobList_Add job online,
          m_OfflineJobs := (if \<not> removed then snd (CJobList_Remove job (m_OfflineJobs s))
                            else m_OfflineJobs s)\<rparr>)"

definition RemoveJob :: "nat \<Rightarrow> 'fs CJobManager \<Rightarrow> bool \<times> 'fs CJobManager" where
  "RemoveJob job s =
     (case CJobList_Remove job (m_OnlineJobs s) of (removed, online) \<Rightarrow>
        if removed then (True, s\<lparr>m_OnlineJobs := online\<rparr>)
        else (case CJobList_Remove job (m_OfflineJobs s) of (removed, offline) \<Rightarrow>
                if removed then (True, s\<lparr>m_OfflineJobs := offline\<rparr>) else (False, s)))"

definition InterruptDownload :: "'fs CJobManager \<Rightarrow> 'fs CJobManager" where
  "InterruptDownload = Cancel_item CJobManagerItem"

definition SetQuantumTimeout :: "'fs CJobManager \<Rightarrow> 'fs CJobManager" where
  "SetQuantumTimeout s = s\<lparr>m_hQuantumTimer := Some (now s + m_TimeQuantaLength s)\<rparr>"

text \<open>The scan of \<open>ChooseCurrentJob\<close> over the online list, with the best job so far.\<close>

fun Choose_Loop :: "(nat \<Rightarrow> CJob) \<Rightarrow> nat option \<Rightarrow> nat list \<Rightarrow> nat option" where
  "Choose_Loop js NewJob [] = NewJob"
| "Choose_Loop js NewJob (iter # rest) =
     (if IsRunnable (js iter) \<and>
         (case NewJob of None \<Rightarrow> True | Some n \<Rightarrow> m_priority (js iter) < m_priority (js n))
      then Choose_Loop js (Some iter) rest
      else Choose_Loop js NewJob rest)"

definition ChooseCurrentJob :: "'fs CJobManager \<Rightarrow> 'fs CJobManager" where
  "ChooseCurrentJob s =
     (let NewJob = (if AddressCount s = 0 then None else Choose_Loop (Jobs s) None (m_OnlineJobs s))
      in if m_CurrentJob s = NewJob then s
         else
           (let s = (case m_CurrentJob s of
                       None \<Rightarrow> s
                     | Some c \<Rightarrow> if IsRunning (Jobs s c) then RecalcTransientError False c s else s);
                s = (if NewJob \<noteq> None then SetQuantumTimeout s else s)
            in s\<lparr>m_CurrentJob := NewJob\<rparr>))"

abbreviation NETWORK_INIT_TOLERANCE_SECS :: "64 word" where "NETWORK_INIT_TOLERANCE_SECS \<equiv> 60"

definition RunningJobs :: "'fs CJobManager \<Rightarrow> nat" where
  "RunningJobs s = length (filter (\<lambda>i. IsRunning (Jobs s i)) (m_OnlineJobs s))"

definition ScheduleAnotherGroup :: "bool \<Rightarrow> 'fs CJobManager \<Rightarrow> 'fs CJobManager" where
  "ScheduleAnotherGroup fInsertNetworkDelay s =
     (let pOldCurrentJob = m_CurrentJob s;
          s = (if ServiceShuttingDown s then s\<lparr>m_CurrentJob := None\<rparr>
               else
                 (let s = ChooseCurrentJob s
                  in if m_CurrentJob s = None then ASSERT (RunningJobs s = 0) s
                     else ASSERT (RunningJobs s = 0 \<or> RunningJobs s = 1) s))
      in if m_CurrentJob s \<noteq> None then
           (let s = (if m_CurrentJob s \<noteq> pOldCurrentJob then Cancel_item CJobManagerItem s else s)
            in if \<not> InScheduler CJobManagerItem s then
                 (if fInsertNetworkDelay
                  then Insert_delayed CJobManagerItem (NETWORK_INIT_TOLERANCE_SECS * NanoSec100PerSec) s
                  else Insert_item CJobManagerItem None s)
               else s)
         else Cancel_item CJobManagerItem s)"

definition RetaskJob :: "nat \<Rightarrow> 'fs CJobManager \<Rightarrow> 'fs CJobManager" where
  "RetaskJob h s =
     ScheduleAnotherGroup False (if IsRunning (Jobs s h) then InterruptDownload s else s)"

text \<open>
  \<open>MoveActiveJobToListEnd\<close> returns the number of runnable jobs of the same or a more
  urgent priority, and moves the job to the end of the online list if there is another.
\<close>

definition MoveActiveJobToListEnd :: "nat \<Rightarrow> 'fs CJobManager \<Rightarrow> nat \<times> 'fs CJobManager" where
  "MoveActiveJobToListEnd h s =
     (if AddressCount s = 0 then (1, s)
      else
        (let s = ASSERT (IsRunnable (Jobs s h)) s;
             PossibleActiveJobs = length (filter (\<lambda>i. IsRunnable (Jobs s i) \<and>
               m_priority (Jobs s i) \<le> m_priority (Jobs s h)) (m_OnlineJobs s))
         in (PossibleActiveJobs,
             if 1 < PossibleActiveJobs \<and> h \<in> set (m_OnlineJobs s)
             then s\<lparr>m_OnlineJobs := remove1 h (m_OnlineJobs s) @ [h]\<rparr> else s)))"

text \<open>
  \<open>cancelled\<close> is the result of the attempt to take the writer lock, made only when the
  thread is not the writer.
\<close>

definition CheckForQuantumTimeout :: "bool \<Rightarrow> 'fs CJobManager \<Rightarrow> bool \<times> 'fs CJobManager" where
  "CheckForQuantumTimeout cancelled s =
     (case m_hQuantumTimer s of
        None \<Rightarrow> (False, s)
      | Some t \<Rightarrow>
          if now s < t then (False, s)
          else
            (if cancelled then (True, s)
             else case m_CurrentJob s of
                 None \<Rightarrow> (True, null_pointer ''CheckForQuantumTimeout'' (ASSERT False s))
               | Some c \<Rightarrow>
                   (case MoveActiveJobToListEnd c s of (PossibleActiveJobs, s) \<Rightarrow>
                      if PossibleActiveJobs = 1 then (False, SetQuantumTimeout s) else (True, s))))"

section \<open>Notification callbacks\<close>

definition ScheduleCompletionCallback :: "32 word \<Rightarrow> nat \<Rightarrow> 'fs CJobManager \<Rightarrow> 'fs CJobManager" where
  "ScheduleCompletionCallback Seconds h s =
     (if \<not> IsCallbackEnabled BG_NOTIFY_JOB_TRANSFERRED (Jobs s h) then s
      else if InScheduler (CJobCallbackItem h) s then s
      else ScheduleDelayedTask (CJobCallbackItem h) Seconds s)"

definition ScheduleErrorCallback :: "32 word \<Rightarrow> nat \<Rightarrow> 'fs CJobManager \<Rightarrow> 'fs CJobManager" where
  "ScheduleErrorCallback Seconds h s =
     (if \<not> IsCallbackEnabled BG_NOTIFY_JOB_ERROR (Jobs s h) then s
      else if InScheduler (CJobCallbackItem h) s then s
      else ScheduleDelayedTask (CJobCallbackItem h) Seconds s)"

section \<open>Progress and outcome of a transfer\<close>

definition JobTransferred :: "nat \<Rightarrow> 'fs CJobManager \<Rightarrow> 'fs CJobManager" where
  "JobTransferred h s =
     ScheduleCompletionCallback 0 h
       (SetCompletionTime h
         (Cancel_item (CJobNoProgressItem h) (SetState h BG_JOB_STATE_TRANSFERRED s)))"

definition CancelWorkitems :: "nat \<Rightarrow> 'fs CJobManager \<Rightarrow> 'fs CJobManager" where
  "CancelWorkitems h s =
     Cancel_item (CJobRetryItem h)
       (Cancel_item (CJobCallbackItem h)
         (Cancel_item (CJobNoProgressItem h)
           (Cancel_item (CJobInactivityTimeout h) s)))"

definition RemoveFromManager :: "nat \<Rightarrow> 'fs CJobManager \<Rightarrow> 'fs CJobManager" where
  "RemoveFromManager h s =
     (case RemoveJob h (CancelWorkitems h s) of (removed, s) \<Rightarrow>
        if removed
        then upd_job h (\<lambda>j. j\<lparr>m_refs := m_refs j - 1\<rparr>) (Serialize (ScheduleAnotherGroup False s))
        else s)"

definition CJob_FileTransientError :: "nat \<Rightarrow> QMErrInfo \<Rightarrow> 'fs CJobManager \<Rightarrow> 'fs CJobManager" where
  "CJob_FileTransientError h ErrInfo s =
     SetTransientError h ErrInfo (int (m_CurrentFile (Jobs s h))) True True s"

text \<open>
  The tail that \<open>CJob::FileFatalError\<close> and \<open>CUploadJob::FileFatalError\<close> share, with the
  file index to record. \<open>ErrInfo\<close> is \<open>None\<close> for the \<open>NULL\<close> that the no-progress timeout passes.
\<close>

definition FileFatalError_tail ::
  "nat \<Rightarrow> QMErrInfo option \<Rightarrow> int \<Rightarrow> 'fs CJobManager \<Rightarrow> 'fs CJobManager" where
  "FileFatalError_tail h ErrInfo index s =
     (let s = (if m_state (Jobs s h) = BG_JOB_STATE_TRANSFERRING
               then upd_job h (\<lambda>j. j\<lparr>m_retries := m_retries j + 1\<rparr>) s else s);
          s = Cancel_item (CJobCallbackItem h) (Cancel_item (CJobNoProgressItem h) s);
          s = SetState h BG_JOB_STATE_ERROR s;
          s = (case ErrInfo of None \<Rightarrow> s | Some e \<Rightarrow> RecordError h e index s)
      in Serialize (ScheduleErrorCallback 0 h s))"

definition CJob_FileFatalError :: "nat \<Rightarrow> QMErrInfo option \<Rightarrow> 'fs CJobManager \<Rightarrow> 'fs CJobManager" where
  "CJob_FileFatalError h ErrInfo s =
     FileFatalError_tail h ErrInfo (int (m_CurrentFile (Jobs s h))) s"

definition upd_upload :: "nat \<Rightarrow> (UPLOAD_DATA \<Rightarrow> UPLOAD_DATA) \<Rightarrow> 'fs CJobManager \<Rightarrow> 'fs CJobManager" where
  "upd_upload h f = upd_job h (\<lambda>j. j\<lparr>m_UploadData := map_option f (m_UploadData j)\<rparr>)"

definition CheckHostIdFallbackTimeout :: "64 word \<Rightarrow> UPLOAD_DATA \<Rightarrow> bool" where
  "CheckHostIdFallbackTimeout CurrentTime d =
     (if HostIdFallbackTimeout d \<noteq> 0xFFFFFFFF \<and> HostIdNoProgressStartTime d \<noteq> 0
      then
        (let TimeoutTime = HostIdNoProgressStartTime d + ucast (HostIdFallbackTimeout d) * NanoSec100PerSec
         in TimeoutTime < HostIdNoProgressStartTime d \<or> TimeoutTime < CurrentTime)
      else False)"

text \<open>
  \<open>CUploadJob::FileTransientError\<close>; a \<open>NULL\<close> error that the code dereferences is an access
  violation, after which nothing more is done.
\<close>

definition SetTransientError_ptr ::
  "nat \<Rightarrow> QMErrInfo option \<Rightarrow> int \<Rightarrow> bool \<Rightarrow> bool \<Rightarrow> 'fs CJobManager \<Rightarrow> 'fs CJobManager" where
  "SetTransientError_ptr h ErrInfo FileIndex fRetryLater fUpdateTime s =
     (case ErrInfo of None \<Rightarrow> null_pointer ''CUploadJob_FileTransientError'' s
      | Some e \<Rightarrow> SetTransientError h e FileIndex fRetryLater fUpdateTime s)"

definition CUploadJob_FileTransientError ::
  "nat \<Rightarrow> UPLOAD_DATA \<Rightarrow> QMErrInfo option \<Rightarrow> 'fs CJobManager \<Rightarrow> 'fs CJobManager" where
  "CUploadJob_FileTransientError h d ErrInfo s =
     (if m_state (Jobs s h) = BG_JOB_STATE_CANCELLED \<or> m_state (Jobs s h) = BG_JOB_STATE_ACKNOWLEDGED
      then upd_upload h (\<lambda>d. d\<lparr>fSchedulable := False\<rparr>)
             (SetTransientError_ptr h ErrInfo NO_FILE_INDEX True True s)
      else if State d = UPLOAD_STATE_GET_REPLY
      then SetTransientError_ptr h ErrInfo REPLY_FILE_INDEX True True s
      else if CheckHostIdFallbackTimeout (now s) d
      then SetState h BG_JOB_STATE_QUEUED
             (upd_upload h (\<lambda>d. d\<lparr>HostId := [], HostIdFallbackTimeout := 0xFFFFFFFF\<rparr>) s)
      else
        (let s = (if HostIdFallbackTimeout d \<noteq> 0xFFFFFFFF \<and> HostIdNoProgressStartTime d = 0
                  then upd_upload h (\<lambda>d. d\<lparr>HostIdNoProgressStartTime := now s\<rparr>) s else s)
         in SetTransientError_ptr h ErrInfo (int (m_CurrentFile (Jobs s h))) True True s))"

definition CUploadJob_FileFatalError ::
  "nat \<Rightarrow> UPLOAD_DATA \<Rightarrow> QMErrInfo option \<Rightarrow> 'fs CJobManager \<Rightarrow> 'fs CJobManager" where
  "CUploadJob_FileFatalError h d ErrInfo s =
     (if m_state (Jobs s h) = BG_JOB_STATE_CANCELLED \<or> m_state (Jobs s h) = BG_JOB_STATE_ACKNOWLEDGED
      then RemoveFromManager h
             (ASSERT (State d = UPLOAD_STATE_CLOSE_SESSION \<or> State d = UPLOAD_STATE_CANCEL_SESSION) s)
      else if CheckHostIdFallbackTimeout (now s) d
      then CUploadJob_FileTransientError h d ErrInfo s
      else FileFatalError_tail h ErrInfo
             (if State d = UPLOAD_STATE_GET_REPLY then REPLY_FILE_INDEX
              else int (m_CurrentFile (Jobs s h))) s)"

definition FileTransientError :: "nat \<Rightarrow> QMErrInfo \<Rightarrow> 'fs CJobManager \<Rightarrow> 'fs CJobManager" where
  "FileTransientError h ErrInfo s =
     (case m_UploadData (Jobs s h) of
        None \<Rightarrow> CJob_FileTransientError h ErrInfo s
      | Some d \<Rightarrow> CUploadJob_FileTransientError h d (Some ErrInfo) s)"

definition FileFatalError :: "nat \<Rightarrow> QMErrInfo option \<Rightarrow> 'fs CJobManager \<Rightarrow> 'fs CJobManager" where
  "FileFatalError h ErrInfo s =
     (case m_UploadData (Jobs s h) of
        None \<Rightarrow> CJob_FileFatalError h ErrInfo s
      | Some d \<Rightarrow> CUploadJob_FileFatalError h d ErrInfo s)"

abbreviation PROGRESS_SERIALIZE_INTERVAL :: "64 word" where
  "PROGRESS_SERIALIZE_INTERVAL \<equiv> 15 * NanoSec100PerSec"

definition upd_file :: "nat \<Rightarrow> nat \<Rightarrow> CFile \<Rightarrow> 'fs CJobManager \<Rightarrow> 'fs CJobManager" where
  "upd_file h i f = upd_job h (\<lambda>j. j\<lparr>m_files := (m_files j)[i := f]\<rparr>)"

text \<open>
  \<open>CJob::FileComplete\<close>: a job with an old-style interface renames each file as it completes.
\<close>

definition CJob_FileComplete_next :: "nat \<Rightarrow> 'fs CJobManager \<Rightarrow> 'fs CJobManager" where
  "CJob_FileComplete_next h s =
     (let s = upd_job h (\<lambda>j. j\<lparr>m_CurrentFile := m_CurrentFile j + 1\<rparr>) s
      in if m_CurrentFile (Jobs s h) = length (m_files (Jobs s h))
         then Serialize (JobTransferred h s)
         else
           (let s = ScheduleModificationCallback h s
            in if PROGRESS_SERIALIZE_INTERVAL < now s - m_SerializeTime (Jobs s h)
               then UpdateModificationTime True h s
               else SetModificationTime h s))"

definition CJob_FileComplete ::
  "('fs, 'z) FileApi_scheme \<Rightarrow> nat \<Rightarrow> 'fs CJobManager \<Rightarrow> 'fs CJobManager" where
  "CJob_FileComplete api h s =
     (if m_OldExternalJobInterface (Jobs s h)
      then
        (case GetCurrentFile (Jobs s h) of
           None \<Rightarrow> null_pointer ''FileComplete'' s
         | Some f \<Rightarrow>
             (case MoveTempFile api f (FileSystem s) of (asserted, Hr, f, fs) \<Rightarrow>
                (let s = upd_file h (m_CurrentFile (Jobs s h)) f (ASSERT asserted (s\<lparr>FileSystem := fs\<rparr>))
                 in if FAILED Hr
                    then FileFatalError h (Some (QMErrInfo_hr QM_FILE_DONE SOURCE_QMGR_FILE Hr)) s
                    else CJob_FileComplete_next h s)))
      else CJob_FileComplete_next h s)"

definition CUploadJob_FileComplete :: "nat \<Rightarrow> UPLOAD_DATA \<Rightarrow> 'fs CJobManager \<Rightarrow> 'fs CJobManager" where
  "CUploadJob_FileComplete h d s =
     (if m_state (Jobs s h) = BG_JOB_STATE_CANCELLED \<or> m_state (Jobs s h) = BG_JOB_STATE_ACKNOWLEDGED
      then RemoveFromManager h
             (ASSERT (State d = UPLOAD_STATE_CLOSED \<or> State d = UPLOAD_STATE_CANCELLED) s)
      else Serialize (JobTransferred h (upd_job h (\<lambda>j. j\<lparr>m_CurrentFile := m_CurrentFile j + 1\<rparr>) s)))"

definition FileComplete ::
  "('fs, 'z) FileApi_scheme \<Rightarrow> nat \<Rightarrow> 'fs CJobManager \<Rightarrow> 'fs CJobManager" where
  "FileComplete api h s =
     (case m_UploadData (Jobs s h) of
        None \<Rightarrow> CJob_FileComplete api h s
      | Some d \<Rightarrow> CUploadJob_FileComplete h d s)"

definition CJob_UpdateProgress :: "nat \<Rightarrow> 64 word \<Rightarrow> 'fs CJobManager \<Rightarrow> 'fs CJobManager" where
  "CJob_UpdateProgress h BytesTransferred s =
     (let s = (if 0 < BytesTransferred then SetState h BG_JOB_STATE_TRANSFERRING s else s);
          s = ScheduleModificationCallback h (Cancel_item (CJobNoProgressItem h) s)
      in if PROGRESS_SERIALIZE_INTERVAL < now s - m_SerializeTime (Jobs s h)
         then UpdateModificationTime True h s else s)"

definition UpdateProgress :: "nat \<Rightarrow> 64 word \<Rightarrow> 'fs CJobManager \<Rightarrow> 'fs CJobManager" where
  "UpdateProgress h BytesTransferred s =
     CJob_UpdateProgress h BytesTransferred
       (if is_upload (Jobs s h) then upd_upload h (\<lambda>d. d\<lparr>HostIdNoProgressStartTime := 0\<rparr>) s else s)"

text \<open>
  Progress of the current file as the downloader and the uploader report it; the result
  says whether to abort because the time quantum expired.
\<close>

definition DownloaderProgress ::
  "nat \<Rightarrow> 64 word \<Rightarrow> 64 word \<Rightarrow> 'fs CJobManager \<Rightarrow> bool \<times> 'fs CJobManager" where
  "DownloaderProgress h BytesTransferred BytesTotal s =
     (case GetCurrentFile (Jobs s h) of
        None \<Rightarrow> (True, null_pointer ''Progress'' s)
      | Some f \<Rightarrow>
          CheckForQuantumTimeout False
            (UpdateProgress h BytesTransferred
              (upd_file h (m_CurrentFile (Jobs s h))
                (f\<lparr>m_BytesTransferred := BytesTransferred, m_BytesTotal := BytesTotal\<rparr>) s)))"

text \<open>The same function on the reply file of an upload.\<close>

definition ReplyProgress ::
  "nat \<Rightarrow> 64 word \<Rightarrow> 64 word \<Rightarrow> 'fs CJobManager \<Rightarrow> bool \<times> 'fs CJobManager" where
  "ReplyProgress h BytesTransferred BytesTotal s =
     CheckForQuantumTimeout False
       (UpdateProgress h BytesTransferred
         (upd_job h (\<lambda>j. j\<lparr>m_ReplyFile := map_option (\<lambda>f. f\<lparr>m_BytesTransferred := BytesTransferred,
            m_BytesTotal := BytesTotal\<rparr>) (m_ReplyFile j)\<rparr>) s))"

definition UploaderProgress :: "nat \<Rightarrow> 64 word \<Rightarrow> 'fs CJobManager \<Rightarrow> bool \<times> 'fs CJobManager" where
  "UploaderProgress h BytesTransferred s =
     (case GetCurrentFile (Jobs s h) of
        None \<Rightarrow> (True, null_pointer ''Progress'' s)
      | Some f \<Rightarrow>
          (let s' = upd_file h (m_CurrentFile (Jobs s h)) (f\<lparr>m_BytesTransferred := BytesTransferred\<rparr>) s
           in CheckForQuantumTimeout False
                (if m_BytesTransferred f < BytesTransferred
                 then UpdateProgress h BytesTransferred s' else s')))"

end
