(* ===== verification/BitsApi.thy ===== *)
theory BitsApi
  imports BitsEngine
begin

text \<open>
  What clients, timers and the system call: the methods of a job, the handlers of its work
  items, and the events of the manager (\<open>newjob/cjob.cpp\<close>, \<open>newjob/cmanager.cpp\<close>).
  Impersonation of the client counts for its failures, which the operations return; what
  the file system answers to another user is part of the parameter \<open>FileApi\<close>. Logging has
  no effect on the state and is left out, but for the error it can throw on a cancellation.
\<close>

section \<open>Impersonation\<close>

text \<open>\<open>copy\<close> is the result of copying the token of a user who is logged on.\<close>

definition CloneUserToken :: "nat \<Rightarrow> HRESULT \<Rightarrow> 'fs CJobManager \<Rightarrow> HRESULT" where
  "CloneUserToken sid copy s =
     (if sid \<notin> set (m_Users s) then HRESULT_FROM_WIN32 ERROR_NOT_LOGGED_ON else copy)"

text \<open>
  \<open>CNestedImpersonation imp; imp.SwitchToLogonToken()\<close>: the error that one of the two
  throws, or success and \<open>imp.CopySid()\<close>. \<open>ImpersonateOwner\<close> is the constructor from a
  user, as \<open>CommitTemporaryFiles\<close> uses it.
\<close>

definition SwitchToLogonToken ::
  "('fs, 'z) FileApi_scheme \<Rightarrow> 'fs CJobManager \<Rightarrow> HRESULT \<times> nat" where
  "SwitchToLogonToken api s =
     (case CoImpersonateClient api (FileSystem s) of (hr, sid) \<Rightarrow>
        (if FAILED hr then hr else CloneUserToken sid (CopyUserToken api sid (FileSystem s)) s, sid))"

definition ImpersonateOwner :: "('fs, 'z) FileApi_scheme \<Rightarrow> nat \<Rightarrow> 'fs CJobManager \<Rightarrow> HRESULT" where
  "ImpersonateOwner api sid s = CloneUserToken sid (CopyUserToken api sid (FileSystem s)) s"

definition NonOwnerModificationCheck ::
  "('fs, 'z) FileApi_scheme \<Rightarrow> nat \<Rightarrow> nat \<Rightarrow> 'fs CJobManager \<Rightarrow> HRESULT" where
  "NonOwnerModificationCheck api CurrentSid h s =
     (if CurrentSid = m_NotifySid (Jobs s h) then S_OK
      else if FAILED (ReportJobCancellation api (FileSystem s))
      then ReportJobCancellation api (FileSystem s) else S_OK)"

text \<open>What \<open>Cancel\<close> does first: impersonate the client and report one who is not the owner.\<close>

definition CancelCheck :: "('fs, 'z) FileApi_scheme \<Rightarrow> nat \<Rightarrow> 'fs CJobManager \<Rightarrow> HRESULT" where
  "CancelCheck api h s =
     (case SwitchToLogonToken api s of (hr, CurrentSid) \<Rightarrow>
        if FAILED hr then hr else NonOwnerModificationCheck api CurrentSid h s)"

section \<open>Temporary files\<close>

text \<open>
  The loop of \<open>RemoveTemporaryFiles\<close>; the first result says whether some deletion failed
  in a way worth reporting.
\<close>

primrec RemoveTemporaryFiles_Loop ::
  "('fs, 'z) FileApi_scheme \<Rightarrow> CFile list \<Rightarrow> 'fs \<Rightarrow> bool \<times> 'fs" where
  "RemoveTemporaryFiles_Loop api [] fs = (False, fs)"
| "RemoveTemporaryFiles_Loop api (f # rest) fs =
     (if \<not> m_Completed f then
        (case DeleteTempFile api f fs of (hr, fs) \<Rightarrow>
           (case RemoveTemporaryFiles_Loop api rest fs of (failed, fs) \<Rightarrow>
              (FAILED hr \<and> IsReportableFileDeletionError hr (m_TemporaryName f) \<or> failed, fs)))
      else RemoveTemporaryFiles_Loop api rest fs)"

definition RemoveTemporaryFiles ::
  "('fs, 'z) FileApi_scheme \<Rightarrow> nat \<Rightarrow> nat \<Rightarrow> 'fs CJobManager \<Rightarrow> HRESULT \<times> 'fs CJobManager" where
  "RemoveTemporaryFiles api StartingIndex h s =
     (case RemoveTemporaryFiles_Loop api (drop StartingIndex (m_files (Jobs s h))) (FileSystem s) of
        (failed, fs) \<Rightarrow>
          (if failed then BG_S_UNABLE_TO_DELETE_FILES else S_OK, s\<lparr>FileSystem := fs\<rparr>))"

text \<open>
  The first loop of \<open>CommitTemporaryFiles\<close>: rename what was received completely, keep the
  first error, and note whether some file is partial. The first result is the outcome of
  the asserts of \<open>MoveTempFile\<close>.
\<close>

primrec Commit_Loop ::
  "('fs, 'z) FileApi_scheme \<Rightarrow> CFile list \<Rightarrow> HRESULT \<Rightarrow> bool \<Rightarrow> 'fs
   \<Rightarrow> bool \<times> HRESULT \<times> bool \<times> CFile list \<times> 'fs" where
  "Commit_Loop api [] Hr fPartial fs = (True, Hr, fPartial, [], fs)"
| "Commit_Loop api (f # rest) Hr fPartial fs =
     (if \<not> m_Completed f then
        (if ReceivedAllData f then
           (case MoveTempFile api f fs of (asserted, LastResult, f, fs) \<Rightarrow>
              (case Commit_Loop api rest (if FAILED LastResult \<and> Hr = S_OK then LastResult else Hr)
                      fPartial fs of
                 (asserts, Hr, fPartial, fl, fs) \<Rightarrow> (asserted \<and> asserts, Hr, fPartial, f # fl, fs)))
         else
           (case Commit_Loop api rest Hr True fs of
              (asserts, Hr, fPartial, fl, fs) \<Rightarrow> (asserts, Hr, fPartial, f # fl, fs)))
      else
        (case Commit_Loop api rest Hr fPartial fs of
           (asserts, Hr, fPartial, fl, fs) \<Rightarrow> (asserts, Hr, fPartial, f # fl, fs)))"

definition CommitTemporaryFiles ::
  "('fs, 'z) FileApi_scheme \<Rightarrow> nat \<Rightarrow> 'fs CJobManager \<Rightarrow> HRESULT \<times> 'fs CJobManager" where
  "CommitTemporaryFiles api h s =
     (let Hr = ImpersonateOwner api (m_NotifySid (Jobs s h)) s
      in if FAILED Hr then (Hr, UpdateModificationTime True h s)
         else
           (case Commit_Loop api (m_files (Jobs s h)) S_OK False (FileSystem s) of
              (asserts, Hr, fPartial, fl, fs) \<Rightarrow>
                (let s = upd_job h (\<lambda>j. j\<lparr>m_files := fl\<rparr>) (ASSERT asserts (s\<lparr>FileSystem := fs\<rparr>))
                 in if SUCCEEDED Hr
                    then (case RemoveTemporaryFiles api 0 h s of (Hr, s) \<Rightarrow>
                            (if fPartial then BG_S_PARTIAL_COMPLETE else Hr, s))
                    else (Hr, UpdateModificationTime True h s))))"

section \<open>The reply file of an upload\<close>

definition GenerateReplyFile ::
  "('fs, 'z) FileApi_scheme \<Rightarrow> bool \<Rightarrow> nat \<Rightarrow> 'fs CJobManager \<Rightarrow> HRESULT \<times> 'fs CJobManager" where
  "GenerateReplyFile api fSerialize h s =
     (if m_ReplyFileName (Jobs s h) \<noteq> [] then (S_OK, s)
      else if IsEmpty (Jobs s h) then (BG_E_EMPTY, s)
      else if MetadataError s \<noteq> 0 then (HRESULT_FROM_WIN32 (MetadataError s), s)
      else if FAILED (fst (SwitchToLogonToken api s)) then (fst (SwitchToLogonToken api s), s)
      else
          (case CrackFileName api (m_LocalName (hd (m_files (Jobs s h)))) of
             Inl hr \<Rightarrow> (hr, s)
           | Inr Directory \<Rightarrow>
               (case CreateTempFile api Directory (FileSystem s) of
                  (Inl hr, fs) \<Rightarrow> (hr, s\<lparr>FileSystem := fs\<rparr>)
                | (Inr name, fs) \<Rightarrow>
                    (let s = upd_job h (\<lambda>j. j\<lparr>m_ReplyFileName := name, m_fOwnReplyFileName := True\<rparr>)
                               (s\<lparr>FileSystem := fs\<rparr>)
                     in (S_OK, if fSerialize then Serialize s else s)))))"

definition DeleteGeneratedReplyFile ::
  "('fs, 'z) FileApi_scheme \<Rightarrow> nat \<Rightarrow> 'fs CJobManager \<Rightarrow> HRESULT \<times> 'fs CJobManager" where
  "DeleteGeneratedReplyFile api h s =
     (if m_fOwnReplyFileName (Jobs s h) \<and> 0 < size (m_ReplyFileName (Jobs s h)) then
        (case DeleteFile api (m_ReplyFileName (Jobs s h)) (FileSystem s) of (e, fs) \<Rightarrow>
           (HRESULT_FROM_WIN32 e, s\<lparr>FileSystem := fs\<rparr>))
      else (S_OK, s))"

definition RemoveReplyFile ::
  "('fs, 'z) FileApi_scheme \<Rightarrow> nat \<Rightarrow> 'fs CJobManager \<Rightarrow> HRESULT \<times> 'fs CJobManager" where
  "RemoveReplyFile api h s =
     (case DeleteGeneratedReplyFile api h s of (hr, s) \<Rightarrow>
        (let FinalHr = (if FAILED hr then BG_S_UNABLE_TO_DELETE_FILES else S_OK);
             s = upd_job h (\<lambda>j. j\<lparr>m_fOwnReplyFileName := False\<rparr>) s
         in case m_ReplyFile (Jobs s h) of
              None \<Rightarrow> (FinalHr, s)
            | Some f \<Rightarrow>
                (case DeleteTempFile api f (FileSystem s) of (Hr, fs) \<Rightarrow>
                   (if FAILED Hr then BG_S_UNABLE_TO_DELETE_FILES else FinalHr, s\<lparr>FileSystem := fs\<rparr>))))"

definition CommitReplyFile ::
  "('fs, 'z) FileApi_scheme \<Rightarrow> nat \<Rightarrow> 'fs CJobManager \<Rightarrow> HRESULT \<times> 'fs CJobManager" where
  "CommitReplyFile api h s =
     (case m_ReplyFile (Jobs s h) of
        Some f \<Rightarrow>
          if ReceivedAllData f then
            (case MoveTempFile api f (FileSystem s) of (asserted, hr, f, fs) \<Rightarrow>
               (if FAILED hr then hr else S_OK,
                upd_job h (\<lambda>j. j\<lparr>m_ReplyFile := Some f\<rparr>) (ASSERT asserted (s\<lparr>FileSystem := fs\<rparr>))))
          else (BG_S_PARTIAL_COMPLETE, snd (RemoveReplyFile api h s))
      | None \<Rightarrow> (BG_S_PARTIAL_COMPLETE, snd (RemoveReplyFile api h s)))"

section \<open>Adding files\<close>

definition HandleAddFile :: "nat \<Rightarrow> 'fs CJobManager \<Rightarrow> 'fs CJobManager" where
  "HandleAddFile h s =
     (let s = (if m_state (Jobs s h) = BG_JOB_STATE_TRANSFERRED
               then Cancel_item (CJobNoProgressItem h)
                      (Cancel_item (CJobCallbackItem h)
                        (Cancel_item (CJobRetryItem h)
                          (upd_job h (\<lambda>j. j\<lparr>m_TransferCompletionTime := 0\<rparr>)
                            (SetState h BG_JOB_STATE_QUEUED s))))
               else s)
      in RetaskJob h (UpdateModificationTime True h s))"

text \<open>
  The part of \<open>AddFile\<close> inside \<open>try\<close>: the \<open>HRESULT\<close> thrown is on the left. Creating the
  default reply file ignores its error.
\<close>

definition AddFile_try ::
  "('fs, 'z) FileApi_scheme \<Rightarrow> nat \<Rightarrow> string option \<Rightarrow> string option \<Rightarrow> bool \<Rightarrow> 'fs CJobManager
   \<Rightarrow> HRESULT \<times> 'fs CJobManager" where
  "AddFile_try api h RemoteName LocalName SingleAdd s =
     (case (RemoteName, LocalName) of
        (Some remote, Some local) \<Rightarrow>
          if m_state (Jobs s h) = BG_JOB_STATE_CANCELLED \<or> m_state (Jobs s h) = BG_JOB_STATE_ACKNOWLEDGED
          then (BG_E_INVALID_STATE, s)
          else if SingleAdd \<and> MetadataError s \<noteq> 0 then (HRESULT_FROM_WIN32 (MetadataError s), s)
          else if FAILED (fst (SwitchToLogonToken api s)) then (fst (SwitchToLogonToken api s), s)
          else
            (case CFile_create api (m_type (Jobs s h)) remote local (FileSystem s) of
               (Inl hr, fs) \<Rightarrow> (hr, s\<lparr>FileSystem := fs\<rparr>)
             | (Inr file, fs) \<Rightarrow>
                 (let s = upd_job h (\<lambda>j. j\<lparr>m_files := m_files j @ [file]\<rparr>) (s\<lparr>FileSystem := fs\<rparr>);
                      s = (if m_type (Jobs s h) = BG_JOB_TYPE_UPLOAD_REPLY
                           then snd (GenerateReplyFile api False h s) else s)
                  in (S_OK, upd_job h (\<lambda>j. j\<lparr>m_FilesVerified := False\<rparr>) s)))
      | _ \<Rightarrow> (E_INVALIDARG, s))"

definition AddFile ::
  "('fs, 'z) FileApi_scheme \<Rightarrow> nat \<Rightarrow> string option \<Rightarrow> string option \<Rightarrow> bool \<Rightarrow> 'fs CJobManager
   \<Rightarrow> HRESULT \<times> 'fs CJobManager" where
  "AddFile api h RemoteName LocalName SingleAdd s =
     (if m_type (Jobs s h) \<noteq> BG_JOB_TYPE_DOWNLOAD \<and> 0 < length (m_files (Jobs s h))
      then (BG_E_TOO_MANY_FILES, s)
      else
        (case AddFile_try api h RemoteName LocalName SingleAdd s of (hr, s) \<Rightarrow>
           if FAILED hr then
             (hr, if m_type (Jobs s h) = BG_JOB_TYPE_UPLOAD_REPLY
                  then upd_job h (\<lambda>j. j\<lparr>m_fOwnReplyFileName := False\<rparr>)
                         (snd (DeleteGeneratedReplyFile api h s))
                  else s)
           else (hr, if SingleAdd then HandleAddFile h s else s)))"

primrec AddFileSet_Loop ::
  "('fs, 'z) FileApi_scheme \<Rightarrow> nat \<Rightarrow> (string option \<times> string option) list \<Rightarrow> 'fs CJobManager
   \<Rightarrow> HRESULT \<times> 'fs CJobManager" where
  "AddFileSet_Loop api h [] s = (S_OK, s)"
| "AddFileSet_Loop api h (p # rest) s =
     (case AddFile api h (fst p) (snd p) False s of (hr, s) \<Rightarrow>
        if FAILED hr then (hr, s) else AddFileSet_Loop api h rest s)"

definition AddFileSet ::
  "('fs, 'z) FileApi_scheme \<Rightarrow> nat \<Rightarrow> (string option \<times> string option) list \<Rightarrow> 'fs CJobManager
   \<Rightarrow> HRESULT \<times> 'fs CJobManager" where
  "AddFileSet api h pFileSet s =
     (let FirstNewIndex = length (m_files (Jobs s h))
      in case (if MetadataError s \<noteq> 0 then (HRESULT_FROM_WIN32 (MetadataError s), s)
               else AddFileSet_Loop api h pFileSet s) of
           (hr, s) \<Rightarrow>
             if FAILED hr then
               (hr, upd_job h (\<lambda>j. j\<lparr>m_files := take FirstNewIndex (m_files j)\<rparr>)
                      (if m_type (Jobs s h) = BG_JOB_TYPE_DOWNLOAD
                       then snd (RemoveTemporaryFiles api FirstNewIndex h s) else s))
             else (S_OK, HandleAddFile h s))"

section \<open>Suspend, resume, cancel, complete\<close>

definition SuspendJob :: "nat \<Rightarrow> 'fs CJobManager \<Rightarrow> HRESULT \<times> 'fs CJobManager" where
  "SuspendJob h s =
     (let state = m_state (Jobs s h);
          finish = (\<lambda>s. (S_OK, ScheduleAnotherGroup False
                     (UpdateModificationTime True h
                       (SetState h BG_JOB_STATE_SUSPENDED (Cancel_item (CJobNoProgressItem h) s)))))
      in case state of
           BG_JOB_STATE_SUSPENDED \<Rightarrow> (S_OK, s)
         | BG_JOB_STATE_CONNECTING \<Rightarrow> finish (Cancel_item (CJobCallbackItem h) (InterruptDownload s))
         | BG_JOB_STATE_TRANSFERRING \<Rightarrow> finish (Cancel_item (CJobCallbackItem h) (InterruptDownload s))
         | BG_JOB_STATE_TRANSFERRED \<Rightarrow> finish (Cancel_item (CJobCallbackItem h) s)
         | BG_JOB_STATE_QUEUED \<Rightarrow> finish s
         | BG_JOB_STATE_TRANSIENT_ERROR \<Rightarrow> finish s
         | BG_JOB_STATE_ERROR \<Rightarrow> finish s
         | BG_JOB_STATE_CANCELLED \<Rightarrow> (BG_E_INVALID_STATE, s)
         | BG_JOB_STATE_ACKNOWLEDGED \<Rightarrow> (BG_E_INVALID_STATE, s))"

definition Resume_active :: "nat \<Rightarrow> 'fs CJobManager \<Rightarrow> HRESULT \<times> 'fs CJobManager" where
  "Resume_active h s =
     (let s = RecalcTransientError True h s;
          s = (if IsRunnable (Jobs s h) then AppendOnline h s else s)
      in (S_OK, UpdateModificationTime True h (ScheduleAnotherGroup False s)))"

definition CJob_Resume :: "nat \<Rightarrow> 'fs CJobManager \<Rightarrow> HRESULT \<times> 'fs CJobManager" where
  "CJob_Resume h s =
     (if IsEmpty (Jobs s h) then (BG_E_EMPTY, s)
      else case m_state (Jobs s h) of
           BG_JOB_STATE_SUSPENDED \<Rightarrow>
             (if GetCurrentFile (Jobs s h) = None then (S_OK, JobTransferred h s) else Resume_active h s)
         | BG_JOB_STATE_TRANSIENT_ERROR \<Rightarrow> Resume_active h s
         | BG_JOB_STATE_ERROR \<Rightarrow> Resume_active h s
         | BG_JOB_STATE_CONNECTING \<Rightarrow> (S_OK, s)
         | BG_JOB_STATE_TRANSFERRING \<Rightarrow> (S_OK, s)
         | BG_JOB_STATE_QUEUED \<Rightarrow> (S_OK, s)
         | BG_JOB_STATE_TRANSFERRED \<Rightarrow> (S_OK, s)
         | BG_JOB_STATE_CANCELLED \<Rightarrow> (BG_E_INVALID_STATE, s)
         | BG_JOB_STATE_ACKNOWLEDGED \<Rightarrow> (BG_E_INVALID_STATE, s))"

definition CUploadJob_Resume ::
  "('fs, 'z) FileApi_scheme \<Rightarrow> nat \<Rightarrow> 'fs CJobManager \<Rightarrow> HRESULT \<times> 'fs CJobManager" where
  "CUploadJob_Resume api h s =
     (if m_type (Jobs s h) = BG_JOB_TYPE_UPLOAD_REPLY then
        (case GenerateReplyFile api True h s of (hr, s) \<Rightarrow>
           if FAILED hr then (hr, s) else CJob_Resume h s)
      else CJob_Resume h s)"

definition Resume ::
  "('fs, 'z) FileApi_scheme \<Rightarrow> nat \<Rightarrow> 'fs CJobManager \<Rightarrow> HRESULT \<times> 'fs CJobManager" where
  "Resume api h s = (if is_upload (Jobs s h) then CUploadJob_Resume api h s else CJob_Resume h s)"

definition CJob_Cancel ::
  "('fs, 'z) FileApi_scheme \<Rightarrow> nat \<Rightarrow> 'fs CJobManager \<Rightarrow> HRESULT \<times> 'fs CJobManager" where
  "CJob_Cancel api h s =
     (if m_state (Jobs s h) = BG_JOB_STATE_CANCELLED \<or> m_state (Jobs s h) = BG_JOB_STATE_ACKNOWLEDGED
      then (BG_E_INVALID_STATE, s)
      else
        (let s = (if IsRunning (Jobs s h) then InterruptDownload s else s)
         in if FAILED (CancelCheck api h s) then (CancelCheck api h s, s)
            else
              (case RemoveTemporaryFiles api 0 h s of (Hr, s) \<Rightarrow>
                 if FAILED Hr then (Hr, s)
                 else (Hr, RemoveFromManager h (SetState h BG_JOB_STATE_CANCELLED s)))))"

definition SetNoProgressTimeout :: "32 word \<Rightarrow> nat \<Rightarrow> 'fs CJobManager \<Rightarrow> HRESULT \<times> 'fs CJobManager" where
  "SetNoProgressTimeout Val h s =
     (let s = upd_job h (\<lambda>j. j\<lparr>m_NoProgressTimeout := Val\<rparr>) s;
          s = upd_sched (RescheduleDelayedTask (CJobNoProgressItem h) (ucast Val * NanoSec100PerSec)) s
      in (S_OK, UpdateModificationTime True h s))"

definition SetMinimumRetryDelay :: "32 word \<Rightarrow> nat \<Rightarrow> 'fs CJobManager \<Rightarrow> HRESULT \<times> 'fs CJobManager" where
  "SetMinimumRetryDelay Val h s =
     (let s = upd_job h (\<lambda>j. j\<lparr>m_MinimumRetryDelay := Val\<rparr>) s;
          s = upd_sched (RescheduleDelayedTask (CJobRetryItem h) (ucast Val * NanoSec100PerSec)) s
      in (S_OK, UpdateModificationTime True h s))"

abbreviation UPLOAD_CANCEL_TIMEOUT :: "32 word" where "UPLOAD_CANCEL_TIMEOUT \<equiv> 86400"

definition CUploadJob_Cancel ::
  "('fs, 'z) FileApi_scheme \<Rightarrow> nat \<Rightarrow> UPLOAD_DATA \<Rightarrow> 'fs CJobManager \<Rightarrow> HRESULT \<times> 'fs CJobManager" where
  "CUploadJob_Cancel api h d s =
     (if m_state (Jobs s h) = BG_JOB_STATE_CANCELLED \<or> m_state (Jobs s h) = BG_JOB_STATE_ACKNOWLEDGED
      then (BG_E_INVALID_STATE, s)
      else
        (let s = (if IsRunning (Jobs s h) then InterruptDownload s else s)
         in if FAILED (CancelCheck api h s) then (CancelCheck api h s, s)
            else
              (case RemoveReplyFile api h s of (Hr, s) \<Rightarrow>
                 if FAILED Hr then (Hr, s)
                 else
                   (let s = SetState h BG_JOB_STATE_CANCELLED s
                    in if SessionInProgress d then
                         (let s = Cancel_item (CJobCallbackItem h) s;
                              s = snd (SetNoProgressTimeout UPLOAD_CANCEL_TIMEOUT h s);
                              s = upd_upload h (\<lambda>d. d\<lparr>State := UPLOAD_STATE_CANCEL_SESSION\<rparr>) s
                          in (Hr, Serialize (ScheduleAnotherGroup False s)))
                       else (Hr, RemoveFromManager h s)))))"

definition Cancel ::
  "('fs, 'z) FileApi_scheme \<Rightarrow> nat \<Rightarrow> 'fs CJobManager \<Rightarrow> HRESULT \<times> 'fs CJobManager" where
  "Cancel api h s =
     (case m_UploadData (Jobs s h) of
        None \<Rightarrow> CJob_Cancel api h s
      | Some d \<Rightarrow> CUploadJob_Cancel api h d s)"

definition CJob_Complete ::
  "('fs, 'z) FileApi_scheme \<Rightarrow> nat \<Rightarrow> 'fs CJobManager \<Rightarrow> HRESULT \<times> 'fs CJobManager" where
  "CJob_Complete api h s =
     (if m_state (Jobs s h) = BG_JOB_STATE_CANCELLED \<or> m_state (Jobs s h) = BG_JOB_STATE_ACKNOWLEDGED
      then (BG_E_INVALID_STATE, s)
      else
        (let s = (if m_state (Jobs s h) \<in> {BG_JOB_STATE_CONNECTING, BG_JOB_STATE_TRANSFERRING,
                       BG_JOB_STATE_QUEUED, BG_JOB_STATE_TRANSIENT_ERROR}
                  then snd (SuspendJob h s) else s)
         in case (if \<not> m_OldExternalJobInterface (Jobs s h) then CommitTemporaryFiles api h s
                  else (S_OK, s)) of
              (hr, s) \<Rightarrow>
                if FAILED hr then (hr, s)
                else (hr, RemoveFromManager h (SetState h BG_JOB_STATE_ACKNOWLEDGED s))))"

definition CUploadJob_Complete ::
  "('fs, 'z) FileApi_scheme \<Rightarrow> nat \<Rightarrow> 'fs CJobManager \<Rightarrow> HRESULT \<times> 'fs CJobManager" where
  "CUploadJob_Complete api h s =
     (if m_state (Jobs s h) = BG_JOB_STATE_TRANSFERRED then
        (if FAILED (fst (SwitchToLogonToken api s)) then (fst (SwitchToLogonToken api s), s)
         else
           (case CommitReplyFile api h s of (hr, s) \<Rightarrow>
              if FAILED hr then (hr, s)
              else (hr, RemoveFromManager h (SetState h BG_JOB_STATE_ACKNOWLEDGED s))))
      else (BG_E_INVALID_STATE, s))"

definition Complete ::
  "('fs, 'z) FileApi_scheme \<Rightarrow> nat \<Rightarrow> 'fs CJobManager \<Rightarrow> HRESULT \<times> 'fs CJobManager" where
  "Complete api h s =
     (if is_upload (Jobs s h) then CUploadJob_Complete api h s else CJob_Complete api h s)"


section \<open>Properties of a job\<close>

definition SetPriority :: "int \<Rightarrow> nat \<Rightarrow> 'fs CJobManager \<Rightarrow> HRESULT \<times> 'fs CJobManager" where
  "SetPriority Val h s =
     (if BG_JOB_PRIORITY_LOW < Val \<or> Val < BG_JOB_PRIORITY_FOREGROUND then (E_NOTIMPL, s)
      else if Val = m_priority (Jobs s h) then (S_OK, s)
      else (S_OK, UpdateModificationTime True h
              (RetaskJob h (upd_job h (\<lambda>j. j\<lparr>m_priority := Val\<rparr>) s))))"

definition SetNotifyFlags :: "32 word \<Rightarrow> nat \<Rightarrow> 'fs CJobManager \<Rightarrow> HRESULT \<times> 'fs CJobManager" where
  "SetNotifyFlags Val h s =
     (if Val AND NOT (BG_NOTIFY_JOB_TRANSFERRED OR BG_NOTIFY_JOB_ERROR OR BG_NOTIFY_DISABLE
                      OR BG_NOTIFY_JOB_MODIFICATION) \<noteq> 0
      then (E_NOTIMPL, s)
      else (S_OK, UpdateModificationTime True h (upd_job h (\<lambda>j. j\<lparr>m_NotifyFlags := Val\<rparr>) s)))"

text \<open>
  \<open>Val\<close> is the client's pointer, if not \<open>NULL\<close>, with the result of asking it for the
  callback interface and of setting its cloaking.
\<close>

definition SetNotifyInterface ::
  "(HRESULT + nat) option \<Rightarrow> nat \<Rightarrow> 'fs CJobManager \<Rightarrow> HRESULT \<times> 'fs CJobManager" where
  "SetNotifyInterface Val h s =
     (case Val of
        None \<Rightarrow> (S_OK, upd_job h (\<lambda>j. j\<lparr>m_NotifyPointer := None\<rparr>) s)
      | Some (Inl Hr) \<Rightarrow> (Hr, s)
      | Some (Inr pICB) \<Rightarrow> (S_OK, upd_job h (\<lambda>j. j\<lparr>m_NotifyPointer := Some pICB\<rparr>) s))"

text \<open>The string members that \<open>SetLimitedString\<close> and \<open>UpdateString\<close> take by reference.\<close>

datatype StringField = F_name | F_description | F_NotifyProgram | F_NotifyParameters | F_ReplyFileName

fun get_string :: "StringField \<Rightarrow> CJob \<Rightarrow> string" where
  "get_string F_name j = m_name j"
| "get_string F_description j = m_description j"
| "get_string F_NotifyProgram j = m_NotifyProgram j"
| "get_string F_NotifyParameters j = m_NotifyParameters j"
| "get_string F_ReplyFileName j = m_ReplyFileName j"

fun set_string :: "StringField \<Rightarrow> string \<Rightarrow> CJob \<Rightarrow> CJob" where
  "set_string F_name v j = j\<lparr>m_name := v\<rparr>"
| "set_string F_description v j = j\<lparr>m_description := v\<rparr>"
| "set_string F_NotifyProgram v j = j\<lparr>m_NotifyProgram := v\<rparr>"
| "set_string F_NotifyParameters v j = j\<lparr>m_NotifyParameters := v\<rparr>"
| "set_string F_ReplyFileName v j = j\<lparr>m_ReplyFileName := v\<rparr>"

definition UpdateString ::
  "StringField \<Rightarrow> string \<Rightarrow> nat \<Rightarrow> 'fs CJobManager \<Rightarrow> HRESULT \<times> 'fs CJobManager" where
  "UpdateString destination Val h s =
     (if size (get_string destination (Jobs s h)) < size Val \<and> MetadataError s \<noteq> 0
      then (HRESULT_FROM_WIN32 (MetadataError s), s)
      else (S_OK, UpdateModificationTime True h (upd_job h (set_string destination Val) s)))"

definition SetLimitedString ::
  "StringField \<Rightarrow> string \<Rightarrow> nat \<Rightarrow> nat \<Rightarrow> 'fs CJobManager \<Rightarrow> HRESULT \<times> 'fs CJobManager" where
  "SetLimitedString destination Val limit h s =
     (if limit < size Val then (BG_E_STRING_TOO_LONG, s)
      else (S_OK, snd (UpdateString destination Val h s)))"

abbreviation MAX_DISPLAYNAME :: nat where "MAX_DISPLAYNAME \<equiv> 255"
abbreviation MAX_DESCRIPTION :: nat where "MAX_DESCRIPTION \<equiv> 1023"
abbreviation MAX_NOTIFY_PROGRAM :: nat where "MAX_NOTIFY_PROGRAM \<equiv> 260"
abbreviation MAX_NOTIFY_PARAMETERS :: nat where "MAX_NOTIFY_PARAMETERS \<equiv> 4000"

definition SetDisplayName :: "string \<Rightarrow> nat \<Rightarrow> 'fs CJobManager \<Rightarrow> HRESULT \<times> 'fs CJobManager" where
  "SetDisplayName Val h s = SetLimitedString F_name Val MAX_DISPLAYNAME h s"

definition SetDescription :: "string \<Rightarrow> nat \<Rightarrow> 'fs CJobManager \<Rightarrow> HRESULT \<times> 'fs CJobManager" where
  "SetDescription Val h s = SetLimitedString F_description Val MAX_DESCRIPTION h s"

text \<open>A \<open>NULL\<close> string is stored as the empty one.\<close>

definition SetNotifyCmdLine ::
  "string option \<Rightarrow> string option \<Rightarrow> nat \<Rightarrow> 'fs CJobManager \<Rightarrow> HRESULT \<times> 'fs CJobManager" where
  "SetNotifyCmdLine Program Parameters h s =
     (if Program = None \<and> Parameters \<noteq> None then (E_INVALIDARG, s)
      else
        (let OldProgram = m_NotifyProgram (Jobs s h); OldParameters = m_NotifyParameters (Jobs s h);
             str = (\<lambda>v. case v of None \<Rightarrow> [] | Some n \<Rightarrow> n);
             restore = upd_job h (\<lambda>j. j\<lparr>m_NotifyProgram := OldProgram, m_NotifyParameters := OldParameters\<rparr>)
         in case SetLimitedString F_NotifyProgram (str Program) MAX_NOTIFY_PROGRAM h s of (hr, s) \<Rightarrow>
              if FAILED hr then (hr, restore s)
              else case SetLimitedString F_NotifyParameters (str Parameters) MAX_NOTIFY_PARAMETERS h s of
                (hr, s) \<Rightarrow> if FAILED hr then (hr, restore s) else (S_OK, s)))"

text \<open>
  \<open>access\<close> is the result of \<open>ValidateAccessForUser\<close> for the new owner on each file.
\<close>

fun validate_files :: "(CFile \<Rightarrow> HRESULT) \<Rightarrow> CFile list \<Rightarrow> HRESULT" where
  "validate_files access [] = S_OK"
| "validate_files access (f # rest) = (if FAILED (access f) then access f else validate_files access rest)"

definition ResetOnlineStatus :: "nat \<Rightarrow> nat \<Rightarrow> 'fs CJobManager \<Rightarrow> 'fs CJobManager" where
  "ResetOnlineStatus h sid s =
     (if sid \<in> set (m_Users s) \<and> h \<in> set (m_OfflineJobs s)
      then s\<lparr>m_OfflineJobs := remove1 h (m_OfflineJobs s), m_OnlineJobs := m_OnlineJobs s @ [h]\<rparr>
      else s)"

definition TakeOwnership ::
  "nat \<Rightarrow> (CFile \<Rightarrow> HRESULT) \<Rightarrow> nat \<Rightarrow> 'fs CJobManager \<Rightarrow> HRESULT \<times> 'fs CJobManager" where
  "TakeOwnership sid access h s =
     (if sid = m_NotifySid (Jobs s h) then (S_OK, s)
      else
        (let s = (if IsRunning (Jobs s h) then InterruptDownload s else s);
             Hr = validate_files access (m_files (Jobs s h))
         in if FAILED Hr then (Hr, ScheduleAnotherGroup False s)
            else if MetadataError s \<noteq> 0
            then (HRESULT_FROM_WIN32 (MetadataError s), ScheduleAnotherGroup False s)
            else
              (let s = upd_job h (\<lambda>j. j\<lparr>m_NotifySid := sid, m_NotifyProgram := [], m_NotifyParameters := []\<rparr>) s;
                   s = ResetOnlineStatus h sid s
               in (Hr, ScheduleAnotherGroup False (UpdateModificationTime True h s)))))"

text \<open>Bytes of all files; an unknown size makes the total unknown.\<close>

fun GetProgress_Loop :: "CFile list \<Rightarrow> 64 word \<times> 64 word \<Rightarrow> 64 word \<times> 64 word" where
  "GetProgress_Loop [] p = p"
| "GetProgress_Loop (f # rest) (BytesTransferred, BytesTotal) =
     GetProgress_Loop rest
       (BytesTransferred + m_BytesTransferred f,
        if m_BytesTotal f \<noteq> BG_SIZE_UNKNOWN \<and> BytesTotal \<noteq> BG_SIZE_UNKNOWN
        then BytesTotal + m_BytesTotal f else BG_SIZE_UNKNOWN)"

definition GetProgress :: "CJob \<Rightarrow> (64 word \<times> 64 word) \<times> 32 word \<times> 32 word" where
  "GetProgress j =
     (GetProgress_Loop (m_files j) (0, 0), word_of_nat (m_CurrentFile j), word_of_nat (length (m_files j)))"

definition GetError :: "CJob \<Rightarrow> CJobError option" where
  "GetError j = (if \<not> m_ErrorSet (m_error j) then None else Some (m_error j))"

section \<open>The external interface\<close>

text \<open>
  \<open>access\<close> is the outcome of the token checks of \<open>CheckClientAccess\<close>; a finished job
  refuses every access that is not a read. \<open>write_access\<close> is the shape of the
  \<open>Internal\<close> methods of \<open>CJobExternal\<close> that modify the job.
\<close>

definition CheckClientAccess :: "bool \<Rightarrow> HRESULT \<Rightarrow> CJob \<Rightarrow> HRESULT" where
  "CheckClientAccess more_than_read access j =
     (if more_than_read \<and> (m_state j = BG_JOB_STATE_CANCELLED \<or> m_state j = BG_JOB_STATE_ACKNOWLEDGED)
      then BG_E_INVALID_STATE else access)"

definition ValidateAccess :: "bool \<Rightarrow> HRESULT \<Rightarrow> nat \<Rightarrow> 'fs CJobManager \<Rightarrow> HRESULT \<times> 'fs CJobManager" where
  "ValidateAccess write access h s =
     (let hr = CheckClientAccess write access (Jobs s h)
      in (hr, if SUCCEEDED hr then UpdateLastAccessTime h s else s))"

definition write_access ::
  "HRESULT \<Rightarrow> nat \<Rightarrow> ('fs CJobManager \<Rightarrow> HRESULT \<times> 'fs CJobManager) \<Rightarrow> 'fs CJobManager
   \<Rightarrow> HRESULT \<times> 'fs CJobManager" where
  "write_access access h op s =
     (case ValidateAccess True access h s of (Hr, s) \<Rightarrow> if SUCCEEDED Hr then op s else (Hr, s))"

definition SuspendInternal where "SuspendInternal access h = write_access access h (SuspendJob h)"
definition ResumeInternal where "ResumeInternal api access h = write_access access h (Resume api h)"
definition CancelInternal where "CancelInternal api access h = write_access access h (Cancel api h)"
definition CompleteInternal where "CompleteInternal api access h = write_access access h (Complete api h)"
definition AddFileInternal where
  "AddFileInternal api access h RemoteUrl LocalName = write_access access h (AddFile api h RemoteUrl LocalName True)"
definition AddFileSetInternal where
  "AddFileSetInternal api access h pFileSet = write_access access h (AddFileSet api h pFileSet)"
definition SetPriorityInternal where
  "SetPriorityInternal access h Val = write_access access h (SetPriority Val h)"
definition SetNotifyFlagsInternal where
  "SetNotifyFlagsInternal access h Val = write_access access h (SetNotifyFlags Val h)"
definition SetMinimumRetryDelayInternal where
  "SetMinimumRetryDelayInternal access h Val = write_access access h (SetMinimumRetryDelay Val h)"
definition SetNoProgressTimeoutInternal where
  "SetNoProgressTimeoutInternal access h Val = write_access access h (SetNoProgressTimeout Val h)"
definition SetDisplayNameInternal where
  "SetDisplayNameInternal access h Val = write_access access h (SetDisplayName Val h)"
definition SetDescriptionInternal where
  "SetDescriptionInternal access h Val = write_access access h (SetDescription Val h)"
definition SetNotifyCmdLineInternal where
  "SetNotifyCmdLineInternal access h Program Parameters =
     write_access access h (SetNotifyCmdLine Program Parameters h)"

text \<open>\<open>GetErrorInternal\<close> gives the error of the job, or says that there is none.\<close>

definition GetErrorInternal ::
  "HRESULT \<Rightarrow> nat \<Rightarrow> 'fs CJobManager \<Rightarrow> (HRESULT \<times> CJobError option) \<times> 'fs CJobManager" where
  "GetErrorInternal access h s =
     (case ValidateAccess False access h s of (Hr, s) \<Rightarrow>
        if SUCCEEDED Hr then
          (case GetError (Jobs s h) of
             None \<Rightarrow> ((BG_E_ERROR_INFORMATION_UNAVAILABLE, None), s)
           | Some e \<Rightarrow> ((S_OK, Some e), s))
        else ((Hr, None), s))"


text \<open>
  A new interface on a finished job is told at once; \<open>valid\<close> is the outcome of
  \<open>TestNotifyInterface\<close> on the previous one.
\<close>

definition SetNotifyInterfaceInternal ::
  "HRESULT \<Rightarrow> nat \<Rightarrow> (HRESULT + nat) option \<Rightarrow> bool \<Rightarrow> 'fs CJobManager \<Rightarrow> HRESULT \<times> 'fs CJobManager" where
  "SetNotifyInterfaceInternal access h Val valid =
     write_access access h
       (\<lambda>s. (let fValidNotifyInterface = (m_NotifyPointer (Jobs s h) \<noteq> None \<and> valid)
             in case SetNotifyInterface Val h s of (Hr, s) \<Rightarrow>
                  (Hr, if SUCCEEDED Hr \<and> Val \<noteq> None \<and> \<not> fValidNotifyInterface then
                         (if m_state (Jobs s h) = BG_JOB_STATE_TRANSFERRED
                          then ScheduleCompletionCallback 0 h s
                          else if m_state (Jobs s h) = BG_JOB_STATE_ERROR
                          then ScheduleErrorCallback 0 h s else s)
                       else s)))"

definition TakeOwnershipInternal where
  "TakeOwnershipInternal access h sid validate = write_access access h (TakeOwnership sid validate h)"

end
