(* ===== verification/BitsEvents.thy ===== *)
theory BitsEvents
  imports BitsApi
begin

text \<open>
  The handlers of the work items, the transfer of the current job and the events of the
  manager (\<open>newjob/cjob.cpp\<close>, \<open>newjob/cmanager.cpp\<close>). Where the code releases the writer
  lock during a download, an upload or a call to the client, the part before and the part
  after are two definitions, and other operations may come between them. \<open>cancelled\<close> is
  the result of the handler's attempt to take the lock.
\<close>

section \<open>Timers of a job\<close>

definition CJob_OnRetryJob :: "bool \<Rightarrow> nat \<Rightarrow> 'fs CJobManager \<Rightarrow> 'fs CJobManager" where
  "CJob_OnRetryJob cancelled h s =
     (if cancelled then Acknowledge_item s
      else
        (let s = Complete_item s;
             s = ASSERT (m_state (Jobs s h) = BG_JOB_STATE_TRANSIENT_ERROR) s;
             s = SetState h BG_JOB_STATE_QUEUED s;
             s = UpdateModificationTime True h (AppendOnline h s)
         in ScheduleAnotherGroup False s))"

definition CUploadJob_OnRetryJob :: "bool \<Rightarrow> nat \<Rightarrow> 'fs CJobManager \<Rightarrow> 'fs CJobManager" where
  "CUploadJob_OnRetryJob cancelled h s =
     (if cancelled then Acknowledge_item s
      else
        (let s = (if m_state (Jobs s h) = BG_JOB_STATE_TRANSIENT_ERROR
                  then UpdateModificationTime True h (AppendOnline h (SetState h BG_JOB_STATE_QUEUED s))
                  else if m_state (Jobs s h) = BG_JOB_STATE_CANCELLED \<or>
                          m_state (Jobs s h) = BG_JOB_STATE_ACKNOWLEDGED
                  then AppendOnline h (upd_upload h (\<lambda>d. d\<lparr>fSchedulable := True\<rparr>) s)
                  else s)
         in ScheduleAnotherGroup False (Complete_item s)))"

definition OnRetryJob :: "bool \<Rightarrow> nat \<Rightarrow> 'fs CJobManager \<Rightarrow> 'fs CJobManager" where
  "OnRetryJob cancelled h s =
     (if is_upload (Jobs s h) then CUploadJob_OnRetryJob cancelled h s else CJob_OnRetryJob cancelled h s)"

definition RetryNow :: "nat \<Rightarrow> 'fs CJobManager \<Rightarrow> 'fs CJobManager" where
  "RetryNow h s = restart_inactivity h (UpdateModificationTime False h (RecalcTransientError False h s))"

definition OnNoProgress :: "bool \<Rightarrow> nat \<Rightarrow> 'fs CJobManager \<Rightarrow> 'fs CJobManager" where
  "OnNoProgress cancelled h s =
     (if cancelled then Acknowledge_item s
      else if m_state (Jobs s h) = BG_JOB_STATE_TRANSFERRING then Complete_item s
      else
        (let s = (if m_state (Jobs s h) = BG_JOB_STATE_CONNECTING then InterruptDownload s else s)
         in ScheduleAnotherGroup False (FileFatalError h None (Complete_item s))))"

definition CJob_OnInactivityTimeout ::
  "('fs, 'z) FileApi_scheme \<Rightarrow> bool \<Rightarrow> nat \<Rightarrow> 'fs CJobManager \<Rightarrow> 'fs CJobManager" where
  "CJob_OnInactivityTimeout api cancelled h s =
     (if cancelled then Acknowledge_item s
      else
        (case RemoveTemporaryFiles api 0 h (Complete_item s) of (hr, s) \<Rightarrow>
           if FAILED hr then s
           else RemoveFromManager h (SetState h BG_JOB_STATE_CANCELLED s)))"

definition CUploadJob_OnInactivityTimeout :: "bool \<Rightarrow> nat \<Rightarrow> 'fs CJobManager \<Rightarrow> 'fs CJobManager" where
  "CUploadJob_OnInactivityTimeout cancelled h s =
     (if cancelled then Acknowledge_item s else RemoveFromManager h (Complete_item s))"

definition OnInactivityTimeout ::
  "('fs, 'z) FileApi_scheme \<Rightarrow> bool \<Rightarrow> nat \<Rightarrow> 'fs CJobManager \<Rightarrow> 'fs CJobManager" where
  "OnInactivityTimeout api cancelled h s =
     (if is_upload (Jobs s h) then CUploadJob_OnInactivityTimeout cancelled h s
      else CJob_OnInactivityTimeout api cancelled h s)"

section \<open>Notifying the client\<close>

definition IsInterfacePointerDead :: "HRESULT \<Rightarrow> bool" where
  "IsInterfacePointerDead hr \<longleftrightarrow> hr = 0x800706BA"

definition OnMakeCallback :: "bool \<Rightarrow> nat \<Rightarrow> 'fs CJobManager \<Rightarrow> 'fs CJobManager" where
  "OnMakeCallback cancelled h s =
     (if cancelled then Acknowledge_item s
      else Complete_item (upd_job h (\<lambda>j. j\<lparr>m_refs := m_refs j + 1\<rparr>) s))"

datatype CallbackMethod = CM_COMPLETE | CM_ERROR

text \<open>
  What \<open>InterfaceCallback\<close> decides under the reader lock: return, or call the client with
  a method; afterwards a dead interface pointer is dropped.
\<close>

definition InterfaceCallback :: "nat \<Rightarrow> 'fs CJobManager \<Rightarrow> (HRESULT + CallbackMethod) \<times> 'fs CJobManager" where
  "InterfaceCallback h s =
     (if m_NotifyPointer (Jobs s h) = None then (Inl E_FAIL, s)
      else case m_state (Jobs s h) of
          BG_JOB_STATE_TRANSFERRED \<Rightarrow>
            (if \<not> IsCallbackEnabled BG_NOTIFY_JOB_TRANSFERRED (Jobs s h) then (Inl S_OK, s)
             else (Inr CM_COMPLETE, s))
        | BG_JOB_STATE_ERROR \<Rightarrow>
            (let s = ASSERT (m_ErrorSet (m_error (Jobs s h))) s
             in if \<not> IsCallbackEnabled BG_NOTIFY_JOB_ERROR (Jobs s h) then (Inl S_OK, s)
                else (Inr CM_ERROR, s))
        | _ \<Rightarrow> (Inl S_OK, s))"

definition InterfaceCallback_returned :: "HRESULT \<Rightarrow> nat \<Rightarrow> 'fs CJobManager \<Rightarrow> HRESULT \<times> 'fs CJobManager" where
  "InterfaceCallback_returned hr h s =
     (if FAILED hr then
        (hr, if m_NotifyPointer (Jobs s h) \<noteq> None \<and> IsInterfacePointerDead hr
             then upd_job h (\<lambda>j. j\<lparr>m_NotifyPointer := None\<rparr>) s else s)
      else (S_OK, s))"

text \<open>\<open>CmdLineCallback\<close>; on the right the program to launch, if the owner is logged on.\<close>

definition CmdLineCallback ::
  "nat \<Rightarrow> 'fs CJobManager \<Rightarrow> (HRESULT + string \<times> string) \<times> 'fs CJobManager" where
  "CmdLineCallback h s =
     (let s = ASSERT (m_OldExternalGroupInterface (Jobs s h) = None) s;
          launch = (\<lambda>s. if m_NotifySid (Jobs s h) \<in> set (m_Users s)
                        then (Inr (m_NotifyProgram (Jobs s h), m_NotifyParameters (Jobs s h)), s)
                        else (Inl (HRESULT_FROM_WIN32 ERROR_NOT_LOGGED_ON), s))
      in case m_state (Jobs s h) of
          BG_JOB_STATE_TRANSFERRED \<Rightarrow>
            (if \<not> IsCallbackEnabled BG_NOTIFY_JOB_TRANSFERRED (Jobs s h) then (Inl S_OK, s) else launch s)
        | BG_JOB_STATE_ERROR \<Rightarrow>
            (let s = ASSERT (m_ErrorSet (m_error (Jobs s h))) s
             in if \<not> IsCallbackEnabled BG_NOTIFY_JOB_ERROR (Jobs s h) then (Inl S_OK, s) else launch s)
        | _ \<Rightarrow> (Inl S_OK, s))"

definition RescheduleCallback :: "bool \<Rightarrow> nat \<Rightarrow> 'fs CJobManager \<Rightarrow> HRESULT \<times> 'fs CJobManager" where
  "RescheduleCallback cancelled h s =
     (if cancelled then (S_FALSE, Acknowledge_item s)
      else (S_OK,
        case m_state (Jobs s h) of
          BG_JOB_STATE_TRANSFERRED \<Rightarrow> ScheduleCompletionCallback (m_MinimumRetryDelay (Jobs s h)) h s
        | BG_JOB_STATE_ERROR \<Rightarrow> ScheduleErrorCallback (m_MinimumRetryDelay (Jobs s h)) h s
        | _ \<Rightarrow> s))"

text \<open>
  \<open>OnModificationCallback\<close> up to the call to the client, which is made on
  \<open>m_NotifyPointer\<close> without a test; the result says whether the call is made.
\<close>

definition OnModificationCallback :: "bool \<Rightarrow> nat \<Rightarrow> 'fs CJobManager \<Rightarrow> bool \<times> 'fs CJobManager" where
  "OnModificationCallback cancelled h s =
     (if cancelled then (False, Acknowledge_item s)
      else if \<not> IsCallbackEnabled BG_NOTIFY_JOB_MODIFICATION (Jobs s h) then
        (let s = upd_job h (\<lambda>j. j\<lparr>m_ModificationsPending := 0\<rparr>) s;
             s = (case m_WorkItemTLS (m_TaskScheduler s) of
                    None \<Rightarrow> null_pointer ''CancelWorkItem'' s | Some i \<Rightarrow> Cancel_item i s)
         in (False, upd_job h (\<lambda>j. j\<lparr>m_refs := m_refs j - 1\<rparr>) s))
      else case m_NotifyPointer (Jobs s h) of
          None \<Rightarrow> (False, null_pointer ''OnModificationCallback'' s)
        | Some pICB \<Rightarrow> (True, s))"

definition OnModificationCallback_returned ::
  "bool \<Rightarrow> HRESULT \<Rightarrow> nat \<Rightarrow> 'fs CJobManager \<Rightarrow> 'fs CJobManager" where
  "OnModificationCallback_returned cancelled Hr h s =
     (if cancelled then Acknowledge_item s
      else
        (let s = Complete_item s;
             s = upd_job h (\<lambda>j. j\<lparr>m_ModificationsPending := m_ModificationsPending j - 1\<rparr>) s;
             s = (if FAILED Hr \<and> IsInterfacePointerDead Hr
                  then upd_job h (\<lambda>j. j\<lparr>m_ModificationsPending := 0\<rparr>) s else s)
         in if m_ModificationsPending (Jobs s h) \<noteq> 0
            then Insert_item (CJobModificationItem h) None s
            else upd_job h (\<lambda>j. j\<lparr>m_refs := m_refs j - 1\<rparr>) s))"

section \<open>Events of the manager\<close>

definition CJob_OnDiskChange :: "(CFile \<Rightarrow> bool) \<Rightarrow> nat \<Rightarrow> 'fs CJobManager \<Rightarrow> 'fs CJobManager" where
  "CJob_OnDiskChange bFail h s =
     (case m_state (Jobs s h) of
        BG_JOB_STATE_SUSPENDED \<Rightarrow> s
      | BG_JOB_STATE_ERROR \<Rightarrow> s
      | BG_JOB_STATE_TRANSFERRED \<Rightarrow> s
      | BG_JOB_STATE_ACKNOWLEDGED \<Rightarrow> s
      | BG_JOB_STATE_CANCELLED \<Rightarrow> s
      | _ \<Rightarrow> if (\<exists>f\<in>set (m_files (Jobs s h)). bFail f)
            then FileFatalError h (Some (QMErrInfo_hr QM_FILE_DONE SOURCE_QMGR_FILE BG_E_VOLUME_CHANGED)) s
            else s)"

definition OnDiskChange :: "string \<Rightarrow> 32 word \<Rightarrow> 'fs CJobManager \<Rightarrow> 'fs CJobManager" where
  "OnDiskChange CanonicalVolume VolumeSerialNumber s =
     Serialize (ScheduleAnotherGroup False
       (fold (CJob_OnDiskChange (\<lambda>f. DiskChange_bFail f CanonicalVolume VolumeSerialNumber))
         (m_OnlineJobs s) s))"

definition OnDismount :: "string \<Rightarrow> 'fs CJobManager \<Rightarrow> 'fs CJobManager" where
  "OnDismount CanonicalVolume s =
     Serialize (ScheduleAnotherGroup False
       (fold (CJob_OnDiskChange (\<lambda>f. Dismount_bFail f CanonicalVolume)) (m_OnlineJobs s) s))"

definition IsTransferringToDrive :: "string \<Rightarrow> CJob \<Rightarrow> bool" where
  "IsTransferringToDrive CanonicalVolume j =
     (case GetCurrentFile j of
        Some f \<Rightarrow> IsCanonicalVolume f CanonicalVolume
      | None \<Rightarrow>
          (if is_upload j then
             (case m_ReplyFile j of None \<Rightarrow> False | Some f \<Rightarrow> IsCanonicalVolume f CanonicalVolume)
           else False))"

definition CJob_OnDeviceLock :: "string \<Rightarrow> nat \<Rightarrow> 'fs CJobManager \<Rightarrow> 'fs CJobManager" where
  "CJob_OnDeviceLock CanonicalVolume h s =
     (if IsTransferringToDrive CanonicalVolume (Jobs s h) then
        RecalcTransientError False h
          (upd_job h (\<lambda>j. j\<lparr>m_fVolumeLocked := True\<rparr>)
            (if IsRunning (Jobs s h) then InterruptDownload s else s))
      else s)"

definition CJob_OnDeviceUnlock :: "string \<Rightarrow> nat \<Rightarrow> 'fs CJobManager \<Rightarrow> 'fs CJobManager" where
  "CJob_OnDeviceUnlock CanonicalVolume h s =
     (if IsTransferringToDrive CanonicalVolume (Jobs s h) then
        RecalcTransientError False h (upd_job h (\<lambda>j. j\<lparr>m_fVolumeLocked := False\<rparr>) s)
      else s)"

text \<open>
  \<open>fChanged\<close> is whether some job said that it transfers to the drive. Neither the files nor
  the current file of a job change in the loop, so it is read off at the start.
\<close>

definition OnDeviceLock :: "string \<Rightarrow> 'fs CJobManager \<Rightarrow> 'fs CJobManager" where
  "OnDeviceLock CanonicalVolume s =
     (let fChanged = (\<exists>h\<in>set (m_OnlineJobs s). IsTransferringToDrive CanonicalVolume (Jobs s h));
          s = fold (CJob_OnDeviceLock CanonicalVolume) (m_OnlineJobs s) s
      in if fChanged then Serialize (ScheduleAnotherGroup False s) else s)"

definition OnDeviceUnlock :: "string \<Rightarrow> 'fs CJobManager \<Rightarrow> 'fs CJobManager" where
  "OnDeviceUnlock CanonicalVolume s =
     (let fChanged = (\<exists>h\<in>set (m_OnlineJobs s). IsTransferringToDrive CanonicalVolume (Jobs s h));
          s = fold (CJob_OnDeviceUnlock CanonicalVolume) (m_OnlineJobs s) s
      in if fChanged then Serialize (ScheduleAnotherGroup False s) else s)"

definition MarkJobsWithNetDisconnected :: "'fs CJobManager \<Rightarrow> 'fs CJobManager" where
  "MarkJobsWithNetDisconnected s =
     ScheduleAnotherGroup False
       (fold (RecalcTransientError False) (m_OfflineJobs s)
         (fold (RecalcTransientError False) (m_OnlineJobs s) s))"

definition ReactivateTransientErrorJobs :: "'fs CJobManager \<Rightarrow> 'fs CJobManager" where
  "ReactivateTransientErrorJobs s =
     ScheduleAnotherGroup True
       (fold (RecalcTransientError False) (m_OfflineJobs s)
         (fold (RecalcTransientError False) (m_OnlineJobs s) s))"

text \<open>The network monitor reports \<open>n\<close> addresses; the proxy cache is not modelled.\<close>

definition OnNetworkChange :: "nat \<Rightarrow> 'fs CJobManager \<Rightarrow> 'fs CJobManager" where
  "OnNetworkChange n s =
     (let s = s\<lparr>AddressCount := n\<rparr>
      in if ServiceShuttingDown s then s
         else ScheduleAnotherGroup False
           (if 0 < AddressCount s then ReactivateTransientErrorJobs s else MarkJobsWithNetDisconnected s))"

text \<open>
  The loops that move jobs between the lists keep the order of the jobs they move; the
  second asserts of each that it does not run.
\<close>

definition UserLoggedOn :: "nat \<Rightarrow> 'fs CJobManager \<Rightarrow> 'fs CJobManager" where
  "UserLoggedOn sid s =
     (let IsOwner = (\<lambda>h. sid = m_NotifySid (Jobs s h))
      in ScheduleAnotherGroup False
           (s\<lparr>m_OnlineJobs := m_OnlineJobs s @ filter IsOwner (m_OfflineJobs s),
             m_OfflineJobs := filter (\<lambda>h. \<not> IsOwner h) (m_OfflineJobs s)\<rparr>))"

definition UserLoggedOff :: "nat \<Rightarrow> 'fs CJobManager \<Rightarrow> 'fs CJobManager" where
  "UserLoggedOff sid s =
     (let IsOwner = (\<lambda>h. sid = m_NotifySid (Jobs s h));
          fReschedule = (case m_CurrentJob s of None \<Rightarrow> False | Some c \<Rightarrow> IsOwner c);
          s = (if fReschedule then InterruptDownload s else s);
          leaves = (\<lambda>h. IsOwner h \<and> m_CurrentJob s \<noteq> Some h);
          s = ASSERT (\<forall>h\<in>set (filter leaves (m_OnlineJobs s)). \<not> IsRunning (Jobs s h)) s;
          s = s\<lparr>m_OfflineJobs := m_OfflineJobs s @ filter leaves (m_OnlineJobs s),
                m_OnlineJobs := filter (\<lambda>h. \<not> leaves h) (m_OnlineJobs s)\<rparr>
      in if fReschedule then ScheduleAnotherGroup False s else s)"

section \<open>Creating a job\<close>

text \<open>The constructors \<open>CJob\<close> and \<open>CUploadJob\<close>, with the service defaults for the delays.\<close>

definition CJob_new ::
  "nat \<Rightarrow> string \<Rightarrow> BG_JOB_TYPE \<Rightarrow> nat \<Rightarrow> 32 word \<Rightarrow> 32 word \<Rightarrow> 64 word \<Rightarrow> CJob" where
  "CJob_new JobId DisplayName Type NotifySid retry_delay timeout t =
     \<lparr>m_id = JobId, m_type = Type, m_priority = BG_JOB_PRIORITY_NORMAL, m_state = BG_JOB_STATE_SUSPENDED,
      m_NotifySid = NotifySid, m_name = DisplayName, m_description = [], m_NotifyPointer = None,
      m_NotifyFlags = BG_NOTIFY_JOB_TRANSFERRED OR BG_NOTIFY_JOB_ERROR, m_NotifyProgram = [],
      m_NotifyParameters = [], m_OldExternalGroupInterface = None, m_OldExternalJobInterface = False,
      m_CurrentFile = 0, m_files = [], m_error = ClearError, m_retries = 0,
      m_MinimumRetryDelay = retry_delay, m_NoProgressTimeout = timeout, m_CreationTime = t,
      m_LastAccessTime = t, m_ModificationTime = t, m_TransferCompletionTime = 0,
      m_SerializeTime = 0, m_fVolumeLocked = False, m_FilesVerified = False,
      m_ModificationsPending = 0, m_refs = 1,
      m_UploadData = (if Type = BG_JOB_TYPE_DOWNLOAD then None else Some UPLOAD_DATA_new),
      m_ReplyFile = None, m_ReplyFileName = [], m_fOwnReplyFileName = False\<rparr>"

abbreviation items_of :: "nat \<Rightarrow> WorkItem set" where
  "items_of h \<equiv> {CJobInactivityTimeout h, CJobRetryItem h, CJobCallbackItem h,
     CJobNoProgressItem h, CJobModificationItem h}"

definition new_items :: "nat \<Rightarrow> TaskScheduler \<Rightarrow> TaskScheduler" where
  "new_items h ts = ts\<lparr>WorkItems := (\<lambda>i. if i \<in> items_of h then TaskSchedulerWorkItem_new else WorkItems ts i)\<rparr>"

text \<open>\<open>h\<close> is the address the allocation returns; the name is truncated to \<open>MAX_DISPLAYNAME\<close>.\<close>

definition CreateJob ::
  "string \<Rightarrow> BG_JOB_TYPE \<Rightarrow> nat \<Rightarrow> nat \<Rightarrow> nat \<Rightarrow> bool \<Rightarrow> 32 word \<Rightarrow> 32 word
   \<Rightarrow> 'fs CJobManager \<Rightarrow> HRESULT \<times> 'fs CJobManager" where
  "CreateJob DisplayName Type JobId sid h OldStyleJob retry_delay timeout s =
     (if \<exists>i\<in>set (m_OnlineJobs s) \<union> set (m_OfflineJobs s). m_id (Jobs s i) = JobId then (E_INVALIDARG, s)
      else if MetadataError s \<noteq> 0 then (HRESULT_FROM_WIN32 (MetadataError s), s)
      else
        (let j = CJob_new JobId (take MAX_DISPLAYNAME DisplayName) Type sid retry_delay timeout (now s);
             j = (if Type = BG_JOB_TYPE_DOWNLOAD \<and> OldStyleJob
                  then j\<lparr>m_OldExternalGroupInterface := Some None\<rparr> else j);
             s = upd_sched (new_items h) (upd_job h (\<lambda>_. j) s);
             s = s\<lparr>m_OnlineJobs := CJobList_Add h (m_OnlineJobs s)\<rparr>;
             s = Insert_delayed (CJobInactivityTimeout h) (m_JobInactivityTimeout s) s
         in (S_OK, Serialize s)))"

section \<open>Transfer of the current job\<close>

definition Transfer_no_token :: "HRESULT \<Rightarrow> nat \<Rightarrow> 'fs CJobManager \<Rightarrow> 'fs CJobManager" where
  "Transfer_no_token hr h s =
     Complete_item
       (if hr = HRESULT_FROM_WIN32 ERROR_NOT_LOGGED_ON
        then RecalcTransientError False h (MoveJobOffline h s)
        else SetTransientError h (QMErrInfo_hr QM_FILE_TRANSIENT_ERROR SOURCE_QMGR_QUEUE hr)
               (int (m_CurrentFile (Jobs s h))) False False s)"

text \<open>
  The beginning of \<open>CJob::Transfer\<close> and \<open>CUploadJob::Transfer\<close>; the result says whether
  the transfer goes on.
\<close>

definition CJob_Transfer :: "HRESULT \<Rightarrow> nat \<Rightarrow> 'fs CJobManager \<Rightarrow> bool \<times> 'fs CJobManager" where
  "CJob_Transfer copy h s =
     (let hr = CloneUserToken (m_NotifySid (Jobs s h)) copy s
      in if FAILED hr then (False, Transfer_no_token hr h s)
         else (True,
           if m_state (Jobs s h) \<noteq> BG_JOB_STATE_TRANSFERRING
           then ScheduleModificationCallback h (SetState h BG_JOB_STATE_CONNECTING s) else s))"

definition CUploadJob_Transfer :: "HRESULT \<Rightarrow> nat \<Rightarrow> 'fs CJobManager \<Rightarrow> bool \<times> 'fs CJobManager" where
  "CUploadJob_Transfer copy h s =
     (let hr = CloneUserToken (m_NotifySid (Jobs s h)) copy s
      in if FAILED hr then (False, ScheduleAnotherGroup False (Transfer_no_token hr h s))
         else (True,
           if m_state (Jobs s h) = BG_JOB_STATE_QUEUED
           then ScheduleModificationCallback h (SetState h BG_JOB_STATE_CONNECTING s) else s))"

text \<open>
  \<open>VerifyFileSizes\<close>: \<open>Some True\<close> if all sizes are known, \<open>None\<close> if they must be asked for
  with the lock released. \<open>SetBytesTotal\<close> then stores one answer.
\<close>

definition VerifyFileSizes :: "nat \<Rightarrow> 'fs CJobManager \<Rightarrow> bool option \<times> 'fs CJobManager" where
  "VerifyFileSizes h s =
     (if m_FilesVerified (Jobs s h) then (Some True, s)
      else if AreRemoteSizesKnown (Jobs s h)
      then (Some True, upd_job h (\<lambda>j. j\<lparr>m_FilesVerified := True\<rparr>) s)
      else (None, s))"

definition SetBytesTotal :: "nat \<Rightarrow> nat \<Rightarrow> 64 word \<Rightarrow> 'fs CJobManager \<Rightarrow> 'fs CJobManager" where
  "SetBytesTotal h i FileSize =
     upd_job h (\<lambda>j. j\<lparr>m_files := (m_files j)[i := (m_files j ! i)\<lparr>m_BytesTotal := FileSize\<rparr>]\<rparr>)"

text \<open>
  The start of the current file: \<open>ValidateDriveInfo\<close> fails the job or the attempt, a file
  that is all there is complete, and otherwise the download begins, result \<open>True\<close>.
\<close>

definition CFile_Transfer ::
  "('fs, 'z) FileApi_scheme \<Rightarrow> HRESULT + DriveInfo \<Rightarrow> nat \<Rightarrow> 'fs CJobManager \<Rightarrow> bool \<times> 'fs CJobManager" where
  "CFile_Transfer api drive h s =
     (let s = ASSERT (GetCurrentFile (Jobs s h) \<noteq> None) s
      in case GetCurrentFile (Jobs s h) of
           None \<Rightarrow> (False, null_pointer ''Transfer'' s)
         | Some f \<Rightarrow>
             (case ValidateDriveInfo drive f of
                Drive_Changed e \<Rightarrow>
                  (False, FileFatalError h (Some e)
                            (OnDiskChange (m_CanonicalVolumePath f) (m_VolumeSerialNumber f) s))
              | Drive_Error e \<Rightarrow> (False, FileTransientError h e s)
              | Drive_Valid \<Rightarrow>
                  (if m_BytesTransferred f = m_BytesTotal f then (False, FileComplete api h s)
                   else (True, s))))"

text \<open>
  The outcome of a download, after \<open>tries\<close> changes of the file on the server; the result
  says whether to try again.
\<close>

definition Transfer_result ::
  "('fs, 'z) FileApi_scheme \<Rightarrow> nat \<Rightarrow> QMErrInfo \<Rightarrow> nat \<Rightarrow> 'fs CJobManager \<Rightarrow> bool \<times> 'fs CJobManager" where
  "Transfer_result api tries ErrInfo h s =
     (case result ErrInfo of
        QM_FILE_TRANSIENT_ERROR \<Rightarrow>
          (False, FileTransientError h
             (if AddressCount s = 0
              then QMErrInfo_hr QM_FILE_TRANSIENT_ERROR SOURCE_HTTP_CLIENT_CONN BG_E_NETWORK_DISCONNECTED
              else ErrInfo) s)
      | QM_FILE_DONE \<Rightarrow> (False, FileComplete api h s)
      | QM_FILE_FATAL_ERROR \<Rightarrow> (False, FileFatalError h (Some ErrInfo) s)
      | QM_FILE_ABORTED \<Rightarrow> (False, s)
      | QM_IN_PROGRESS \<Rightarrow> (False, ASSERT False s)
      | QM_SERVER_FILE_CHANGED \<Rightarrow>
          (case GetCurrentFile (Jobs s h) of
             None \<Rightarrow> (False, null_pointer ''Transfer'' s)
           | Some f \<Rightarrow>
               (case ChangedOnServer api f (FileSystem s) of (f, fs) \<Rightarrow>
                  (let s = upd_file h (m_CurrentFile (Jobs s h)) f (s\<lparr>FileSystem := fs\<rparr>);
                       s = UpdateModificationTime True h s
                   in if tries + 1 < 3 then (True, s)
                      else (False, FileFatalError h
                        (Some (QMErrInfo_hr QM_FILE_FATAL_ERROR SOURCE_HTTP_CLIENT_CONN
                                 BG_E_INVALID_SERVER_RESPONSE)) s)))))"

definition CUploadJob_Transfer_result ::
  "('fs, 'z) FileApi_scheme \<Rightarrow> QMErrInfo \<Rightarrow> nat \<Rightarrow> 'fs CJobManager \<Rightarrow> 'fs CJobManager" where
  "CUploadJob_Transfer_result api ErrInfo h s =
     (let s = Complete_item s
      in case result ErrInfo of
           QM_FILE_TRANSIENT_ERROR \<Rightarrow> FileTransientError h ErrInfo s
         | QM_FILE_DONE \<Rightarrow> FileComplete api h s
         | QM_FILE_FATAL_ERROR \<Rightarrow> FileFatalError h (Some ErrInfo) s
         | QM_FILE_ABORTED \<Rightarrow> s
         | QM_SERVER_FILE_CHANGED \<Rightarrow> AppendOnline h s
         | QM_IN_PROGRESS \<Rightarrow> ASSERT False s)"

text \<open>The end of \<open>TransferCurrentJob\<close>.\<close>

definition TransferCurrentJob_end :: "'fs CJobManager \<Rightarrow> 'fs CJobManager" where
  "TransferCurrentJob_end s = ScheduleAnotherGroup False (Complete_item s)"

definition TransferCurrentJob_begin :: "HRESULT \<Rightarrow> 'fs CJobManager \<Rightarrow> bool \<times> 'fs CJobManager" where
  "TransferCurrentJob_begin copy s =
     (case m_CurrentJob s of
        None \<Rightarrow> (False, s)
      | Some c \<Rightarrow> if is_upload (Jobs s c) then CUploadJob_Transfer copy c s else CJob_Transfer copy c s)"

end
