(* ===== verification/BitsFrame.thy ===== *)
theory BitsFrame
  imports BitsEvents TaskSchedInv
begin

text \<open>
  What each primitive of the service changes, as rewrite rules. The parts of the state that
  the invariants speak of are observed through: \<open>view s h\<close>, the job without its times,
  counters and references; \<open>InScheduler i s\<close>, whether the scheduler holds a tracked item;
  and the fields of the manager. Each primitive has its effect on every observer.
\<close>

section \<open>Observing a job\<close>

definition core :: "CJob \<Rightarrow> CJob" where
  "core j = j\<lparr>m_retries := 0, m_LastAccessTime := 0, m_ModificationTime := 0,
     m_TransferCompletionTime := 0, m_SerializeTime := 0, m_ModificationsPending := 0, m_refs := 0\<rparr>"

definition view :: "'fs CJobManager \<Rightarrow> nat \<Rightarrow> CJob" where
  "view s h = core (Jobs s h)"

lemma core_dropped [simp]:
  "core (j\<lparr>m_retries := a\<rparr>) = core j" "core (j\<lparr>m_LastAccessTime := b\<rparr>) = core j"
  "core (j\<lparr>m_ModificationTime := b\<rparr>) = core j" "core (j\<lparr>m_TransferCompletionTime := b\<rparr>) = core j"
  "core (j\<lparr>m_SerializeTime := b\<rparr>) = core j" "core (j\<lparr>m_ModificationsPending := a\<rparr>) = core j"
  "core (j\<lparr>m_refs := r\<rparr>) = core j"
  by (simp_all add: core_def)

lemma core_updates [simp]:
  "core (j\<lparr>m_state := a\<rparr>) = (core j)\<lparr>m_state := a\<rparr>"
  "core (j\<lparr>m_error := b\<rparr>) = (core j)\<lparr>m_error := b\<rparr>"
  "core (j\<lparr>m_CurrentFile := c\<rparr>) = (core j)\<lparr>m_CurrentFile := c\<rparr>"
  "core (j\<lparr>m_files := d\<rparr>) = (core j)\<lparr>m_files := d\<rparr>"
  "core (j\<lparr>m_priority := e\<rparr>) = (core j)\<lparr>m_priority := e\<rparr>"
  "core (j\<lparr>m_NotifySid := f\<rparr>) = (core j)\<lparr>m_NotifySid := f\<rparr>"
  "core (j\<lparr>m_name := g\<rparr>) = (core j)\<lparr>m_name := g\<rparr>"
  "core (j\<lparr>m_description := g\<rparr>) = (core j)\<lparr>m_description := g\<rparr>"
  "core (j\<lparr>m_NotifyPointer := i\<rparr>) = (core j)\<lparr>m_NotifyPointer := i\<rparr>"
  "core (j\<lparr>m_NotifyFlags := w\<rparr>) = (core j)\<lparr>m_NotifyFlags := w\<rparr>"
  "core (j\<lparr>m_NotifyProgram := g\<rparr>) = (core j)\<lparr>m_NotifyProgram := g\<rparr>"
  "core (j\<lparr>m_NotifyParameters := g\<rparr>) = (core j)\<lparr>m_NotifyParameters := g\<rparr>"
  "core (j\<lparr>m_MinimumRetryDelay := w\<rparr>) = (core j)\<lparr>m_MinimumRetryDelay := w\<rparr>"
  "core (j\<lparr>m_NoProgressTimeout := w\<rparr>) = (core j)\<lparr>m_NoProgressTimeout := w\<rparr>"
  "core (j\<lparr>m_fVolumeLocked := v\<rparr>) = (core j)\<lparr>m_fVolumeLocked := v\<rparr>"
  "core (j\<lparr>m_FilesVerified := v\<rparr>) = (core j)\<lparr>m_FilesVerified := v\<rparr>"
  "core (j\<lparr>m_UploadData := u\<rparr>) = (core j)\<lparr>m_UploadData := u\<rparr>"
  "core (j\<lparr>m_ReplyFile := x\<rparr>) = (core j)\<lparr>m_ReplyFile := x\<rparr>"
  "core (j\<lparr>m_ReplyFileName := g\<rparr>) = (core j)\<lparr>m_ReplyFileName := g\<rparr>"
  "core (j\<lparr>m_fOwnReplyFileName := v\<rparr>) = (core j)\<lparr>m_fOwnReplyFileName := v\<rparr>"
  by (simp_all add: core_def)

lemma Jobs_view [simp]:
  "core (Jobs s h) = view s h"
  "m_id (Jobs s h) = m_id (view s h)"
  "m_type (Jobs s h) = m_type (view s h)"
  "m_priority (Jobs s h) = m_priority (view s h)"
  "m_state (Jobs s h) = m_state (view s h)"
  "m_NotifySid (Jobs s h) = m_NotifySid (view s h)"
  "m_NotifyPointer (Jobs s h) = m_NotifyPointer (view s h)"
  "m_NotifyFlags (Jobs s h) = m_NotifyFlags (view s h)"
  "m_NotifyProgram (Jobs s h) = m_NotifyProgram (view s h)"
  "m_NotifyParameters (Jobs s h) = m_NotifyParameters (view s h)"
  "m_OldExternalGroupInterface (Jobs s h) = m_OldExternalGroupInterface (view s h)"
  "m_OldExternalJobInterface (Jobs s h) = m_OldExternalJobInterface (view s h)"
  "m_CurrentFile (Jobs s h) = m_CurrentFile (view s h)"
  "m_files (Jobs s h) = m_files (view s h)"
  "m_error (Jobs s h) = m_error (view s h)"
  "m_MinimumRetryDelay (Jobs s h) = m_MinimumRetryDelay (view s h)"
  "m_NoProgressTimeout (Jobs s h) = m_NoProgressTimeout (view s h)"
  "m_fVolumeLocked (Jobs s h) = m_fVolumeLocked (view s h)"
  "m_FilesVerified (Jobs s h) = m_FilesVerified (view s h)"
  "m_UploadData (Jobs s h) = m_UploadData (view s h)"
  "m_ReplyFile (Jobs s h) = m_ReplyFile (view s h)"
  "m_ReplyFileName (Jobs s h) = m_ReplyFileName (view s h)"
  "m_fOwnReplyFileName (Jobs s h) = m_fOwnReplyFileName (view s h)"
  "IsRunning (Jobs s h) = IsRunning (view s h)"
  "IsRunnable (Jobs s h) = IsRunnable (view s h)"
  "GetCurrentFile (Jobs s h) = GetCurrentFile (view s h)"
  "IsEmpty (Jobs s h) = IsEmpty (view s h)"
  "IsCallbackEnabled w (Jobs s h) = IsCallbackEnabled w (view s h)"
  "AreRemoteSizesKnown (Jobs s h) = AreRemoteSizesKnown (view s h)"
  "IsTransferringToDrive v (Jobs s h) = IsTransferringToDrive v (view s h)"
  by (simp_all add: view_def core_def IsRunning_def IsRunnable_def CJob_IsRunnable_def
      CUploadJob_IsRunnable_def GetCurrentFile_def IsEmpty_def IsCallbackEnabled_def
      AreRemoteSizesKnown_def IsTransferringToDrive_def cong: option.case_cong)

section \<open>Observing the manager\<close>

text \<open>\<open>rest s\<close> is the manager without the jobs, the work items, the state file and the record of
  assertions.\<close>

definition rest :: "'fs CJobManager \<Rightarrow> 'fs CJobManager" where
  "rest s = s\<lparr>Jobs := (\<lambda>_. undefined), m_TaskScheduler := undefined, StateFile := None,
     AssertionFailed := False\<rparr>"

lemma restD:
  assumes "rest a = rest b"
  shows "m_OnlineJobs a = m_OnlineJobs b" "m_OfflineJobs a = m_OfflineJobs b"
    "m_CurrentJob a = m_CurrentJob b" "m_hQuantumTimer a = m_hQuantumTimer b"
    "AddressCount a = AddressCount b" "m_Users a = m_Users b"
    "ServiceShuttingDown a = ServiceShuttingDown b" "MetadataError a = MetadataError b"
    "m_JobInactivityTimeout a = m_JobInactivityTimeout b"
    "m_TimeQuantaLength a = m_TimeQuantaLength b"
    "FileSystem a = FileSystem b" "AccessViolations a = AccessViolations b"
proof -
  have "rest (a\<lparr>Jobs := x, m_TaskScheduler := y, StateFile := z, AssertionFailed := v\<rparr>) = rest a" for x y z v and a :: "'a CJobManager"
    by (simp add: rest_def)
  show "m_OnlineJobs a = m_OnlineJobs b" "m_OfflineJobs a = m_OfflineJobs b"
    "m_CurrentJob a = m_CurrentJob b" "m_hQuantumTimer a = m_hQuantumTimer b"
    "AddressCount a = AddressCount b" "m_Users a = m_Users b"
    "ServiceShuttingDown a = ServiceShuttingDown b" "MetadataError a = MetadataError b"
    "m_JobInactivityTimeout a = m_JobInactivityTimeout b"
    "m_TimeQuantaLength a = m_TimeQuantaLength b"
    "FileSystem a = FileSystem b" "AccessViolations a = AccessViolations b"
    using arg_cong [OF assms, of m_OnlineJobs] arg_cong [OF assms, of m_OfflineJobs]
      arg_cong [OF assms, of m_CurrentJob] arg_cong [OF assms, of m_hQuantumTimer]
      arg_cong [OF assms, of AddressCount] arg_cong [OF assms, of m_Users]
      arg_cong [OF assms, of ServiceShuttingDown] arg_cong [OF assms, of MetadataError]
      arg_cong [OF assms, of m_JobInactivityTimeout] arg_cong [OF assms, of m_TimeQuantaLength]
      arg_cong [OF assms, of FileSystem] arg_cong [OF assms, of AccessViolations]
    by (simp_all add: rest_def)
qed

lemma rest_updates [simp]:
  "rest (s\<lparr>m_OnlineJobs := a\<rparr>) = (rest s)\<lparr>m_OnlineJobs := a\<rparr>"
  "rest (s\<lparr>m_OfflineJobs := a\<rparr>) = (rest s)\<lparr>m_OfflineJobs := a\<rparr>"
  "rest (s\<lparr>m_CurrentJob := b\<rparr>) = (rest s)\<lparr>m_CurrentJob := b\<rparr>"
  "rest (s\<lparr>m_hQuantumTimer := c\<rparr>) = (rest s)\<lparr>m_hQuantumTimer := c\<rparr>"
  "rest (s\<lparr>FileSystem := e\<rparr>) = (rest s)\<lparr>FileSystem := e\<rparr>"
  by (simp_all add: rest_def)

section \<open>Writing to jobs, the scheduler and the manager\<close>

lemma view_upd_job [simp]: "view (upd_job h f s) k = (if k = h then core (f (Jobs s h)) else view s k)"
  by (simp add: view_def upd_job_def del: Jobs_view)

lemma upd_job_simps [simp]:
  "rest (upd_job h f s) = rest s" "m_TaskScheduler (upd_job h f s) = m_TaskScheduler s"
  "AssertionFailed (upd_job h f s) = AssertionFailed s"
  by (simp_all add: upd_job_def rest_def)

lemmas upd_job_rest [simp] = restD [OF upd_job_simps(1)]

lemma upd_sched_simps [simp]:
  "view (upd_sched g s) = view s" "rest (upd_sched g s) = rest s"
  "m_TaskScheduler (upd_sched g s) = g (m_TaskScheduler s)"
  "AssertionFailed (upd_sched g s) = AssertionFailed s"
  by (simp_all add: upd_sched_def view_def [abs_def] rest_def del: Jobs_view)

lemmas upd_sched_rest [simp] = restD [OF upd_sched_simps(2)]

lemma view_fields [simp]:
  "view (s\<lparr>m_OnlineJobs := a\<rparr>) = view s" "view (s\<lparr>m_OfflineJobs := a\<rparr>) = view s"
  "view (s\<lparr>m_CurrentJob := b\<rparr>) = view s" "view (s\<lparr>m_hQuantumTimer := c\<rparr>) = view s"
  "view (s\<lparr>AddressCount := d\<rparr>) = view s" "view (s\<lparr>FileSystem := e\<rparr>) = view s"
  "view (s\<lparr>m_Users := a\<rparr>) = view s" "view (s\<lparr>MetadataError := w\<rparr>) = view s"
  "view (s\<lparr>StateFileFails := v\<rparr>) = view s" "view (s\<lparr>ServiceShuttingDown := v\<rparr>) = view s"
  by (simp_all add: view_def [abs_def] del: Jobs_view)

lemma ASSERT_simps [simp]:
  "view (ASSERT b s) = view s" "rest (ASSERT b s) = rest s"
  "m_TaskScheduler (ASSERT b s) = m_TaskScheduler s"
  "AssertionFailed (ASSERT b s) \<longleftrightarrow> AssertionFailed s \<or> \<not> b"
  by (simp_all add: ASSERT_def rest_def view_def [abs_def] del: Jobs_view)

lemmas ASSERT_rest [simp] = restD [OF ASSERT_simps(2)]

lemma null_pointer_simps [simp]:
  "view (null_pointer x s) = view s" "m_TaskScheduler (null_pointer x s) = m_TaskScheduler s"
  "m_OnlineJobs (null_pointer x s) = m_OnlineJobs s" "m_OfflineJobs (null_pointer x s) = m_OfflineJobs s"
  "m_CurrentJob (null_pointer x s) = m_CurrentJob s" "AddressCount (null_pointer x s) = AddressCount s"
  "AssertionFailed (null_pointer x s) = AssertionFailed s"
  "AccessViolations (null_pointer x s) = AccessViolations s @ [x]"
  by (simp_all add: null_pointer_def view_def [abs_def] del: Jobs_view)

section \<open>Work items\<close>

abbreviation alive :: "'fs CJobManager \<Rightarrow> bool" where
  "alive s \<equiv> live (m_TaskScheduler s)"

abbreviation manager_runs :: "'fs CJobManager \<Rightarrow> bool" where
  "manager_runs s \<equiv> m_State (WorkItems (m_TaskScheduler s) CJobManagerItem) = TASK_STATE_RUNNING"

interpretation items: work_scheduler "\<lambda>s. alive s" tracked "\<lambda>i s. InScheduler i s" Insert_item Cancel_item
  by unfold_locales
    (auto simp: Insert_item_def Cancel_item_def live.ok_insert live.ok_cancel in_sched_Insert live_in_sched_Cancel)

lemma Cancel_other: "k \<noteq> i \<Longrightarrow> WorkItems (snd (CancelWorkItem i ts)) k = WorkItems ts k"
  by (auto simp: CancelWorkItem_def Let_def AcknowledgeWorkItemCancel_def CompleteWorkItem_def
      split: TASK_STATE.split option.splits)

lemma Insert_other: "k \<noteq> i \<Longrightarrow> WorkItems (InsertWorkItem sid i t ts) k = WorkItems ts k"
  by (simp add: InsertWorkItem_def Let_def AddItemToWorkGroup_def)

lemmas item_defs = Cancel_item_def Insert_item_def Insert_delayed_def InsertDelayedWorkItem_def
  Complete_item_def Acknowledge_item_def ScheduleDelayedTask_def AcknowledgeWorkItemCancel_def

lemma item_frame [simp]:
  "view (Cancel_item i s) = view s" "view (Insert_item i t s) = view s"
  "view (Insert_delayed i d s) = view s" "view (Complete_item s) = view s"
  "view (Acknowledge_item s) = view s" "view (ScheduleDelayedTask i w s) = view s"
  "AssertionFailed (Cancel_item i s) = AssertionFailed s"
  "AssertionFailed (Insert_item i t s) = AssertionFailed s"
  "AssertionFailed (Insert_delayed i d s) = AssertionFailed s"
  "AssertionFailed (Complete_item s) = AssertionFailed s"
  "AssertionFailed (Acknowledge_item s) = AssertionFailed s"
  "AssertionFailed (ScheduleDelayedTask i w s) = AssertionFailed s"
  by (simp_all add: item_defs)

lemma item_rest [simp]:
  "rest (Cancel_item i s) = rest s" "rest (Insert_item i t s) = rest s"
  "rest (Insert_delayed i d s) = rest s" "rest (Complete_item s) = rest s"
  "rest (Acknowledge_item s) = rest s" "rest (ScheduleDelayedTask i w s) = rest s"
  by (simp_all add: item_defs)

lemmas item_rests [simp] = item_rest [THEN restD(1)] item_rest [THEN restD(2)] item_rest [THEN restD(3)]
  item_rest [THEN restD(4)] item_rest [THEN restD(5)] item_rest [THEN restD(6)] item_rest [THEN restD(7)]
  item_rest [THEN restD(8)] item_rest [THEN restD(11)] item_rest [THEN restD(12)]

lemma Insert_delayed_eq: "Insert_delayed i d s = Insert_item i (Some (d + now s)) s"
  by (simp add: item_defs upd_sched_def)

lemma alive_items [simp]:
  "alive s \<Longrightarrow> alive (Cancel_item i s)"
  "alive s \<Longrightarrow> alive (Complete_item s)"
  "alive s \<Longrightarrow> PollAbort (m_TaskScheduler s) \<Longrightarrow> alive (Acknowledge_item s)"
  using live_Acknowledge by (simp_all add: item_defs)

lemma held_Insert [simp]:
  "InScheduler k (Insert_item i t s) \<longleftrightarrow> k = i \<or> InScheduler k s"
  "InScheduler k (Insert_delayed i d s) \<longleftrightarrow> k = i \<or> InScheduler k s"
  "InScheduler k (ScheduleDelayedTask i w s) \<longleftrightarrow> k = i \<or> InScheduler k s"
  by (simp_all add: Insert_delayed_eq ScheduleDelayedTask_def items.scheduled_insert)

lemma held_Cancel [simp]:
  "alive s \<Longrightarrow> tracked k \<Longrightarrow> InScheduler k (Cancel_item i s) \<longleftrightarrow> k \<noteq> i \<and> InScheduler k s"
  by (rule items.scheduled_cancel)

lemma held_Complete [simp]:
  "InScheduler k (Complete_item s) \<longleftrightarrow> InScheduler k s \<and> m_WorkItemTLS (m_TaskScheduler s) \<noteq> Some k"
  by (simp add: Complete_item_def in_sched_Complete)

lemma alive_Insert:
  "alive s \<Longrightarrow> \<not> tracked i \<or> \<not> InScheduler i s \<Longrightarrow> alive (Insert_item i t s)"
  "alive s \<Longrightarrow> \<not> tracked i \<or> \<not> InScheduler i s \<Longrightarrow> alive (Insert_delayed i d s)"
  "alive s \<Longrightarrow> \<not> tracked i \<or> \<not> InScheduler i s \<Longrightarrow> alive (ScheduleDelayedTask i w s)"
  by (simp_all add: Insert_delayed_eq ScheduleDelayedTask_def items.ok_insert)

lemma runs_items:
  "i \<noteq> CJobManagerItem \<Longrightarrow> manager_runs (Cancel_item i s) = manager_runs s"
  "i \<noteq> CJobManagerItem \<Longrightarrow> manager_runs (Insert_item i t s) = manager_runs s"
  "i \<noteq> CJobManagerItem \<Longrightarrow> manager_runs (Insert_delayed i d s) = manager_runs s"
  "i \<noteq> CJobManagerItem \<Longrightarrow> manager_runs (ScheduleDelayedTask i w s) = manager_runs s"
  by (simp_all add: item_defs Cancel_other Insert_other)

declare runs_items [simp]

section \<open>Operations that only touch times, counters, callbacks and the state file\<close>

definition quiet :: "'fs CJobManager \<Rightarrow> 'fs CJobManager \<Rightarrow> bool" where
  "quiet s t \<longleftrightarrow> view t = view s \<and> rest t = rest s \<and> AssertionFailed t = AssertionFailed s \<and>
     (alive s \<longrightarrow> alive t \<and> (\<forall>k. tracked k \<longrightarrow> InScheduler k t = InScheduler k s)) \<and>
     manager_runs t = manager_runs s"

lemma quietD:
  assumes "quiet s t"
  shows "view t = view s" "rest t = rest s" "AssertionFailed t = AssertionFailed s"
    "alive s \<Longrightarrow> alive t" "alive s \<Longrightarrow> tracked k \<Longrightarrow> InScheduler k t = InScheduler k s"
    "manager_runs t = manager_runs s"
  using assms by (auto simp: quiet_def)

lemma quiet_refl [simp]: "quiet s s"
  by (simp add: quiet_def)

lemma quiet_trans: "quiet s t \<Longrightarrow> quiet t u \<Longrightarrow> quiet s u"
  by (auto simp: quiet_def)

lemma quiet_upd_job: "(\<And>j. core (f j) = core j) \<Longrightarrow> quiet s (upd_job h f s)"
  by (auto simp: quiet_def)

lemma Serialize_quiet: "quiet s (Serialize s)"
proof -
  have "core (j\<lparr>m_SerializeTime := t\<rparr>) = core j" for j t
    by simp
  then show ?thesis
    by (auto simp: quiet_def Serialize_def rest_def view_def [abs_def] simp del: Jobs_view)
qed

lemma ScheduleModificationCallback_quiet: "quiet s (ScheduleModificationCallback h s)"
  by (auto simp: quiet_def ScheduleModificationCallback_def Let_def alive_Insert)

lemma UpdateLastAccessTime_quiet: "quiet s (UpdateLastAccessTime h s)"
  by (simp add: UpdateLastAccessTime_def quiet_upd_job)

lemma SetModificationTime_quiet: "quiet s (SetModificationTime h s)"
  by (simp add: SetModificationTime_def quiet_upd_job)

lemma SetCompletionTime_quiet: "quiet s (SetCompletionTime h s)"
  unfolding SetCompletionTime_def
  by (rule quiet_trans [OF quiet_upd_job SetModificationTime_quiet]) simp

lemma restart_inactivity_quiet: "quiet s (restart_inactivity h s)"
  by (auto simp: quiet_def restart_inactivity_def alive_Insert)

lemma UpdateModificationTime_quiet: "quiet s (UpdateModificationTime n h s)"
proof -
  have 1: "quiet s (UpdateLastAccessTime h (SetModificationTime h s))"
    by (rule quiet_trans [OF SetModificationTime_quiet UpdateLastAccessTime_quiet])
  note 2 = quiet_trans [OF 1 restart_inactivity_quiet [of _ h]]
  note 3 = quiet_trans [OF quiet_trans [OF 2 ScheduleModificationCallback_quiet [of _ h]] Serialize_quiet]
  show ?thesis
    by (simp add: UpdateModificationTime_def Let_def 1 3)
qed

lemmas quiet_ops = Serialize_quiet ScheduleModificationCallback_quiet UpdateLastAccessTime_quiet
  SetModificationTime_quiet SetCompletionTime_quiet restart_inactivity_quiet UpdateModificationTime_quiet

lemmas quiet_simps [simp] = quiet_ops [THEN quietD(1)] quiet_ops [THEN quietD(2)] quiet_ops [THEN quietD(3)]
  quiet_ops [THEN quietD(4)] quiet_ops [THEN quietD(5)] quiet_ops [THEN quietD(6)]

lemmas quiet_rests [simp] = quiet_ops [THEN quietD(2), THEN restD(1)] quiet_ops [THEN quietD(2), THEN restD(2)]
  quiet_ops [THEN quietD(2), THEN restD(3)] quiet_ops [THEN quietD(2), THEN restD(4)]
  quiet_ops [THEN quietD(2), THEN restD(5)] quiet_ops [THEN quietD(2), THEN restD(6)]
  quiet_ops [THEN quietD(2), THEN restD(7)] quiet_ops [THEN quietD(2), THEN restD(8)]
  quiet_ops [THEN quietD(2), THEN restD(11)] quiet_ops [THEN quietD(2), THEN restD(12)]

section \<open>Changing the state of a job\<close>

lemma SetState_frame [simp]:
  "rest (SetState h st s) = rest s" "AssertionFailed (SetState h st s) = AssertionFailed s"
  "alive s \<Longrightarrow> alive (SetState h st s)" "manager_runs (SetState h st s) = manager_runs s"
  by (simp_all add: SetState_def Let_def)

lemmas SetState_rest [simp] = restD [OF SetState_frame(1)]

lemma SetState_view [simp]:
  "view (SetState h st s) k =
     (if k = h then (view s h)\<lparr>m_state := st, m_error :=
        (if m_state (view s h) \<noteq> st \<and> ShouldClearError st then ClearError else m_error (view s h))\<rparr>
      else view s k)"
  by (simp add: SetState_def Let_def)

lemma SetState_held [simp]:
  "alive s \<Longrightarrow> tracked k \<Longrightarrow> InScheduler k (SetState h st s) \<longleftrightarrow>
     InScheduler k s \<and> \<not> (k = CJobRetryItem h \<and> m_state (view s h) \<noteq> st \<and> st \<noteq> BG_JOB_STATE_TRANSIENT_ERROR)"
  by (auto simp: SetState_def Let_def)

lemma RecordError_frame [simp]:
  "rest (RecordError h e i s) = rest s" "AssertionFailed (RecordError h e i s) = AssertionFailed s"
  "m_TaskScheduler (RecordError h e i s) = m_TaskScheduler s"
  "view (RecordError h e i s) k = (if k = h then (view s h)\<lparr>m_error := CJobError_Set h i e\<rparr> else view s k)"
  by (simp_all add: RecordError_def)

lemmas RecordError_rest [simp] = restD [OF RecordError_frame(1)]

abbreviation finished :: "CJob \<Rightarrow> bool" where
  "finished j \<equiv> m_state j = BG_JOB_STATE_CANCELLED \<or> m_state j = BG_JOB_STATE_ACKNOWLEDGED"

text \<open>What the whole of \<open>SetTransientError\<close> does, step by step.\<close>

lemma SetTransientError_steps:
  fixes s t :: "'fs CJobManager"
  assumes t_def: "t = SetTransientError h e i r u s"
  shows "rest t = rest s" (is ?R)
    and "view t k = (if k = h then (view s h)\<lparr>m_state := (if finished (view s h) then m_state (view s h)
          else BG_JOB_STATE_TRANSIENT_ERROR), m_error := CJobError_Set h i e\<rparr> else view s k)" (is ?V)
    and "AssertionFailed t \<longleftrightarrow>
      AssertionFailed s \<or> finished (view s h) \<and> m_type (view s h) = BG_JOB_TYPE_DOWNLOAD" (is ?A)
    and "alive s \<Longrightarrow> alive t" and "manager_runs t = manager_runs s" (is ?M)
    and "alive s \<Longrightarrow> tracked it \<Longrightarrow> InScheduler it t \<longleftrightarrow>
      InScheduler it s \<or> it = CJobNoProgressItem h \<and> m_NoProgressTimeout (view s h) \<noteq> INFINITE
      \<or> it = CJobRetryItem h \<and> r"
proof -
  define s1 where "s1 = (if m_state (Jobs s h) = BG_JOB_STATE_TRANSFERRING
               then upd_job h (\<lambda>j. j\<lparr>m_retries := m_retries j + 1\<rparr>) s else s)"
  define s2 where "s2 = (if m_state (Jobs s1 h) \<noteq> BG_JOB_STATE_CANCELLED \<and>
                  m_state (Jobs s1 h) \<noteq> BG_JOB_STATE_ACKNOWLEDGED
               then SetState h BG_JOB_STATE_TRANSIENT_ERROR s1
               else ASSERT (m_type (Jobs s1 h) \<noteq> BG_JOB_TYPE_DOWNLOAD) s1)"
  define s3 where "s3 = RecordError h e i s2"
  define s4 where "s4 = (if m_NoProgressTimeout (Jobs s3 h) \<noteq> INFINITE \<and> \<not> InScheduler (CJobNoProgressItem h) s3
               then ScheduleDelayedTask (CJobNoProgressItem h) (m_NoProgressTimeout (Jobs s3 h)) s3 else s3)"
  define s5 where "s5 = (if r \<and> \<not> InScheduler (CJobRetryItem h) s4
               then ScheduleDelayedTask (CJobRetryItem h) (m_MinimumRetryDelay (Jobs s4 h)) s4 else s4)"
  have eq: "t = (if u then UpdateModificationTime True h s5 else s5)"
    unfolding t_def SetTransientError_def Let_def s1_def s2_def s3_def s4_def s5_def ..
  have "quiet s s1" by (simp add: s1_def quiet_upd_job)
  note 1 = quietD [OF this]
  have 2: "rest s2 = rest s" "alive s \<Longrightarrow> alive s2" "manager_runs s2 = manager_runs s"
    "AssertionFailed s2 \<longleftrightarrow> AssertionFailed s \<or> finished (view s h) \<and> m_type (view s h) = BG_JOB_TYPE_DOWNLOAD"
    "view s2 k = (if k = h then (view s h)\<lparr>m_state := (if finished (view s h) then m_state (view s h)
          else BG_JOB_STATE_TRANSIENT_ERROR)\<rparr> else view s k)"
    "alive s \<Longrightarrow> tracked it \<Longrightarrow> InScheduler it s2 = InScheduler it s" for k it
    by (auto simp: s2_def 1 ShouldClearError_def)
  have 3: "rest s3 = rest s" "alive s \<Longrightarrow> alive s3" "manager_runs s3 = manager_runs s"
    "AssertionFailed s3 = AssertionFailed s2"
    "view s3 k = (if k = h then (view s2 h)\<lparr>m_error := CJobError_Set h i e\<rparr> else view s2 k)"
    "alive s \<Longrightarrow> tracked it \<Longrightarrow> InScheduler it s3 = InScheduler it s" for k it
    by (simp_all add: s3_def 2)
  have 4: "rest s4 = rest s" "alive s \<Longrightarrow> alive s4" "manager_runs s4 = manager_runs s"
    "AssertionFailed s4 = AssertionFailed s2" "view s4 k = view s3 k"
    "alive s \<Longrightarrow> tracked it \<Longrightarrow> InScheduler it s4 \<longleftrightarrow> InScheduler it s \<or>
       it = CJobNoProgressItem h \<and> m_NoProgressTimeout (view s h) \<noteq> INFINITE" for k it
    by (auto simp: s4_def 3 2 alive_Insert)
  have 5: "rest s5 = rest s" "alive s \<Longrightarrow> alive s5" "manager_runs s5 = manager_runs s"
    "AssertionFailed s5 = AssertionFailed s2" "view s5 k = view s3 k"
    "alive s \<Longrightarrow> tracked it \<Longrightarrow> InScheduler it s5 \<longleftrightarrow> InScheduler it s4 \<or> it = CJobRetryItem h \<and> r" for k it
    by (auto simp: s5_def 4 alive_Insert)
  show ?R ?V ?A ?M "alive s \<Longrightarrow> alive t" "alive s \<Longrightarrow> tracked it \<Longrightarrow> InScheduler it t \<longleftrightarrow>
      InScheduler it s \<or> it = CJobNoProgressItem h \<and> m_NoProgressTimeout (view s h) \<noteq> INFINITE
      \<or> it = CJobRetryItem h \<and> r"
    by (simp_all add: eq 5 4 3 2)
qed

lemmas SetTransientError_simps [simp] = SetTransientError_steps [OF refl]
lemmas SetTransientError_rests [simp] = restD [OF SetTransientError_steps(1) [OF refl]]

section \<open>Recalculating a transient error\<close>

abbreviation blocked :: "nat \<Rightarrow> 'fs CJobManager \<Rightarrow> bool" where
  "blocked h s \<equiv> m_fVolumeLocked (view s h) \<or> AddressCount s = 0"

text \<open>What \<open>RecalcTransientError\<close> makes of a job that it does not leave alone.\<close>

definition recalc :: "nat \<Rightarrow> 'fs CJobManager \<Rightarrow> CJob" where
  "recalc h s = (let j = view s h in
     j\<lparr>m_state := (if finished j then m_state j
          else if blocked h s then BG_JOB_STATE_TRANSIENT_ERROR else BG_JOB_STATE_QUEUED),
       m_error := (if m_fVolumeLocked j
          then CJobError_Set h (int (m_CurrentFile j))
            (QMErrInfo_hr QM_FILE_TRANSIENT_ERROR SOURCE_HTTP_CLIENT_CONN BG_E_DESTINATION_LOCKED)
          else if AddressCount s = 0
          then CJobError_Set h (int (m_CurrentFile j))
            (QMErrInfo_hr QM_FILE_TRANSIENT_ERROR SOURCE_HTTP_CLIENT_CONN BG_E_NETWORK_DISCONNECTED)
          else m_error j)\<rparr>)"

abbreviation left_alone :: "bool \<Rightarrow> CJob \<Rightarrow> bool" where
  "left_alone ForResume j \<equiv> \<not> ForResume \<and>
     (m_state j = BG_JOB_STATE_ERROR \<or> m_state j = BG_JOB_STATE_TRANSFERRED \<or>
      m_state j = BG_JOB_STATE_SUSPENDED)"

text \<open>The steps of \<open>RecalcTransientError\<close> up to its last two tests, which are quiet.\<close>

definition recalc_steps :: "nat \<Rightarrow> 'fs CJobManager \<Rightarrow> 'fs CJobManager" where
  "recalc_steps h s =
     (let s = (if m_state (Jobs s h) \<noteq> BG_JOB_STATE_CANCELLED \<and>
                  m_state (Jobs s h) \<noteq> BG_JOB_STATE_ACKNOWLEDGED
               then SetState h BG_JOB_STATE_QUEUED s
               else ASSERT (m_type (Jobs s h) \<noteq> BG_JOB_TYPE_DOWNLOAD) s);
          s = Cancel_item (CJobRetryItem h) s
      in if m_fVolumeLocked (Jobs s h)
         then SetTransientError h (QMErrInfo_hr QM_FILE_TRANSIENT_ERROR SOURCE_HTTP_CLIENT_CONN
                BG_E_DESTINATION_LOCKED) (int (m_CurrentFile (Jobs s h))) False False s
         else if AddressCount s = 0
         then SetTransientError h (QMErrInfo_hr QM_FILE_TRANSIENT_ERROR SOURCE_HTTP_CLIENT_CONN
                BG_E_NETWORK_DISCONNECTED) (int (m_CurrentFile (Jobs s h))) False False s
         else s)"

lemma RecalcTransientError_quiet:
  assumes "\<not> left_alone f (view s h)"
  shows "quiet (recalc_steps h s) (RecalcTransientError f h s)"
proof -
  have cond: "(\<not> f \<and> m_state (Jobs s h) \<in>
      {BG_JOB_STATE_ERROR, BG_JOB_STATE_TRANSFERRED, BG_JOB_STATE_SUSPENDED}) = False"
    using assms by simp
  have eq: "RecalcTransientError f h s =
     (let OldState = m_state (Jobs s h); OldError = m_error (Jobs s h); s = recalc_steps h s;
          s = (if m_state (Jobs s h) \<noteq> OldState \<or> \<not> CJobError_eq (m_error (Jobs s h)) OldError
               then ScheduleModificationCallback h s else s)
      in if OldState = BG_JOB_STATE_TRANSFERRING \<and> m_state (Jobs s h) = BG_JOB_STATE_TRANSIENT_ERROR
         then upd_job h (\<lambda>j. j\<lparr>m_retries := m_retries j + 1\<rparr>) s else s)"
    unfolding RecalcTransientError_def recalc_steps_def Let_def cond if_False ..
  have "quiet t (if c then upd_job h (\<lambda>j. j\<lparr>m_retries := m_retries j + 1\<rparr>)
        (if b then ScheduleModificationCallback h t else t) else (if b then ScheduleModificationCallback h t else t))" for b c t
    by (cases b; cases c) (simp_all add: quiet_trans [OF ScheduleModificationCallback_quiet quiet_upd_job]
        ScheduleModificationCallback_quiet quiet_upd_job)
  then show ?thesis
    unfolding eq Let_def .
qed

lemma recalc_steps_simps [simp]:
  "rest (recalc_steps h s) = rest s"
  "view (recalc_steps h s) k = (if k = h then recalc h s else view s k)"
  "AssertionFailed (recalc_steps h s) \<longleftrightarrow> AssertionFailed s \<or>
     finished (view s h) \<and> m_type (view s h) = BG_JOB_TYPE_DOWNLOAD"
  "alive s \<Longrightarrow> alive (recalc_steps h s)"
  "manager_runs (recalc_steps h s) = manager_runs s"
  "alive s \<Longrightarrow> tracked i \<Longrightarrow> InScheduler i (recalc_steps h s) \<longleftrightarrow>
     i \<noteq> CJobRetryItem h \<and> InScheduler i s \<or>
     i = CJobNoProgressItem h \<and> blocked h s \<and> m_NoProgressTimeout (view s h) \<noteq> INFINITE"
  by (auto simp: recalc_steps_def recalc_def Let_def ShouldClearError_def)

lemma RecalcTransientError_left_alone: "left_alone f (view s h) \<Longrightarrow> RecalcTransientError f h s = s"
  by (auto simp: RecalcTransientError_def)

lemma RecalcTransientError_rest [simp]: "rest (RecalcTransientError f h s) = rest s"
  by (cases "left_alone f (view s h)")
    (simp_all add: RecalcTransientError_left_alone quietD(2) [OF RecalcTransientError_quiet])

lemmas RecalcTransientError_rests [simp] = restD [OF RecalcTransientError_rest]

lemma RecalcTransientError_view [simp]:
  "view (RecalcTransientError f h s) k =
     (if k = h \<and> \<not> left_alone f (view s h) then recalc h s else view s k)"
  by (cases "left_alone f (view s h)")
    (auto simp: RecalcTransientError_left_alone quietD(1) [OF RecalcTransientError_quiet])

lemma RecalcTransientError_assert [simp]:
  "AssertionFailed (RecalcTransientError f h s) \<longleftrightarrow>
     AssertionFailed s \<or> finished (view s h) \<and> m_type (view s h) = BG_JOB_TYPE_DOWNLOAD"
  by (cases "left_alone f (view s h)")
    (auto simp: RecalcTransientError_left_alone quietD(3) [OF RecalcTransientError_quiet])

lemma RecalcTransientError_alive [simp]: "alive s \<Longrightarrow> alive (RecalcTransientError f h s)"
  by (cases "left_alone f (view s h)")
    (simp_all add: RecalcTransientError_left_alone quietD(4) [OF RecalcTransientError_quiet])

lemma RecalcTransientError_runs [simp]: "manager_runs (RecalcTransientError f h s) = manager_runs s"
  by (cases "left_alone f (view s h)")
    (simp_all add: RecalcTransientError_left_alone quietD(6) [OF RecalcTransientError_quiet])

lemma RecalcTransientError_held [simp]:
  "alive s \<Longrightarrow> tracked i \<Longrightarrow> InScheduler i (RecalcTransientError f h s) \<longleftrightarrow>
     (if left_alone f (view s h) then InScheduler i s
      else i \<noteq> CJobRetryItem h \<and> InScheduler i s \<or>
           i = CJobNoProgressItem h \<and> blocked h s \<and> m_NoProgressTimeout (view s h) \<noteq> INFINITE)"
  by (cases "left_alone f (view s h)")
    (auto simp: RecalcTransientError_left_alone quietD(5) [OF RecalcTransientError_quiet])

section \<open>Choosing the current job\<close>

text \<open>The job that \<open>ChooseCurrentJob\<close> picks.\<close>

definition best_job :: "'fs CJobManager \<Rightarrow> nat option" where
  "best_job s = (if AddressCount s = 0 then None else Choose_Loop (view s) None (m_OnlineJobs s))"

lemma Choose_Loop_view: "Choose_Loop (Jobs s) n xs = Choose_Loop (view s) n xs"
  by (induction xs arbitrary: n) (simp_all cong: option.case_cong)

text \<open>The steps of \<open>ScheduleAnotherGroup\<close> as one transition of jobs and manager.\<close>

abbreviation displaced :: "'fs CJobManager \<Rightarrow> nat \<Rightarrow> bool" where
  "displaced s k \<equiv> m_CurrentJob s = Some k \<and> m_CurrentJob s \<noteq> best_job s \<and> IsRunning (view s k)"

lemma not_IsRunning [simp]:
  "m_state j = BG_JOB_STATE_ERROR \<Longrightarrow> \<not> IsRunning j" "m_state j = BG_JOB_STATE_TRANSIENT_ERROR \<Longrightarrow> \<not> IsRunning j"
  "m_state j = BG_JOB_STATE_TRANSFERRED \<Longrightarrow> \<not> IsRunning j" "m_state j = BG_JOB_STATE_SUSPENDED \<Longrightarrow> \<not> IsRunning j"
  "m_state j = BG_JOB_STATE_CANCELLED \<Longrightarrow> \<not> IsRunning j" "m_state j = BG_JOB_STATE_ACKNOWLEDGED \<Longrightarrow> \<not> IsRunning j"
  "m_state j = BG_JOB_STATE_QUEUED \<Longrightarrow> \<not> IsRunning j"
  by (simp_all add: IsRunning_def)

lemma ChooseCurrentJob_eq:
  "ChooseCurrentJob s =
     (if m_CurrentJob s = best_job s then s
      else
        (let t = (case m_CurrentJob s of None \<Rightarrow> s
                  | Some c \<Rightarrow> if IsRunning (view s c) then RecalcTransientError False c s else s)
         in (if best_job s \<noteq> None then SetQuantumTimeout t else t)\<lparr>m_CurrentJob := best_job s\<rparr>))"
  by (simp add: ChooseCurrentJob_def best_job_def Choose_Loop_view Let_def cong: option.case_cong)

lemma ChooseCurrentJob_current [simp]: "m_CurrentJob (ChooseCurrentJob s) = best_job s"
  by (simp add: ChooseCurrentJob_eq Let_def)

lemma ChooseCurrentJob_simps [simp]:
  "m_OnlineJobs (ChooseCurrentJob s) = m_OnlineJobs s" "m_OfflineJobs (ChooseCurrentJob s) = m_OfflineJobs s"
  "AddressCount (ChooseCurrentJob s) = AddressCount s" "m_Users (ChooseCurrentJob s) = m_Users s"
  "ServiceShuttingDown (ChooseCurrentJob s) = ServiceShuttingDown s"
  "MetadataError (ChooseCurrentJob s) = MetadataError s" "FileSystem (ChooseCurrentJob s) = FileSystem s"
  "AccessViolations (ChooseCurrentJob s) = AccessViolations s"
  "manager_runs (ChooseCurrentJob s) = manager_runs s"
  by (simp_all add: ChooseCurrentJob_eq Let_def SetQuantumTimeout_def split: option.split)

lemma ChooseCurrentJob_assert [simp]: "AssertionFailed (ChooseCurrentJob s) = AssertionFailed s"
  by (auto simp: ChooseCurrentJob_eq Let_def SetQuantumTimeout_def split: option.split)

lemma ChooseCurrentJob_alive [simp]: "alive s \<Longrightarrow> alive (ChooseCurrentJob s)"
  by (simp add: ChooseCurrentJob_eq Let_def SetQuantumTimeout_def split: option.split)

lemma ChooseCurrentJob_view [simp]:
  "view (ChooseCurrentJob s) k = (if displaced s k then recalc k s else view s k)"
  by (auto simp: ChooseCurrentJob_eq Let_def SetQuantumTimeout_def split: option.split)

lemma ChooseCurrentJob_held [simp]:
  assumes "alive s" "tracked i"
  shows "InScheduler i (ChooseCurrentJob s) \<longleftrightarrow>
     (\<exists>k. displaced s k \<and> i = CJobNoProgressItem k \<and> blocked k s \<and> m_NoProgressTimeout (view s k) \<noteq> INFINITE) \<or>
     InScheduler i s \<and> \<not> (\<exists>k. displaced s k \<and> i = CJobRetryItem k)"
  using assms
  by (cases "m_CurrentJob s = best_job s")
    (auto simp: ChooseCurrentJob_eq Let_def SetQuantumTimeout_def split: option.split)

section \<open>Scheduling another job\<close>

lemma RunningJobs_view: "RunningJobs s = length (filter (\<lambda>i. IsRunning (view s i)) (m_OnlineJobs s))"
  by (simp add: RunningJobs_def)

lemma Cancel_manager [simp]: "alive s \<Longrightarrow> \<not> manager_runs (Cancel_item CJobManagerItem s)"
  using held_Cancel [of s CJobManagerItem CJobManagerItem] by (simp add: IsWorkItemInScheduler_def)

lemma Insert_manager [simp]:
  "\<not> manager_runs (Insert_item CJobManagerItem t s)" "\<not> manager_runs (Insert_delayed CJobManagerItem d s)"
  by (simp_all add: item_defs InsertWorkItem_def Let_def AddItemToWorkGroup_def)

lemma manager_runs_held: "manager_runs s \<Longrightarrow> InScheduler CJobManagerItem s"
  by (simp add: IsWorkItemInScheduler_def)

text \<open>\<open>ScheduleAnotherGroup\<close> after the choice: the manager item follows the current job.\<close>

definition follow_current :: "bool \<Rightarrow> nat option \<Rightarrow> 'fs CJobManager \<Rightarrow> 'fs CJobManager" where
  "follow_current delay old s =
     (if m_CurrentJob s \<noteq> None then
        (let s = (if m_CurrentJob s \<noteq> old then Cancel_item CJobManagerItem s else s)
         in if \<not> InScheduler CJobManagerItem s then
              (if delay
               then Insert_delayed CJobManagerItem (NETWORK_INIT_TOLERANCE_SECS * NanoSec100PerSec) s
               else Insert_item CJobManagerItem None s)
            else s)
      else Cancel_item CJobManagerItem s)"

definition pick_current :: "'fs CJobManager \<Rightarrow> 'fs CJobManager" where
  "pick_current s =
     (if ServiceShuttingDown s then s\<lparr>m_CurrentJob := None\<rparr>
      else
        (let s = ChooseCurrentJob s
         in if m_CurrentJob s = None then ASSERT (RunningJobs s = 0) s
            else ASSERT (RunningJobs s = 0 \<or> RunningJobs s = 1) s))"

text \<open>The two asserts about the number of running jobs.\<close>

definition queue_check :: "'fs CJobManager \<Rightarrow> bool" where
  "queue_check s \<longleftrightarrow> ServiceShuttingDown s \<or> RunningJobs (ChooseCurrentJob s) = 0 \<or>
     best_job s \<noteq> None \<and> RunningJobs (ChooseCurrentJob s) = 1"

lemma ScheduleAnotherGroup_eq:
  "ScheduleAnotherGroup b s = follow_current b (m_CurrentJob s) (pick_current s)"
  unfolding ScheduleAnotherGroup_def follow_current_def pick_current_def Let_def ..

lemma follow_current_simps [simp]:
  "rest (follow_current b old s) = rest s" "view (follow_current b old s) = view s"
  "AssertionFailed (follow_current b old s) = AssertionFailed s"
  "alive s \<Longrightarrow> alive (follow_current b old s)"
  "alive s \<Longrightarrow> manager_runs (follow_current b old s) \<longleftrightarrow>
     manager_runs s \<and> m_CurrentJob s \<noteq> None \<and> m_CurrentJob s = old"
  "alive s \<Longrightarrow> InScheduler CJobManagerItem (follow_current b old s) \<longleftrightarrow> m_CurrentJob s \<noteq> None"
  "alive s \<Longrightarrow> tracked i \<Longrightarrow> i \<noteq> CJobManagerItem \<Longrightarrow>
     InScheduler i (follow_current b old s) = InScheduler i s"
  by (auto simp: follow_current_def Let_def alive_Insert manager_runs_held)

lemmas follow_current_rests [simp] = restD [OF follow_current_simps(1)]

text \<open>The job that is current after \<open>ScheduleAnotherGroup\<close>, and those it displaces.\<close>

definition next_job :: "'fs CJobManager \<Rightarrow> nat option" where
  "next_job s = (if ServiceShuttingDown s then None else best_job s)"

definition stopped :: "'fs CJobManager \<Rightarrow> nat \<Rightarrow> bool" where
  "stopped s k \<longleftrightarrow> \<not> ServiceShuttingDown s \<and> displaced s k"

lemma pick_current_simps [simp]:
  "m_OnlineJobs (pick_current s) = m_OnlineJobs s" "m_OfflineJobs (pick_current s) = m_OfflineJobs s"
  "AddressCount (pick_current s) = AddressCount s" "m_Users (pick_current s) = m_Users s"
  "ServiceShuttingDown (pick_current s) = ServiceShuttingDown s"
  "MetadataError (pick_current s) = MetadataError s" "FileSystem (pick_current s) = FileSystem s"
  "AccessViolations (pick_current s) = AccessViolations s"
  "AssertionFailed (pick_current s) \<longleftrightarrow> AssertionFailed s \<or> \<not> queue_check s"
  "manager_runs (pick_current s) = manager_runs s"
  "m_CurrentJob (pick_current s) = next_job s"
  "alive s \<Longrightarrow> alive (pick_current s)"
  by (auto simp: pick_current_def next_job_def queue_check_def Let_def)

lemma pick_current_view [simp]: "view (pick_current s) k = (if stopped s k then recalc k s else view s k)"
  by (auto simp: pick_current_def stopped_def Let_def)

lemma pick_current_held [simp]:
  "alive s \<Longrightarrow> tracked i \<Longrightarrow> InScheduler i (pick_current s) \<longleftrightarrow>
     (\<exists>k. stopped s k \<and> i = CJobNoProgressItem k \<and> blocked k s \<and> m_NoProgressTimeout (view s k) \<noteq> INFINITE) \<or>
     InScheduler i s \<and> \<not> (\<exists>k. stopped s k \<and> i = CJobRetryItem k)"
  by (cases "ServiceShuttingDown s") (simp_all add: pick_current_def stopped_def Let_def)

lemma SAG_simps [simp]:
  "m_OnlineJobs (ScheduleAnotherGroup b s) = m_OnlineJobs s"
  "m_OfflineJobs (ScheduleAnotherGroup b s) = m_OfflineJobs s"
  "AddressCount (ScheduleAnotherGroup b s) = AddressCount s" "m_Users (ScheduleAnotherGroup b s) = m_Users s"
  "ServiceShuttingDown (ScheduleAnotherGroup b s) = ServiceShuttingDown s"
  "MetadataError (ScheduleAnotherGroup b s) = MetadataError s"
  "FileSystem (ScheduleAnotherGroup b s) = FileSystem s"
  "AccessViolations (ScheduleAnotherGroup b s) = AccessViolations s"
  "AssertionFailed (ScheduleAnotherGroup b s) \<longleftrightarrow> AssertionFailed s \<or> \<not> queue_check s"
  "alive s \<Longrightarrow> alive (ScheduleAnotherGroup b s)"
  "m_CurrentJob (ScheduleAnotherGroup b s) = next_job s"
  "view (ScheduleAnotherGroup b s) k = (if stopped s k then recalc k s else view s k)"
  "alive s \<Longrightarrow> manager_runs (ScheduleAnotherGroup b s) \<longleftrightarrow>
     manager_runs s \<and> next_job s \<noteq> None \<and> next_job s = m_CurrentJob s"
  "alive s \<Longrightarrow> InScheduler CJobManagerItem (ScheduleAnotherGroup b s) \<longleftrightarrow> next_job s \<noteq> None"
  "alive s \<Longrightarrow> tracked i \<Longrightarrow> i \<noteq> CJobManagerItem \<Longrightarrow> InScheduler i (ScheduleAnotherGroup b s) \<longleftrightarrow>
     (\<exists>k. stopped s k \<and> i = CJobNoProgressItem k \<and> blocked k s \<and> m_NoProgressTimeout (view s k) \<noteq> INFINITE) \<or>
     InScheduler i s \<and> \<not> (\<exists>k. stopped s k \<and> i = CJobRetryItem k)"
  by (simp_all add: ScheduleAnotherGroup_eq)

text \<open>The scan takes the first of the most urgent runnable jobs.\<close>

lemma Choose_Loop_cases:
  "Choose_Loop js n xs = n \<or> (\<exists>k \<in> set xs. Choose_Loop js n xs = Some k \<and> IsRunnable (js k))"
  by (induction xs arbitrary: n) fastforce+

lemma best_job_Some:
  assumes "best_job s = Some k"
  shows "k \<in> set (m_OnlineJobs s)" "IsRunnable (view s k)" "AddressCount s \<noteq> 0"
  using assms Choose_Loop_cases [of "view s" None "m_OnlineJobs s"]
  by (auto simp: best_job_def split: if_splits)

end
