(* ===== verification/BitsInv.thy ===== *)
theory BitsInv
  imports BitsFrame
begin

text \<open>
  The invariant of a service that runs download jobs. It is a property of each job on its
  own (\<open>job_inv\<close>), together with the health of the scheduler and the absence of failed
  assertions while the service does not shut down; \<open>jobs_ok C s\<close> states it for the jobs
  created so far, the set \<open>C\<close>. This theory shows that \<open>ScheduleAnotherGroup\<close> and the other
  shared parts of the operations keep it.
\<close>

section \<open>The invariant\<close>

text \<open>
  The parameters are: whether the job was created, is the current job, and whether the
  service shuts down; the job; whether its retry and no-progress items are held; and how
  often it is in the online and in the offline list.
\<close>

definition job_inv :: "bool \<Rightarrow> bool \<Rightarrow> bool \<Rightarrow> CJob \<Rightarrow> bool \<Rightarrow> bool \<Rightarrow> nat \<Rightarrow> nat \<Rightarrow> bool" where
  "job_inv created current down j retry noprog online offline \<longleftrightarrow>
     m_UploadData j = None \<and> m_type j = BG_JOB_TYPE_DOWNLOAD \<and> \<not> m_OldExternalJobInterface j \<and>
     (m_state j = BG_JOB_STATE_ERROR \<or> m_state j = BG_JOB_STATE_TRANSIENT_ERROR \<longrightarrow> m_ErrorSet (m_error j)) \<and>
     (m_state j = BG_JOB_STATE_SUSPENDED \<or> m_state j = BG_JOB_STATE_TRANSFERRED \<or>
      m_state j = BG_JOB_STATE_TRANSFERRING \<longrightarrow> \<not> m_ErrorSet (m_error j)) \<and>
     (noprog \<longrightarrow> m_ErrorSet (m_error j) \<and> \<not> finished j) \<and>
     (retry \<longrightarrow> m_state j = BG_JOB_STATE_TRANSIENT_ERROR) \<and>
     m_CurrentFile j \<le> length (m_files j) \<and>
     (m_state j = BG_JOB_STATE_TRANSFERRED \<longrightarrow> m_CurrentFile j = length (m_files j)) \<and>
     (m_state j = BG_JOB_STATE_TRANSFERRED \<or> m_state j = BG_JOB_STATE_SUSPENDED \<or> finished j \<or>
      m_CurrentFile j < length (m_files j)) \<and>
     online + offline = (if created \<and> \<not> finished j then 1 else 0) \<and>
     (IsRunning j \<longrightarrow> current \<or> down) \<and>
     (current \<longrightarrow> created)"

lemma job_invD:
  assumes "job_inv cr cur dn j r n a b"
  shows "m_UploadData j = None" "m_type j = BG_JOB_TYPE_DOWNLOAD"
    "m_state j = BG_JOB_STATE_ERROR \<or> m_state j = BG_JOB_STATE_TRANSIENT_ERROR \<longrightarrow> m_ErrorSet (m_error j)"
    "m_state j = BG_JOB_STATE_SUSPENDED \<or> m_state j = BG_JOB_STATE_TRANSFERRED \<or>
      m_state j = BG_JOB_STATE_TRANSFERRING \<longrightarrow> \<not> m_ErrorSet (m_error j)"
    "n \<longrightarrow> m_ErrorSet (m_error j) \<and> \<not> finished j"
    "r \<longrightarrow> m_state j = BG_JOB_STATE_TRANSIENT_ERROR"
    "m_CurrentFile j \<le> length (m_files j)"
    "m_state j = BG_JOB_STATE_TRANSFERRED \<longrightarrow> m_CurrentFile j = length (m_files j)"
    "m_state j \<notin> {BG_JOB_STATE_TRANSFERRED, BG_JOB_STATE_SUSPENDED} \<Longrightarrow> \<not> finished j \<Longrightarrow>
      m_CurrentFile j < length (m_files j)"
    "a + b = (if cr \<and> \<not> finished j then 1 else 0)"
    "IsRunning j \<longrightarrow> cur \<or> dn" "cur \<longrightarrow> cr" "\<not> m_OldExternalJobInterface j"
  using assms unfolding job_inv_def by simp_all

lemma job_inv_running:
  assumes "job_inv cr cur dn j r n a b" "IsRunning j"
  shows "\<not> finished j" "m_CurrentFile j < length (m_files j)"
  using assms(2) job_invD(9) [OF assms(1)] by (auto simp: IsRunning_def)

lemma job_inv_listed:
  assumes "job_inv cr cur dn j r n a b" "0 < a \<or> 0 < b"
  shows "cr" "\<not> finished j"
  using job_invD(10) [OF assms(1)] assms(2) by (simp_all split: if_splits)

abbreviation jok :: "nat set \<Rightarrow> 'fs CJobManager \<Rightarrow> nat \<Rightarrow> bool" where
  "jok C s k \<equiv> job_inv (k \<in> C) (m_CurrentJob s = Some k) (ServiceShuttingDown s) (view s k)
     (InScheduler (CJobRetryItem k) s) (InScheduler (CJobNoProgressItem k) s)
     (count_list (m_OnlineJobs s) k) (count_list (m_OfflineJobs s) k)"

text \<open>The items of a job that are tracked; a job not created yet has none of them held.\<close>

abbreviation idle :: "'fs CJobManager \<Rightarrow> nat \<Rightarrow> bool" where
  "idle s k \<equiv> \<not> InScheduler (CJobInactivityTimeout k) s \<and> \<not> InScheduler (CJobRetryItem k) s \<and>
     \<not> InScheduler (CJobCallbackItem k) s \<and> \<not> InScheduler (CJobNoProgressItem k) s"

definition jobs_ok :: "nat set \<Rightarrow> 'fs CJobManager \<Rightarrow> bool" where
  "jobs_ok C s \<longleftrightarrow> alive s \<and> (\<forall>k. jok C s k \<and> (k \<notin> C \<longrightarrow> idle s k)) \<and>
     (AssertionFailed s \<longrightarrow> ServiceShuttingDown s) \<and>
     set (AccessViolations s) \<subseteq> {''OnModificationCallback''}"

lemma jobs_okI:
  assumes "alive t" "AssertionFailed t \<longrightarrow> ServiceShuttingDown t" "set (AccessViolations t) \<subseteq> {''OnModificationCallback''}"
    "h \<in> C" "jok C t h" "\<And>k. k \<noteq> h \<Longrightarrow> jok C t k \<and> (k \<notin> C \<longrightarrow> idle t k)"
  shows "jobs_ok C t"
  unfolding jobs_ok_def using assms by metis

lemma jobs_okD:
  assumes "jobs_ok C s"
  shows "alive s" "AssertionFailed s \<longrightarrow> ServiceShuttingDown s" "set (AccessViolations s) \<subseteq> {''OnModificationCallback''}"
    "jok C s k" "k \<notin> C \<Longrightarrow> idle s k"
  using assms by (auto simp: jobs_ok_def)

text \<open>The current job is online and can run. It holds whenever the writer lock is free.\<close>

definition current_ok :: "'fs CJobManager \<Rightarrow> bool" where
  "current_ok s \<longleftrightarrow> (\<forall>c. m_CurrentJob s = Some c \<longrightarrow> c \<in> set (m_OnlineJobs s) \<and> IsRunnable (view s c))"

text \<open>A transfer that goes on is that of the same job: \<open>calm\<close> relates the states before and after
  an operation that leaves the manager item running.\<close>

definition calm :: "'fs CJobManager \<Rightarrow> 'fs CJobManager \<Rightarrow> bool" where
  "calm s t \<longleftrightarrow> (alive s \<longrightarrow> alive t \<and> (manager_runs t \<longrightarrow> manager_runs s \<and> m_CurrentJob t = m_CurrentJob s))"

lemma calm_refl [simp]: "calm s s"
  by (simp add: calm_def)

lemma calm_trans: "calm s t \<Longrightarrow> calm t u \<Longrightarrow> calm s u"
  by (auto simp: calm_def)

section \<open>Quiet operations and \<open>ScheduleAnotherGroup\<close>\<close>

lemma jobs_ok_quiet:
  assumes "jobs_ok C s" "quiet s t"
  shows "jobs_ok C t"
  using jobs_okD [OF assms(1)] quietD [OF assms(2)] restD [OF quietD(2) [OF assms(2)]]
  by (simp add: jobs_ok_def)

lemma current_ok_quiet: "quiet s t \<Longrightarrow> current_ok t = current_ok s"
  using restD [of t s] by (simp add: quiet_def current_ok_def)

lemma calm_quiet: "quiet s t \<Longrightarrow> calm s t"
  using restD [of t s] by (simp add: quiet_def calm_def)

lemma stopped_simps: "stopped s k \<Longrightarrow> m_CurrentJob s = Some k \<and> IsRunning (view s k) \<and>
    next_job s \<noteq> Some k \<and> \<not> ServiceShuttingDown s"
  by (auto simp: stopped_def next_job_def)

lemma next_job_online: "next_job s = Some k \<Longrightarrow> k \<in> set (m_OnlineJobs s) \<and> IsRunnable (view s k)"
  by (auto simp: next_job_def best_job_Some split: if_splits)

lemma recalc_simps [simp]:
  "m_UploadData (recalc h s) = m_UploadData (view s h)" "m_type (recalc h s) = m_type (view s h)"
  "m_CurrentFile (recalc h s) = m_CurrentFile (view s h)" "m_files (recalc h s) = m_files (view s h)"
  "m_priority (recalc h s) = m_priority (view s h)" "m_fVolumeLocked (recalc h s) = m_fVolumeLocked (view s h)"
  "m_NoProgressTimeout (recalc h s) = m_NoProgressTimeout (view s h)"
  "m_OldExternalJobInterface (recalc h s) = m_OldExternalJobInterface (view s h)"
  "m_ErrorSet (m_error (recalc h s)) \<longleftrightarrow> blocked h s \<or> m_ErrorSet (m_error (view s h))"
  "m_state (recalc h s) = (if finished (view s h) then m_state (view s h)
     else if blocked h s then BG_JOB_STATE_TRANSIENT_ERROR else BG_JOB_STATE_QUEUED)"
  by (simp_all add: recalc_def Let_def)

lemma recalc_not_running: "\<not> finished (view s h) \<Longrightarrow> \<not> IsRunning (recalc h s)"
  by (simp add: IsRunning_def)

text \<open>Recalculating the error of a job with a file left to transfer keeps the invariant.\<close>

lemma job_inv_recalc:
  assumes "job_inv cr cur dn (view s h) r n a b" "\<not> finished (view s h)"
    "m_CurrentFile (view s h) < length (m_files (view s h))"
    "n' \<longrightarrow> n \<or> blocked h s" "cur' \<longrightarrow> cr"
  shows "job_inv cr cur' dn' (recalc h s) False n' a b"
proof -
  note i = assms(1) [unfolded job_inv_def]
  have "\<not> finished (recalc h s)" "\<not> IsRunning (recalc h s)"
    using assms(2) recalc_not_running by auto
  moreover have "n' \<longrightarrow> m_ErrorSet (m_error (recalc h s))"
    using assms(4) i by auto
  ultimately show ?thesis
    unfolding job_inv_def using assms(2,3,5) i by simp
qed

text \<open>Only the current job runs, so the queue passes the checks of \<open>ScheduleAnotherGroup\<close>.\<close>

lemma length_filter_unique:
  assumes "\<And>x. P x \<Longrightarrow> x = c"
  shows "length (filter P xs) \<le> count_list xs c"
proof (induction xs)
  case (Cons a xs)
  show ?case
  proof (cases "P a")
    case True
    then have "a = c" by (rule assms)
    then show ?thesis using Cons True by simp
  qed (use Cons in simp)
qed simp

lemma jobs_ok_queue_check:
  assumes "jobs_ok C s"
  shows "queue_check s"
proof (cases "ServiceShuttingDown s")
  case False
  note d = jobs_okD [OF assms]
  let ?t = "ChooseCurrentJob s"
  have r: "best_job s = Some k" if "IsRunning (view ?t k)" for k
  proof (rule ccontr)
    assume n: "best_job s \<noteq> Some k"
    have "IsRunning (view s k) \<and> \<not> displaced s k"
    proof (cases "displaced s k")
      case True
      then have "\<not> IsRunning (recalc k s)"
        using job_inv_running(1) [OF d(4) [of k]] recalc_not_running by blast
      moreover have "view ?t k = recalc k s"
        unfolding ChooseCurrentJob_view if_P [OF True] ..
      ultimately show ?thesis using that by simp
    next
      case False
      have "view ?t k = view s k"
        unfolding ChooseCurrentJob_view if_not_P [OF False] ..
      then show ?thesis using that False by simp
    qed
    then show False using job_invD(11) [OF d(4) [of k]] False n by auto
  qed
  show ?thesis
  proof (cases "best_job s")
    case None
    then have "\<not> IsRunning (view ?t k)" for k using r [of k] by (metis option.distinct(1))
    then show ?thesis by (simp add: queue_check_def RunningJobs_view)
  next
    case (Some c)
    have "RunningJobs ?t \<le> count_list (m_OnlineJobs s) c"
      unfolding RunningJobs_view ChooseCurrentJob_simps
      by (rule length_filter_unique) (use r Some in \<open>metis option.inject\<close>)
    moreover have "count_list (m_OnlineJobs s) c \<le> 1"
      using job_invD(10) [OF d(4) [of c]] by (simp split: if_splits)
    ultimately show ?thesis using Some by (auto simp: queue_check_def)
  qed
qed (simp add: queue_check_def)

lemma jobs_ok_SAG: "jobs_ok C s \<Longrightarrow> jobs_ok C (ScheduleAnotherGroup b s)"
proof -
  assume a: "jobs_ok C s"
  note d = jobs_okD [OF a]
  have "jok C (ScheduleAnotherGroup b s) k \<and> (k \<notin> C \<longrightarrow> idle (ScheduleAnotherGroup b s) k)" for k
  proof (cases "stopped s k")
    case True
    note st = stopped_simps [OF True]
    have c: "k \<in> C" "\<not> finished (view s k)" "m_CurrentFile (view s k) < length (m_files (view s k))"
      using st job_inv_running [OF d(4) [of k]] job_invD(12) [OF d(4) [of k]] by blast+
    have "job_inv (k \<in> C) (next_job s = Some k) (ServiceShuttingDown s) (recalc k s) False
       (blocked k s \<and> m_NoProgressTimeout (view s k) \<noteq> INFINITE \<or> InScheduler (CJobNoProgressItem k) s)
       (count_list (m_OnlineJobs s) k) (count_list (m_OfflineJobs s) k)"
      using d(4) [of k] c(2,3) by (rule job_inv_recalc) (use st c in auto)
    then show ?thesis
      using d(1) c True by simp
  next
    case False
    have n: "next_job s = Some k \<Longrightarrow> k \<in> C"
      using next_job_online [of s k] job_inv_listed(1) [OF d(4) [of k]] count_list_0_iff [of "m_OnlineJobs s" k]
      by blast
    have r: "IsRunning (view s k) \<Longrightarrow> next_job s = Some k \<or> ServiceShuttingDown s"
      using job_invD(11) [OF d(4) [of k]] False by (auto simp: stopped_def next_job_def)
    have "job_inv (k \<in> C) (next_job s = Some k) (ServiceShuttingDown s) (view s k)
       (InScheduler (CJobRetryItem k) s) (InScheduler (CJobNoProgressItem k) s)
       (count_list (m_OnlineJobs s) k) (count_list (m_OfflineJobs s) k)"
      using d(4) [of k] n r unfolding job_inv_def by blast
    then show ?thesis
      using d(1) d(5) [of k] False by simp
  qed
  then show ?thesis
    using d jobs_ok_queue_check [OF a] by (simp add: jobs_ok_def)
qed

lemma current_ok_SAG: "current_ok (ScheduleAnotherGroup b s)"
  by (auto simp: current_ok_def dest: next_job_online stopped_simps)

lemma calm_SAG: "calm s (ScheduleAnotherGroup b s)"
  by (simp add: calm_def)

section \<open>Safe operations\<close>

definition inv :: "nat set \<Rightarrow> 'fs CJobManager \<Rightarrow> bool" where
  "inv C s \<longleftrightarrow> jobs_ok C s \<and> current_ok s"

definition safe :: "nat set \<Rightarrow> 'fs CJobManager \<Rightarrow> 'fs CJobManager \<Rightarrow> bool" where
  "safe C s t \<longleftrightarrow> inv C t \<and> calm s t"

lemma safe_refl: "inv C s \<Longrightarrow> safe C s s"
  by (simp add: safe_def)

lemma safe_trans: "safe C s t \<Longrightarrow> safe C t u \<Longrightarrow> safe C s u"
  by (auto simp: safe_def intro: calm_trans)

lemma safe_inv: "safe C s t \<Longrightarrow> inv C t"
  by (simp add: safe_def)

lemma safe_quiet: "safe C s t \<Longrightarrow> quiet t u \<Longrightarrow> safe C s u"
  using jobs_ok_quiet [of C t u] current_ok_quiet [of t u] calm_quiet [of t u] calm_trans [of s t u]
  by (auto simp: safe_def inv_def)

lemma safe_SAG: "jobs_ok C t \<Longrightarrow> calm s t \<Longrightarrow> safe C s (ScheduleAnotherGroup b t)"
  by (auto simp: safe_def inv_def jobs_ok_SAG current_ok_SAG intro: calm_trans calm_SAG)

lemma inv_alive [simp]: "inv C s \<Longrightarrow> alive s"
  by (simp add: inv_def jobs_ok_def)

text \<open>
  An operation on one job leaves the other jobs as they were. \<open>same_job\<close> says so for one of
  them; what is left to show of the operation is the invariant of the job itself.
\<close>

definition same_job :: "'fs CJobManager \<Rightarrow> 'fs CJobManager \<Rightarrow> nat \<Rightarrow> bool" where
  "same_job s t k \<longleftrightarrow> view t k = view s k \<and> (m_CurrentJob t = Some k \<longleftrightarrow> m_CurrentJob s = Some k) \<and>
     ServiceShuttingDown t = ServiceShuttingDown s \<and>
     count_list (m_OnlineJobs t) k = count_list (m_OnlineJobs s) k \<and>
     count_list (m_OfflineJobs t) k = count_list (m_OfflineJobs s) k \<and>
     InScheduler (CJobInactivityTimeout k) t = InScheduler (CJobInactivityTimeout k) s \<and>
     InScheduler (CJobRetryItem k) t = InScheduler (CJobRetryItem k) s \<and>
     InScheduler (CJobCallbackItem k) t = InScheduler (CJobCallbackItem k) s \<and>
     InScheduler (CJobNoProgressItem k) t = InScheduler (CJobNoProgressItem k) s"

lemma jobs_ok_update:
  assumes "jobs_ok C s" "h \<in> C" "\<And>k. k \<noteq> h \<Longrightarrow> same_job s t k" "jok C t h"
    "alive t" "AssertionFailed t \<longrightarrow> AssertionFailed s" "AccessViolations t = AccessViolations s"
  shows "jobs_ok C t"
proof (rule jobs_okI [where h = h])
  have "ServiceShuttingDown t = ServiceShuttingDown s"
    using assms(3) [of "Suc h"] by (simp add: same_job_def)
  then show "AssertionFailed t \<longrightarrow> ServiceShuttingDown t"
    using assms(6) jobs_okD(2) [OF assms(1)] by simp
  show "jok C t k \<and> (k \<notin> C \<longrightarrow> idle t k)" if "k \<noteq> h" for k
    using assms(3) [OF that] jobs_okD(4,5) [OF assms(1), of k] by (simp add: same_job_def)
qed (use assms jobs_okD [OF assms(1)] in auto)

lemma count_remove [simp]: "k \<noteq> h \<Longrightarrow> count_list (remove1 h xs) k = count_list xs k"
  by (simp add: count_list_remove1)

lemma jok_ShouldClearError [simp]:
  "ShouldClearError BG_JOB_STATE_TRANSFERRING" "ShouldClearError BG_JOB_STATE_SUSPENDED"
  "ShouldClearError BG_JOB_STATE_TRANSFERRED" "ShouldClearError BG_JOB_STATE_ACKNOWLEDGED"
  "ShouldClearError BG_JOB_STATE_CANCELLED" "\<not> ShouldClearError BG_JOB_STATE_QUEUED"
  "\<not> ShouldClearError BG_JOB_STATE_CONNECTING" "\<not> ShouldClearError BG_JOB_STATE_ERROR"
  "\<not> ShouldClearError BG_JOB_STATE_TRANSIENT_ERROR"
  by (simp_all add: ShouldClearError_def)

section \<open>Suspend and resume\<close>

lemma Suspend_steps:
  assumes "jobs_ok C s" "h \<in> C" "\<not> finished (view s h)"
    "t = SetState h BG_JOB_STATE_SUSPENDED (Cancel_item (CJobNoProgressItem h) u)"
    "u = s \<or> u = Cancel_item (CJobCallbackItem h) s \<or> u = Cancel_item (CJobCallbackItem h) (InterruptDownload s)"
    "m_state (view s h) \<noteq> BG_JOB_STATE_SUSPENDED"
  shows "jobs_ok C t \<and> calm s t"
proof -
  note d = jobs_okD [OF assms(1)]
  have u: "alive u" "view u = view s" "rest u = rest s" "AssertionFailed u = AssertionFailed s"
    "manager_runs u \<Longrightarrow> manager_runs s"
    "InScheduler (CJobRetryItem h) u = InScheduler (CJobRetryItem h) s"
    "k \<noteq> h \<Longrightarrow> InScheduler (CJobInactivityTimeout k) u = InScheduler (CJobInactivityTimeout k) s \<and>
     InScheduler (CJobRetryItem k) u = InScheduler (CJobRetryItem k) s \<and>
     InScheduler (CJobCallbackItem k) u = InScheduler (CJobCallbackItem k) s \<and>
     InScheduler (CJobNoProgressItem k) u = InScheduler (CJobNoProgressItem k) s" for k
    using assms(5) d(1) by (auto simp: InterruptDownload_def)
  note r = restD [OF u(3)]
  have "jobs_ok C t"
    using assms(1,2)
  proof (rule jobs_ok_update)
    show "jok C t h"
      using d(4) [of h] assms(3,6) u r by (auto simp: assms(4) job_inv_def)
  qed (use d(1,2) u r in \<open>simp_all add: assms(4) same_job_def\<close>)
  moreover have "calm s t"
    using u r by (simp add: calm_def assms(4))
  ultimately show ?thesis ..
qed

lemma SuspendJob_safe:
  assumes "inv C s" "h \<in> C"
  shows "safe C s (snd (SuspendJob h s))"
proof -
  have s: "jobs_ok C s" using assms(1) by (simp add: inv_def)
  have 1: "safe C s (ScheduleAnotherGroup False (UpdateModificationTime True h t))"
    if "t = SetState h BG_JOB_STATE_SUSPENDED (Cancel_item (CJobNoProgressItem h) u)"
      "u = s \<or> u = Cancel_item (CJobCallbackItem h) s \<or> u = Cancel_item (CJobCallbackItem h) (InterruptDownload s)"
      "\<not> finished (view s h)" "m_state (view s h) \<noteq> BG_JOB_STATE_SUSPENDED" for t u
  proof (rule safe_SAG)
    have t: "jobs_ok C t \<and> calm s t"
      by (rule Suspend_steps [OF s assms(2) that(3,1,2,4)])
    show "jobs_ok C (UpdateModificationTime True h t)"
      using t by (blast intro: jobs_ok_quiet UpdateModificationTime_quiet)
    show "calm s (UpdateModificationTime True h t)"
      using t by (blast intro: calm_trans calm_quiet UpdateModificationTime_quiet)
  qed
  show ?thesis
    using safe_refl [OF assms(1)] 1 [OF refl] by (auto simp: SuspendJob_def Let_def split: BG_JOB_STATE.split)
qed

end
