(* ===== verification/BitsOps.thy ===== *)
theory BitsOps
  imports BitsInv
begin

text \<open>
  The operations that clients call on a download job keep the invariant of the service.
\<close>

section \<open>Operations that change nothing the invariant speaks of\<close>

definition alike :: "CJob \<Rightarrow> CJob \<Rightarrow> bool" where
  "alike j j' \<longleftrightarrow> m_UploadData j' = m_UploadData j \<and> m_type j' = m_type j \<and> m_state j' = m_state j \<and>
     m_error j' = m_error j \<and> m_CurrentFile j' = m_CurrentFile j \<and>
     length (m_files j') = length (m_files j) \<and> m_fVolumeLocked j' = m_fVolumeLocked j \<and>
     m_OldExternalJobInterface j' = m_OldExternalJobInterface j"

lemma alike_refl [simp]: "alike j j"
  by (simp add: alike_def)

lemma alike_trans: "alike i j \<Longrightarrow> alike j k \<Longrightarrow> alike i k"
  by (simp add: alike_def)

lemma alike_updates [simp]:
  "alike j (j\<lparr>m_priority := e\<rparr>)" "alike j (j\<lparr>m_NotifySid := a\<rparr>)" "alike j (j\<lparr>m_name := g\<rparr>)"
  "alike j (j\<lparr>m_description := g\<rparr>)" "alike j (j\<lparr>m_NotifyPointer := i\<rparr>)" "alike j (j\<lparr>m_NotifyFlags := w\<rparr>)"
  "alike j (j\<lparr>m_NotifyProgram := g\<rparr>)" "alike j (j\<lparr>m_NotifyParameters := g\<rparr>)"
  "alike j (j\<lparr>m_MinimumRetryDelay := w\<rparr>)" "alike j (j\<lparr>m_NoProgressTimeout := w\<rparr>)"
  "alike j (j\<lparr>m_FilesVerified := v\<rparr>)" "alike j (j\<lparr>m_ReplyFileName := g\<rparr>)"
  "alike j (j\<lparr>m_NotifySid := a, m_NotifyProgram := g, m_NotifyParameters := g'\<rparr>)"
  "alike j (j\<lparr>m_NotifyProgram := g, m_NotifyParameters := g'\<rparr>)"
  "length fs = length (m_files j) \<Longrightarrow> alike j (j\<lparr>m_files := fs\<rparr>)"
  by (simp_all add: alike_def)

lemma alike_simps:
  assumes "alike j j'"
  shows "IsRunnable j' = IsRunnable j" "IsRunning j' = IsRunning j"
    "job_inv cr cur dn j' r n a b = job_inv cr cur dn j r n a b"
  using assms by (simp_all add: alike_def IsRunnable_def CJob_IsRunnable_def CUploadJob_IsRunnable_def
      IsRunning_def job_inv_def cong: option.case_cong)

definition mild :: "'fs CJobManager \<Rightarrow> 'fs CJobManager \<Rightarrow> bool" where
  "mild s t \<longleftrightarrow> (\<forall>k. alike (view s k) (view t k)) \<and> m_OnlineJobs t = m_OnlineJobs s \<and>
     m_OfflineJobs t = m_OfflineJobs s \<and> m_CurrentJob t = m_CurrentJob s \<and>
     ServiceShuttingDown t = ServiceShuttingDown s \<and> AccessViolations t = AccessViolations s \<and>
     AssertionFailed t = AssertionFailed s \<and> (manager_runs t \<longrightarrow> manager_runs s) \<and>
     (alive s \<longrightarrow> alive t \<and>
       (\<forall>k. tracked k \<and> k \<noteq> CJobManagerItem \<longrightarrow> InScheduler k t = InScheduler k s))"

lemma mild_refl [simp]: "mild s s"
  by (simp add: mild_def)

lemma mild_trans: "mild s t \<Longrightarrow> mild t u \<Longrightarrow> mild s u"
  unfolding mild_def using alike_trans by (metis (no_types, lifting))

lemma mild_quiet: "quiet s t \<Longrightarrow> mild s t"
  using restD [of t s] by (simp add: quiet_def mild_def)

lemma mild_then_quiet: "mild s t \<Longrightarrow> quiet t u \<Longrightarrow> mild s u"
  using mild_trans mild_quiet by blast

lemma mild_upd_job: "(\<And>j. alike (core j) (core (f j))) \<Longrightarrow> mild s (upd_job h f s)"
  by (simp add: mild_def) (metis Jobs_view(1))

lemma jobs_ok_mild: "jobs_ok C s \<Longrightarrow> mild s t \<Longrightarrow> jobs_ok C t"
proof -
  assume m: "mild s t" and s: "jobs_ok C s"
  have "alike (view s k) (view t k)" for k
    using m by (simp add: mild_def)
  note a = alike_simps(3) [OF this]
  show ?thesis
    using m s by (simp add: jobs_ok_def mild_def a)
qed

lemma calm_mild: "mild s t \<Longrightarrow> calm s t"
  by (auto simp: mild_def calm_def)

lemma current_ok_mild: "mild s t \<Longrightarrow> current_ok t = current_ok s"
proof -
  assume m: "mild s t"
  have "alike (view s k) (view t k)" for k
    using m by (simp add: mild_def)
  note a = alike_simps(1) [OF this]
  show ?thesis
    using m by (simp add: mild_def current_ok_def a)
qed

lemma safe_mild: "safe C s t \<Longrightarrow> mild t u \<Longrightarrow> safe C s u"
  using jobs_ok_mild [of C t u] current_ok_mild [of t u] calm_mild [of t u] calm_trans [of s t u]
  by (auto simp: safe_def inv_def)

lemma safe_mild0: "inv C s \<Longrightarrow> mild s t \<Longrightarrow> safe C s t"
  using safe_mild safe_refl by blast

lemma safe_mild_SAG: "jobs_ok C s \<Longrightarrow> mild s t \<Longrightarrow> safe C s (ScheduleAnotherGroup b t)"
  using safe_SAG jobs_ok_mild calm_mild by blast

lemma mild_Interrupt: "alive s \<Longrightarrow> mild s (InterruptDownload s)"
  by (auto simp: mild_def InterruptDownload_def)

lemma mild_if: "(c \<Longrightarrow> mild s a) \<Longrightarrow> (\<not> c \<Longrightarrow> mild s b) \<Longrightarrow> mild s (if c then a else b)"
  by simp

lemma mild_FileSystem [simp]: "mild s (s\<lparr>FileSystem := f\<rparr>)"
  by (auto simp: mild_def)

section \<open>Setting properties\<close>

lemma Reschedule_other: "k \<noteq> i \<Longrightarrow> WorkItems (RescheduleDelayedTask i d ts) k = WorkItems ts k"
  by (auto simp: RescheduleDelayedTask_def Let_def split: option.split)

lemma mild_Reschedule: "i \<noteq> CJobManagerItem \<Longrightarrow> mild s (upd_sched (RescheduleDelayedTask i d) s)"
  by (simp add: mild_def in_sched_RescheduleDelayed Reschedule_other)

lemma mild_UpdateModificationTime: "mild s t \<Longrightarrow> mild s (UpdateModificationTime n h t)"
  by (rule mild_then_quiet [OF _ UpdateModificationTime_quiet])

lemma SetNotifyFlags_mild: "mild s (snd (SetNotifyFlags v h s))"
  by (simp add: SetNotifyFlags_def mild_UpdateModificationTime mild_upd_job)

lemma SetNotifyInterface_mild: "mild s (snd (SetNotifyInterface v h s))"
  by (auto simp: SetNotifyInterface_def mild_upd_job split: option.split sum.split)

lemma SetNoProgressTimeout_mild: "mild s (snd (SetNoProgressTimeout v h s))"
proof -
  have 1: "mild s (upd_job h (\<lambda>j. j\<lparr>m_NoProgressTimeout := v\<rparr>) s)"
    by (simp add: mild_upd_job)
  show ?thesis
    by (simp add: SetNoProgressTimeout_def Let_def mild_UpdateModificationTime
        mild_trans [OF 1 mild_Reschedule])
qed

lemma SetMinimumRetryDelay_mild: "mild s (snd (SetMinimumRetryDelay v h s))"
proof -
  have 1: "mild s (upd_job h (\<lambda>j. j\<lparr>m_MinimumRetryDelay := v\<rparr>) s)"
    by (simp add: mild_upd_job)
  show ?thesis
    by (simp add: SetMinimumRetryDelay_def Let_def mild_UpdateModificationTime
        mild_trans [OF 1 mild_Reschedule])
qed

lemma alike_set_string: "alike (core j) (core (set_string f v j))"
  by (cases f) simp_all

lemma SetLimitedString_mild: "mild s (snd (SetLimitedString f v l h s))"
  by (simp add: SetLimitedString_def UpdateString_def mild_UpdateModificationTime mild_upd_job alike_set_string)

lemma SetNotifyCmdLine_mild: "mild s (snd (SetNotifyCmdLine p q h s))"
proof -
  have r: "mild t (upd_job h (\<lambda>j. j\<lparr>m_NotifyProgram := a, m_NotifyParameters := b\<rparr>) t)" for t :: "'a CJobManager" and a b
    by (simp add: mild_upd_job)
  have m: "SetLimitedString f v l h t = (hr, u) \<Longrightarrow> mild t u" for f v l t hr and u :: "'a CJobManager"
    using SetLimitedString_mild [of t f v l h] by simp
  show ?thesis
    by (auto simp: SetNotifyCmdLine_def Let_def split: prod.split dest!: m intro: mild_trans r)
qed

lemma SetPriority_safe:
  assumes "inv C s"
  shows "safe C s (snd (SetPriority v h s))"
proof -
  have 1: "mild s (upd_job h (\<lambda>j. j\<lparr>m_priority := v\<rparr>) s)" (is "mild s ?t")
    by (simp add: mild_upd_job)
  then have "mild s (if IsRunning (Jobs ?t h) then InterruptDownload ?t else ?t)"
    using mild_trans [OF 1 mild_Interrupt] inv_alive [OF assms] by simp
  then have "safe C s (UpdateModificationTime True h (RetaskJob h ?t))"
    unfolding RetaskJob_def using assms
    by (intro safe_quiet [OF safe_mild_SAG UpdateModificationTime_quiet]) (simp add: inv_def)
  then show ?thesis
    using safe_refl [OF assms] by (simp add: SetPriority_def)
qed

lemma ValidateAccess_quiet: "quiet s (snd (ValidateAccess w a h s))"
  by (simp add: ValidateAccess_def Let_def UpdateLastAccessTime_quiet)

text \<open>\<open>write_access\<close> lets an operation through only on a job that is not finished.\<close>

lemma write_access_safe:
  assumes "inv C s"
    "\<And>u. inv C u \<Longrightarrow> view u = view s \<Longrightarrow> \<not> finished (view u h) \<Longrightarrow> safe C u (snd (op u))"
  shows "safe C s (snd (write_access access h op s))"
proof -
  obtain hr u where va: "ValidateAccess True access h s = (hr, u)" by fastforce
  have q: "quiet s u" using ValidateAccess_quiet [of s True access h] by (simp add: va)
  have su: "safe C s u" by (rule safe_quiet [OF safe_refl [OF assms(1)] q])
  show ?thesis
  proof (cases "FAILED hr")
    case True
    then show ?thesis using su by (simp add: write_access_def va)
  next
    case False
    have "\<not> finished (view s h)"
      using va False by (auto simp: ValidateAccess_def Let_def CheckClientAccess_def FAILED_def split: if_splits)
    then have "safe C u (snd (op u))"
      using assms(2) [of u] safe_inv [OF su] quietD(1) [OF q] by simp
    then show ?thesis using su False by (auto simp: write_access_def va intro: safe_trans)
  qed
qed

section \<open>Resume\<close>

lemma held_AppendOnline [simp]: "m_TaskScheduler (AppendOnline h s) = m_TaskScheduler s"
  by (simp add: AppendOnline_def CJobList_Remove_def)

lemma AppendOnline_simps [simp]:
  "view (AppendOnline h s) = view s" "m_CurrentJob (AppendOnline h s) = m_CurrentJob s"
  "ServiceShuttingDown (AppendOnline h s) = ServiceShuttingDown s"
  "AddressCount (AppendOnline h s) = AddressCount s"
  "AssertionFailed (AppendOnline h s) = AssertionFailed s"
  "AccessViolations (AppendOnline h s) = AccessViolations s"
  "set (m_OnlineJobs (AppendOnline h s)) = insert h (set (m_OnlineJobs s))"
  "count_list (m_OnlineJobs (AppendOnline h s)) k =
     (if k = h then Suc (count_list (m_OnlineJobs s) h - 1) else count_list (m_OnlineJobs s) k)"
  "count_list (m_OfflineJobs (AppendOnline h s)) k =
     (if k = h \<and> count_list (m_OnlineJobs s) h = 0 then count_list (m_OfflineJobs s) h - 1
      else count_list (m_OfflineJobs s) k)"
  by (auto simp: AppendOnline_def CJobList_Remove_def CJobList_Add_def view_def [abs_def] count_list_remove1
      count_list_0_iff simp del: Jobs_view(1) dest: in_set_remove1 [THEN iffD2, rotated])

lemma AppendOnline_jobs_ok:
  assumes "jobs_ok C s" "h \<in> C" "\<not> finished (view s h)"
  shows "jobs_ok C (AppendOnline h s)"
proof -
  note d = jobs_okD [OF assms(1)]
  have c: "count_list (m_OnlineJobs s) h + count_list (m_OfflineJobs s) h = 1"
    using job_invD(10) [OF d(4) [of h]] assms(2,3) by simp
  show ?thesis
    using assms(1,2)
  proof (rule jobs_ok_update)
    have e: "job_inv cr cur dn j r n a b = job_inv cr cur dn j r n a' b'" if "a + b = a' + b'"
      for cr cur dn j r n a b a' b' using that by (simp add: job_inv_def)
    have "count_list (m_OnlineJobs (AppendOnline h s)) h + count_list (m_OfflineJobs (AppendOnline h s)) h =
        count_list (m_OnlineJobs s) h + count_list (m_OfflineJobs s) h"
      using c by auto
    from e [OF this] show "jok C (AppendOnline h s) h"
      using d(4) [of h] by simp
  qed (use d(1,2) in \<open>simp_all add: same_job_def\<close>)
qed

lemma calm_AppendOnline [simp]: "calm s (AppendOnline h s)"
  by (simp add: calm_def)

lemma ScheduleCallback_simps [simp]:
  "rest (ScheduleCompletionCallback w h s) = rest s" "view (ScheduleCompletionCallback w h s) = view s"
  "AssertionFailed (ScheduleCompletionCallback w h s) = AssertionFailed s"
  "alive s \<Longrightarrow> alive (ScheduleCompletionCallback w h s)"
  "manager_runs (ScheduleCompletionCallback w h s) = manager_runs s"
  "InScheduler i (ScheduleCompletionCallback w h s) \<longleftrightarrow>
     InScheduler i s \<or> i = CJobCallbackItem h \<and> IsCallbackEnabled BG_NOTIFY_JOB_TRANSFERRED (view s h)"
  "rest (ScheduleErrorCallback w h s) = rest s" "view (ScheduleErrorCallback w h s) = view s"
  "AssertionFailed (ScheduleErrorCallback w h s) = AssertionFailed s"
  "alive s \<Longrightarrow> alive (ScheduleErrorCallback w h s)"
  "manager_runs (ScheduleErrorCallback w h s) = manager_runs s"
  "InScheduler i (ScheduleErrorCallback w h s) \<longleftrightarrow>
     InScheduler i s \<or> i = CJobCallbackItem h \<and> IsCallbackEnabled BG_NOTIFY_JOB_ERROR (view s h)"
  by (auto simp: ScheduleCompletionCallback_def ScheduleErrorCallback_def alive_Insert)

lemmas ScheduleCompletionCallback_rests [simp] = restD [OF ScheduleCallback_simps(1)]
lemmas ScheduleErrorCallback_rests [simp] = restD [OF ScheduleCallback_simps(7)]

lemma JobTransferred_simps [simp]:
  "rest (JobTransferred h s) = rest s" "AssertionFailed (JobTransferred h s) = AssertionFailed s"
  "view (JobTransferred h s) k =
     (if k = h then (view s h)\<lparr>m_state := BG_JOB_STATE_TRANSFERRED, m_error :=
        (if m_state (view s h) \<noteq> BG_JOB_STATE_TRANSFERRED then ClearError else m_error (view s h))\<rparr>
      else view s k)"
  "alive s \<Longrightarrow> alive (JobTransferred h s)" "manager_runs (JobTransferred h s) = manager_runs s"
  "alive s \<Longrightarrow> tracked i \<Longrightarrow> i \<noteq> CJobCallbackItem h \<Longrightarrow> InScheduler i (JobTransferred h s) \<longleftrightarrow>
     InScheduler i s \<and> i \<noteq> CJobNoProgressItem h \<and>
     \<not> (i = CJobRetryItem h \<and> m_state (view s h) \<noteq> BG_JOB_STATE_TRANSFERRED)"
  by (auto simp: JobTransferred_def)

lemmas JobTransferred_rests [simp] = restD [OF JobTransferred_simps(1)]

lemma Recalc_jobs_ok:
  assumes "jobs_ok C s" "h \<in> C" "\<not> finished (view s h)"
    "left_alone f (view s h) \<or> m_CurrentFile (view s h) < length (m_files (view s h))"
  shows "jobs_ok C (RecalcTransientError f h s)"
proof (cases "left_alone f (view s h)")
  case True
  then show ?thesis using assms(1) by (simp add: RecalcTransientError_left_alone)
next
  case False
  note d = jobs_okD [OF assms(1)]
  show ?thesis
    using assms(1,2)
  proof (rule jobs_ok_update)
    have "job_inv (h \<in> C) (m_CurrentJob s = Some h) (ServiceShuttingDown s) (recalc h s) False
       (InScheduler (CJobNoProgressItem h) s \<or> blocked h s \<and> m_NoProgressTimeout (view s h) \<noteq> INFINITE)
       (count_list (m_OnlineJobs s) h) (count_list (m_OfflineJobs s) h)"
      using d(4) [of h] assms(3) by (rule job_inv_recalc) (use False assms(2,4) in auto)
    then show "jok C (RecalcTransientError f h s) h"
      by (simp add: False d(1))
  qed (use d(1,2) assms(3) in \<open>simp_all add: same_job_def\<close>)
qed

lemma calm_Recalc [simp]: "calm s (RecalcTransientError f h s)"
  by (simp add: calm_def)

lemma Resume_active_safe:
  assumes "inv C s" "h \<in> C" "\<not> finished (view s h)"
    "m_CurrentFile (view s h) < length (m_files (view s h))"
  shows "safe C s (snd (Resume_active h s))"
proof -
  let ?t = "RecalcTransientError True h s"
  have t: "jobs_ok C ?t" using assms by (simp add: inv_def Recalc_jobs_ok)
  have "\<not> finished (view ?t h)" using assms(3) by simp
  then have "jobs_ok C (if IsRunnable (Jobs ?t h) then AppendOnline h ?t else ?t)"
    using AppendOnline_jobs_ok [OF t assms(2)] t by simp
  moreover have "calm s (if IsRunnable (Jobs ?t h) then AppendOnline h ?t else ?t)"
    by (simp add: calm_def)
  ultimately show ?thesis
    unfolding Resume_active_def Let_def
    by (simp only: snd_conv) (blast intro: safe_quiet UpdateModificationTime_quiet safe_SAG)
qed

lemma JobTransferred_safe:
  assumes "inv C s" "h \<in> C" "m_state (view s h) = BG_JOB_STATE_SUSPENDED" "GetCurrentFile (view s h) = None"
  shows "safe C s (JobTransferred h s)"
proof -
  have s: "jobs_ok C s" and c: "current_ok s" using assms(1) by (simp_all add: inv_def)
  note d = jobs_okD [OF s] and i = job_invD [OF jobs_okD(4) [OF s, of h]]
  have len: "m_CurrentFile (view s h) = length (m_files (view s h))"
    using assms(4) i(7) by (auto simp: GetCurrentFile_def split: if_splits)
  have up: "m_UploadData (view s h) = None" by (rule i(1))
  have "jobs_ok C (JobTransferred h s)"
    using s assms(2)
  proof (rule jobs_ok_update)
    show "jok C (JobTransferred h s) h"
      using d(1) i assms(2,3) len by (simp add: job_inv_def IsRunning_def)
  qed (use d(1,2) in \<open>simp_all add: same_job_def\<close>)
  moreover have "m_CurrentJob s \<noteq> Some h"
    using c assms(3) up by (auto simp: current_ok_def IsRunnable_def CJob_IsRunnable_def split: if_splits)
  then have "current_ok (JobTransferred h s)"
    using c by (simp add: current_ok_def)
  ultimately show ?thesis by (simp add: safe_def inv_def calm_def)
qed

lemma Resume_safe:
  assumes "inv C s" "h \<in> C"
  shows "safe C s (snd (Resume api h s))"
proof -
  note i = job_invD [OF jobs_okD(4), of C s h]
  have s: "jobs_ok C s" using assms(1) by (simp add: inv_def)
  have up: "m_UploadData (view s h) = None" by (rule i(1) [OF s])
  have cur: "GetCurrentFile (view s h) \<noteq> None \<longleftrightarrow> m_CurrentFile (view s h) < length (m_files (view s h))"
    by (simp add: GetCurrentFile_def)
  have "safe C s (snd (CJob_Resume h s))"
    using safe_refl [OF assms(1)] JobTransferred_safe [OF assms] Resume_active_safe [OF assms] i(9) [OF s] cur
    by (auto simp: CJob_Resume_def split: BG_JOB_STATE.split)
  then show ?thesis by (simp add: Resume_def up)
qed

section \<open>Cancel and complete\<close>

lemma CancelWorkitems_simps [simp]:
  "rest (CancelWorkitems h s) = rest s" "view (CancelWorkitems h s) = view s"
  "AssertionFailed (CancelWorkitems h s) = AssertionFailed s"
  "alive s \<Longrightarrow> alive (CancelWorkitems h s)" "manager_runs (CancelWorkitems h s) = manager_runs s"
  "alive s \<Longrightarrow> tracked i \<Longrightarrow> InScheduler i (CancelWorkitems h s) \<longleftrightarrow> InScheduler i s \<and>
     i \<notin> {CJobInactivityTimeout h, CJobRetryItem h, CJobCallbackItem h, CJobNoProgressItem h}"
  by (auto simp: CancelWorkitems_def)

lemmas CancelWorkitems_rests [simp] = restD [OF CancelWorkitems_simps(1)]

lemma RemoveJob_simps [simp]:
  "view (snd (RemoveJob h s)) = view s" "m_TaskScheduler (snd (RemoveJob h s)) = m_TaskScheduler s"
  "m_CurrentJob (snd (RemoveJob h s)) = m_CurrentJob s"
  "ServiceShuttingDown (snd (RemoveJob h s)) = ServiceShuttingDown s"
  "AddressCount (snd (RemoveJob h s)) = AddressCount s"
  "AssertionFailed (snd (RemoveJob h s)) = AssertionFailed s"
  "AccessViolations (snd (RemoveJob h s)) = AccessViolations s"
  "FileSystem (snd (RemoveJob h s)) = FileSystem s"
  "m_OnlineJobs (snd (RemoveJob h s)) = remove1 h (m_OnlineJobs s)"
  "m_OfflineJobs (snd (RemoveJob h s)) =
     (if h \<in> set (m_OnlineJobs s) then m_OfflineJobs s else remove1 h (m_OfflineJobs s))"
  "fst (RemoveJob h s) \<longleftrightarrow> h \<in> set (m_OnlineJobs s) \<union> set (m_OfflineJobs s)"
  by (auto simp: RemoveJob_def CJobList_Remove_def remove1_idem split: prod.split)

lemma RemoveFromManager_quiet:
  assumes "h \<in> set (m_OnlineJobs s) \<union> set (m_OfflineJobs s)"
  shows "quiet (ScheduleAnotherGroup False (snd (RemoveJob h (CancelWorkitems h s)))) (RemoveFromManager h s)"
proof -
  have "RemoveFromManager h s = upd_job h (\<lambda>j. j\<lparr>m_refs := m_refs j - 1\<rparr>)
      (Serialize (ScheduleAnotherGroup False (snd (RemoveJob h (CancelWorkitems h s)))))"
    using assms RemoveJob_simps(11) [of h "CancelWorkitems h s"]
    by (cases "RemoveJob h (CancelWorkitems h s)") (simp add: RemoveFromManager_def)
  then show ?thesis
    by (simp add: quiet_trans [OF Serialize_quiet quiet_upd_job])
qed

lemma finish_safe:
  assumes "jobs_ok C s" "h \<in> C" "\<not> finished (view s h)"
    "st = BG_JOB_STATE_CANCELLED \<or> st = BG_JOB_STATE_ACKNOWLEDGED"
  shows "safe C s (RemoveFromManager h (SetState h st s))"
proof -
  note d = jobs_okD [OF assms(1)]
  note i = job_invD [OF d(4) [of h]]
  let ?u = "snd (RemoveJob h (CancelWorkitems h (SetState h st s)))"
  have c: "count_list (m_OnlineJobs s) h + count_list (m_OfflineJobs s) h = 1"
    using i(10) assms(2,3) by simp
  have l: "h \<in> set (m_OnlineJobs s) \<union> set (m_OfflineJobs s)"
    using c count_list_0_iff [of "m_OnlineJobs s" h] count_list_0_iff [of "m_OfflineJobs s" h] by auto
  have c0: "count_list (m_OnlineJobs ?u) h = 0 \<and> count_list (m_OfflineJobs ?u) h = 0"
    using c count_list_0_iff [of "m_OnlineJobs s" h] by (auto simp: count_list_remove1)
  have "jobs_ok C ?u"
    using assms(1,2)
  proof (rule jobs_ok_update)
    show "jok C ?u h"
      using d(1) i assms(2,4) c0 by (auto simp: job_inv_def IsRunning_def)
  qed (use d(1,2) in \<open>simp_all add: same_job_def\<close>)
  moreover have "calm s ?u"
    by (simp add: calm_def)
  ultimately have "safe C s (ScheduleAnotherGroup False ?u)"
    by (rule safe_SAG)
  then show ?thesis
    using l by (intro safe_quiet [OF _ RemoveFromManager_quiet]) simp_all
qed

lemma RemoveTemporaryFiles_mild: "mild s (snd (RemoveTemporaryFiles api n h s))"
  by (simp add: RemoveTemporaryFiles_def split: prod.split)

lemma RemoveTemporaryFiles_ok: "\<not> FAILED (fst (RemoveTemporaryFiles api n h s))"
  by (simp add: RemoveTemporaryFiles_def FAILED_def split: prod.split)

lemma safe_then_finish:
  assumes "safe C s t" "h \<in> C" "\<not> finished (view t h)"
    "st = BG_JOB_STATE_CANCELLED \<or> st = BG_JOB_STATE_ACKNOWLEDGED"
  shows "safe C s (RemoveFromManager h (SetState h st t))"
  using assms finish_safe [of C t h st] by (auto simp: safe_def inv_def intro: calm_trans)

lemma mild_finished: "mild s t \<Longrightarrow> finished (view t h) = finished (view s h)"
  by (simp add: mild_def alike_def)

lemma CJob_Cancel_safe:
  assumes "inv C s" "h \<in> C"
  shows "safe C s (snd (CJob_Cancel api h s))"
proof (cases "finished (view s h)")
  case True
  then show ?thesis using safe_refl [OF assms(1)] by (simp add: CJob_Cancel_def)
next
  case False
  let ?t = "if IsRunning (Jobs s h) then InterruptDownload s else s"
  obtain hr u where u: "RemoveTemporaryFiles api 0 h ?t = (hr, u)" by fastforce
  have mt: "mild s ?t"
    using inv_alive [OF assms(1)] by (simp add: mild_Interrupt)
  then have m: "mild s u"
    using RemoveTemporaryFiles_mild [of ?t api 0 h] mild_trans unfolding u by fastforce
  have ok: "\<not> FAILED hr"
    using RemoveTemporaryFiles_ok [of api 0 h ?t] unfolding u by simp
  have "safe C s (RemoveFromManager h (SetState h BG_JOB_STATE_CANCELLED u))"
    using safe_mild0 [OF assms(1) m] assms(2)
    by (rule safe_then_finish) (simp_all add: mild_finished [OF m] False)
  moreover have "CJob_Cancel api h s = (if FAILED (CancelCheck api h ?t) then (CancelCheck api h ?t, ?t)
      else (hr, RemoveFromManager h (SetState h BG_JOB_STATE_CANCELLED u)))"
  proof -
    have n: "\<not> finished (Jobs s h)" using False by simp
    show ?thesis
      unfolding CJob_Cancel_def Let_def if_not_P [OF n] u prod.case if_not_P [OF ok] ..
  qed
  ultimately show ?thesis using safe_mild0 [OF assms(1) mt] by simp
qed

lemma Commit_Loop_length:
  "Commit_Loop api fs Hr p fss = (a, Hr', p', fl, fss') \<Longrightarrow> length fl = length fs"
  by (induction fs arbitrary: Hr p fss a Hr' p' fl fss') (auto split: prod.splits if_splits)

text \<open>The loop moves no file that is complete, so the asserts of \<open>MoveTempFile\<close> hold.\<close>

lemma fst_MoveTempFile [simp]: "fst (MoveTempFile api f fs) = (\<not> m_Completed f)"
  by (simp add: MoveTempFile_def)

lemma Commit_Loop_asserts:
  "Commit_Loop api fs Hr p fss = (a, r) \<Longrightarrow> a"
proof (induction fs arbitrary: Hr p fss a r)
  case (Cons f fs)
  have m: "MoveTempFile api f fss = (b, x) \<Longrightarrow> \<not> m_Completed f \<Longrightarrow> b" for b x
    using fst_MoveTempFile [of api f fss] by simp
  show ?case
    using Cons.prems by (auto split: prod.splits if_splits dest: Cons.IH m)
qed simp

lemma mild_upd_job_at: "alike (core (Jobs s h)) (core (f (Jobs s h))) \<Longrightarrow> mild s (upd_job h f s)"
  by (simp add: mild_def)

lemma alike_files: "length fl = length (m_files j) \<Longrightarrow> alike (core j) (core (j\<lparr>m_files := fl\<rparr>))"
  by (simp add: alike_def core_def)

lemma CommitTemporaryFiles_mild: "mild s (snd (CommitTemporaryFiles api h s))"
proof -
  obtain a Hr p fl fs where c: "Commit_Loop api (m_files (Jobs s h)) S_OK False (FileSystem s) = (a, Hr, p, fl, fs)"
    by (metis prod.collapse)
  have a: "a" by (rule Commit_Loop_asserts [OF c])
  have l: "length fl = length (m_files (Jobs s h))"
    by (rule Commit_Loop_length [OF c])
  let ?s = "ASSERT a (s\<lparr>FileSystem := fs\<rparr>)"
  have s: "mild s ?s" using a by (simp add: mild_def)
  have "mild ?s (upd_job h (\<lambda>j. j\<lparr>m_files := fl\<rparr>) ?s)"
    by (rule mild_upd_job_at, rule alike_files) (simp add: l)
  then have m: "mild s (upd_job h (\<lambda>j. j\<lparr>m_files := fl\<rparr>) ?s)" (is "mild s ?t")
    by (rule mild_trans [OF s])
  obtain hr u where u: "RemoveTemporaryFiles api 0 h ?t = (hr, u)" by fastforce
  have "mild s (snd (RemoveTemporaryFiles api 0 h ?t))"
    by (rule mild_trans [OF m RemoveTemporaryFiles_mild])
  then have "mild s u" unfolding u by simp
  moreover have "CommitTemporaryFiles api h s =
     (let Hr' = ImpersonateOwner api (m_NotifySid (Jobs s h)) s
      in if FAILED Hr' then (Hr', UpdateModificationTime True h s)
         else if SUCCEEDED Hr then (if p then BG_S_PARTIAL_COMPLETE else hr, u)
         else (Hr, UpdateModificationTime True h ?t))"
    unfolding CommitTemporaryFiles_def c Let_def prod.case u ..
  ultimately show ?thesis
    using mild_UpdateModificationTime [OF m, of True h] mild_UpdateModificationTime [OF mild_refl, of s True h]
    by (simp add: Let_def split: if_split)
qed

lemma SuspendJob_state:
  "\<not> finished (view s h) \<Longrightarrow> m_state (view (snd (SuspendJob h s)) h) = BG_JOB_STATE_SUSPENDED"
  by (auto simp: SuspendJob_def Let_def InterruptDownload_def stopped_def split: BG_JOB_STATE.split)

lemma CJob_Complete_safe:
  assumes "inv C s" "h \<in> C"
  shows "safe C s (snd (CJob_Complete api h s))"
proof (cases "finished (view s h)")
  case True
  then show ?thesis using safe_refl [OF assms(1)] by (simp add: CJob_Complete_def)
next
  case False
  let ?t = "if m_state (Jobs s h) \<in> {BG_JOB_STATE_CONNECTING, BG_JOB_STATE_TRANSFERRING,
                       BG_JOB_STATE_QUEUED, BG_JOB_STATE_TRANSIENT_ERROR}
                  then snd (SuspendJob h s) else s"
  have t: "safe C s ?t" using SuspendJob_safe [OF assms] safe_refl [OF assms(1)] by simp
  have f: "\<not> finished (view ?t h)"
  proof (cases "m_state (Jobs s h) \<in> {BG_JOB_STATE_CONNECTING, BG_JOB_STATE_TRANSFERRING,
                       BG_JOB_STATE_QUEUED, BG_JOB_STATE_TRANSIENT_ERROR}")
    case True
    then show ?thesis unfolding if_P [OF True] SuspendJob_state [OF False] by simp
  qed (use False in simp)
  obtain hr u where u: "(if \<not> m_OldExternalJobInterface (Jobs ?t h) then CommitTemporaryFiles api h ?t
                  else (S_OK, ?t)) = (hr, u)" by fastforce
  have m: "mild ?t u"
    using u CommitTemporaryFiles_mild [of ?t api h] by (auto split: if_splits)
  have "safe C s (RemoveFromManager h (SetState h BG_JOB_STATE_ACKNOWLEDGED u))"
  proof (rule safe_then_finish [OF safe_mild [OF t m] assms(2)])
    show "\<not> finished (view u h)" using mild_finished [OF m, of h] f by blast
  qed simp
  moreover have "CJob_Complete api h s = (if FAILED hr then (hr, u)
      else (hr, RemoveFromManager h (SetState h BG_JOB_STATE_ACKNOWLEDGED u)))"
    unfolding CJob_Complete_def Let_def u using False by simp
  ultimately show ?thesis using safe_mild [OF t m] by simp
qed

end
