(* ===== verification/BitsFiles.thy ===== *)
theory BitsFiles
  imports BitsOps
begin

text \<open>
  Adding files to a download job, taking ownership of it and the remaining methods of the
  external interface keep the invariant of the service.
\<close>

section \<open>What the file system throws\<close>

text \<open>
  The wrappers around system calls throw the error of a call that failed, so what they throw
  is a failure.
\<close>

definition throws_failures :: "('fs, 'z) FileApi_scheme \<Rightarrow> bool" where
  "throws_failures api \<longleftrightarrow>
     (\<forall>name hr. CrackFileName api name = Inl hr \<longrightarrow> FAILED hr) \<and>
     (\<forall>dir fs hr. VolumeOf api dir fs = Inl hr \<longrightarrow> FAILED hr) \<and>
     (\<forall>dir fs hr fs'. CreateTempFile api dir fs = (Inl hr, fs') \<longrightarrow> FAILED hr) \<and>
     (\<forall>name fs hr. OpenFileForUpload api name fs = Inl hr \<longrightarrow> FAILED hr)"

lemma throws_failuresD:
  assumes "throws_failures api"
  shows "CrackFileName api name = Inl hr \<Longrightarrow> FAILED hr" "VolumeOf api dir fs = Inl hr \<Longrightarrow> FAILED hr"
    "CreateTempFile api dir fs = (Inl hr, fs') \<Longrightarrow> FAILED hr"
    "OpenFileForUpload api name fs = Inl hr \<Longrightarrow> FAILED hr"
  using assms unfolding throws_failures_def by blast+

lemma CFile_create_throws:
  assumes "throws_failures api" "CFile_create api type remote local fs = (Inl hr, fs')"
  shows "FAILED hr"
  using assms(2) throws_failuresD [OF assms(1)]
  by (auto simp: CFile_create_def VerifyLocalName_def Let_def FAILED_def split: if_splits sum.splits prod.splits)

section \<open>Jobs that grow\<close>

text \<open>\<open>grown h fl s t\<close>: from \<open>s\<close> to \<open>t\<close> the job \<open>h\<close> has got the files \<open>fl\<close>, and nothing else changed.\<close>

definition grown :: "nat \<Rightarrow> CFile list \<Rightarrow> 'fs CJobManager \<Rightarrow> 'fs CJobManager \<Rightarrow> bool" where
  "grown h fl s t \<longleftrightarrow>
     (\<forall>k. k \<noteq> h \<longrightarrow> view t k = view s k) \<and>
     (\<exists>v. view t h = (view s h)\<lparr>m_files := m_files (view s h) @ fl, m_FilesVerified := v\<rparr>) \<and>
     m_TaskScheduler t = m_TaskScheduler s \<and> m_OnlineJobs t = m_OnlineJobs s \<and>
     m_OfflineJobs t = m_OfflineJobs s \<and> m_CurrentJob t = m_CurrentJob s \<and>
     ServiceShuttingDown t = ServiceShuttingDown s \<and> AccessViolations t = AccessViolations s \<and>
     AssertionFailed t = AssertionFailed s"

lemma grown_trans: "grown h fl s t \<Longrightarrow> grown h fl' t u \<Longrightarrow> grown h (fl @ fl') s u"
  unfolding grown_def by (elim conjE exE) (simp, metis)

lemma grown_FileSystem: "grown h [] s (s\<lparr>FileSystem := fs\<rparr>)"
  by (auto simp: grown_def intro: exI [where x = "m_FilesVerified (view s h)"])

lemma grown_refl: "grown h [] s s"
  by (auto simp: grown_def intro: exI [where x = "m_FilesVerified (view s h)"])

lemma grown_files: "grown h fl s t \<Longrightarrow> m_files (view t h) = m_files (view s h) @ fl"
  by (auto simp: grown_def)

lemma grown_type: "grown h fl s t \<Longrightarrow> m_type (view t h) = m_type (view s h)"
  by (auto simp: grown_def)

lemma AddFile_try_grown:
  assumes "throws_failures api" "m_type (view s h) = BG_JOB_TYPE_DOWNLOAD"
    "AddFile_try api h r l b s = (hr, t)"
  shows "\<exists>fl. grown h fl s t \<and> (FAILED hr \<longrightarrow> fl = []) \<and>
    (SUCCEEDED hr \<longrightarrow> length fl = 1 \<and> \<not> finished (view s h))"
proof (cases "r = None \<or> l = None")
  case True
  then have "AddFile_try api h r l b s = (E_INVALIDARG, s)"
    by (cases r; cases l) (simp_all add: AddFile_try_def)
  then show ?thesis using assms(3) grown_refl [of h s] by (auto simp: FAILED_def)
next
  case False
  then obtain remote local where rl: "r = Some remote" "l = Some local" by auto
  obtain res fs where c: "CFile_create api (m_type (Jobs s h)) remote local (FileSystem s) = (res, fs)" by fastforce
  let ?imp = "fst (SwitchToLogonToken api s)"
  consider (bad) "finished (view s h)" | (meta) "\<not> finished (view s h)" "b \<and> MetadataError s \<noteq> 0"
    | (imp) "\<not> finished (view s h)" "\<not> (b \<and> MetadataError s \<noteq> 0)" "FAILED ?imp"
    | (thrown) hr' where "\<not> finished (view s h)" "\<not> (b \<and> MetadataError s \<noteq> 0)" "\<not> FAILED ?imp" "res = Inl hr'"
    | (created) nf where "\<not> finished (view s h)" "\<not> (b \<and> MetadataError s \<noteq> 0)" "\<not> FAILED ?imp" "res = Inr nf"
    by (cases res) blast+
  then show ?thesis
  proof cases
    case bad
    then have "AddFile_try api h r l b s = (BG_E_INVALID_STATE, s)"
      by (simp add: AddFile_try_def rl)
    then show ?thesis using assms(3) grown_refl [of h s] by (auto simp: FAILED_def)
  next
    case meta
    then have "AddFile_try api h r l b s = (HRESULT_FROM_WIN32 (MetadataError s), s)"
      by (simp add: AddFile_try_def rl)
    then show ?thesis using assms(3) grown_refl [of h s] FAILED_HRESULT_FROM_WIN32 meta by auto
  next
    case imp
    then have "AddFile_try api h r l b s = (?imp, s)"
      by (auto simp: AddFile_try_def rl)
    then show ?thesis using assms(3) grown_refl [of h s] imp by auto
  next
    case thrown
    then have "FAILED hr'" using CFile_create_throws [OF assms(1)] c by blast
    moreover have "AddFile_try api h r l b s = (hr', s\<lparr>FileSystem := fs\<rparr>)"
      using thrown c unfolding AddFile_try_def rl by auto
    ultimately show ?thesis using assms(3) grown_FileSystem [of h s fs] by auto
  next
    case created
    let ?u = "upd_job h (\<lambda>j. j\<lparr>m_files := m_files j @ [nf]\<rparr>) (s\<lparr>FileSystem := fs\<rparr>)"
    have "AddFile_try api h r l b s = (S_OK, upd_job h (\<lambda>j. j\<lparr>m_FilesVerified := False\<rparr>) ?u)"
      using created c assms(2) unfolding AddFile_try_def rl Let_def by auto
    moreover have "grown h [nf] s (upd_job h (\<lambda>j. j\<lparr>m_FilesVerified := False\<rparr>) ?u)"
      by (auto simp: grown_def)
    ultimately show ?thesis using assms(3) created by (auto simp: FAILED_def)
  qed
qed

lemma AddFile_eq:
  assumes "m_type (view s h) = BG_JOB_TYPE_DOWNLOAD" "AddFile_try api h r l b s = (hr, t)"
    "m_type (view t h) = BG_JOB_TYPE_DOWNLOAD"
  shows "AddFile api h r l b s = (hr, if SUCCEEDED hr \<and> b then HandleAddFile h t else t)"
  using assms by (simp add: AddFile_def)

lemma AddFileSet_Loop_grown:
  assumes "throws_failures api"
  shows "AddFileSet_Loop api h ps s = (hr, t) \<Longrightarrow> m_type (view s h) = BG_JOB_TYPE_DOWNLOAD \<Longrightarrow>
    \<exists>fl. grown h fl s t \<and> (SUCCEEDED hr \<longrightarrow> length fl = length ps)"
proof (induction ps arbitrary: s)
  case Nil
  then show ?case using grown_refl by auto
next
  case (Cons p ps)
  obtain hr1 u where u: "AddFile_try api h (fst p) (snd p) False s = (hr1, u)" by fastforce
  obtain fl where fl: "grown h fl s u" "SUCCEEDED hr1 \<longrightarrow> length fl = 1"
    using AddFile_try_grown [OF assms Cons.prems(2) u] by blast
  have a: "AddFile api h (fst p) (snd p) False s = (hr1, u)"
    using AddFile_eq [OF Cons.prems(2) u] grown_type [OF fl(1)] Cons.prems(2) by simp
  show ?case
  proof (cases "FAILED hr1")
    case True
    then show ?thesis using Cons.prems(1) fl(1) by (auto simp: a)
  next
    case False
    then have "AddFileSet_Loop api h ps u = (hr, t)" using Cons.prems(1) by (simp add: a)
    from Cons.IH [OF this] obtain fl' where "grown h fl' u t" "SUCCEEDED hr \<longrightarrow> length fl' = length ps"
      using grown_type [OF fl(1)] Cons.prems(2) by auto
    then show ?thesis using grown_trans [OF fl(1)] fl(2) False by (intro exI [of _ "fl @ fl'"]) auto
  qed
qed

lemma grown_Nil_mild:
  assumes "grown h [] s t"
  shows "mild s t"
proof -
  have "alike (view s k) (view t k)" for k
    using assms by (cases "k = h") (auto simp: grown_def alike_def)
  then show ?thesis
    using assms by (simp add: mild_def grown_def)
qed

section \<open>Adding files keeps the invariant\<close>

lemma job_inv_files:
  assumes "job_inv cr cur dn j r n a b" "m_state j \<noteq> BG_JOB_STATE_TRANSFERRED"
  shows "job_inv cr cur dn (j\<lparr>m_files := m_files j @ fl, m_FilesVerified := v\<rparr>) r n a b"
proof -
  have l: "m_CurrentFile j \<le> length (m_files j) + length fl"
    "m_CurrentFile j < length (m_files j) \<Longrightarrow> m_CurrentFile j < length (m_files j) + length fl"
    using job_invD(7) [OF assms(1)] by simp_all
  show ?thesis
    using assms l(1) unfolding job_inv_def by (simp add: IsRunning_def) (use l(2) in blast)
qed

lemma HandleAddFile_safe:
  assumes "inv C s" "h \<in> C" "\<not> finished (view s h)" "grown h fl s t"
    "fl \<noteq> [] \<or> m_state (view s h) \<noteq> BG_JOB_STATE_TRANSFERRED"
  shows "safe C s (HandleAddFile h t)"
proof -
  have s: "jobs_ok C s" using assms(1) by (simp add: inv_def)
  note d = jobs_okD [OF s] and i = job_invD [OF jobs_okD(4) [OF s, of h]]
  define u where "u = (if m_state (Jobs t h) = BG_JOB_STATE_TRANSFERRED
      then Cancel_item (CJobNoProgressItem h) (Cancel_item (CJobCallbackItem h) (Cancel_item (CJobRetryItem h)
             (upd_job h (\<lambda>j. j\<lparr>m_TransferCompletionTime := 0\<rparr>) (SetState h BG_JOB_STATE_QUEUED t)))) else t)"
  obtain v where vt: "view t h = (view s h)\<lparr>m_files := m_files (view s h) @ fl, m_FilesVerified := v\<rparr>"
    using assms(4) by (auto simp: grown_def)
  have g: "view t k = view s k" if "k \<noteq> h" for k using assms(4) that by (auto simp: grown_def)
  have o: "m_TaskScheduler t = m_TaskScheduler s" "m_OnlineJobs t = m_OnlineJobs s"
    "m_OfflineJobs t = m_OfflineJobs s" "m_CurrentJob t = m_CurrentJob s"
    "ServiceShuttingDown t = ServiceShuttingDown s" "AccessViolations t = AccessViolations s"
    "AssertionFailed t = AssertionFailed s"
    using assms(4) by (auto simp: grown_def)
  have c: "calm s u" using o by (auto simp: u_def calm_def)
  have ok: "jobs_ok C u"
    using s assms(2)
  proof (rule jobs_ok_update)
    show "same_job s u k" if "k \<noteq> h" for k
      using d(1) o that g [OF that] by (auto simp: u_def same_job_def)
    show "jok C u h"
    proof (cases "m_state (view s h) = BG_JOB_STATE_TRANSFERRED")
      case True
      then show ?thesis
        using d(1) o vt i assms(2,3,5) by (simp add: u_def job_inv_def IsRunning_def)
    next
      case False
      then have "u = t" by (simp add: u_def vt)
      then show ?thesis
        using job_inv_files [OF d(4) [of h] False, where fl = fl and v = v] by (simp add: o vt)
    qed
  qed (use d(1,2) o in \<open>simp_all add: u_def\<close>)
  have q: "quiet u (UpdateModificationTime True h u)" by (rule UpdateModificationTime_quiet)
  let ?w = "UpdateModificationTime True h u"
  have w: "jobs_ok C ?w" "calm s ?w"
    using jobs_ok_quiet [OF ok q] calm_trans [OF c calm_quiet [OF q]] by simp_all
  have m: "mild ?w (if IsRunning (Jobs ?w h) then InterruptDownload ?w else ?w)"
    using mild_Interrupt [of ?w] jobs_okD(1) [OF w(1)] by simp
  have "HandleAddFile h t = RetaskJob h ?w"
    unfolding HandleAddFile_def Let_def u_def ..
  then show ?thesis
    unfolding RetaskJob_def
    using safe_SAG [OF jobs_ok_mild [OF w(1) m] calm_trans [OF w(2) calm_mild [OF m]]] by simp
qed

lemma AddFile_safe:
  assumes "throws_failures api" "inv C s" "h \<in> C"
  shows "safe C s (snd (AddFile api h r l True s))"
proof -
  have ty: "m_type (view s h) = BG_JOB_TYPE_DOWNLOAD"
    using job_invD(2) [OF jobs_okD(4), of C s h] assms(2) by (simp add: inv_def)
  obtain hr t where t: "AddFile_try api h r l True s = (hr, t)" by fastforce
  obtain fl where fl: "grown h fl s t" "FAILED hr \<longrightarrow> fl = []" "SUCCEEDED hr \<longrightarrow> length fl = 1 \<and> \<not> finished (view s h)"
    using AddFile_try_grown [OF assms(1) ty t] by blast
  note a = AddFile_eq [OF ty t, simplified grown_type [OF fl(1)] ty, OF refl]
  show ?thesis
  proof (cases "FAILED hr")
    case True
    then have "grown h [] s t" using fl by simp
    then have "mild s t" by (rule grown_Nil_mild)
    then show ?thesis using True safe_mild0 [OF assms(2)] by (simp add: a)
  next
    case False
    have "fl \<noteq> []" "\<not> finished (view s h)" using fl False by auto
    then show ?thesis
      using HandleAddFile_safe [OF assms(2,3) _ fl(1)] False by (simp add: a)
  qed
qed

lemma AddFileSet_safe:
  assumes "throws_failures api" "inv C s" "h \<in> C" "\<not> finished (view s h)"
    "ps \<noteq> [] \<or> m_state (view s h) \<noteq> BG_JOB_STATE_TRANSFERRED"
  shows "safe C s (snd (AddFileSet api h ps s))"
proof -
  have ty: "m_type (view s h) = BG_JOB_TYPE_DOWNLOAD"
    using job_invD(2) [OF jobs_okD(4), of C s h] assms(2) by (simp add: inv_def)
  define res where "res = (if MetadataError s \<noteq> 0 then (HRESULT_FROM_WIN32 (MetadataError s), s)
      else AddFileSet_Loop api h ps s)"
  obtain hr t where t: "res = (hr, t)" by fastforce
  obtain fl where fl: "grown h fl s t" "SUCCEEDED hr \<longrightarrow> length fl = length ps"
  proof (cases "MetadataError s = 0")
    case True
    then show ?thesis using that AddFileSet_Loop_grown [OF assms(1), of h ps s hr t] t ty by (auto simp: res_def)
  next
    case False
    then show ?thesis using that [of "[]"] grown_refl [of h s] t by (auto simp: res_def)
  qed
  have tyt: "m_type (view t h) = BG_JOB_TYPE_DOWNLOAD" using grown_type [OF fl(1)] ty by simp
  show ?thesis
  proof (cases "FAILED hr")
    case True
    let ?n = "length (m_files (Jobs s h))"
    define u where "u = snd (RemoveTemporaryFiles api ?n h t)"
    have "u = t\<lparr>FileSystem := FileSystem u\<rparr>"
      by (simp add: u_def RemoveTemporaryFiles_def split: prod.split)
    then have g: "grown h (fl @ []) s u"
      using grown_trans [OF fl(1) grown_FileSystem] by metis
    have "alike (view s k) (view (upd_job h (\<lambda>j. j\<lparr>m_files := take ?n (m_files j)\<rparr>) u) k)" for k
      using g by (cases "k = h") (auto simp: grown_def alike_def)
    then have "mild s (upd_job h (\<lambda>j. j\<lparr>m_files := take ?n (m_files j)\<rparr>) u)"
      using g by (simp add: mild_def grown_def)
    moreover have "AddFileSet api h ps s = (hr, upd_job h (\<lambda>j. j\<lparr>m_files := take ?n (m_files j)\<rparr>) u)"
      using True tyt unfolding AddFileSet_def Let_def res_def [symmetric] t by (simp add: u_def)
    ultimately show ?thesis using safe_mild0 [OF assms(2)] by simp
  next
    case False
    then have "fl \<noteq> [] \<or> m_state (view s h) \<noteq> BG_JOB_STATE_TRANSFERRED" using fl(2) assms(5) by auto
    then have "safe C s (HandleAddFile h t)" by (rule HandleAddFile_safe [OF assms(2,3,4) fl(1)])
    moreover have "AddFileSet api h ps s = (S_OK, HandleAddFile h t)"
      using False unfolding AddFileSet_def Let_def res_def [symmetric] t by simp
    ultimately show ?thesis by simp
  qed
qed

section \<open>Ownership\<close>

lemma ResetOnlineStatus_simps [simp]:
  "view (ResetOnlineStatus h sid s) = view s" "m_TaskScheduler (ResetOnlineStatus h sid s) = m_TaskScheduler s"
  "m_CurrentJob (ResetOnlineStatus h sid s) = m_CurrentJob s"
  "ServiceShuttingDown (ResetOnlineStatus h sid s) = ServiceShuttingDown s"
  "AssertionFailed (ResetOnlineStatus h sid s) = AssertionFailed s"
  "AccessViolations (ResetOnlineStatus h sid s) = AccessViolations s"
  "count_list (m_OnlineJobs (ResetOnlineStatus h sid s)) k + count_list (m_OfflineJobs (ResetOnlineStatus h sid s)) k =
     count_list (m_OnlineJobs s) k + count_list (m_OfflineJobs s) k"
  using count_list_0_iff [of "m_OfflineJobs s" h]
  by (auto simp: ResetOnlineStatus_def count_list_remove1)

lemma job_inv_lists: "a + b = a' + b' \<Longrightarrow> job_inv cr cur dn j r n a b = job_inv cr cur dn j r n a' b'"
  by (simp add: job_inv_def)

text \<open>Moving jobs between the lists keeps the invariant of each job.\<close>

lemma jobs_ok_moved:
  assumes "jobs_ok C s" "view t = view s" "m_TaskScheduler t = m_TaskScheduler s" "m_CurrentJob t = m_CurrentJob s"
    "ServiceShuttingDown t = ServiceShuttingDown s" "AssertionFailed t \<longrightarrow> AssertionFailed s \<or> ServiceShuttingDown s"
    "AccessViolations t = AccessViolations s"
    "\<And>k. count_list (m_OnlineJobs t) k + count_list (m_OfflineJobs t) k =
       count_list (m_OnlineJobs s) k + count_list (m_OfflineJobs s) k"
  shows "jobs_ok C t"
proof -
  have "AssertionFailed t \<longrightarrow> ServiceShuttingDown t"
    using assms(5,6) jobs_okD(2) [OF assms(1)] by auto
  then show ?thesis
    using jobs_okD [OF assms(1)] assms(2-5,7) job_inv_lists [OF assms(8)] by (simp add: jobs_ok_def)
qed

lemma TakeOwnership_safe:
  assumes "inv C s"
  shows "safe C s (snd (TakeOwnership sid access h s))"
proof (cases "sid = m_NotifySid (Jobs s h)")
  case True
  then show ?thesis using safe_refl [OF assms] by (simp add: TakeOwnership_def)
next
  case False
  let ?t = "if IsRunning (Jobs s h) then InterruptDownload s else s"
  let ?u = "upd_job h (\<lambda>j. j\<lparr>m_NotifySid := sid, m_NotifyProgram := [], m_NotifyParameters := []\<rparr>) ?t"
  let ?v = "ResetOnlineStatus h sid ?u"
  let ?w = "UpdateModificationTime True h ?v"
  have s: "jobs_ok C s" using assms by (simp add: inv_def)
  have t: "mild s ?t" using mild_Interrupt [of s] inv_alive [OF assms] by simp
  have "mild ?t ?u" by (rule mild_upd_job) simp
  with t have u: "mild s ?u" by (rule mild_trans)
  have v: "jobs_ok C ?v" by (rule jobs_ok_moved [OF jobs_ok_mild [OF s u]]) simp_all
  have "calm ?u ?v" by (simp add: calm_def)
  then have c: "calm s ?v" using calm_mild [OF u] by (blast intro: calm_trans)
  have "safe C s (ScheduleAnotherGroup False ?w)"
    using v c by (blast intro: safe_SAG jobs_ok_quiet calm_trans calm_quiet UpdateModificationTime_quiet)
  moreover have "safe C s (ScheduleAnotherGroup False ?t)"
    by (rule safe_mild_SAG [OF s t])
  moreover have "TakeOwnership sid access h s =
     (let Hr = validate_files access (m_files (Jobs ?t h)) in
        if FAILED Hr then (Hr, ScheduleAnotherGroup False ?t)
        else if MetadataError ?t \<noteq> 0 then (HRESULT_FROM_WIN32 (MetadataError ?t), ScheduleAnotherGroup False ?t)
        else (Hr, ScheduleAnotherGroup False ?w))"
    using False unfolding TakeOwnership_def Let_def by (simp only: if_False)
  ultimately show ?thesis by (auto simp only: Let_def snd_conv split: if_split)
qed

section \<open>The external interface\<close>

lemma callback_safe:
  assumes "safe C s t" "h \<in> C"
  shows "safe C s (ScheduleCompletionCallback w h t)" "safe C s (ScheduleErrorCallback w h t)"
proof -
  have t: "jobs_ok C t" "current_ok t" "calm s t" using assms(1) by (auto simp: safe_def inv_def)
  have a: "alive t" by (rule jobs_okD(1) [OF t(1)])
  have "jobs_ok C (ScheduleCompletionCallback w h t)" "jobs_ok C (ScheduleErrorCallback w h t)"
    using a
    by (auto simp: same_job_def intro!: jobs_ok_update [OF t(1) assms(2)] jobs_okD(4) [OF t(1)])
  moreover have "current_ok (ScheduleCompletionCallback w h t)" "current_ok (ScheduleErrorCallback w h t)"
    using t(2) by (simp_all add: current_ok_def)
  moreover have "calm t (ScheduleCompletionCallback w h t)" "calm t (ScheduleErrorCallback w h t)"
    by (simp_all add: calm_def)
  ultimately show "safe C s (ScheduleCompletionCallback w h t)" "safe C s (ScheduleErrorCallback w h t)"
    using calm_trans [OF t(3)] by (simp_all add: safe_def inv_def)
qed

lemma SetNotifyInterfaceInternal_safe:
  "inv C s \<Longrightarrow> h \<in> C \<Longrightarrow> safe C s (snd (SetNotifyInterfaceInternal access h v valid s))"
  unfolding SetNotifyInterfaceInternal_def
proof (erule write_access_safe)
  fix u :: "'a CJobManager"
  assume u: "inv C u" and h: "h \<in> C"
  obtain hr t where t: "SetNotifyInterface v h u = (hr, t)" by fastforce
  have m: "mild u t" using SetNotifyInterface_mild [of u v h] by (simp add: t)
  have st: "safe C u t" by (rule safe_mild0 [OF u m])
  show "safe C u (snd (let fValidNotifyInterface = m_NotifyPointer (Jobs u h) \<noteq> None \<and> valid
        in case SetNotifyInterface v h u of (Hr, s) \<Rightarrow>
             (Hr, if SUCCEEDED Hr \<and> v \<noteq> None \<and> \<not> fValidNotifyInterface then
                    if m_state (Jobs s h) = BG_JOB_STATE_TRANSFERRED then ScheduleCompletionCallback 0 h s
                    else if m_state (Jobs s h) = BG_JOB_STATE_ERROR then ScheduleErrorCallback 0 h s else s
                  else s)))"
    using st callback_safe [OF st h, of 0] by (simp add: t Let_def)
qed

end
