(* ===== verification/BitsHandlers.thy ===== *)
theory BitsHandlers
  imports BitsFiles
begin

text \<open>
  The handlers of the work items keep the invariant of the service: the timers of a job and
  its callbacks. A handler runs on a thread whose current work item is the one it handles.
\<close>

section \<open>Steps before \<open>ScheduleAnotherGroup\<close>\<close>

text \<open>
  Between two calls of \<open>ScheduleAnotherGroup\<close> the current job may no longer be able to run;
  everything else of the invariant is kept.
\<close>

definition keeps :: "nat set \<Rightarrow> 'fs CJobManager \<Rightarrow> 'fs CJobManager \<Rightarrow> bool" where
  "keeps C s t \<longleftrightarrow> jobs_ok C t \<and> calm s t"

lemma keeps_refl: "jobs_ok C s \<Longrightarrow> keeps C s s"
  by (simp add: keeps_def)

lemma keeps_ok: "keeps C s t \<Longrightarrow> jobs_ok C t"
  by (simp add: keeps_def)

lemma keeps_trans: "keeps C s t \<Longrightarrow> keeps C t u \<Longrightarrow> keeps C s u"
  by (auto simp: keeps_def intro: calm_trans)

lemma keeps_quiet: "keeps C s t \<Longrightarrow> quiet t u \<Longrightarrow> keeps C s u"
  by (auto simp: keeps_def intro: jobs_ok_quiet calm_quiet calm_trans)

lemma keeps_mild: "keeps C s t \<Longrightarrow> mild t u \<Longrightarrow> keeps C s u"
  by (auto simp: keeps_def intro: jobs_ok_mild calm_mild calm_trans)

lemma keeps_SAG: "keeps C s t \<Longrightarrow> safe C s (ScheduleAnotherGroup b t)"
  by (simp add: keeps_def safe_SAG)

lemma safe_keeps: "safe C s t \<Longrightarrow> keeps C s t"
  by (simp add: keeps_def safe_def inv_def)

lemma inv_keeps: "inv C s \<Longrightarrow> keeps C s s"
  by (simp add: keeps_refl inv_def)

section \<open>Dropping work items\<close>

definition fewer :: "'fs CJobManager \<Rightarrow> 'fs CJobManager \<Rightarrow> bool" where
  "fewer s t \<longleftrightarrow> view t = view s \<and> rest t = rest s \<and> AssertionFailed t = AssertionFailed s \<and>
     (alive s \<longrightarrow> alive t \<and> (\<forall>k. tracked k \<longrightarrow> InScheduler k t \<longrightarrow> InScheduler k s)) \<and>
     (manager_runs t \<longrightarrow> manager_runs s)"

lemma job_inv_fewer:
  "job_inv cr cur dn j r n a b \<Longrightarrow> (r' \<longrightarrow> r) \<Longrightarrow> (n' \<longrightarrow> n) \<Longrightarrow> job_inv cr cur dn j r' n' a b"
  unfolding job_inv_def by blast

lemma jobs_ok_fewer:
  assumes "jobs_ok C s" "fewer s t"
  shows "jobs_ok C t"
proof -
  have f: "view t = view s" "AssertionFailed t = AssertionFailed s" "alive t"
    "\<And>k. tracked k \<Longrightarrow> InScheduler k t \<Longrightarrow> InScheduler k s"
    using assms(2) jobs_okD(1) [OF assms(1)] by (auto simp: fewer_def)
  have r: "rest t = rest s" using assms(2) by (simp add: fewer_def)
  have "jok C t k \<and> (k \<notin> C \<longrightarrow> idle t k)" for k
  proof -
    have "job_inv (k \<in> C) (m_CurrentJob s = Some k) (ServiceShuttingDown s) (view s k)
        (InScheduler (CJobRetryItem k) t) (InScheduler (CJobNoProgressItem k) t)
        (count_list (m_OnlineJobs s) k) (count_list (m_OfflineJobs s) k)"
      by (rule job_inv_fewer [OF jobs_okD(4) [OF assms(1)]]) (simp_all add: f(4))
    then show ?thesis
      using f(4) [of "CJobInactivityTimeout k"] f(4) [of "CJobRetryItem k"] f(4) [of "CJobCallbackItem k"]
        f(4) [of "CJobNoProgressItem k"] jobs_okD(5) [OF assms(1), of k]
      by (auto simp: f(1) restD [OF r])
  qed
  then show ?thesis
    using jobs_okD [OF assms(1)] f restD [OF r] by (simp add: jobs_ok_def)
qed

lemma calm_fewer: "fewer s t \<Longrightarrow> calm s t"
  using restD [of t s] by (simp add: fewer_def calm_def)

lemma current_ok_fewer: "fewer s t \<Longrightarrow> current_ok t = current_ok s"
  using restD [of t s] by (simp add: fewer_def current_ok_def)

lemma keeps_fewer: "keeps C s t \<Longrightarrow> fewer t u \<Longrightarrow> keeps C s u"
  by (auto simp: keeps_def intro: jobs_ok_fewer calm_fewer calm_trans)

lemma safe_fewer: "safe C s t \<Longrightarrow> fewer t u \<Longrightarrow> safe C s u"
  using current_ok_fewer [of t u]
  by (auto simp: safe_def inv_def intro: jobs_ok_fewer calm_fewer calm_trans)

lemma runs_Complete: "manager_runs (Complete_item s) \<Longrightarrow> manager_runs s"
  "manager_runs (Acknowledge_item s) \<Longrightarrow> manager_runs s"
  by (auto simp: item_defs CompleteWorkItem_def upd_sched_def split: option.splits if_splits)

lemma held_Acknowledge [simp]:
  "InScheduler k (Acknowledge_item s) \<longleftrightarrow> InScheduler k s \<and> m_WorkItemTLS (m_TaskScheduler s) \<noteq> Some k"
  by (simp add: item_defs in_sched_Complete)

lemma fewer_Complete: "fewer s (Complete_item s)"
  using runs_Complete(1) [of s] by (simp add: fewer_def)

lemma fewer_Acknowledge: "PollAbort (m_TaskScheduler s) \<Longrightarrow> fewer s (Acknowledge_item s)"
  using runs_Complete(2) [of s] by (simp add: fewer_def)

text \<open>
  A handler gives up only when its item's cancel event is set, and otherwise runs on the
  thread of the item it handles.
\<close>

abbreviation handles :: "bool \<Rightarrow> WorkItem \<Rightarrow> 'fs CJobManager \<Rightarrow> bool" where
  "handles cancelled i s \<equiv> m_WorkItemTLS (m_TaskScheduler s) = Some i \<and>
     (cancelled \<longrightarrow> PollAbort (m_TaskScheduler s))"

lemma runs_Cancel: "alive s \<Longrightarrow> manager_runs (Cancel_item i s) \<Longrightarrow> manager_runs s"
  by (cases "i = CJobManagerItem") simp_all

section \<open>A fatal error\<close>

lemma FileFatalError_tail_simps [simp]:
  shows "rest (FileFatalError_tail h e i s) = rest s"
    "AssertionFailed (FileFatalError_tail h e i s) = AssertionFailed s"
    "view (FileFatalError_tail h e i s) k = (if k = h then (view s h)\<lparr>m_state := BG_JOB_STATE_ERROR,
       m_error := (case e of None \<Rightarrow> m_error (view s h) | Some e \<Rightarrow> CJobError_Set h i e)\<rparr> else view s k)"
    "alive s \<Longrightarrow> alive (FileFatalError_tail h e i s)"
    "manager_runs (FileFatalError_tail h e i s) = manager_runs s"
    "alive s \<Longrightarrow> tracked it \<Longrightarrow> it \<noteq> CJobCallbackItem h \<Longrightarrow>
       InScheduler it (FileFatalError_tail h e i s) \<longleftrightarrow> InScheduler it s \<and> it \<noteq> CJobNoProgressItem h \<and>
         \<not> (it = CJobRetryItem h \<and> m_state (view s h) \<noteq> BG_JOB_STATE_ERROR)"
proof -
  define s1 where "s1 = (if m_state (Jobs s h) = BG_JOB_STATE_TRANSFERRING
               then upd_job h (\<lambda>j. j\<lparr>m_retries := m_retries j + 1\<rparr>) s else s)"
  define s2 where "s2 = SetState h BG_JOB_STATE_ERROR
      (Cancel_item (CJobCallbackItem h) (Cancel_item (CJobNoProgressItem h) s1))"
  define s3 where "s3 = (case e of None \<Rightarrow> s2 | Some e \<Rightarrow> RecordError h e i s2)"
  have t: "FileFatalError_tail h e i s = Serialize (ScheduleErrorCallback 0 h s3)"
    unfolding FileFatalError_tail_def Let_def s1_def s2_def s3_def ..
  have "quiet s s1" by (simp add: s1_def quiet_upd_job)
  note 1 = quietD [OF this]
  have 2: "rest s2 = rest s" "AssertionFailed s2 = AssertionFailed s" "alive s \<Longrightarrow> alive s2"
    "manager_runs s2 = manager_runs s"
    "view s2 k = (if k = h then (view s h)\<lparr>m_state := BG_JOB_STATE_ERROR\<rparr> else view s k)"
    "alive s \<Longrightarrow> tracked it \<Longrightarrow> InScheduler it s2 \<longleftrightarrow> InScheduler it s \<and> it \<noteq> CJobNoProgressItem h \<and>
       it \<noteq> CJobCallbackItem h \<and> \<not> (it = CJobRetryItem h \<and> m_state (view s h) \<noteq> BG_JOB_STATE_ERROR)" for k it
    by (auto simp: s2_def 1)
  have 3: "rest s3 = rest s" "AssertionFailed s3 = AssertionFailed s" "m_TaskScheduler s3 = m_TaskScheduler s2"
    "view s3 k = (if k = h then (view s h)\<lparr>m_state := BG_JOB_STATE_ERROR,
       m_error := (case e of None \<Rightarrow> m_error (view s h) | Some e \<Rightarrow> CJobError_Set h i e)\<rparr> else view s k)" for k
    by (auto simp: s3_def 2 split: option.split)
  show "rest (FileFatalError_tail h e i s) = rest s"
    "AssertionFailed (FileFatalError_tail h e i s) = AssertionFailed s"
    "view (FileFatalError_tail h e i s) k = (if k = h then (view s h)\<lparr>m_state := BG_JOB_STATE_ERROR,
       m_error := (case e of None \<Rightarrow> m_error (view s h) | Some e \<Rightarrow> CJobError_Set h i e)\<rparr> else view s k)"
    "alive s \<Longrightarrow> alive (FileFatalError_tail h e i s)"
    "manager_runs (FileFatalError_tail h e i s) = manager_runs s"
    "alive s \<Longrightarrow> tracked it \<Longrightarrow> it \<noteq> CJobCallbackItem h \<Longrightarrow>
       InScheduler it (FileFatalError_tail h e i s) \<longleftrightarrow> InScheduler it s \<and> it \<noteq> CJobNoProgressItem h \<and>
         \<not> (it = CJobRetryItem h \<and> m_state (view s h) \<noteq> BG_JOB_STATE_ERROR)"
    unfolding t using 2 by (auto simp: 3)
qed

lemmas FileFatalError_tail_rests [simp] = restD [OF FileFatalError_tail_simps(1)]

text \<open>A job that has a file left to transfer and is neither suspended nor done.\<close>

abbreviation busy :: "CJob \<Rightarrow> bool" where
  "busy j \<equiv> m_state j \<notin> {BG_JOB_STATE_SUSPENDED, BG_JOB_STATE_TRANSFERRED,
     BG_JOB_STATE_CANCELLED, BG_JOB_STATE_ACKNOWLEDGED}"

lemma FileFatalError_keeps:
  assumes "jobs_ok C s" "h \<in> C" "busy (view s h)" "e = None \<longrightarrow> m_ErrorSet (m_error (view s h))"
  shows "keeps C s (FileFatalError h e s)"
proof -
  note d = jobs_okD [OF assms(1)] and i = job_invD [OF jobs_okD(4) [OF assms(1), of h]]
  let ?t = "FileFatalError_tail h e (int (m_CurrentFile (Jobs s h))) s"
  have cur: "m_CurrentFile (view s h) < length (m_files (view s h))"
    using i(9) assms(3) by simp
  have es: "m_ErrorSet (case e of None \<Rightarrow> m_error (view s h) | Some e \<Rightarrow> CJobError_Set h n e)" for n
    using assms(4) by (cases e) (simp_all add: CJobError_Set_def)
  have "jobs_ok C ?t"
    using assms(1,2)
  proof (rule jobs_ok_update)
    show "same_job s ?t k" if "k \<noteq> h" for k
      using that d(1) by (simp add: same_job_def)
    have "job_inv (h \<in> C) (m_CurrentJob s = Some h) (ServiceShuttingDown s) (view ?t h) False False
       (count_list (m_OnlineJobs s) h) (count_list (m_OfflineJobs s) h)"
      using i(1,2,7,10,12,13) cur assms(3) es by (simp add: job_inv_def IsRunning_def)
    moreover have "\<not> InScheduler (CJobRetryItem h) ?t" "\<not> InScheduler (CJobNoProgressItem h) ?t"
      using d(1) i(6) by auto
    ultimately show "jok C ?t h"
      by simp
  qed (use d(1,2) in simp_all)
  moreover have "calm s ?t"
    by (simp add: calm_def)
  moreover have "FileFatalError h e s = ?t"
    using i(1) by (simp add: FileFatalError_def CJob_FileFatalError_def)
  ultimately show ?thesis by (simp add: keeps_def)
qed

section \<open>Timers\<close>

abbreviation on_thread :: "WorkItem \<Rightarrow> 'fs CJobManager \<Rightarrow> bool" where
  "on_thread i s \<equiv> m_WorkItemTLS (m_TaskScheduler s) = Some i"

lemma on_thread_runs:
  "alive s \<Longrightarrow> tracked i \<Longrightarrow> on_thread i s \<Longrightarrow>
     m_State (WorkItems (m_TaskScheduler s) i) = TASK_STATE_RUNNING"
  by (simp add: live_def item_live_def)

lemma on_thread_held: "alive s \<Longrightarrow> tracked i \<Longrightarrow> on_thread i s \<Longrightarrow> InScheduler i s"
  using on_thread_runs [of s i] by (simp add: IsWorkItemInScheduler_def)

lemma on_thread_created:
  assumes "jobs_ok C s" "on_thread i s"
    "i \<in> {CJobInactivityTimeout h, CJobRetryItem h, CJobCallbackItem h, CJobNoProgressItem h}"
  shows "h \<in> C"
proof (rule ccontr)
  assume "h \<notin> C"
  moreover have "tracked i" using assms(3) by auto
  ultimately show False
    using jobs_okD(5) [OF assms(1), of h] on_thread_held [OF jobs_okD(1) [OF assms(1)] _ assms(2)] assms(3) by auto
qed

lemma download: "jobs_ok C s \<Longrightarrow> m_UploadData (view s h) = None"
  using job_invD(1) jobs_okD(4) by blast

lemma SetState_QUEUED_keeps:
  assumes "jobs_ok C s" "h \<in> C" "\<not> finished (view s h)" "m_CurrentFile (view s h) < length (m_files (view s h))"
  shows "keeps C s (SetState h BG_JOB_STATE_QUEUED s)"
proof -
  note d = jobs_okD [OF assms(1)] and i = job_invD [OF jobs_okD(4) [OF assms(1), of h]]
  have "jobs_ok C (SetState h BG_JOB_STATE_QUEUED s)"
    using assms(1,2)
  proof (rule jobs_ok_update)
    show "jok C (SetState h BG_JOB_STATE_QUEUED s) h"
      using d(1) i assms(3,4) by (simp add: job_inv_def IsRunning_def)
  qed (use d(1,2) in \<open>simp_all add: same_job_def\<close>)
  then show ?thesis by (simp add: keeps_def calm_def)
qed

lemma AppendOnline_keeps:
  "keeps C s t \<Longrightarrow> h \<in> C \<Longrightarrow> \<not> finished (view t h) \<Longrightarrow> keeps C s (AppendOnline h t)"
  by (auto simp: keeps_def intro: AppendOnline_jobs_ok calm_trans)

lemma OnRetryJob_safe:
  assumes "inv C s" "handles cancelled (CJobRetryItem h) s"
  shows "safe C s (OnRetryJob cancelled h s)"
proof (cases cancelled)
  case True
  then show ?thesis
    using safe_fewer [OF safe_refl [OF assms(1)] fewer_Acknowledge] assms(2)
    by (simp add: OnRetryJob_def CJob_OnRetryJob_def CUploadJob_OnRetryJob_def)
next
  case False
  then have th: "on_thread (CJobRetryItem h) s" using assms(2) by simp
  have s: "jobs_ok C s" using assms(1) by (simp add: inv_def)
  have h: "h \<in> C" by (rule on_thread_created [OF s th]) simp
  have "InScheduler (CJobRetryItem h) s" using on_thread_held [OF jobs_okD(1) [OF s] _ th] by simp
  then have st: "m_state (view s h) = BG_JOB_STATE_TRANSIENT_ERROR"
    using job_invD(6) [OF jobs_okD(4) [OF s, of h]] by simp
  let ?c = "Complete_item s"
  let ?q = "SetState h BG_JOB_STATE_QUEUED ?c"
  have c: "keeps C s ?c" by (rule keeps_fewer [OF inv_keeps [OF assms(1)] fewer_Complete])
  have "keeps C ?c ?q"
    using keeps_ok [OF c] h st job_invD(9) [OF jobs_okD(4) [OF s, of h]] by (intro SetState_QUEUED_keeps) simp_all
  then have "keeps C s ?q" using c by (rule keeps_trans [rotated])
  then have "keeps C s (AppendOnline h ?q)" using h by (rule AppendOnline_keeps) simp
  from keeps_SAG [OF keeps_quiet [OF this UpdateModificationTime_quiet]]
  have "safe C s (ScheduleAnotherGroup False (UpdateModificationTime True h (AppendOnline h ?q)))" .
  moreover have "ASSERT (m_state (Jobs ?c h) = BG_JOB_STATE_TRANSIENT_ERROR) ?c = ?c"
    using st by (simp add: ASSERT_def)
  ultimately show ?thesis
    using download [OF s, of h] False by (simp add: OnRetryJob_def CJob_OnRetryJob_def Let_def)
qed

lemma OnNoProgress_safe:
  assumes "inv C s" "handles cancelled (CJobNoProgressItem h) s"
  shows "safe C s (OnNoProgress cancelled h s)"
proof (cases cancelled)
  case True
  then show ?thesis
    using safe_fewer [OF safe_refl [OF assms(1)] fewer_Acknowledge] assms(2) by (simp add: OnNoProgress_def)
next
  case False
  then have th: "on_thread (CJobNoProgressItem h) s" using assms(2) by simp
  have s: "jobs_ok C s" using assms(1) by (simp add: inv_def)
  have h: "h \<in> C" by (rule on_thread_created [OF s th]) simp
  have "InScheduler (CJobNoProgressItem h) s" using on_thread_held [OF jobs_okD(1) [OF s] _ th] by simp
  then have e: "m_ErrorSet (m_error (view s h))" "\<not> finished (view s h)"
    using job_invD(5) [OF jobs_okD(4) [OF s, of h]] by simp_all
  have b: "busy (view s h)"
    using e job_invD(4) [OF jobs_okD(4) [OF s, of h]] by auto
  have "safe C s (Complete_item s)"
    by (rule safe_fewer [OF safe_refl [OF assms(1)] fewer_Complete])
  moreover have "safe C s (ScheduleAnotherGroup False (FileFatalError h None (Complete_item j)))"
    if "mild s j" "view j = view s" for j
  proof (rule keeps_SAG)
    have j: "keeps C s (Complete_item j)"
      by (rule keeps_fewer [OF keeps_mild [OF inv_keeps [OF assms(1)] that(1)] fewer_Complete])
    have "keeps C (Complete_item j) (FileFatalError h None (Complete_item j))"
      using b e that(2) by (intro FileFatalError_keeps [OF keeps_ok [OF j] h]) simp_all
    then show "keeps C s (FileFatalError h None (Complete_item j))" by (rule keeps_trans [OF j])
  qed
  moreover have "mild s (InterruptDownload s)" "view (InterruptDownload s) = view s"
    using mild_Interrupt inv_alive [OF assms(1)] by (auto simp: InterruptDownload_def)
  ultimately show ?thesis
    using False by (simp add: OnNoProgress_def Let_def)
qed

text \<open>A job that is removed already is in no list: what is left to do is to drop its items.\<close>

lemma fewer_trans: "fewer s t \<Longrightarrow> fewer t u \<Longrightarrow> fewer s u"
  unfolding fewer_def by (metis (no_types, lifting))

lemma fewer_Cancel: "i \<noteq> CJobManagerItem \<Longrightarrow> fewer s (Cancel_item i s)"
  by (simp add: fewer_def)

lemma fewer_CancelWorkitems: "fewer s (CancelWorkitems h s)"
  unfolding CancelWorkitems_def by (intro fewer_trans [OF _ fewer_Cancel] fewer_Cancel) simp_all

lemma finished_unlisted:
  assumes "jobs_ok C s" "finished (view s h)"
  shows "h \<notin> set (m_OnlineJobs s)" "h \<notin> set (m_OfflineJobs s)"
  using job_invD(10) [OF jobs_okD(4) [OF assms(1), of h]] assms(2)
    count_list_0_iff [of "m_OnlineJobs s" h] count_list_0_iff [of "m_OfflineJobs s" h] by auto

lemma finished_again_safe:
  assumes "inv C s" "h \<in> C" "finished (view s h)"
  shows "safe C s (RemoveFromManager h (SetState h BG_JOB_STATE_CANCELLED s))"
proof -
  have s: "jobs_ok C s" and cur: "current_ok s" using assms(1) by (simp_all add: inv_def)
  note d = jobs_okD [OF s] and i = job_invD [OF jobs_okD(4) [OF s, of h]] and l = finished_unlisted [OF s assms(3)]
  let ?t = "SetState h BG_JOB_STATE_CANCELLED s"
  have "jobs_ok C ?t"
    using s assms(2)
  proof (rule jobs_ok_update)
    show "jok C ?t h"
      using d(1) i assms(2,3) by (auto simp: job_inv_def IsRunning_def)
  qed (use d(1,2) in \<open>simp_all add: same_job_def\<close>)
  moreover have "current_ok ?t"
    using cur l(1) by (auto simp: current_ok_def)
  ultimately have "safe C s ?t"
    by (simp add: safe_def inv_def calm_def)
  then have "safe C s (CancelWorkitems h ?t)"
    by (rule safe_fewer [OF _ fewer_CancelWorkitems])
  moreover have "RemoveFromManager h ?t = CancelWorkitems h ?t"
    using l by (simp add: RemoveFromManager_def RemoveJob_def CJobList_Remove_def)
  ultimately show ?thesis by simp
qed

lemma OnInactivityTimeout_safe:
  assumes "inv C s" "handles cancelled (CJobInactivityTimeout h) s"
  shows "safe C s (OnInactivityTimeout api cancelled h s)"
proof (cases cancelled)
  case True
  then show ?thesis
    using safe_fewer [OF safe_refl [OF assms(1)] fewer_Acknowledge] assms(2)
    by (simp add: OnInactivityTimeout_def CUploadJob_OnInactivityTimeout_def CJob_OnInactivityTimeout_def)
next
  case False
  then have th: "on_thread (CJobInactivityTimeout h) s" using assms(2) by simp
  have s: "jobs_ok C s" using assms(1) by (simp add: inv_def)
  have h: "h \<in> C" by (rule on_thread_created [OF s th]) simp
  let ?c = "Complete_item s"
  obtain hr u where u: "RemoveTemporaryFiles api 0 h ?c = (hr, u)" by fastforce
  have c: "safe C s ?c" by (rule safe_fewer [OF safe_refl [OF assms(1)] fewer_Complete])
  have m: "mild ?c u" using RemoveTemporaryFiles_mild [of ?c api 0 h] by (simp add: u)
  have su: "safe C s u" by (rule safe_mild [OF c m])
  have "safe C s (RemoveFromManager h (SetState h BG_JOB_STATE_CANCELLED u))"
  proof (cases "finished (view u h)")
    case True
    then show ?thesis by (intro safe_trans [OF su] finished_again_safe [OF safe_inv [OF su] h])
  next
    case False
    then show ?thesis by (intro safe_then_finish [OF su h]) simp_all
  qed
  then show ?thesis
    using False su u download [OF s, of h]
    by (simp add: OnInactivityTimeout_def CJob_OnInactivityTimeout_def)
qed

section \<open>Notifying the client\<close>

lemma OnMakeCallback_safe:
  assumes "cancelled \<longrightarrow> PollAbort (m_TaskScheduler s)"
  shows "inv C s \<Longrightarrow> safe C s (OnMakeCallback cancelled h s)"
proof -
  assume "inv C s"
  then have s: "safe C s s" by (rule safe_refl)
  have "safe C s (upd_job h (\<lambda>j. j\<lparr>m_refs := m_refs j + 1\<rparr>) s)"
    by (rule safe_quiet [OF s quiet_upd_job]) simp
  then show ?thesis
    using safe_fewer [OF s fewer_Acknowledge] assms
    by (simp add: OnMakeCallback_def safe_fewer [OF _ fewer_Complete])
qed

lemma ASSERT_True [simp]: "ASSERT True s = s"
  by (simp add: ASSERT_def)

lemma ASSERT_error:
  assumes "jobs_ok C s" "m_state (view s h) = BG_JOB_STATE_ERROR"
  shows "ASSERT (m_ErrorSet (m_error (Jobs s h))) s = s"
  using job_invD(3) [OF jobs_okD(4) [OF assms(1), of h]] assms(2) by (simp add: ASSERT_def)

lemma InterfaceCallback_state: "jobs_ok C s \<Longrightarrow> snd (InterfaceCallback h s) = s"
  using ASSERT_error [of C s h]
  by (auto simp: InterfaceCallback_def Let_def split: BG_JOB_STATE.split simp del: ASSERT_simps)

lemma InterfaceCallback_returned_mild: "mild s (snd (InterfaceCallback_returned hr h s))"
  by (simp add: InterfaceCallback_returned_def mild_upd_job)

lemma CmdLineCallback_state:
  assumes "jobs_ok C s" "m_OldExternalGroupInterface (view s h) = None"
  shows "snd (CmdLineCallback h s) = s"
  using ASSERT_error [OF assms(1)] assms(2)
  by (simp add: CmdLineCallback_def Let_def split: BG_JOB_STATE.split)

lemma RescheduleCallback_safe:
  assumes "inv C s" "h \<in> C" "cancelled \<longrightarrow> PollAbort (m_TaskScheduler s)"
  shows "safe C s (snd (RescheduleCallback cancelled h s))"
  using safe_fewer [OF safe_refl [OF assms(1)] fewer_Acknowledge] safe_refl [OF assms(1)] assms(3)
    callback_safe [OF safe_refl [OF assms(1)] assms(2)]
  by (simp add: RescheduleCallback_def split: BG_JOB_STATE.split)

section \<open>Modification callbacks\<close>

lemma fewer_quiet: "quiet s t \<Longrightarrow> fewer s t"
  by (auto simp: quiet_def fewer_def)

lemma null_pointer_down [simp]: "ServiceShuttingDown (null_pointer x s) = ServiceShuttingDown s"
  by (simp add: null_pointer_def)

lemma null_pointer_safe: "inv C s \<Longrightarrow> safe C s (null_pointer ''OnModificationCallback'' s)"
  by (auto simp: safe_def inv_def jobs_ok_def current_ok_def calm_def)

lemma OnModificationCallback_safe:
  assumes "inv C s" "handles cancelled (CJobModificationItem h) s"
  shows "safe C s (snd (OnModificationCallback cancelled h s))"
proof -
  have s: "safe C s s" by (rule safe_refl [OF assms(1)])
  have q: "quiet u (upd_job h (\<lambda>j. j\<lparr>m_refs := m_refs j - 1\<rparr>) u)"
    "quiet u (upd_job h (\<lambda>j. j\<lparr>m_ModificationsPending := 0\<rparr>) u)" for u :: "'a CJobManager"
    by (simp_all add: quiet_upd_job)
  have "safe C s (upd_job h (\<lambda>j. j\<lparr>m_refs := m_refs j - 1\<rparr>)
      (Cancel_item (CJobModificationItem h) (upd_job h (\<lambda>j. j\<lparr>m_ModificationsPending := 0\<rparr>) s)))"
    by (intro safe_quiet [OF _ q(1)] safe_fewer [OF _ fewer_Cancel] safe_quiet [OF s q(2)]) simp
  then show ?thesis
    using assms(2) s safe_fewer [OF s fewer_Acknowledge] null_pointer_safe [OF assms(1)]
    by (auto simp: OnModificationCallback_def Let_def split: option.split)
qed

lemma Insert_modification_quiet: "quiet s (Insert_item (CJobModificationItem h) t s)"
  by (auto simp: quiet_def alive_Insert)

lemma OnModificationCallback_returned_safe:
  assumes "inv C s" "cancelled \<longrightarrow> PollAbort (m_TaskScheduler s)"
  shows "safe C s (OnModificationCallback_returned cancelled hr h s)"
proof -
  have s: "safe C s s" by (rule safe_refl [OF assms(1)])
  define u where "u = upd_job h (\<lambda>j. j\<lparr>m_ModificationsPending := m_ModificationsPending j - 1\<rparr>) (Complete_item s)"
  define v where "v = (if FAILED hr \<and> IsInterfacePointerDead hr
                  then upd_job h (\<lambda>j. j\<lparr>m_ModificationsPending := 0\<rparr>) u else u)"
  have "safe C s u"
    unfolding u_def by (rule safe_quiet [OF safe_fewer [OF s fewer_Complete] quiet_upd_job]) simp
  then have v: "safe C s v"
    unfolding v_def by (simp add: safe_quiet [OF _ quiet_upd_job])
  have "OnModificationCallback_returned cancelled hr h s =
      (if cancelled then Acknowledge_item s
       else if m_ModificationsPending (Jobs v h) \<noteq> 0 then Insert_item (CJobModificationItem h) None v
       else upd_job h (\<lambda>j. j\<lparr>m_refs := m_refs j - 1\<rparr>) v)"
    unfolding OnModificationCallback_returned_def Let_def u_def v_def ..
  then show ?thesis
    using safe_fewer [OF s fewer_Acknowledge] safe_quiet [OF v Insert_modification_quiet] assms(2)
    by (simp add: safe_quiet [OF v quiet_upd_job])
qed

end
