(* ===== verification/BitsMgr.thy ===== *)
theory BitsMgr
  imports BitsHandlers
begin

text \<open>
  The events of the manager keep the invariant of the service: volumes that change or are
  locked, networks that come and go, users that log on and off, and new jobs.
\<close>

section \<open>Loops over a job list\<close>

text \<open>
  The loops visit the jobs of a list that does not change meanwhile, so each visit finds a
  job that was created and is not finished.
\<close>

abbreviation lists :: "'fs CJobManager \<Rightarrow> nat list \<times> nat list" where
  "lists s \<equiv> (m_OnlineJobs s, m_OfflineJobs s)"

lemma fold_keeps:
  assumes "keeps C s t" "lists t = lists s"
    "\<And>h u. h \<in> set xs \<Longrightarrow> jobs_ok C u \<Longrightarrow> h \<in> C \<Longrightarrow> \<not> finished (view u h) \<Longrightarrow>
       keeps C u (f h u) \<and> lists (f h u) = lists u"
    "set xs \<subseteq> set (m_OnlineJobs s) \<union> set (m_OfflineJobs s)"
  shows "keeps C s (fold f xs t) \<and> lists (fold f xs t) = lists s"
  using assms
proof (induction xs arbitrary: t)
  case (Cons h xs)
  have t: "jobs_ok C t" by (rule keeps_ok [OF Cons.prems(1)])
  have "h \<in> set (m_OnlineJobs t) \<union> set (m_OfflineJobs t)"
    using Cons.prems(2,4) by auto
  then have "0 < count_list (m_OnlineJobs t) h \<or> 0 < count_list (m_OfflineJobs t) h"
    using count_list_0_iff [of "m_OnlineJobs t" h] count_list_0_iff [of "m_OfflineJobs t" h] by auto
  note c = job_inv_listed [OF jobs_okD(4) [OF t, of h] this]
  have "keeps C t (f h t)" "lists (f h t) = lists t"
    using Cons.prems(3) [of h t] t c by simp_all
  then have "keeps C s (f h t)" "lists (f h t) = lists s"
    using keeps_trans [OF Cons.prems(1)] Cons.prems(2) by simp_all
  then have "keeps C s (fold f xs (f h t)) \<and> lists (fold f xs (f h t)) = lists s"
    using Cons.prems(3,4) by (intro Cons.IH) simp_all
  then show ?case by simp
qed simp

section \<open>Volumes\<close>

lemma FileFatalError_lists: "jobs_ok C s \<Longrightarrow> lists (FileFatalError h e s) = lists s"
  by (simp add: FileFatalError_def download CJob_FileFatalError_def)

lemma OnDiskChange_step:
  assumes "jobs_ok C s" "h \<in> C"
  shows "keeps C s (CJob_OnDiskChange b h s) \<and> lists (CJob_OnDiskChange b h s) = lists s"
proof (cases "busy (view s h) \<and> m_state (view s h) \<noteq> BG_JOB_STATE_ERROR \<and> (\<exists>f\<in>set (m_files (view s h)). b f)")
  case True
  let ?e = "Some (QMErrInfo_hr QM_FILE_DONE SOURCE_QMGR_FILE BG_E_VOLUME_CHANGED)"
  have "CJob_OnDiskChange b h s = FileFatalError h ?e s"
    using True by (auto simp: CJob_OnDiskChange_def split: BG_JOB_STATE.split)
  then show ?thesis
    using FileFatalError_keeps [OF assms, of ?e] FileFatalError_lists [OF assms(1)] True by simp
next
  case False
  then have "CJob_OnDiskChange b h s = s"
    by (auto simp: CJob_OnDiskChange_def split: BG_JOB_STATE.split)
  then show ?thesis using keeps_refl [OF assms(1)] by simp
qed

lemma OnDiskChange_fold:
  assumes "jobs_ok C s"
  shows "keeps C s (fold (CJob_OnDiskChange b) (m_OnlineJobs s) s)"
  using fold_keeps [OF keeps_refl [OF assms], of "m_OnlineJobs s" "CJob_OnDiskChange b"]
    OnDiskChange_step by fastforce

lemma OnDiskChange_safe:
  assumes "jobs_ok C s"
  shows "safe C s (OnDiskChange v n s)" "safe C s (OnDismount v s)"
  unfolding OnDiskChange_def OnDismount_def
  by (rule safe_quiet [OF keeps_SAG [OF OnDiskChange_fold [OF assms]] Serialize_quiet])+

lemma volume_keeps:
  assumes "jobs_ok C s" "h \<in> C" "\<not> finished (view s h)" "m_CurrentFile (view s h) < length (m_files (view s h))"
  shows "keeps C s (RecalcTransientError False h (upd_job h (\<lambda>j. j\<lparr>m_fVolumeLocked := b\<rparr>) s)) \<and>
    lists (RecalcTransientError False h (upd_job h (\<lambda>j. j\<lparr>m_fVolumeLocked := b\<rparr>) s)) = lists s"
proof -
  let ?t = "upd_job h (\<lambda>j. j\<lparr>m_fVolumeLocked := b\<rparr>) s"
  note d = jobs_okD [OF assms(1)]
  have "jobs_ok C ?t"
    using assms(1,2)
  proof (rule jobs_ok_update)
    have "job_inv cr cur dn (j\<lparr>m_fVolumeLocked := b\<rparr>) r n x y = job_inv cr cur dn j r n x y" for cr cur dn j r n x y
      by (simp add: job_inv_def IsRunning_def)
    then show "jok C ?t h" using d(4) [of h] by simp
  qed (use d(1,2) in \<open>simp_all add: same_job_def\<close>)
  then have "jobs_ok C (RecalcTransientError False h ?t)"
    using assms by (intro Recalc_jobs_ok) simp_all
  moreover have "calm s (RecalcTransientError False h ?t)" by (simp add: calm_def)
  ultimately show ?thesis by (simp add: keeps_def)
qed

lemma IsTransferring_current:
  assumes "jobs_ok C s" "IsTransferringToDrive v (view s h)"
  shows "m_CurrentFile (view s h) < length (m_files (view s h))"
  using assms download [OF assms(1), of h]
  by (auto simp: IsTransferringToDrive_def GetCurrentFile_def split: if_splits)

lemma OnDeviceLock_step:
  assumes "jobs_ok C s" "h \<in> C" "\<not> finished (view s h)"
  shows "keeps C s (CJob_OnDeviceLock v h s) \<and> lists (CJob_OnDeviceLock v h s) = lists s"
proof (cases "IsTransferringToDrive v (view s h)")
  case True
  define u where "u = (if IsRunning (Jobs s h) then InterruptDownload s else s)"
  have u: "keeps C s u" "view u = view s" "lists u = lists s"
    using keeps_mild [OF keeps_refl [OF assms(1)] mild_Interrupt [OF jobs_okD(1) [OF assms(1)]]] keeps_refl [OF assms(1)]
    by (auto simp: InterruptDownload_def u_def)
  have "CJob_OnDeviceLock v h s = RecalcTransientError False h (upd_job h (\<lambda>j. j\<lparr>m_fVolumeLocked := True\<rparr>) u)"
    using True by (simp add: CJob_OnDeviceLock_def u_def)
  then have "keeps C u (CJob_OnDeviceLock v h s) \<and> lists (CJob_OnDeviceLock v h s) = lists u"
    using volume_keeps [OF keeps_ok [OF u(1)] assms(2), of True, unfolded u(2), OF assms(3)
        IsTransferring_current [OF assms(1) True]] by (simp only:)
  then show ?thesis using keeps_trans [OF u(1)] u(3) by simp
next
  case False
  then show ?thesis using keeps_refl [OF assms(1)] by (simp add: CJob_OnDeviceLock_def)
qed

lemma OnDeviceUnlock_step:
  assumes "jobs_ok C s" "h \<in> C" "\<not> finished (view s h)"
  shows "keeps C s (CJob_OnDeviceUnlock v h s) \<and> lists (CJob_OnDeviceUnlock v h s) = lists s"
  using volume_keeps [OF assms, of False] IsTransferring_current [OF assms(1)] keeps_refl [OF assms(1)]
  by (auto simp: CJob_OnDeviceUnlock_def)

lemma OnDevice_idle:
  "\<forall>h\<in>set xs. \<not> IsTransferringToDrive v (view s h) \<Longrightarrow>
     fold (CJob_OnDeviceLock v) xs s = s \<and> fold (CJob_OnDeviceUnlock v) xs s = s"
  by (induction xs) (simp_all add: CJob_OnDeviceLock_def CJob_OnDeviceUnlock_def)

lemma OnDevice_safe:
  assumes "inv C s"
  shows "safe C s (OnDeviceLock v s)" "safe C s (OnDeviceUnlock v s)"
proof -
  have s: "jobs_ok C s" using assms by (simp add: inv_def)
  have "keeps C s (fold (CJob_OnDeviceLock v) (m_OnlineJobs s) s)"
    "keeps C s (fold (CJob_OnDeviceUnlock v) (m_OnlineJobs s) s)"
    by (rule fold_keeps [OF keeps_refl [OF s] refl OnDeviceLock_step, THEN conjunct1]; simp)
      (rule fold_keeps [OF keeps_refl [OF s] refl OnDeviceUnlock_step, THEN conjunct1]; simp)
  note k = this [THEN keeps_SAG, THEN safe_quiet, OF Serialize_quiet]
  have eq: "OnDeviceLock v s = (if \<exists>h\<in>set (m_OnlineJobs s). IsTransferringToDrive v (view s h)
      then Serialize (ScheduleAnotherGroup False (fold (CJob_OnDeviceLock v) (m_OnlineJobs s) s))
      else fold (CJob_OnDeviceLock v) (m_OnlineJobs s) s)"
    "OnDeviceUnlock v s = (if \<exists>h\<in>set (m_OnlineJobs s). IsTransferringToDrive v (view s h)
      then Serialize (ScheduleAnotherGroup False (fold (CJob_OnDeviceUnlock v) (m_OnlineJobs s) s))
      else fold (CJob_OnDeviceUnlock v) (m_OnlineJobs s) s)"
    by (simp_all only: OnDeviceLock_def OnDeviceUnlock_def Let_def Jobs_view)
  show "safe C s (OnDeviceLock v s)" "safe C s (OnDeviceUnlock v s)"
  proof (atomize (full), cases "\<exists>h\<in>set (m_OnlineJobs s). IsTransferringToDrive v (view s h)")
    case True
    show "safe C s (OnDeviceLock v s) \<and> safe C s (OnDeviceUnlock v s)"
      unfolding eq if_P [OF True] using k by blast
  next
    case False
    have "fold (CJob_OnDeviceLock v) (m_OnlineJobs s) s = s \<and> fold (CJob_OnDeviceUnlock v) (m_OnlineJobs s) s = s"
      using False by (intro OnDevice_idle) blast
    then show "safe C s (OnDeviceLock v s) \<and> safe C s (OnDeviceUnlock v s)"
      unfolding eq if_not_P [OF False] using safe_refl [OF assms] by simp
  qed
qed

section \<open>Networks\<close>

lemma Recalc_step:
  assumes "jobs_ok C s" "h \<in> C" "\<not> finished (view s h)"
  shows "keeps C s (RecalcTransientError False h s) \<and> lists (RecalcTransientError False h s) = lists s"
proof -
  have "left_alone False (view s h) \<or> m_CurrentFile (view s h) < length (m_files (view s h))"
    using job_invD(9) [OF jobs_okD(4) [OF assms(1), of h]] assms(3) by auto
  then show ?thesis using Recalc_jobs_ok [OF assms, of False] by (simp add: keeps_def)
qed

lemma Recalc_all:
  assumes "jobs_ok C s"
  shows "keeps C s (fold (RecalcTransientError False) (m_OfflineJobs s)
     (fold (RecalcTransientError False) (m_OnlineJobs s) s))"
proof -
  let ?t = "fold (RecalcTransientError False) (m_OnlineJobs s) s"
  have t: "keeps C s ?t \<and> lists ?t = lists s"
    using Recalc_step by (intro fold_keeps [OF keeps_refl [OF assms]]) auto
  then have "keeps C s (fold (RecalcTransientError False) (m_OfflineJobs s) ?t) \<and>
     lists (fold (RecalcTransientError False) (m_OfflineJobs s) ?t) = lists s"
    using Recalc_step by (intro fold_keeps) auto
  then show ?thesis ..
qed

text \<open>The invariant does not depend on the number of addresses, the users or the files on disk.\<close>

lemma AddressCount_keeps: "jobs_ok C s \<Longrightarrow> keeps C s (s\<lparr>AddressCount := n\<rparr>)"
  by (simp add: keeps_def jobs_ok_def calm_def)

lemma OnNetworkChange_safe:
  assumes "inv C s"
  shows "safe C s (OnNetworkChange n s)"
proof -
  let ?a = "s\<lparr>AddressCount := n\<rparr>"
  have a: "keeps C s ?a" using assms by (intro AddressCount_keeps) (simp add: inv_def)
  have "current_ok ?a" using assms by (simp add: inv_def current_ok_def)
  then have s: "safe C s ?a" using a by (simp add: keeps_def safe_def inv_def)
  let ?f = "fold (RecalcTransientError False) (m_OfflineJobs ?a) (fold (RecalcTransientError False) (m_OnlineJobs ?a) ?a)"
  have f: "keeps C s ?f" by (rule keeps_trans [OF a Recalc_all [OF keeps_ok [OF a]]])
  have "safe C s (ScheduleAnotherGroup False (ScheduleAnotherGroup b ?f))" for b
    by (intro keeps_SAG safe_keeps f)
  then show ?thesis
    using s unfolding OnNetworkChange_def Let_def ReactivateTransientErrorJobs_def MarkJobsWithNetDisconnected_def
    by (cases "n = 0") simp_all
qed

section \<open>Users\<close>

lemma count_filter: "count_list (filter P xs) k = (if P k then count_list xs k else 0)"
  by (induction xs) auto

lemma UserLoggedOn_safe:
  assumes "inv C s"
  shows "safe C s (UserLoggedOn sid s)"
proof -
  define P where "P = (\<lambda>h. sid = m_NotifySid (Jobs s h))"
  define t where "t = s\<lparr>m_OnlineJobs := m_OnlineJobs s @ filter P (m_OfflineJobs s),
      m_OfflineJobs := filter (\<lambda>h. \<not> P h) (m_OfflineJobs s)\<rparr>"
  have s: "jobs_ok C s" using assms by (simp add: inv_def)
  have "jobs_ok C t"
    by (rule jobs_ok_moved [OF s]) (simp_all add: t_def count_filter)
  then have "keeps C s t" by (simp add: keeps_def calm_def t_def)
  moreover have "UserLoggedOn sid s = ScheduleAnotherGroup False t"
    unfolding UserLoggedOn_def Let_def t_def P_def ..
  ultimately show ?thesis by (simp add: keeps_SAG)
qed

lemma UserLoggedOff_safe:
  assumes "inv C s"
  shows "safe C s (UserLoggedOff sid s)"
proof -
  define P where "P = (\<lambda>h. sid = m_NotifySid (Jobs s h))"
  define again where "again = (case m_CurrentJob s of None \<Rightarrow> False | Some c \<Rightarrow> P c)"
  define u where "u = (if again then InterruptDownload s else s)"
  define leaves where "leaves = (\<lambda>h. P h \<and> m_CurrentJob u \<noteq> Some h)"
  define v where "v = ASSERT (\<forall>h\<in>set (filter leaves (m_OnlineJobs u)). \<not> IsRunning (Jobs u h)) u"
  define t where "t = v\<lparr>m_OfflineJobs := m_OfflineJobs v @ filter leaves (m_OnlineJobs v),
                m_OnlineJobs := filter (\<lambda>h. \<not> leaves h) (m_OnlineJobs v)\<rparr>"
  have u: "safe C s u"
    using safe_mild0 [OF assms mild_Interrupt] inv_alive [OF assms] safe_refl [OF assms] by (simp add: u_def)
  then have uj: "jobs_ok C u" "current_ok u" by (auto simp: safe_def inv_def)
  have "\<not> IsRunning (view u h) \<or> ServiceShuttingDown u" if "leaves h" for h
    using job_invD(11) [OF jobs_okD(4) [OF uj(1), of h]] that by (auto simp: leaves_def)
  then have "AssertionFailed v \<longrightarrow> AssertionFailed u \<or> ServiceShuttingDown u"
    by (auto simp: v_def)
  then have tj: "jobs_ok C t"
    by (intro jobs_ok_moved [OF uj(1)]) (simp_all add: t_def v_def count_filter)
  moreover have "current_ok t"
    using uj(2) by (auto simp: current_ok_def t_def v_def leaves_def)
  moreover have "calm s t"
    using u by (auto simp: safe_def t_def v_def calm_def)
  ultimately have t: "safe C s t" by (simp add: safe_def inv_def)
  have "UserLoggedOff sid s = (if again then ScheduleAnotherGroup False t else t)"
    unfolding UserLoggedOff_def Let_def t_def v_def leaves_def u_def again_def P_def ..
  then show ?thesis using t keeps_SAG [OF safe_keeps [OF t]] by simp
qed

section \<open>New jobs\<close>

text \<open>A new object's items are in no list; before, they were not held.\<close>

lemma idle_counts:
  assumes "alive s" "idle s h" "i \<in> {CJobInactivityTimeout h, CJobRetryItem h, CJobCallbackItem h, CJobNoProgressItem h}"
  shows "count_list (m_WaitingList (m_TaskScheduler s)) i = 0" "count_list (m_ReadyList (m_TaskScheduler s) g) i = 0"
    "m_WorkItemTLS (m_TaskScheduler s) \<noteq> Some i" "Some i \<notin> set (FailedAsserts (m_TaskScheduler s))"
proof -
  have i: "item_live (m_TaskScheduler s) i" "\<not> InScheduler i s"
    using assms by (auto simp: live_def)
  show "count_list (m_WaitingList (m_TaskScheduler s)) i = 0" "count_list (m_ReadyList (m_TaskScheduler s) g) i = 0"
    "m_WorkItemTLS (m_TaskScheduler s) \<noteq> Some i" "Some i \<notin> set (FailedAsserts (m_TaskScheduler s))"
    using i by (auto simp: item_live_def IsWorkItemInScheduler_def)
qed

lemma new_items_alive:
  assumes "alive s" "idle s h"
  shows "alive (upd_sched (new_items h) s)"
proof -
  have "item_live (new_items h (m_TaskScheduler s)) i" if t: "tracked i" for i
  proof (cases "i \<in> {CJobInactivityTimeout h, CJobRetryItem h, CJobCallbackItem h, CJobNoProgressItem h}")
    case True
    then show ?thesis
      using idle_counts [OF assms True]
      by (auto simp: item_live_def new_items_def TaskSchedulerWorkItem_new_def IsWorkItemInScheduler_def)
  next
    case False
    then have "i \<notin> items_of h" using t by auto
    then show ?thesis
      using assms(1) t by (auto simp: live_def item_live_def new_items_def IsWorkItemInScheduler_def)
  qed
  moreover have "FailedAsserts (new_items h (m_TaskScheduler s)) = FailedAsserts (m_TaskScheduler s)"
    by (simp add: new_items_def)
  ultimately show ?thesis using assms(1) by (simp add: live_def)
qed

lemma new_items_held:
  "InScheduler i (upd_sched (new_items h) s) \<longleftrightarrow> i \<notin> items_of h \<and> InScheduler i s"
  "manager_runs (upd_sched (new_items h) s) = manager_runs s"
  by (auto simp: IsWorkItemInScheduler_def new_items_def TaskSchedulerWorkItem_new_def)

lemma CreateJob_safe:
  assumes "inv C s" "h \<notin> C" "CreateJob name BG_JOB_TYPE_DOWNLOAD jid sid h old delay timeout s = (hr, t)"
  shows "safe (if SUCCEEDED hr then insert h C else C) s t"
proof (cases "(\<exists>i\<in>set (m_OnlineJobs s) \<union> set (m_OfflineJobs s). m_id (Jobs s i) = jid) \<or> MetadataError s \<noteq> 0")
  case True
  then have "t = s \<and> FAILED hr"
    using assms(3) by (auto simp: CreateJob_def FAILED_def split: if_splits)
      (metis FAILED_HRESULT_FROM_WIN32 FAILED_def)+
  then show ?thesis using safe_refl [OF assms(1)] by simp
next
  case False
  define j where "j = (let j = CJob_new jid (take MAX_DISPLAYNAME name) BG_JOB_TYPE_DOWNLOAD sid delay timeout (now s)
      in if BG_JOB_TYPE_DOWNLOAD = BG_JOB_TYPE_DOWNLOAD \<and> old then j\<lparr>m_OldExternalGroupInterface := Some None\<rparr> else j)"
  define a where "a = upd_sched (new_items h) (upd_job h (\<lambda>_. j) s)"
  define b where "b = a\<lparr>m_OnlineJobs := CJobList_Add h (m_OnlineJobs a)\<rparr>"
  define u where "u = Insert_delayed (CJobInactivityTimeout h) (m_JobInactivityTimeout b) b"
  have t: "hr = S_OK" "t = Serialize u"
    using assms(3) False unfolding CreateJob_def Let_def u_def b_def a_def j_def by (simp_all split: if_splits)
  have s: "jobs_ok C s" and cur: "current_ok s" using assms(1) by (simp_all add: inv_def)
  note d = jobs_okD [OF s]
  have z: "count_list (m_OnlineJobs s) h = 0" "count_list (m_OfflineJobs s) h = 0" "m_CurrentJob s \<noteq> Some h"
    using job_invD(10,12) [OF d(4) [of h]] assms(2) by auto
  have al: "alive a"
    using new_items_alive [of "upd_job h (\<lambda>_. j) s" h] d(1) jobs_okD(5) [OF s assms(2)] by (simp add: a_def)
  have held: "InScheduler i a \<longleftrightarrow> i \<notin> items_of h \<and> InScheduler i s" "manager_runs a = manager_runs s" for i
    using new_items_held(1) [of i h "upd_job h (\<lambda>_. j) s"] new_items_held(2) [of h "upd_job h (\<lambda>_. j) s"] by (simp_all add: a_def)
  have j: "m_UploadData (core j) = None" "m_type (core j) = BG_JOB_TYPE_DOWNLOAD"
    "m_state (core j) = BG_JOB_STATE_SUSPENDED" "\<not> m_ErrorSet (m_error (core j))"
    "m_CurrentFile (core j) = 0" "\<not> m_OldExternalJobInterface (core j)"
    by (simp_all add: j_def CJob_new_def ClearError_def core_def Let_def)
  have w: "view u k = (if k = h then core j else view s k)" "m_OnlineJobs u = m_OnlineJobs s @ [h]"
    "m_OfflineJobs u = m_OfflineJobs s" "m_CurrentJob u = m_CurrentJob s"
    "ServiceShuttingDown u = ServiceShuttingDown s" "AssertionFailed u = AssertionFailed s"
    "AccessViolations u = AccessViolations s" "alive u" "manager_runs u = manager_runs s"
    "InScheduler i u \<longleftrightarrow> i = CJobInactivityTimeout h \<or> i \<notin> items_of h \<and> InScheduler i s" for k i
    using al by (auto simp: u_def b_def held alive_Insert CJobList_Add_def) (auto simp: a_def)
  have "jobs_ok (insert h C) u"
  proof (rule jobs_okI [where h = h])
    show "jok (insert h C) u h"
      using z j by (simp add: w job_inv_def IsRunning_def)
    show "jok (insert h C) u k \<and> (k \<notin> insert h C \<longrightarrow> idle u k)" if "k \<noteq> h" for k
      using d(4) [of k] jobs_okD(5) [OF s, of k] that by (simp add: w)
  qed (use d w in auto)
  moreover have "current_ok u" using cur z(3) by (auto simp: current_ok_def w)
  moreover have "calm s u" using w by (simp add: calm_def)
  ultimately have "safe (insert h C) s u" by (simp add: safe_def inv_def)
  then show ?thesis
    using safe_quiet [OF _ Serialize_quiet] by (simp add: t FAILED_def)
qed

end
