(* ===== verification/BitsTransfer.thy ===== *)
theory BitsTransfer
  imports BitsMgr
begin

text \<open>
  The transfer of the current job keeps the invariant of the service. The lemmas are about a
  thread that runs the manager item for the current job \<open>c\<close>.
\<close>

section \<open>The current job\<close>

lemma current_facts:
  assumes "inv C s" "m_CurrentJob s = Some c"
  shows "c \<in> C" "busy (view s c)" "m_CurrentFile (view s c) < length (m_files (view s c))"
    "IsRunnable (view s c)" "c \<in> set (m_OnlineJobs s)" "m_state (view s c) \<noteq> BG_JOB_STATE_ERROR"
    "m_state (view s c) \<noteq> BG_JOB_STATE_TRANSIENT_ERROR" "\<not> m_fVolumeLocked (view s c)"
proof -
  have s: "jobs_ok C s" using assms(1) by (simp add: inv_def)
  have r: "IsRunnable (view s c)" "c \<in> set (m_OnlineJobs s)"
    using assms by (auto simp: inv_def current_ok_def)
  have st: "m_state (view s c) \<in> {BG_JOB_STATE_TRANSFERRING, BG_JOB_STATE_CONNECTING, BG_JOB_STATE_QUEUED}"
    "\<not> m_fVolumeLocked (view s c)"
    using r(1) download [OF s, of c] by (auto simp: IsRunnable_def CJob_IsRunnable_def split: if_splits)
  show "c \<in> C" using job_invD(12) [OF jobs_okD(4) [OF s, of c]] assms(2) by simp
  show b: "busy (view s c)" using st by auto
  show "m_CurrentFile (view s c) < length (m_files (view s c))"
    using job_invD(9) [OF jobs_okD(4) [OF s, of c]] b by simp
  show "IsRunnable (view s c)" "c \<in> set (m_OnlineJobs s)" "m_state (view s c) \<noteq> BG_JOB_STATE_ERROR"
    "m_state (view s c) \<noteq> BG_JOB_STATE_TRANSIENT_ERROR" "\<not> m_fVolumeLocked (view s c)"
    using r st by auto
qed

lemma IsRunnable_download:
  "m_UploadData j = None \<Longrightarrow> IsRunnable j \<longleftrightarrow> \<not> m_fVolumeLocked j \<and>
     m_state j \<in> {BG_JOB_STATE_TRANSFERRING, BG_JOB_STATE_CONNECTING, BG_JOB_STATE_QUEUED}"
  by (simp add: IsRunnable_def CJob_IsRunnable_def)

text \<open>A new state of the current job; an error is recorded with the state that asks for it.\<close>

lemma SetTransientError_keeps:
  assumes "jobs_ok C s" "h \<in> C" "busy (view s h)"
  shows "keeps C s (SetTransientError h e i r u s)"
proof -
  note d = jobs_okD [OF assms(1)] and j = job_invD [OF jobs_okD(4) [OF assms(1), of h]]
  have e: "m_ErrorSet (CJobError_Set h i e)" by (simp add: CJobError_Set_def)
  have cur: "m_CurrentFile (view s h) < length (m_files (view s h))" using j(9) assms(3) by simp
  have "jobs_ok C (SetTransientError h e i r u s)"
    using assms(1,2)
  proof (rule jobs_ok_update)
    show "jok C (SetTransientError h e i r u s) h"
      using d(1) j assms(2,3) e cur by (simp add: job_inv_def IsRunning_def)
  qed (use d(1,2) assms(3) in \<open>simp_all add: same_job_def\<close>)
  then show ?thesis by (simp add: keeps_def calm_def)
qed

section \<open>The beginning of a transfer\<close>

lemma MoveJobOffline_simps [simp]:
  "view (MoveJobOffline h s) = view s" "m_TaskScheduler (MoveJobOffline h s) = m_TaskScheduler s"
  "m_CurrentJob (MoveJobOffline h s) = m_CurrentJob s"
  "ServiceShuttingDown (MoveJobOffline h s) = ServiceShuttingDown s"
  "AssertionFailed (MoveJobOffline h s) = AssertionFailed s"
  "AccessViolations (MoveJobOffline h s) = AccessViolations s"
  "AddressCount (MoveJobOffline h s) = AddressCount s"
  by (simp_all add: MoveJobOffline_def)

lemma MoveJobOffline_keeps:
  assumes "jobs_ok C s" "h \<in> set (m_OnlineJobs s)"
  shows "keeps C s (MoveJobOffline h s)"
proof -
  have "0 < count_list (m_OnlineJobs s) h"
    using assms(2) count_list_0_iff [of "m_OnlineJobs s" h] by auto
  then have "jobs_ok C (MoveJobOffline h s)"
    by (intro jobs_ok_moved [OF assms(1)])
      (auto simp: MoveJobOffline_def CJobList_Remove_def CJobList_Add_def count_list_remove1)
  then show ?thesis by (simp add: keeps_def calm_def)
qed

lemma Transfer_no_token_keeps:
  assumes "inv C s" "m_CurrentJob s = Some c"
  shows "keeps C s (Transfer_no_token hr c s)"
proof -
  note f = current_facts [OF assms]
  have s: "jobs_ok C s" using assms(1) by (simp add: inv_def)
  have m: "keeps C s (MoveJobOffline c s)" by (rule MoveJobOffline_keeps [OF s f(5)])
  have "jobs_ok C (RecalcTransientError False c (MoveJobOffline c s))"
    using f by (intro Recalc_jobs_ok [OF keeps_ok [OF m]]) simp_all
  then have 1: "keeps C s (RecalcTransientError False c (MoveJobOffline c s))"
    by (simp add: keeps_def calm_def)
  have 2: "keeps C s (SetTransientError c e i r u s)" for e i r u
    by (rule SetTransientError_keeps [OF s f(1,2)])
  show ?thesis
    using keeps_fewer [OF 1 fewer_Complete] keeps_fewer [OF 2 fewer_Complete]
    by (simp add: Transfer_no_token_def)
qed

lemma CONNECTING_safe:
  assumes "inv C s" "m_CurrentJob s = Some c" "m_state (view s c) \<noteq> BG_JOB_STATE_TRANSFERRING"
  shows "safe C s (SetState c BG_JOB_STATE_CONNECTING s)"
proof -
  note f = current_facts [OF assms(1,2)]
  have s: "jobs_ok C s" and cur: "current_ok s" using assms(1) by (simp_all add: inv_def)
  note d = jobs_okD [OF s] and j = job_invD [OF jobs_okD(4) [OF s, of c]]
  have "jobs_ok C (SetState c BG_JOB_STATE_CONNECTING s)"
    using s f(1)
  proof (rule jobs_ok_update)
    show "jok C (SetState c BG_JOB_STATE_CONNECTING s) c"
      using d(1) j assms(2) f by (auto simp: job_inv_def IsRunning_def)
  qed (use d(1,2) in \<open>simp_all add: same_job_def\<close>)
  moreover have "current_ok (SetState c BG_JOB_STATE_CONNECTING s)"
    using cur assms(2) f(5,8) j(1) by (simp add: current_ok_def IsRunnable_download)
  ultimately show ?thesis by (simp add: safe_def inv_def calm_def)
qed

lemma CJob_Transfer_safe:
  assumes "inv C s" "m_CurrentJob s = Some c" "CJob_Transfer copy c s = (b, t)"
  shows "b \<Longrightarrow> safe C s t \<and> m_CurrentJob t = Some c" "\<not> b \<Longrightarrow> keeps C s t"
proof -
  let ?hr = "CloneUserToken (m_NotifySid (Jobs s c)) copy s"
  have "b \<Longrightarrow> t = (if m_state (Jobs s c) \<noteq> BG_JOB_STATE_TRANSFERRING
      then ScheduleModificationCallback c (SetState c BG_JOB_STATE_CONNECTING s) else s)"
    "\<not> b \<Longrightarrow> t = Transfer_no_token ?hr c s"
    using assms(3) unfolding CJob_Transfer_def Let_def by (auto split: if_splits)
  then show "b \<Longrightarrow> safe C s t \<and> m_CurrentJob t = Some c" "\<not> b \<Longrightarrow> keeps C s t"
    using safe_refl [OF assms(1)] safe_quiet [OF CONNECTING_safe [OF assms(1,2)] ScheduleModificationCallback_quiet]
      Transfer_no_token_keeps [OF assms(1,2)] assms(2) by auto
qed

section \<open>During a transfer\<close>

lemma VerifyFileSizes_mild: "mild s (snd (VerifyFileSizes h s))"
  by (simp add: VerifyFileSizes_def mild_upd_job)

lemma SetBytesTotal_mild: "mild s (SetBytesTotal h i n s)"
  unfolding SetBytesTotal_def by (rule mild_upd_job) (simp add: alike_def core_def)

lemma upd_file_mild: "mild s (upd_file h i f s)"
  unfolding upd_file_def by (rule mild_upd_job) (simp add: alike_def core_def)

lemma TRANSFERRING_safe:
  assumes "inv C s" "m_CurrentJob s = Some c"
  shows "safe C s (Cancel_item (CJobNoProgressItem c) (if b then SetState c BG_JOB_STATE_TRANSFERRING s else s))"
proof (cases b)
  case False
  then show ?thesis using safe_fewer [OF safe_refl [OF assms(1)] fewer_Cancel] by simp
next
  case True
  let ?t = "Cancel_item (CJobNoProgressItem c) (SetState c BG_JOB_STATE_TRANSFERRING s)"
  note f = current_facts [OF assms]
  have s: "jobs_ok C s" and cur: "current_ok s" using assms(1) by (simp_all add: inv_def)
  note d = jobs_okD [OF s] and j = job_invD [OF jobs_okD(4) [OF s, of c]]
  have "jobs_ok C ?t"
    using s f(1)
  proof (rule jobs_ok_update)
    show "jok C ?t c"
      using d(1) j assms(2) f by (auto simp: job_inv_def IsRunning_def ClearError_def)
  qed (use d(1,2) in \<open>simp_all add: same_job_def\<close>)
  moreover have "current_ok ?t"
    using cur assms(2) f(5,8) j(1) by (simp add: current_ok_def IsRunnable_download)
  ultimately show ?thesis using True by (simp add: safe_def inv_def calm_def)
qed

lemma CJob_UpdateProgress_safe:
  assumes "inv C s" "m_CurrentJob s = Some c"
  shows "safe C s (CJob_UpdateProgress c n s)" "m_CurrentJob (CJob_UpdateProgress c n s) = Some c"
proof -
  define t where "t = ScheduleModificationCallback c (Cancel_item (CJobNoProgressItem c)
     (if 0 < n then SetState c BG_JOB_STATE_TRANSFERRING s else s))"
  have t: "safe C s t" unfolding t_def
    by (rule safe_quiet [OF TRANSFERRING_safe [OF assms] ScheduleModificationCallback_quiet])
  have "m_CurrentJob t = Some c" using assms(2) by (simp add: t_def)
  moreover have "CJob_UpdateProgress c n s = (if PROGRESS_SERIALIZE_INTERVAL < now t - m_SerializeTime (Jobs t c)
         then UpdateModificationTime True c t else t)"
    unfolding CJob_UpdateProgress_def Let_def t_def ..
  ultimately show "safe C s (CJob_UpdateProgress c n s)" "m_CurrentJob (CJob_UpdateProgress c n s) = Some c"
    using t safe_quiet [OF t UpdateModificationTime_quiet] by (simp_all split: if_split)
qed

lemma SetQuantumTimeout_mild: "mild s (SetQuantumTimeout s)"
  by (simp add: mild_def SetQuantumTimeout_def)

lemma MoveActiveJobToListEnd_safe:
  assumes "inv C s" "m_CurrentJob s = Some c" "MoveActiveJobToListEnd c s = (n, t)"
  shows "safe C s t" "m_CurrentJob t = Some c"
proof -
  note f = current_facts [OF assms(1,2)]
  have s: "jobs_ok C s" and cur: "current_ok s" using assms(1) by (simp_all add: inv_def)
  let ?r = "s\<lparr>m_OnlineJobs := remove1 c (m_OnlineJobs s) @ [c]\<rparr>"
  have "0 < count_list (m_OnlineJobs s) c"
    using f(5) count_list_0_iff [of "m_OnlineJobs s" c] by auto
  then have "jobs_ok C ?r"
    by (intro jobs_ok_moved [OF s]) (auto simp: count_list_remove1)
  moreover have "current_ok ?r" using cur assms(2) by (simp add: current_ok_def)
  ultimately have r: "safe C s ?r" by (simp add: safe_def inv_def calm_def)
  have "t = s \<or> t = ?r"
    using assms(3) f(4) by (auto simp: MoveActiveJobToListEnd_def Let_def split: if_splits)
  then show "safe C s t" "m_CurrentJob t = Some c"
    using r safe_refl [OF assms(1)] assms(2) by auto
qed

lemma CheckForQuantumTimeout_safe:
  assumes "inv C s" "m_CurrentJob s = Some c" "CheckForQuantumTimeout b s = (r, t)"
  shows "safe C s t \<and> m_CurrentJob t = Some c"
proof -
  obtain n u where u: "MoveActiveJobToListEnd c s = (n, u)" by fastforce
  note m = MoveActiveJobToListEnd_safe [OF assms(1,2) u]
  have "m_CurrentJob (SetQuantumTimeout u) = Some c" using m(2) by (simp add: SetQuantumTimeout_def)
  moreover have "t = s \<or> t = u \<or> t = SetQuantumTimeout u"
    using assms(3) u by (auto simp: CheckForQuantumTimeout_def assms(2) split: option.splits if_splits)
  ultimately show ?thesis
    using m safe_refl [OF assms(1)] safe_mild [OF m(1) SetQuantumTimeout_mild] assms(2) by auto
qed

lemma DownloaderProgress_safe:
  assumes "inv C s" "m_CurrentJob s = Some c" "DownloaderProgress c n tot s = (r, t)"
  shows "safe C s t \<and> m_CurrentJob t = Some c"
proof -
  note f = current_facts [OF assms(1,2)]
  obtain fl where fl: "GetCurrentFile (view s c) = Some fl" using f(3) by (simp add: GetCurrentFile_def)
  define u where "u = upd_file c (m_CurrentFile (Jobs s c)) (fl\<lparr>m_BytesTransferred := n, m_BytesTotal := tot\<rparr>) s"
  have u: "safe C s u" "m_CurrentJob u = Some c"
    using safe_mild0 [OF assms(1) upd_file_mild] assms(2) by (simp_all add: u_def upd_file_def)
  have up: "m_UploadData (view u c) = None"
    using u(1) by (auto simp: safe_def inv_def intro: download)
  let ?v = "CJob_UpdateProgress c n u"
  note v = CJob_UpdateProgress_safe [OF safe_inv [OF u(1)] u(2), of n]
  have sv: "safe C s ?v" by (rule safe_trans [OF u(1) v(1)])
  have "CheckForQuantumTimeout False ?v = (r, t)"
    using assms(3) fl up by (simp add: DownloaderProgress_def UpdateProgress_def u_def)
  from CheckForQuantumTimeout_safe [OF safe_inv [OF sv] v(2) this] show ?thesis
    using safe_trans [OF sv] by blast
qed

section \<open>The end of a file\<close>

lemma upd_job_CurrentFile: "view (upd_job h (\<lambda>j. j\<lparr>m_CurrentFile := m_CurrentFile j + 1\<rparr>) s) k =
    (if k = h then (view s h)\<lparr>m_CurrentFile := m_CurrentFile (view s h) + 1\<rparr> else view s k)"
  by simp

lemma CJob_FileComplete_next_keeps:
  assumes "jobs_ok C s" "h \<in> C" "busy (view s h)"
  shows "keeps C s (CJob_FileComplete_next h s)"
proof -
  note d = jobs_okD [OF assms(1)] and j = job_invD [OF jobs_okD(4) [OF assms(1), of h]]
  have cur: "m_CurrentFile (view s h) < length (m_files (view s h))" using j(9) assms(3) by simp
  define u where "u = upd_job h (\<lambda>j. j\<lparr>m_CurrentFile := m_CurrentFile j + 1\<rparr>) s"
  have v: "view u k = (if k = h then (view s h)\<lparr>m_CurrentFile := m_CurrentFile (view s h) + 1\<rparr> else view s k)" for k
    unfolding u_def by (rule upd_job_CurrentFile)
  have r: "rest u = rest s" "m_TaskScheduler u = m_TaskScheduler s" "AssertionFailed u = AssertionFailed s"
    by (simp_all add: u_def)
  note rs = restD [OF r(1)]
  show ?thesis
  proof (cases "m_CurrentFile (view s h) + 1 = length (m_files (view s h))")
    case True
    have "jobs_ok C (JobTransferred h u)"
      using assms(1,2)
    proof (rule jobs_ok_update)
      show "jok C (JobTransferred h u) h"
        using d(1) j assms(2,3) True by (simp add: job_inv_def IsRunning_def v r rs ClearError_def)
    qed (use d(1,2) in \<open>simp_all add: same_job_def v r rs\<close>)
    then have "keeps C s (JobTransferred h u)" by (simp add: keeps_def calm_def r rs)
    moreover have "CJob_FileComplete_next h s = Serialize (JobTransferred h u)"
      using True v [of h] unfolding CJob_FileComplete_next_def Let_def u_def [symmetric] by simp
    ultimately show ?thesis using keeps_quiet [OF _ Serialize_quiet] by simp
  next
    case False
    have "jobs_ok C u"
      using assms(1,2)
    proof (rule jobs_ok_update)
      show "jok C u h"
        using j assms(2,3) False cur by (simp add: job_inv_def IsRunning_def v r rs)
    qed (use d(1,2) in \<open>simp_all add: same_job_def v r rs\<close>)
    then have "keeps C s u" by (simp add: keeps_def calm_def r rs)
    note k = keeps_quiet [OF this ScheduleModificationCallback_quiet]
    show ?thesis
      using False v [of h] keeps_quiet [OF k UpdateModificationTime_quiet] keeps_quiet [OF k SetModificationTime_quiet]
      unfolding CJob_FileComplete_next_def Let_def u_def [symmetric] by (simp split: if_split)
  qed
qed

lemma FileComplete_keeps:
  assumes "jobs_ok C s" "h \<in> C" "busy (view s h)"
  shows "keeps C s (FileComplete api h s)"
  using CJob_FileComplete_next_keeps [OF assms] download [OF assms(1), of h]
    job_invD(13) [OF jobs_okD(4) [OF assms(1), of h]]
  by (simp add: FileComplete_def CJob_FileComplete_def)

lemma FileTransientError_keeps:
  assumes "jobs_ok C s" "h \<in> C" "busy (view s h)"
  shows "keeps C s (FileTransientError h e s)"
  using SetTransientError_keeps [OF assms] download [OF assms(1), of h]
  by (simp add: FileTransientError_def CJob_FileTransientError_def)

section \<open>Starting on the current file\<close>

lemma OnDiskChange_fold_busy:
  assumes "\<And>k. m_UploadData (view s k) = None" "busy (view s k)"
  shows "busy (view (fold (CJob_OnDiskChange b) xs s) k)"
  using assms
proof (induction xs arbitrary: s)
  case (Cons h xs)
  have "view (CJob_OnDiskChange b h s) k = view s k \<or> m_state (view (CJob_OnDiskChange b h s) k) = BG_JOB_STATE_ERROR"
    "m_UploadData (view (CJob_OnDiskChange b h s) i) = None" for i
    using Cons.prems(1)
    by (auto simp: CJob_OnDiskChange_def FileFatalError_def CJob_FileFatalError_def split: BG_JOB_STATE.split)
  then have "busy (view (fold (CJob_OnDiskChange b) xs (CJob_OnDiskChange b h s)) k)"
    using Cons.prems(2) by (intro Cons.IH) auto
  then show ?case by simp
qed simp

lemma OnDiskChange_busy:
  assumes "jobs_ok C s" "busy (view s k)"
  shows "busy (view (OnDiskChange v n s) k)"
proof -
  let ?f = "fold (CJob_OnDiskChange (\<lambda>f. DiskChange_bFail f v n)) (m_OnlineJobs s) s"
  have "busy (view ?f k)"
    using OnDiskChange_fold_busy [of s k] download [OF assms(1)] assms(2) by blast
  then show ?thesis by (simp add: OnDiskChange_def)
qed

lemma CFile_Transfer_safe:
  assumes "inv C s" "m_CurrentJob s = Some c" "CFile_Transfer api drive c s = (b, t)"
  shows "b \<Longrightarrow> t = s" "\<not> b \<Longrightarrow> keeps C s t"
proof -
  note f = current_facts [OF assms(1,2)]
  have s: "jobs_ok C s" using assms(1) by (simp add: inv_def)
  obtain fl where fl: "GetCurrentFile (view s c) = Some fl" using f(3) by (simp add: GetCurrentFile_def)
  have o: "keeps C s (OnDiskChange v n s)" for v n by (rule safe_keeps [OF OnDiskChange_safe(1) [OF s]])
  have ch: "keeps C s (FileFatalError c (Some e) (OnDiskChange v n s))" for e v n
    using keeps_trans [OF o FileFatalError_keeps [OF keeps_ok [OF o] f(1) OnDiskChange_busy [OF s f(2)]]] by simp
  have eq: "CFile_Transfer api drive c s = (case ValidateDriveInfo drive fl of
         Drive_Changed e \<Rightarrow> (False, FileFatalError c (Some e)
            (OnDiskChange (m_CanonicalVolumePath fl) (m_VolumeSerialNumber fl) s))
       | Drive_Error e \<Rightarrow> (False, FileTransientError c e s)
       | Drive_Valid \<Rightarrow> (if m_BytesTransferred fl = m_BytesTotal fl then (False, FileComplete api c s) else (True, s)))"
    using fl by (simp add: CFile_Transfer_def cong: DriveCheck.case_cong)
  show "b \<Longrightarrow> t = s" "\<not> b \<Longrightarrow> keeps C s t"
    using assms(3) ch FileTransientError_keeps [OF s f(1,2)] FileComplete_keeps [OF s f(1,2)]
    unfolding eq by (auto split: DriveCheck.splits if_splits)
qed

section \<open>The outcome of a download\<close>

lemma Transfer_result_safe:
  assumes "inv C s" "m_CurrentJob s = Some c" "Transfer_result api tries e c s = (b, t)" "result e \<noteq> QM_IN_PROGRESS"
  shows "b \<Longrightarrow> safe C s t \<and> m_CurrentJob t = Some c" "\<not> b \<Longrightarrow> keeps C s t"
proof -
  note f = current_facts [OF assms(1,2)]
  have s: "jobs_ok C s" using assms(1) by (simp add: inv_def)
  obtain fl where fl: "GetCurrentFile (view s c) = Some fl" using f(3) by (simp add: GetCurrentFile_def)
  obtain g fs where g: "ChangedOnServer api fl (FileSystem s) = (g, fs)" by fastforce
  define u where "u = UpdateModificationTime True c (upd_file c (m_CurrentFile (Jobs s c)) g (s\<lparr>FileSystem := fs\<rparr>))"
  have "mild s u" unfolding u_def
    by (rule mild_UpdateModificationTime [OF mild_trans [OF mild_FileSystem upd_file_mild]])
  then have u: "safe C s u" by (rule safe_mild0 [OF assms(1)])
  have uc: "m_CurrentJob u = Some c" "busy (view u c)"
    using assms(2) f(2) by (simp_all add: u_def upd_file_def)
  have "keeps C s (FileFatalError c (Some e') u)" for e'
    using keeps_trans [OF safe_keeps [OF u] FileFatalError_keeps [OF keeps_ok [OF safe_keeps [OF u]] f(1) uc(2)]] by simp
  moreover have "Transfer_result api tries e c s = (case result e of
        QM_FILE_TRANSIENT_ERROR \<Rightarrow> (False, FileTransientError c (if AddressCount s = 0
              then QMErrInfo_hr QM_FILE_TRANSIENT_ERROR SOURCE_HTTP_CLIENT_CONN BG_E_NETWORK_DISCONNECTED else e) s)
      | QM_FILE_DONE \<Rightarrow> (False, FileComplete api c s)
      | QM_FILE_FATAL_ERROR \<Rightarrow> (False, FileFatalError c (Some e) s)
      | QM_FILE_ABORTED \<Rightarrow> (False, s)
      | QM_IN_PROGRESS \<Rightarrow> (False, ASSERT False s)
      | QM_SERVER_FILE_CHANGED \<Rightarrow> (if tries + 1 < 3 then (True, u)
          else (False, FileFatalError c (Some (QMErrInfo_hr QM_FILE_FATAL_ERROR SOURCE_HTTP_CLIENT_CONN
                                 BG_E_INVALID_SERVER_RESPONSE)) u)))"
    unfolding Transfer_result_def Let_def Jobs_view(26) fl option.case g prod.case u_def ..
  ultimately show "b \<Longrightarrow> safe C s t \<and> m_CurrentJob t = Some c" "\<not> b \<Longrightarrow> keeps C s t"
    using assms(3,4) u uc(1) FileTransientError_keeps [OF s f(1,2)] FileComplete_keeps [OF s f(1,2)]
      FileFatalError_keeps [OF s f(1,2)] keeps_refl [OF s]
    by (auto split: FILE_DOWNLOAD_RESULT.splits if_splits)
qed

lemma TransferCurrentJob_end_safe: "keeps C s t \<Longrightarrow> safe C s (TransferCurrentJob_end t)"
  unfolding TransferCurrentJob_end_def by (rule keeps_SAG [OF keeps_fewer [OF _ fewer_Complete]])

end
