(* ===== verification/BitsSystem.thy ===== *)
theory BitsSystem
  imports BitsTransfer
begin

text \<open>
  The service as a transition system: clients, the threads of the task scheduler, the events
  of the manager and the outside world take turns. Each step is one of the operations under
  the writer lock. The jobs are download jobs, without the interfaces of BITS 1.0
  (\<open>SetOldExternalJobInterface\<close>).
\<close>

section \<open>The service at start\<close>

definition CJobManager_new ::
  "64 word \<Rightarrow> 64 word \<Rightarrow> 64 word \<Rightarrow> nat \<Rightarrow> nat list \<Rightarrow> 'fs \<Rightarrow> 'fs CJobManager" where
  "CJobManager_new t inactivity quantum addresses users fs =
     \<lparr>Jobs = (\<lambda>_. CJob_new 0 [] BG_JOB_TYPE_DOWNLOAD 0 0 0 t), m_OnlineJobs = [], m_OfflineJobs = [],
      m_CurrentJob = None, m_TaskScheduler = TaskScheduler_new t, m_hQuantumTimer = None,
      AddressCount = addresses, m_Users = users, m_JobInactivityTimeout = inactivity,
      m_TimeQuantaLength = quantum, ServiceShuttingDown = False, MetadataError = 0,
      StateFileFails = False, StateFile = None, FileSystem = fs, AssertionFailed = False,
      AccessViolations = []\<rparr>"

section \<open>Calls of clients\<close>

text \<open>
  The methods of the external interface that modify a job. Adding a file set of no files to a
  job that is transferred breaks the job, see the finding on \<open>AddFileSet\<close>: \<open>empty_sets\<close> says
  whether clients do that. The service itself accepts it, so \<open>True\<close> gives all calls.
\<close>

inductive client :: "('fs, 'z) FileApi_scheme \<Rightarrow> bool \<Rightarrow> nat \<Rightarrow> 'fs CJobManager \<Rightarrow> 'fs CJobManager \<Rightarrow> bool"
  for api empty_sets h s where
  Suspend: "client api empty_sets h s (snd (SuspendInternal access h s))"
| Resume: "client api empty_sets h s (snd (ResumeInternal api access h s))"
| Cancel: "client api empty_sets h s (snd (CancelInternal api access h s))"
| Complete: "client api empty_sets h s (snd (CompleteInternal api access h s))"
| AddFile: "client api empty_sets h s (snd (AddFileInternal api access h r l s))"
| AddFileSet: "empty_sets \<or> ps \<noteq> [] \<or> m_state (Jobs s h) \<noteq> BG_JOB_STATE_TRANSFERRED \<Longrightarrow>
    client api empty_sets h s (snd (AddFileSetInternal api access h ps s))"
| SetPriority: "client api empty_sets h s (snd (SetPriorityInternal access h v s))"
| SetNotifyFlags: "client api empty_sets h s (snd (SetNotifyFlagsInternal access h w s))"
| SetMinimumRetryDelay: "client api empty_sets h s (snd (SetMinimumRetryDelayInternal access h w s))"
| SetNoProgressTimeout: "client api empty_sets h s (snd (SetNoProgressTimeoutInternal access h w s))"
| SetDisplayName: "client api empty_sets h s (snd (SetDisplayNameInternal access h n s))"
| SetDescription: "client api empty_sets h s (snd (SetDescriptionInternal access h n s))"
| SetNotifyCmdLine: "client api empty_sets h s (snd (SetNotifyCmdLineInternal access h p q s))"
| SetNotifyInterface: "client api empty_sets h s (snd (SetNotifyInterfaceInternal access h i valid s))"
| TakeOwnership: "client api empty_sets h s (snd (TakeOwnershipInternal access h sid validate s))"
| GetError: "client api empty_sets h s (snd (GetErrorInternal access h s))"

lemma GetErrorInternal_quiet: "quiet s (snd (GetErrorInternal access h s))"
proof -
  obtain hr u where va: "ValidateAccess False access h s = (hr, u)" by fastforce
  have "quiet s u" using ValidateAccess_quiet [of s False access h] by (simp add: va)
  then show ?thesis by (simp add: GetErrorInternal_def va split: option.split)
qed

lemma Cancel_safe: "inv C s \<Longrightarrow> h \<in> C \<Longrightarrow> safe C s (snd (Cancel api h s))"
  using CJob_Cancel_safe [of C s h api] download [of C s h] by (simp add: Cancel_def inv_def)

lemma Complete_safe: "inv C s \<Longrightarrow> h \<in> C \<Longrightarrow> safe C s (snd (Complete api h s))"
  using CJob_Complete_safe [of C s h api] download [of C s h] by (simp add: Complete_def inv_def)

lemmas Internal_defs = SuspendInternal_def ResumeInternal_def CancelInternal_def CompleteInternal_def
  AddFileInternal_def AddFileSetInternal_def SetPriorityInternal_def SetNotifyFlagsInternal_def
  SetMinimumRetryDelayInternal_def SetNoProgressTimeoutInternal_def SetDisplayNameInternal_def
  SetDescriptionInternal_def SetNotifyCmdLineInternal_def TakeOwnershipInternal_def

lemma SetName_mild: "mild s (snd (SetDisplayName n h s))" "mild s (snd (SetDescription n h s))"
  by (simp_all add: SetDisplayName_def SetDescription_def SetLimitedString_mild)

lemma client_safe:
  assumes "throws_failures api" "inv C s" "h \<in> C" "client api False h s t"
  shows "safe C s t"
  using assms(4)
proof cases
  case (AddFileSet ps access)
  have st: "m_state (Jobs s h) = m_state (view s h)" by simp
  show ?thesis
    unfolding AddFileSet(1) Internal_defs
  proof (rule write_access_safe [OF assms(2)])
    fix u :: "'a CJobManager"
    assume u: "inv C u" "view u = view s" "\<not> finished (view u h)"
    show "safe C u (snd (AddFileSet api h ps u))"
      using AddFileSet(2) u st by (intro AddFileSet_safe [OF assms(1) u(1) assms(3)]) simp_all
  qed
next
  case (GetError access)
  then show ?thesis using safe_quiet [OF safe_refl [OF assms(2)] GetErrorInternal_quiet] by simp
next
  case (SetNotifyInterface access i valid)
  then show ?thesis using SetNotifyInterfaceInternal_safe [OF assms(2,3)] by simp
qed (simp_all only: Internal_defs,
    (rule write_access_safe [OF assms(2)],
      blast intro: assms SuspendJob_safe Resume_safe Cancel_safe Complete_safe AddFile_safe SetPriority_safe
        TakeOwnership_safe safe_mild0 SetNotifyFlags_mild SetMinimumRetryDelay_mild SetNoProgressTimeout_mild
        SetName_mild SetNotifyCmdLine_mild)+)

section \<open>Steps of the service\<close>

text \<open>
  A state of the system is the set of jobs created so far, the transfer that the manager's
  thread is in, if any, with its number of retries, and the service itself. The thread that
  has taken the manager item is in a transfer until it takes the item again. \<open>cancelled\<close>
  is the outcome of the attempt of a handler to take the lock, which gives up only when the
  cancel event of its work item is set. \<open>acknowledge\<close> is the manager's thread that finds it
  set: at the start of \<open>TransferCurrentJob\<close>, or when it takes the lock again in the middle
  of a transfer or finds the download aborted.
\<close>

inductive step :: "('fs, 'z) FileApi_scheme \<Rightarrow> bool \<Rightarrow> nat set \<Rightarrow> (nat \<times> nat) option \<Rightarrow> 'fs CJobManager
    \<Rightarrow> nat set \<Rightarrow> (nat \<times> nat) option \<Rightarrow> 'fs CJobManager \<Rightarrow> bool" for api empty_sets C X s where
  client: "h \<in> C \<Longrightarrow> client api empty_sets h s t \<Longrightarrow> step api empty_sets C X s C X t"
| create: "h \<notin> C \<Longrightarrow> CreateJob name BG_JOB_TYPE_DOWNLOAD jid sid h old delay timeout s = (hr, t) \<Longrightarrow>
    step api empty_sets C X s (if SUCCEEDED hr then insert h C else C) X t"
| retry: "handles cancelled (CJobRetryItem h) s \<Longrightarrow> step api empty_sets C X s C X (OnRetryJob cancelled h s)"
| no_progress: "handles cancelled (CJobNoProgressItem h) s \<Longrightarrow> step api empty_sets C X s C X (OnNoProgress cancelled h s)"
| inactivity: "handles cancelled (CJobInactivityTimeout h) s \<Longrightarrow>
    step api empty_sets C X s C X (OnInactivityTimeout api cancelled h s)"
| callback: "handles cancelled (CJobCallbackItem h) s \<Longrightarrow> step api empty_sets C X s C X (OnMakeCallback cancelled h s)"
| interface: "step api empty_sets C X s C X (snd (InterfaceCallback h s))"
| interface_returned: "step api empty_sets C X s C X (snd (InterfaceCallback_returned hr h s))"
| command: "m_OldExternalGroupInterface (Jobs s h) = None \<Longrightarrow> step api empty_sets C X s C X (snd (CmdLineCallback h s))"
| reschedule: "h \<in> C \<Longrightarrow> (cancelled \<longrightarrow> PollAbort (m_TaskScheduler s)) \<Longrightarrow>
    step api empty_sets C X s C X (snd (RescheduleCallback cancelled h s))"
| modification: "handles cancelled (CJobModificationItem h) s \<Longrightarrow>
    step api empty_sets C X s C X (snd (OnModificationCallback cancelled h s))"
| modification_returned: "handles cancelled (CJobModificationItem h) s \<Longrightarrow>
    step api empty_sets C X s C X (OnModificationCallback_returned cancelled hr h s)"
| begin_transfer: "on_thread CJobManagerItem s \<Longrightarrow> X = None \<Longrightarrow> TransferCurrentJob_begin copy s = (b, t) \<Longrightarrow>
    step api empty_sets C X s C (if b then map_option (\<lambda>c. (c, 0)) (m_CurrentJob s) else None)
      (if b then t else TransferCurrentJob_end t)"
| verify_sizes: "on_thread CJobManagerItem s \<Longrightarrow> X = Some (c, n) \<Longrightarrow> step api empty_sets C X s C X (snd (VerifyFileSizes c s))"
| size_known: "X = Some (c, n) \<Longrightarrow> step api empty_sets C X s C X (SetBytesTotal c i w s)"
| start_file: "on_thread CJobManagerItem s \<Longrightarrow> X = Some (c, n) \<Longrightarrow> CFile_Transfer api drive c s = (b, t) \<Longrightarrow>
    step api empty_sets C X s C X (if b then t else TransferCurrentJob_end t)"
| progress: "on_thread CJobManagerItem s \<Longrightarrow> X = Some (c, n) \<Longrightarrow> DownloaderProgress c w total_bytes s = (b, t) \<Longrightarrow>
    step api empty_sets C X s C X t"
| acknowledge: "handles True CJobManagerItem s \<Longrightarrow> step api empty_sets C X s C X (Acknowledge_item s)"
| quantum: "on_thread CJobManagerItem s \<Longrightarrow> X = Some (c, n) \<Longrightarrow>
    (cancelled \<longrightarrow> PollAbort (m_TaskScheduler s)) \<Longrightarrow> CheckForQuantumTimeout cancelled s = (b, t) \<Longrightarrow>
    step api empty_sets C X s C X t"
| outcome: "on_thread CJobManagerItem s \<Longrightarrow> X = Some (c, n) \<Longrightarrow> result e \<noteq> QM_IN_PROGRESS \<Longrightarrow>
    Transfer_result api n e c s = (b, t) \<Longrightarrow>
    step api empty_sets C X s C (if b then Some (c, n + 1) else X) (if b then t else TransferCurrentJob_end t)"
| end_transfer: "m_WorkItemTLS (m_TaskScheduler s) \<in> {None, Some CJobManagerItem} \<Longrightarrow>
    step api empty_sets C X s C X (TransferCurrentJob_end s)"
| disk_change: "step api empty_sets C X s C X (OnDiskChange v n32 s)"
| dismount: "step api empty_sets C X s C X (OnDismount v s)"
| device_lock: "step api empty_sets C X s C X (OnDeviceLock v s)"
| device_unlock: "step api empty_sets C X s C X (OnDeviceUnlock v s)"
| network: "step api empty_sets C X s C X (OnNetworkChange m s)"
| logon: "step api empty_sets C X s C X (UserLoggedOn sid s)"
| logoff: "step api empty_sets C X s C X (UserLoggedOff sid s)"
| terminate: "step api empty_sets C X s C X (s\<lparr>ServiceShuttingDown := True\<rparr>)"
| thread: "c = None \<or> (\<exists>i. c = Some i \<and> m_State (WorkItems (m_TaskScheduler s) i) = TASK_STATE_RUNNING) \<Longrightarrow>
    step api empty_sets C X s C X (upd_sched (\<lambda>ts. ts\<lparr>m_WorkItemTLS := c\<rparr>) s)"
| clock: "step api empty_sets C X s C X (upd_sched (\<lambda>ts. ts\<lparr>SystemTime := w64\<rparr>) s)"
| die: "step api empty_sets C X s C X (upd_sched (\<lambda>ts. ts\<lparr>m_bShouldDie := True\<rparr>) s)"
| dispatch: "step api empty_sets C X s C X (upd_sched (DispatchWorkItem (GetSid s)) s)"
| take: "\<not> m_bShouldDie (m_TaskScheduler s) \<Longrightarrow> m_ReadyList (m_TaskScheduler s) g = i # is \<Longrightarrow>
    step api empty_sets C X s C (if i = CJobManagerItem then None else X) (upd_sched (WorkGroupWorker_take g) s)"
| world: "step api empty_sets C X s C X (s\<lparr>m_Users := us, MetadataError := e32, StateFileFails := f, FileSystem := fs\<rparr>)"

inductive reach :: "('fs, 'z) FileApi_scheme \<Rightarrow> bool \<Rightarrow> nat set \<Rightarrow> (nat \<times> nat) option \<Rightarrow> 'fs CJobManager \<Rightarrow> bool"
  for api empty_sets where
  start: "reach api empty_sets {} None (CJobManager_new t inactivity quantum addresses users fs)"
| step: "reach api empty_sets C X s \<Longrightarrow> step api empty_sets C X s C' X' s' \<Longrightarrow> reach api empty_sets C' X' s'"

section \<open>The invariant of the system\<close>

definition sys_inv :: "nat set \<Rightarrow> (nat \<times> nat) option \<Rightarrow> 'fs CJobManager \<Rightarrow> bool" where
  "sys_inv C X s \<longleftrightarrow> inv C s \<and>
     (\<forall>c n. X = Some (c, n) \<longrightarrow> manager_runs s \<longrightarrow> m_CurrentJob s = Some c)"

lemma sys_safe: "sys_inv C X s \<Longrightarrow> safe C' s t \<Longrightarrow> sys_inv C' X t"
  by (auto simp: sys_inv_def safe_def calm_def)

lemma sys_current:
  "sys_inv C (Some (c, n)) s \<Longrightarrow> on_thread CJobManagerItem s \<Longrightarrow> m_CurrentJob s = Some c"
  using on_thread_runs [of s CJobManagerItem] by (auto simp: sys_inv_def)

lemma held_new [simp]: "\<not> IsWorkItemInScheduler i (TaskScheduler_new t)"
  by (simp add: TaskScheduler_new_def TaskSchedulerWorkItem_new_def IsWorkItemInScheduler_def)

lemma inv_start: "inv {} (CJobManager_new t ia q n us fs)"
  by (simp add: inv_def jobs_ok_def current_ok_def CJobManager_new_def job_inv_def view_def CJob_new_def
      core_def ClearError_def IsRunning_def del: Jobs_view)

text \<open>Passing control, dispatching and taking an item do not change which items are held.\<close>

lemma inv_same:
  assumes "inv C s" "view t = view s" "rest t = rest s" "AssertionFailed t = AssertionFailed s" "alive t"
    "\<And>k. tracked k \<Longrightarrow> InScheduler k t = InScheduler k s"
  shows "inv C t"
  using assms(1) restD [OF assms(3)] assms(5) by (simp add: inv_def jobs_ok_def current_ok_def assms(2,4,6))

lemma inv_sched:
  assumes "inv C s" "live (f (m_TaskScheduler s))"
    "\<And>k. tracked k \<Longrightarrow> IsWorkItemInScheduler k (f (m_TaskScheduler s)) = InScheduler k s"
  shows "inv C (upd_sched f s)"
  by (rule inv_same [OF assms(1)]) (simp_all add: assms(2,3))

definition same_items :: "TaskScheduler \<Rightarrow> TaskScheduler \<Rightarrow> bool" where
  "same_items ts ts' \<longleftrightarrow> (\<forall>k. tracked k \<longrightarrow>
     IsWorkItemInScheduler k ts' = IsWorkItemInScheduler k ts \<and>
     (m_State (WorkItems ts' k) = TASK_STATE_RUNNING \<longleftrightarrow> m_State (WorkItems ts k) = TASK_STATE_RUNNING))"

lemma waiting_state:
  "item_live ts k \<Longrightarrow> k \<in> set (m_WaitingList ts) \<Longrightarrow> m_State (WorkItems ts k) = TASK_STATE_WAITING"
  using count_list_0_iff [of "m_WaitingList ts" k] by (auto simp: item_live_def split: if_splits)

lemma ready_state:
  "item_live ts k \<Longrightarrow> k \<in> set (m_ReadyList ts g) \<Longrightarrow> m_State (WorkItems ts k) = TASK_STATE_READY"
  using count_list_0_iff [of "m_ReadyList ts g" k] by (auto simp: item_live_def split: if_splits)

lemma same_items_make_ready:
  assumes "live ts" "i \<in> set (m_WaitingList ts)"
  shows "same_items ts (AddItemToWorkGroup g i (ts\<lparr>m_WaitingList := xs\<rparr>))"
  using assms waiting_state [of ts i]
  by (auto simp: same_items_def AddItemToWorkGroup_def IsWorkItemInScheduler_def live_def)

lemma same_items_trans: "same_items a b \<Longrightarrow> same_items b c \<Longrightarrow> same_items a c"
  by (simp add: same_items_def)

lemma same_items_Dispatch_Loop:
  "live ts \<Longrightarrow> xs = m_WaitingList ts \<Longrightarrow> same_items ts (Dispatch_Loop sid xs ts)"
proof (induction sid xs ts rule: Dispatch_Loop.induct)
  case (1 sid ts)
  then show ?case by (simp add: same_items_def)
next
  case (2 sid i rest ts)
  let ?ts = "AddItemToWorkGroup (sid i) i (ts\<lparr>m_WaitingList := SortedWorkItemList_erase i (m_WaitingList ts)\<rparr>)"
  have i: "i \<in> set (m_WaitingList ts)" by (simp flip: 2(3))
  have s: "same_items ts ?ts" by (rule same_items_make_ready [OF 2(2) i])
  have "live ?ts" using i 2(2) unfolding live_def by (auto intro!: item_live_make_ready)
  moreover have "rest = m_WaitingList ?ts"
    by (simp add: AddItemToWorkGroup_def SortedWorkItemList_erase_def flip: 2(3))
  ultimately have "\<not> SystemTime ts < m_TimeToRun (WorkItems ts i) \<Longrightarrow> same_items ?ts (Dispatch_Loop sid rest ?ts)"
    by (intro 2(1)) simp_all
  then have "\<not> SystemTime ts < m_TimeToRun (WorkItems ts i) \<Longrightarrow> same_items ts (Dispatch_Loop sid rest ?ts)"
    using same_items_trans [OF s] by blast
  moreover have "same_items ts ts" by (simp add: same_items_def)
  ultimately show ?case
    by (simp only: Dispatch_Loop.simps split: if_split) blast
qed

lemma same_items_control:
  "same_items ts (ts\<lparr>m_WorkItemTLS := c\<rparr>)" "same_items ts (ts\<lparr>SystemTime := t\<rparr>)" "same_items ts (ts\<lparr>m_bShouldDie := b\<rparr>)"
  by (simp_all add: same_items_def IsWorkItemInScheduler_def)

lemma held_Reschedule: "IsWorkItemInScheduler k (Reschedule ts) = IsWorkItemInScheduler k ts"
  by (simp add: IsWorkItemInScheduler_def)

lemma same_items_Dispatch: "live ts \<Longrightarrow> same_items ts (DispatchWorkItem sid ts)"
  using same_items_Dispatch_Loop [of ts "m_WaitingList ts" sid]
  by (simp add: DispatchWorkItem_def same_items_def held_Reschedule)

lemma take_items:
  assumes "live ts" "\<not> m_bShouldDie ts" "m_ReadyList ts g = i # is" "tracked k"
  shows "IsWorkItemInScheduler k (WorkGroupWorker_take g ts) = IsWorkItemInScheduler k ts"
    "k \<noteq> i \<Longrightarrow> WorkItems (WorkGroupWorker_take g ts) k = WorkItems ts k"
  using assms ready_state [of ts k g]
  by (auto simp: WorkGroupWorker_take_def Let_def IsWorkItemInScheduler_def live_def)

section \<open>Every step keeps the invariant\<close>

lemma sys_items:
  assumes "sys_inv C X s" "live (f (m_TaskScheduler s))" "same_items (m_TaskScheduler s) (f (m_TaskScheduler s))"
  shows "sys_inv C X (upd_sched f s)"
  using assms inv_sched [of C s f] by (simp add: sys_inv_def same_items_def)

lemma step_inv:
  assumes "throws_failures api" "sys_inv C X s" "step api False C X s C' X' t"
  shows "sys_inv C' X' t"
proof -
  have s: "inv C s" and r: "safe C s s" and a: "alive s"
    using assms(2) safe_refl by (auto simp: sys_inv_def)
  have j: "jobs_ok C s" using s by (simp add: inv_def)
  note k = sys_safe [OF assms(2)]
  have cur: "on_thread CJobManagerItem s \<Longrightarrow> X = Some (c, n) \<Longrightarrow> m_CurrentJob s = Some c" for c n
    using sys_current assms(2) by blast
  from assms(3) show ?thesis
  proof cases
    case (client h)
    then show ?thesis using k client_safe [OF assms(1) s] by blast
  next
    case (create h name jid sid old delay timeout hr)
    show ?thesis unfolding create(1,2) by (rule k [OF CreateJob_safe [OF s create(3,4)]])
  next
    case (retry h cancelled)
    then show ?thesis using k OnRetryJob_safe [OF s] by blast
  next
    case (no_progress h cancelled)
    then show ?thesis using k OnNoProgress_safe [OF s] by blast
  next
    case (inactivity h cancelled)
    then show ?thesis using k OnInactivityTimeout_safe [OF s] by blast
  next
    case (callback h cancelled)
    then show ?thesis using k OnMakeCallback_safe [OF _ s] by blast
  next
    case (interface h)
    then show ?thesis using assms(2) InterfaceCallback_state [OF j] by simp
  next
    case (interface_returned hr h)
    then show ?thesis using k safe_mild [OF r InterfaceCallback_returned_mild] by blast
  next
    case (command h)
    then show ?thesis using assms(2) CmdLineCallback_state [OF j, of h] by simp
  next
    case (reschedule h cancelled)
    then show ?thesis using k RescheduleCallback_safe [OF s] by blast
  next
    case (modification h cancelled)
    then show ?thesis using k OnModificationCallback_safe [OF s] by blast
  next
    case (modification_returned h cancelled hr)
    then show ?thesis using k OnModificationCallback_returned_safe [OF s] by blast
  next
    case (end_transfer)
    then show ?thesis using k TransferCurrentJob_end_safe [OF inv_keeps [OF s]] by blast
  next
    case (verify_sizes c n)
    then show ?thesis using k safe_mild [OF r VerifyFileSizes_mild] by blast
  next
    case (size_known c n i w)
    then show ?thesis using k safe_mild [OF r SetBytesTotal_mild] by blast
  next
    case (begin_transfer copy b u)
    show ?thesis
    proof (cases "m_CurrentJob s")
      case None
      then show ?thesis
        using begin_transfer k TransferCurrentJob_end_safe [OF inv_keeps [OF s]]
        by (simp add: TransferCurrentJob_begin_def)
    next
      case (Some c)
      then have u: "CJob_Transfer copy c s = (b, u)"
        using begin_transfer(6) download [OF j, of c] by (simp add: TransferCurrentJob_begin_def)
      show ?thesis
        using CJob_Transfer_safe [OF s Some u] begin_transfer(1-3) Some k TransferCurrentJob_end_safe [of C s u]
        by (cases b) (auto simp: sys_inv_def safe_def)
    qed
  next
    case (start_file c n drive b u)
    have "m_CurrentJob s = Some c" using cur start_file(4,5) by blast
    note f = CFile_Transfer_safe [OF s this start_file(6)]
    show ?thesis
      using f assms(2) k [OF TransferCurrentJob_end_safe] unfolding start_file(1-3) by (cases b) simp_all
  next
    case (progress c n w total_bytes b)
    have "m_CurrentJob s = Some c" using cur progress(3,4) by blast
    from DownloaderProgress_safe [OF s this progress(5)] show ?thesis
      using k progress(1,2) by blast
  next
    case acknowledge
    then show ?thesis using k safe_fewer [OF r fewer_Acknowledge] by blast
  next
    case (quantum c n cancelled b)
    have "m_CurrentJob s = Some c" using cur quantum(3,4) by blast
    from CheckForQuantumTimeout_safe [OF s this quantum(6)] show ?thesis
      using k quantum(1,2) by blast
  next
    case (outcome c n e b u)
    have c: "m_CurrentJob s = Some c" using cur outcome(4,5) by blast
    note f = Transfer_result_safe [OF s c outcome(7,6)]
    show ?thesis
      using f k [OF TransferCurrentJob_end_safe] unfolding outcome(1-3)
      by (cases b) (auto simp: sys_inv_def safe_def)
  next
    case (disk_change v n32)
    then show ?thesis using k OnDiskChange_safe(1) [OF j] by blast
  next
    case (dismount v)
    then show ?thesis using k OnDiskChange_safe(2) [OF j] by blast
  next
    case (device_lock v)
    then show ?thesis using k OnDevice_safe(1) [OF s] by blast
  next
    case (device_unlock v)
    then show ?thesis using k OnDevice_safe(2) [OF s] by blast
  next
    case (network m)
    then show ?thesis using k OnNetworkChange_safe [OF s] by blast
  next
    case (logon sid)
    then show ?thesis using k UserLoggedOn_safe [OF s] by blast
  next
    case (logoff sid)
    then show ?thesis using k UserLoggedOff_safe [OF s] by blast
  next
    case terminate
    have "jobs_ok C t" using j unfolding jobs_ok_def terminate by (simp add: job_inv_def)
    then show ?thesis
      using assms(2) by (simp add: terminate sys_inv_def inv_def current_ok_def)
  next
    case (thread c)
    have "live (m_TaskScheduler s\<lparr>m_WorkItemTLS := c\<rparr>)" using thread(4) by (intro live_TLS [OF a]) auto
    then show ?thesis unfolding thread(1-3) by (rule sys_items [OF assms(2)]) (simp_all add: same_items_control)
  next
    case (clock w64)
    have "live (m_TaskScheduler s\<lparr>SystemTime := w64\<rparr>)" using a by simp
    then show ?thesis unfolding clock(1-3) by (rule sys_items [OF assms(2)]) (simp_all add: same_items_control)
  next
    case die
    have "live (m_TaskScheduler s\<lparr>m_bShouldDie := True\<rparr>)"
      using a by (simp add: live_def item_live_def IsWorkItemInScheduler_def)
    then show ?thesis unfolding die(1-3) by (rule sys_items [OF assms(2)]) (simp_all add: same_items_control)
  next
    case dispatch
    then show ?thesis using sys_items [OF assms(2)] live_Dispatch [OF a] same_items_Dispatch [OF a] by simp
  next
    case (take g i "is")
    note l = take_items [OF a take(4,5)]
    have "inv C t" unfolding take(3) by (rule inv_sched [OF s]) (simp_all add: live_take a l(1))
    moreover have "i \<noteq> CJobManagerItem \<Longrightarrow> manager_runs t = manager_runs s"
      using l(2) [of CJobManagerItem] by (simp add: take(3))
    moreover have "m_CurrentJob t = m_CurrentJob s" by (simp add: take(3))
    ultimately show ?thesis using assms(2) take(1,2) by (auto simp: sys_inv_def)
  next
    case (world us e32 f fs)
    have "jobs_ok C t" using j unfolding jobs_ok_def world by simp
    then show ?thesis
      using assms(2) by (simp add: world sys_inv_def inv_def current_ok_def)
  qed
qed

lemma reach_inv:
  assumes "throws_failures api"
  shows "reach api False C X s \<Longrightarrow> sys_inv C X s"
proof (induction rule: reach.induct)
  case (start t inactivity quantum addresses users fs)
  then show ?case using inv_start by (simp add: sys_inv_def)
next
  case (step C X s C' X' s')
  then show ?case using step_inv [OF assms] by blast
qed

end
