(* ===== verification/BitsDemo.thy ===== *)
theory BitsDemo
  imports BitsSystem
begin

text \<open>
  A run of the service on which the properties are shown to apply: a client creates a
  download job, adds a file to it and resumes it, after which it is the current job. A second job then waits behind it.
\<close>

definition demo_api :: "unit FileApi" where
  "demo_api = \<lparr>GetFileAttributes = (\<lambda>_ _. Inr 0x80), SetFileAttributes = (\<lambda>_ _ fs. (0, fs)),
     MoveFileEx = (\<lambda>_ _ fs. (0, fs)), DeleteFile = (\<lambda>_ fs. (0, fs)), CrackFileName = (\<lambda>_. Inr ''d''),
     VolumeOf = (\<lambda>_ _. Inr \<lparr>VolumePath = ''p'', DriveType = 3, CanonicalPath = ''v'', SerialNumber = 7\<rparr>),
     CreateTempFile = (\<lambda>_ fs. (Inr ''tmp'', fs)), CheckFileWritability = (\<lambda>_ _. S_OK),
     OpenFileForUpload = (\<lambda>_ _. Inr (0, 0)), CoImpersonateClient = (\<lambda>_. (S_OK, 5)),
     CopyUserToken = (\<lambda>_ _. S_OK), ReportJobCancellation = (\<lambda>_. S_OK)\<rparr>"

abbreviation demo_local :: string where "demo_local \<equiv> [CHR ''c'', CHR '':'', bslash, CHR ''f'']"

definition d0 :: "unit CJobManager" where "d0 = CJobManager_new 1000 500 300 1 [5] ()"
definition d1 :: "unit CJobManager" where
  "d1 = snd (CreateJob ''a'' BG_JOB_TYPE_DOWNLOAD 9 5 7 False 600 1200 d0)"
definition d2 :: "unit CJobManager" where
  "d2 = snd (AddFileInternal demo_api S_OK 7 (Some ''http://x'') (Some demo_local) d1)"
definition d3 :: "unit CJobManager" where "d3 = snd (ResumeInternal demo_api S_OK 7 d2)"

lemma demo_throws: "throws_failures demo_api"
  by (simp add: throws_failures_def demo_api_def)

lemma CreateJob_d0: "CreateJob ''a'' BG_JOB_TYPE_DOWNLOAD 9 5 7 False 600 1200 d0 = (S_OK, d1)"
  by (simp add: d1_def CreateJob_def d0_def CJobManager_new_def Let_def)

lemma reach_d1: "reach demo_api False {7} None d1"
proof -
  have "reach demo_api False {} None d0" unfolding d0_def by (rule reach.start)
  moreover have "step demo_api False {} None d0 (if SUCCEEDED S_OK then insert 7 {} else {}) None d1"
    by (rule step.create [OF _ CreateJob_d0]) simp
  ultimately show ?thesis
    using reach.step [of demo_api False "{}" None d0 "{7}" None d1] by (simp add: FAILED_def)
qed

lemma reach_d2: "reach demo_api False {7} None d2"
  unfolding d2_def by (rule reach.step [OF reach_d1 step.client [OF _ client.AddFile]]) simp

lemma reach_d3: "reach demo_api False {7} None d3"
  unfolding d3_def by (rule reach.step [OF reach_d2 step.client [OF _ client.Resume]]) simp

lemma d0_facts: "view d0 7 = core (CJob_new 0 [] BG_JOB_TYPE_DOWNLOAD 0 0 0 1000)" "m_OnlineJobs d0 = []"
  "m_OfflineJobs d0 = []" "AddressCount d0 = 1" "m_CurrentJob d0 = None" "MetadataError d0 = 0"
  "ServiceShuttingDown d0 = False" "now d0 = 1000" "m_Users d0 = [5]"
  by (simp_all add: d0_def CJobManager_new_def view_def TaskScheduler_new_def del: Jobs_view)

lemma d1_facts: "m_OnlineJobs d1 = [7]" "m_CurrentJob d1 = None" "AddressCount d1 = 1" "MetadataError d1 = 0"
  "ServiceShuttingDown d1 = False" "m_Users d1 = [5]"
  "view d1 7 = core (CJob_new 9 ''a'' BG_JOB_TYPE_DOWNLOAD 5 600 1200 1000)"
  by (simp_all add: d1_def CreateJob_def d0_facts CJobList_Add_def)

definition demo_file :: CFile where
  "demo_file = \<lparr>m_RemoteName = ''http://x'', m_LocalName = demo_local, m_TemporaryName = ''tmp'',
     m_LocalFileTime = 0, m_BytesTotal = BG_SIZE_UNKNOWN, m_BytesTransferred = 0, m_Completed = False,
     m_VolumePath = ''p'', m_CanonicalVolumePath = ''v'', m_DriveType = 3, m_VolumeSerialNumber = 7\<rparr>"

lemma CFile_create_demo:
  "CFile_create demo_api BG_JOB_TYPE_DOWNLOAD ''http://x'' demo_local () = (Inr demo_file, ())"
  by (simp add: CFile_create_def demo_api_def VerifyRemoteName_def VerifyLocalName_def IsAbsolutePath_def
      IsDriveTypeRemote_def FAILED_def demo_file_def iswalpha_def to_lower_def Let_def)

text \<open>The client is user \<open>5\<close>, who is logged on.\<close>

lemma demo_impersonates: "5 \<in> set (m_Users s) \<Longrightarrow> SwitchToLogonToken demo_api s = (S_OK, 5)"
  by (simp add: SwitchToLogonToken_def demo_api_def CloneUserToken_def FAILED_def)

text \<open>The two calls, as the operations they come down to.\<close>

definition d2_added :: "unit CJobManager" where
  "d2_added = UpdateModificationTime True 7 (upd_job 7 (\<lambda>j. j\<lparr>m_FilesVerified := False\<rparr>)
     (upd_job 7 (\<lambda>j. j\<lparr>m_files := m_files j @ [demo_file]\<rparr>) ((UpdateLastAccessTime 7 d1)\<lparr>FileSystem := ()\<rparr>)))"

lemma d1_job: "m_state (view d1 7) = BG_JOB_STATE_SUSPENDED" "m_type (view d1 7) = BG_JOB_TYPE_DOWNLOAD"
    "m_files (view d1 7) = []" "m_UploadData (view d1 7) = None" "\<not> IsRunning (view d1 7)"
    "m_CurrentFile (view d1 7) = 0" "\<not> m_fVolumeLocked (view d1 7)" "m_NotifySid (view d1 7) = 5"
    "m_NotifyPointer (view d1 7) = None" "m_NotifyProgram (view d1 7) = []"
    "m_OldExternalGroupInterface (view d1 7) = None"
  by (simp_all add: d1_facts CJob_new_def core_def IsRunning_def)

lemma d2_eq: "d2 = RetaskJob 7 d2_added"
proof -
  define u where "u = UpdateLastAccessTime 7 d1"
  define v where "v = upd_job 7 (\<lambda>j. j\<lparr>m_FilesVerified := False\<rparr>)
     (upd_job 7 (\<lambda>j. j\<lparr>m_files := m_files j @ [demo_file]\<rparr>) (u\<lparr>FileSystem := ()\<rparr>))"
  have t: "AddFile_try demo_api 7 (Some ''http://x'') (Some demo_local) True u = (S_OK, v)"
    using CFile_create_demo d1_job demo_impersonates [of u]
    by (simp add: AddFile_try_def u_def d1_facts(4,6) v_def Let_def FAILED_def)
  show ?thesis
    using d1_job t by (simp add: d2_def AddFileInternal_def write_access_def ValidateAccess_def CheckClientAccess_def
        AddFile_def HandleAddFile_def Let_def FAILED_def u_def d2_added_def v_def)
qed

lemma d2_added_facts: "view d2_added 7 = (view d1 7)\<lparr>m_files := [demo_file], m_FilesVerified := False\<rparr>"
    "m_OnlineJobs d2_added = [7]" "AddressCount d2_added = 1" "MetadataError d2_added = 0"
    "ServiceShuttingDown d2_added = False" "m_CurrentJob d2_added = None" "m_Users d2_added = [5]"
  using d1_job by (simp_all add: d2_added_def d1_facts(1-6))

lemma d2_facts: "m_OnlineJobs d2 = [7]" "AddressCount d2 = 1" "MetadataError d2 = 0"
  "ServiceShuttingDown d2 = False" "m_CurrentJob d2 = None" "m_Users d2 = [5]"
  "view d2 7 = (view d1 7)\<lparr>m_files := [demo_file], m_FilesVerified := False\<rparr>"
proof -
  have "next_job d2_added = None" "\<not> stopped d2_added k" "\<not> IsRunning (view d2_added 7)" for k
    using d2_added_facts d1_job by (simp_all add: next_job_def best_job_def stopped_def IsRunnable_download IsRunning_def)
  then show "m_OnlineJobs d2 = [7]" "AddressCount d2 = 1" "MetadataError d2 = 0"
    "ServiceShuttingDown d2 = False" "m_CurrentJob d2 = None" "m_Users d2 = [5]"
    "view d2 7 = (view d1 7)\<lparr>m_files := [demo_file], m_FilesVerified := False\<rparr>"
    unfolding d2_eq using d2_added_facts by (simp_all add: RetaskJob_def)
qed

definition d3_online :: "unit CJobManager" where
  "d3_online = AppendOnline 7 (RecalcTransientError True 7 (UpdateLastAccessTime 7 d2))"

lemma d2_job: "m_state (view d2 7) = BG_JOB_STATE_SUSPENDED" "m_files (view d2 7) = [demo_file]"
    "m_CurrentFile (view d2 7) = 0" "m_UploadData (view d2 7) = None" "\<not> m_fVolumeLocked (view d2 7)"
    "m_NotifySid (view d2 7) = 5"
  using d1_job by (simp_all add: d2_facts)

lemma d3_recalc: "IsRunnable (recalc 7 (UpdateLastAccessTime 7 d2))" "AddressCount (UpdateLastAccessTime 7 d2) = 1"
  using d2_job by (simp_all add: IsRunnable_download d2_facts)

lemma d3_eq: "d3 = UpdateModificationTime True 7 (ScheduleAnotherGroup False d3_online)"
  using d2_job d3_recalc by (simp add: d3_def ResumeInternal_def write_access_def ValidateAccess_def CheckClientAccess_def
        Resume_def CJob_Resume_def Resume_active_def Let_def FAILED_def IsEmpty_def GetCurrentFile_def d3_online_def)

lemma d3_online_facts: "view d3_online 7 = recalc 7 (UpdateLastAccessTime 7 d2)" "m_OnlineJobs d3_online = [7]"
    "AddressCount d3_online = 1" "ServiceShuttingDown d3_online = False" "m_CurrentJob d3_online = None"
    "alive d3_online" "m_Users d3_online = [5]" "next_job d3_online = Some 7" "\<not> stopped d3_online k"
proof -
  have a: "alive d2" using reach_inv [OF demo_throws reach_d2] by (simp add: sys_inv_def)
  have l: "m_OnlineJobs d3_online = [7]" "m_Users d3_online = [5]"
    by (simp_all add: d3_online_def AppendOnline_def CJobList_Remove_def CJobList_Add_def d2_facts)
  have v: "view d3_online 7 = recalc 7 (UpdateLastAccessTime 7 d2)"
    "AddressCount d3_online = 1" "ServiceShuttingDown d3_online = False" "m_CurrentJob d3_online = None"
    "alive d3_online"
    using a d2_job by (simp_all add: d3_online_def d2_facts)
  show "view d3_online 7 = recalc 7 (UpdateLastAccessTime 7 d2)" "m_OnlineJobs d3_online = [7]"
    "AddressCount d3_online = 1" "ServiceShuttingDown d3_online = False" "m_CurrentJob d3_online = None"
    "alive d3_online" "m_Users d3_online = [5]"
    using l v by simp_all
  show "next_job d3_online = Some 7" "\<not> stopped d3_online k"
    using l v d3_recalc by (simp_all add: next_job_def best_job_def stopped_def)
qed

lemma d3_facts: "m_OnlineJobs d3 = [7]" "AddressCount d3 = 1" "m_Users d3 = [5]"
  "ServiceShuttingDown d3 = False" "m_CurrentJob d3 = Some 7" "m_state (view d3 7) = BG_JOB_STATE_QUEUED"
  "m_files (view d3 7) = [demo_file]" "m_CurrentFile (view d3 7) = 0" "InScheduler CJobManagerItem d3"
  "m_NotifySid (view d3 7) = 5" "m_UploadData (view d3 7) = None"
  unfolding d3_eq using d3_online_facts d2_job by (simp_all add: d2_facts recalc_def)

lemma SAG_timer:
  "m_hQuantumTimer s \<noteq> None \<or> next_job s \<noteq> m_CurrentJob s \<and> next_job s \<noteq> None \<Longrightarrow>
     m_hQuantumTimer (ScheduleAnotherGroup b s) \<noteq> None"
  by (auto simp: ScheduleAnotherGroup_eq pick_current_def ChooseCurrentJob_def Let_def SetQuantumTimeout_def
      next_job_def best_job_def ASSERT_def Choose_Loop_view split: option.splits if_splits)

lemma d3_timer: "m_hQuantumTimer d3 \<noteq> None"
proof -
  have "m_hQuantumTimer (ScheduleAnotherGroup False d3_online) \<noteq> None"
    by (rule SAG_timer) (simp add: d3_online_facts)
  then show ?thesis unfolding d3_eq by simp
qed

section \<open>The manager item is ready and starts the transfer\<close>

definition ready :: "bool \<Rightarrow> unit CJobManager \<Rightarrow> bool" where
  "ready b s \<longleftrightarrow> m_ReadyList (m_TaskScheduler s) = (\<lambda>g. if g = 0 \<and> b then [CJobManagerItem] else []) \<and>
     \<not> m_bShouldDie (m_TaskScheduler s)"

lemma ready_Cancel: "ready b s \<Longrightarrow> i \<noteq> CJobManagerItem \<or> \<not> b \<Longrightarrow> ready b (Cancel_item i s)"
  by (cases "m_State (WorkItems (m_TaskScheduler s) i)"; cases "m_WorkGroup (WorkItems (m_TaskScheduler s) i)")
    (auto simp: ready_def item_defs CancelWorkItem_def Let_def CompleteWorkItem_def SortedWorkItemList_erase_def
      fun_eq_iff split: option.split)

lemma ready_delayed: "ready b s \<Longrightarrow> ready b (Insert_delayed i d s)"
  by (simp add: ready_def item_defs InsertWorkItem_def Let_def)

lemma ready_upd_job: "ready b (upd_job h f s) = ready b s"
  by (simp add: ready_def)

lemma ready_Serialize: "ready b (Serialize s) = ready b s"
  by (simp add: ready_def Serialize_def)

lemma ready_UpdateModificationTime:
  assumes "ready b s" "\<not> IsCallbackEnabled BG_NOTIFY_JOB_MODIFICATION (view s h)"
  shows "ready b (UpdateModificationTime n h s)"
proof -
  define u where "u = UpdateLastAccessTime h (SetModificationTime h s)"
  have u: "ready b u" using assms(1)
    by (simp add: u_def UpdateLastAccessTime_def SetModificationTime_def ready_upd_job)
  have r: "ready b (restart_inactivity h u)"
    using u ready_Cancel ready_delayed by (simp add: restart_inactivity_def)
  have "view (restart_inactivity h u) h = view s h" by (simp add: u_def)
  then have "ready b (ScheduleModificationCallback h (restart_inactivity h u))"
    using r assms(2) by (simp add: ScheduleModificationCallback_def)
  then show ?thesis
    using u by (simp add: UpdateModificationTime_def u_def [symmetric] ready_Serialize)
qed

lemma demo_silent: "m_NotifyPointer j = None \<Longrightarrow> m_NotifyProgram j = [] \<Longrightarrow> m_OldExternalGroupInterface j = None \<Longrightarrow>
    \<not> IsCallbackEnabled w j"
  by (simp add: IsCallbackEnabled_def)

lemma ready_d1: "ready False d1"
proof -
  have "ready False (upd_sched (new_items 7) d0)"
    by (simp add: ready_def d0_def CJobManager_new_def TaskScheduler_new_def upd_sched_def new_items_def)
  then show ?thesis
    by (simp add: d1_def CreateJob_def d0_facts ready_Serialize Let_def)
      (simp add: ready_def item_defs InsertWorkItem_def Let_def new_items_def)
qed

lemma ready_d2_added: "ready False d2_added"
  unfolding d2_added_def
  by (rule ready_UpdateModificationTime)
    (use ready_d1 d1_job in \<open>simp_all add: ready_def UpdateLastAccessTime_def demo_silent\<close>)

lemma ready_d2: "ready False d2"
proof -
  have r: "\<not> IsRunning (view d2_added 7)" "\<not> IsRunnable (view d2_added 7)"
    using d2_added_facts(1) d1_job by (simp_all add: IsRunning_def IsRunnable_download)
  moreover have "pick_current d2_added = d2_added"
    using d2_added_facts(2-) r by (simp add: pick_current_def ChooseCurrentJob_def next_job_def best_job_def
        Choose_Loop_view RunningJobs_view Let_def)
  ultimately show ?thesis
    using ready_Cancel [OF ready_d2_added] d2_added_facts(2-)
    by (simp add: d2_eq RetaskJob_def ScheduleAnotherGroup_eq follow_current_def)
qed

lemma ready_SetState:
  assumes "ready b s" "\<not> IsCallbackEnabled BG_NOTIFY_JOB_MODIFICATION (view (upd_job h (\<lambda>j. j\<lparr>m_state := st\<rparr>) s) h)"
    "\<not> ShouldClearError st"
  shows "ready b (SetState h st s)"
proof -
  have "ready b (Cancel_item (CJobRetryItem h) (upd_job h (\<lambda>j. j\<lparr>m_state := st\<rparr>) s))"
    using assms(1) by (intro ready_Cancel) (simp_all add: ready_upd_job)
  then show ?thesis
    using assms by (auto simp: SetState_def Let_def ready_upd_job intro!: ready_UpdateModificationTime)
qed

lemma ready_d3_online: "ready False d3_online"
proof -
  let ?u = "UpdateLastAccessTime 7 d2"
  have u: "ready False ?u" using ready_d2 by (simp add: UpdateLastAccessTime_def ready_upd_job)
  have sil: "\<not> IsCallbackEnabled BG_NOTIFY_JOB_MODIFICATION (view d2 7)"
    "\<not> IsCallbackEnabled BG_NOTIFY_JOB_MODIFICATION ((view d2 7)\<lparr>m_state := st\<rparr>)" for st
    using d1_job by (simp_all add: demo_silent d2_facts)
  let ?q = "SetState 7 BG_JOB_STATE_QUEUED ?u"
  have "ready False ?q" using u sil by (intro ready_SetState) simp_all
  then have c: "ready False (Cancel_item (CJobRetryItem 7) ?q)" by (intro ready_Cancel) simp_all
  have v: "view (Cancel_item (CJobRetryItem 7) ?q) 7 = (view d2 7)\<lparr>m_state := BG_JOB_STATE_QUEUED\<rparr>"
    by simp
  have "ScheduleModificationCallback 7 (Cancel_item (CJobRetryItem 7) ?q) = Cancel_item (CJobRetryItem 7) ?q"
    using v sil by (simp add: ScheduleModificationCallback_def)
  then have "RecalcTransientError True 7 ?u = Cancel_item (CJobRetryItem 7) ?q"
    using d2_job v by (simp add: RecalcTransientError_def Let_def d2_facts)
  then show ?thesis using c by (simp add: d3_online_def ready_def)
qed

lemma ready_d3: "ready True d3"
proof -
  define p where "p = pick_current d3_online"
  define c where "c = Cancel_item CJobManagerItem p"
  have "\<not> IsRunning (view d3_online 7)" using d3_online_facts(1) d2_job by (simp add: recalc_def IsRunning_def)
  then have "p = (SetQuantumTimeout d3_online)\<lparr>m_CurrentJob := Some 7\<rparr>"
    using d3_online_facts by (simp add: p_def pick_current_def ChooseCurrentJob_def Let_def Choose_Loop_view
        d3_recalc RunningJobs_view SetQuantumTimeout_def)
  then have p: "ready False p" "m_CurrentJob p = Some 7" "alive p"
    using ready_d3_online d3_online_facts(6) by (simp_all add: ready_def SetQuantumTimeout_def)
  then have c: "ready False c" "alive c" "\<not> InScheduler CJobManagerItem c" by (simp_all add: c_def ready_Cancel)
  have "ScheduleAnotherGroup False d3_online = Insert_item CJobManagerItem None c"
    using p c d3_online_facts by (simp add: ScheduleAnotherGroup_eq follow_current_def p_def [symmetric] c_def [symmetric])
  then have "ready True (ScheduleAnotherGroup False d3_online)"
    using c(1) by (auto simp: ready_def item_defs InsertWorkItem_def Let_def AddItemToWorkGroup_def)
  moreover have "\<not> IsCallbackEnabled BG_NOTIFY_JOB_MODIFICATION (view (ScheduleAnotherGroup False d3_online) 7)"
    using d1_job d3_online_facts by (simp add: demo_silent d2_facts recalc_def)
  ultimately show ?thesis unfolding d3_eq by (rule ready_UpdateModificationTime)
qed

definition d4 :: "unit CJobManager" where "d4 = upd_sched (WorkGroupWorker_take 0) d3"
definition d5 :: "unit CJobManager" where "d5 = snd (TransferCurrentJob_begin S_OK d4)"

lemma d4_facts: "on_thread CJobManagerItem d4" "view d4 = view d3" "m_CurrentJob d4 = Some 7" "m_Users d4 = [5]"
  "m_OnlineJobs d4 = [7]" "ServiceShuttingDown d4 = False"
  using ready_d3 by (simp_all add: d4_def ready_def WorkGroupWorker_take_def Let_def d3_facts)

lemma reach_d4: "reach demo_api False {7} None d4"
proof -
  have "m_ReadyList (m_TaskScheduler d3) 0 = CJobManagerItem # []" using ready_d3 by (simp add: ready_def)
  moreover have "\<not> m_bShouldDie (m_TaskScheduler d3)" using ready_d3 by (simp add: ready_def)
  ultimately have "step demo_api False {7} None d3 {7} (if CJobManagerItem = CJobManagerItem then None else None) d4"
    unfolding d4_def by (intro step.take)
  from reach.step [OF reach_d3 this] show ?thesis by simp
qed

lemma d5_eq: "TransferCurrentJob_begin S_OK d4 = (True, d5)"
  "d5 = ScheduleModificationCallback 7 (SetState 7 BG_JOB_STATE_CONNECTING d4)"
  using d3_facts d4_facts
  by (simp_all add: d5_def TransferCurrentJob_begin_def CJob_Transfer_def CloneUserToken_def FAILED_def)

lemma reach_d5: "reach demo_api False {7} (Some (7, 0)) d5"
  using reach.step [OF reach_d4 step.begin_transfer [OF d4_facts(1) refl d5_eq(1)]] by (simp add: d4_facts)

lemma d5_facts: "m_state (view d5 7) = BG_JOB_STATE_CONNECTING" "IsRunning (view d5 7)" "m_CurrentJob d5 = Some 7"
  "m_OnlineJobs d5 = [7]" "ServiceShuttingDown d5 = False" "m_Users d5 = [5]"
  unfolding d5_eq(2) using d4_facts by (simp_all add: IsRunning_def)

section \<open>A second job waits\<close>

definition e1 :: "unit CJobManager" where
  "e1 = snd (CreateJob ''b'' BG_JOB_TYPE_DOWNLOAD 4 5 8 False 600 1200 d5)"
definition e2 :: "unit CJobManager" where
  "e2 = snd (AddFileInternal demo_api S_OK 8 (Some ''http://x'') (Some demo_local) e1)"
definition e3 :: "unit CJobManager" where "e3 = snd (ResumeInternal demo_api S_OK 8 e2)"

lemma d5_more: "m_id (view d5 7) = 9" "m_OfflineJobs d5 = []" "MetadataError d5 = 0" "AddressCount d5 = 1"
  "m_priority (view d5 7) = BG_JOB_PRIORITY_NORMAL" "IsRunnable (view d5 7)"
proof -
  have j: "m_id (view d1 7) = 9" "m_priority (view d1 7) = BG_JOB_PRIORITY_NORMAL" "m_OfflineJobs d1 = []"
    by (simp_all add: d1_facts CJob_new_def core_def) (simp add: d1_def CreateJob_def d0_facts)
  have recalc_id: "m_id (recalc 7 s) = m_id (view s 7)" for s :: "unit CJobManager"
    by (simp add: recalc_def Let_def)
  have o: "m_OfflineJobs d2_added = []" "m_OfflineJobs d3_online = []" "MetadataError d3_online = 0"
    using j by (simp_all add: d2_added_def d3_online_def AppendOnline_def CJobList_Remove_def CJobList_Add_def d2_facts)
      (simp add: d2_eq RetaskJob_def InterruptDownload_def d2_added_def)
  show "m_id (view d5 7) = 9" "m_OfflineJobs d5 = []" "MetadataError d5 = 0" "AddressCount d5 = 1"
    "m_priority (view d5 7) = BG_JOB_PRIORITY_NORMAL"
    using j o d3_online_facts recalc_id by (simp_all add: d5_eq(2) d4_def d3_eq d2_facts)
  show "IsRunnable (view d5 7)"
    using current_facts(4) [of "{7}" d5 7] reach_inv [OF demo_throws reach_d5] d5_facts(3) by (simp add: sys_inv_def)
qed

lemma CreateJob_d5: "CreateJob ''b'' BG_JOB_TYPE_DOWNLOAD 4 5 8 False 600 1200 d5 = (S_OK, e1)"
  by (simp add: e1_def CreateJob_def d5_facts d5_more Let_def)

lemma reach_e1: "reach demo_api False {7, 8} (Some (7, 0)) e1"
proof -
  have "step demo_api False {7} (Some (7, 0)) d5 (if SUCCEEDED S_OK then insert 8 {7} else {7}) (Some (7, 0)) e1"
    by (rule step.create [OF _ CreateJob_d5]) simp
  then show ?thesis
    using reach.step [OF reach_d5] by (simp add: FAILED_def insert_commute)
qed

lemma reach_e2: "reach demo_api False {7, 8} (Some (7, 0)) e2"
  unfolding e2_def by (rule reach.step [OF reach_e1 step.client [OF _ client.AddFile]]) simp

lemma reach_e3: "reach demo_api False {7, 8} (Some (7, 0)) e3"
  unfolding e3_def by (rule reach.step [OF reach_e2 step.client [OF _ client.Resume]]) simp

lemma e1_timer: "m_hQuantumTimer e1 \<noteq> None"
proof -
  have "m_hQuantumTimer d5 = m_hQuantumTimer d3" by (simp add: d5_eq(2) d4_def)
  then show ?thesis using d3_timer by (simp add: e1_def CreateJob_def d5_facts d5_more)
qed

lemma e1_facts: "m_OnlineJobs e1 = [7, 8]" "m_CurrentJob e1 = Some 7" "AddressCount e1 = 1" "MetadataError e1 = 0"
  "ServiceShuttingDown e1 = False" "view e1 7 = view d5 7"
  "m_state (view e1 8) = BG_JOB_STATE_SUSPENDED" "m_type (view e1 8) = BG_JOB_TYPE_DOWNLOAD"
  "m_files (view e1 8) = []" "m_UploadData (view e1 8) = None" "m_priority (view e1 8) = BG_JOB_PRIORITY_NORMAL"
  "m_CurrentFile (view e1 8) = 0" "\<not> m_fVolumeLocked (view e1 8)" "m_Users e1 = [5]"
  by (simp_all add: e1_def CreateJob_def d5_facts d5_more CJobList_Add_def CJob_new_def core_def)

text \<open>While the job 7 runs and the job 8 is no more urgent, the choice does not change.\<close>

lemma seven_stays:
  assumes "m_OnlineJobs s = [7, 8]" "m_CurrentJob s = Some 7" "AddressCount s = 1" "ServiceShuttingDown s = False"
    "IsRunnable (view s 7)" "m_priority (view s 7) = m_priority (view s 8)"
  shows "next_job s = Some 7" "\<not> stopped s k"
  using assms by (simp_all add: next_job_def best_job_def stopped_def)

lemma e2_facts: "m_OnlineJobs e2 = [7, 8]" "m_CurrentJob e2 = Some 7" "AddressCount e2 = 1" "MetadataError e2 = 0"
  "ServiceShuttingDown e2 = False" "view e2 7 = view d5 7"
  "view e2 8 = (view e1 8)\<lparr>m_files := [demo_file], m_FilesVerified := False\<rparr>" "m_hQuantumTimer e2 \<noteq> None"
proof -
  define u where "u = UpdateLastAccessTime 8 e1"
  define v where "v = upd_job 8 (\<lambda>j. j\<lparr>m_FilesVerified := False\<rparr>)
     (upd_job 8 (\<lambda>j. j\<lparr>m_files := m_files j @ [demo_file]\<rparr>) (u\<lparr>FileSystem := ()\<rparr>))"
  define w where "w = UpdateModificationTime True 8 v"
  have t: "AddFile_try demo_api 8 (Some ''http://x'') (Some demo_local) True u = (S_OK, v)"
    using CFile_create_demo e1_facts demo_impersonates [of u] by (simp add: AddFile_try_def u_def v_def Let_def FAILED_def)
  have nr: "\<not> IsRunning (view w 8)" using e1_facts by (simp add: IsRunning_def w_def v_def u_def)
  have eq: "e2 = ScheduleAnotherGroup False w"
    using e1_facts t nr by (simp add: e2_def AddFileInternal_def write_access_def ValidateAccess_def CheckClientAccess_def
        AddFile_def HandleAddFile_def Let_def FAILED_def u_def w_def v_def RetaskJob_def)
  have w: "view w 8 = (view e1 8)\<lparr>m_files := [demo_file], m_FilesVerified := False\<rparr>" "view w 7 = view d5 7"
    "m_OnlineJobs w = [7, 8]" "AddressCount w = 1" "MetadataError w = 0" "ServiceShuttingDown w = False"
    "m_CurrentJob w = Some 7"
    using e1_facts by (simp_all add: w_def v_def u_def)
  have "m_hQuantumTimer w \<noteq> None" using e1_timer by (simp add: w_def v_def u_def)
  then show "m_hQuantumTimer e2 \<noteq> None" unfolding eq by (intro SAG_timer) simp
  have "next_job w = Some 7" "\<not> stopped w k" for k
    by (rule seven_stays; simp add: w d5_more e1_facts)+
  then show "m_OnlineJobs e2 = [7, 8]" "m_CurrentJob e2 = Some 7" "AddressCount e2 = 1" "MetadataError e2 = 0"
    "ServiceShuttingDown e2 = False" "view e2 7 = view d5 7"
    "view e2 8 = (view e1 8)\<lparr>m_files := [demo_file], m_FilesVerified := False\<rparr>"
    unfolding eq using w by simp_all
qed

lemma e3_facts: "m_OnlineJobs e3 = [7, 8]" "m_CurrentJob e3 = Some 7" "AddressCount e3 = 1"
  "ServiceShuttingDown e3 = False" "IsRunnable (view e3 7)" "IsRunnable (view e3 8)"
  "m_priority (view e3 7) = BG_JOB_PRIORITY_NORMAL" "m_priority (view e3 8) = BG_JOB_PRIORITY_NORMAL"
  "m_hQuantumTimer e3 \<noteq> None"
proof -
  define u where "u = UpdateLastAccessTime 8 e2"
  define v where "v = AppendOnline 8 (RecalcTransientError True 8 u)"
  have j: "m_state (view e2 8) = BG_JOB_STATE_SUSPENDED" "m_files (view e2 8) = [demo_file]"
    "m_CurrentFile (view e2 8) = 0" "m_UploadData (view e2 8) = None" "\<not> m_fVolumeLocked (view e2 8)"
    "m_priority (view e2 8) = BG_JOB_PRIORITY_NORMAL"
    using e1_facts by (simp_all add: e2_facts)
  have r: "IsRunnable (recalc 8 u)" "AddressCount u = 1"
    using j by (simp_all add: IsRunnable_download u_def e2_facts)
  have eq: "e3 = UpdateModificationTime True 8 (ScheduleAnotherGroup False v)"
    using j r by (simp add: e3_def ResumeInternal_def write_access_def ValidateAccess_def CheckClientAccess_def
        Resume_def CJob_Resume_def Resume_active_def Let_def FAILED_def IsEmpty_def GetCurrentFile_def u_def v_def)
  have l: "m_OnlineJobs v = [7, 8]"
    by (simp add: v_def u_def AppendOnline_def CJobList_Remove_def CJobList_Add_def e2_facts)
  have v: "view v 8 = recalc 8 u" "view v 7 = view d5 7" "AddressCount v = 1" "ServiceShuttingDown v = False"
    "m_CurrentJob v = Some 7" "m_priority (recalc 8 u) = BG_JOB_PRIORITY_NORMAL"
    using j by (simp_all add: v_def u_def e2_facts)
  have "m_hQuantumTimer v \<noteq> None" using e2_facts(8)
    by (simp add: v_def u_def AppendOnline_def CJobList_Remove_def)
  then have "m_hQuantumTimer (ScheduleAnotherGroup False v) \<noteq> None" by (intro SAG_timer) simp
  then show "m_hQuantumTimer e3 \<noteq> None" by (simp add: eq)
  have "next_job v = Some 7" "\<not> stopped v k" for k
    by (rule seven_stays; use v(6) in \<open>simp add: v(1-5) l d5_more\<close>)+
  then show "m_OnlineJobs e3 = [7, 8]" "m_CurrentJob e3 = Some 7" "AddressCount e3 = 1"
    "ServiceShuttingDown e3 = False" "IsRunnable (view e3 7)" "IsRunnable (view e3 8)"
    "m_priority (view e3 7) = BG_JOB_PRIORITY_NORMAL" "m_priority (view e3 8) = BG_JOB_PRIORITY_NORMAL"
    unfolding eq using v l r d5_more by simp_all
qed

end
