(* ===== verification/BitsClaims.thy ===== *)
theory BitsClaims
  imports BitsDemo
begin

text \<open>
  Properties of the service of download jobs: what holds in every state that clients, timers,
  transfers and events can bring about, and what the calls of a client achieve.
\<close>

section \<open>Every reachable state\<close>

lemma reach_jobs_ok: "throws_failures api \<Longrightarrow> reach api False C X s \<Longrightarrow> jobs_ok C s"
  using reach_inv by (auto simp: sys_inv_def inv_def)

lemma reach_job:
  "throws_failures api \<Longrightarrow> reach api False C X s \<Longrightarrow> jok C s h"
  using reach_jobs_ok jobs_okD(4) by blast

lemma reach_current_ok: "throws_failures api \<Longrightarrow> reach api False C X s \<Longrightarrow> current_ok s"
  using reach_inv by (auto simp: sys_inv_def inv_def)

text \<open>C5. In a service of download jobs whose clients add no empty file set to a transferred job
  and do not use the interfaces of BITS 1.0, in every reachable state: a job in an error state has an error recorded, a job that is
  suspended, transferring or transferred has none, the retry timer runs only for a job in
  transient error, and the no-progress timer only for an unfinished job with an error.\<close>
theorem Jobs_errors_consistent:
  assumes "throws_failures api" "reach api False C X s"
  shows "(m_state (Jobs s h) \<in> {BG_JOB_STATE_ERROR, BG_JOB_STATE_TRANSIENT_ERROR} \<longrightarrow> m_ErrorSet (m_error (Jobs s h))) \<and>
    (m_state (Jobs s h) \<in> {BG_JOB_STATE_SUSPENDED, BG_JOB_STATE_TRANSFERRING, BG_JOB_STATE_TRANSFERRED} \<longrightarrow>
       GetError (Jobs s h) = None) \<and>
    (IsWorkItemInScheduler (CJobRetryItem h) (m_TaskScheduler s) \<longrightarrow> m_state (Jobs s h) = BG_JOB_STATE_TRANSIENT_ERROR) \<and>
    (IsWorkItemInScheduler (CJobNoProgressItem h) (m_TaskScheduler s) \<longrightarrow> m_ErrorSet (m_error (Jobs s h)) \<and>
       m_state (Jobs s h) \<notin> {BG_JOB_STATE_CANCELLED, BG_JOB_STATE_ACKNOWLEDGED})"
proof -
  note i = job_invD [OF reach_job [OF assms, of h]]
  show ?thesis
    using i(3,4,5,6) by (auto simp: GetError_def)
qed

lemma Jobs_errors_consistent_witness:
  "reach demo_api False {7} (Some (7, 0)) d5 \<and> m_state (Jobs d5 7) = BG_JOB_STATE_CONNECTING \<and>
   \<not> IsWorkItemInScheduler (CJobRetryItem 7) (m_TaskScheduler d5)"
  using Jobs_errors_consistent [OF demo_throws reach_d5, of 7] reach_d5 d5_facts(1) by auto

text \<open>C4. In a service of download jobs whose clients add no empty file set to a transferred job and
  do not use the interfaces of BITS 1.0: every job that was created and is neither cancelled nor acknowledged is exactly once in
  the two job lists together; other jobs are in none of them.\<close>
theorem Jobs_listed_once:
  assumes "throws_failures api" "reach api False C X s"
  shows "count_list (m_OnlineJobs s @ m_OfflineJobs s) h =
    (if h \<in> C \<and> m_state (Jobs s h) \<notin> {BG_JOB_STATE_CANCELLED, BG_JOB_STATE_ACKNOWLEDGED} then 1 else 0)"
  using job_invD(10) [OF reach_job [OF assms, of h]] by simp

lemma Jobs_listed_once_witness: "count_list (m_OnlineJobs d5 @ m_OfflineJobs d5) 7 = 1"
  using Jobs_listed_once [OF demo_throws reach_d5, of 7] d5_facts(1) by simp

text \<open>C6. In a service of download jobs whose clients add no empty file set to a transferred job (it
  would break this, see C20) and do not use the interfaces of BITS 1.0: the index of the current file never exceeds the number of files; a transferred job has
  no file left, and a job that is queued, connecting, transferring or in an error state has a
  current file.\<close>
theorem Current_file_valid:
  assumes "throws_failures api" "reach api False C X s"
  shows "m_CurrentFile (Jobs s h) \<le> length (m_files (Jobs s h)) \<and>
    (m_state (Jobs s h) = BG_JOB_STATE_TRANSFERRED \<longrightarrow> GetCurrentFile (Jobs s h) = None) \<and>
    (m_state (Jobs s h) \<in> {BG_JOB_STATE_QUEUED, BG_JOB_STATE_CONNECTING, BG_JOB_STATE_TRANSFERRING,
        BG_JOB_STATE_ERROR, BG_JOB_STATE_TRANSIENT_ERROR} \<longrightarrow> GetCurrentFile (Jobs s h) \<noteq> None)"
proof -
  note i = job_invD [OF reach_job [OF assms, of h]]
  show ?thesis
    using i(7,8,9) by (auto simp: GetCurrentFile_def)
qed

lemma Current_file_valid_witness: "GetCurrentFile (Jobs d5 7) \<noteq> None"
  using Current_file_valid [OF demo_throws reach_d5, of 7] d5_facts(1) by simp

text \<open>C2. In a service of download jobs whose clients add no empty file set to a transferred job and
  do not use the interfaces of BITS 1.0: unless the service shuts down, at most one job is connecting or transferring, and it is
  the current job of the manager.\<close>
theorem One_job_runs:
  assumes "throws_failures api" "reach api False C X s" "\<not> ServiceShuttingDown s"
  shows "{h. IsRunning (Jobs s h)} \<subseteq> set_option (m_CurrentJob s)"
  using job_invD(11) [OF reach_job [OF assms(1,2)]] assms(3) by auto

lemma One_job_runs_witness: "{h. IsRunning (Jobs d5 h)} = {7}"
  using One_job_runs [OF demo_throws reach_d5] d5_facts by auto

text \<open>C3. In a service of download jobs whose clients add no empty file set to a transferred job (it
  would break this, see C20) and do not use the interfaces of BITS 1.0: whenever the writer lock
  is free, the current job of the manager is a job that was
  created, is in the online list, can run and has a file to transfer.\<close>
theorem Current_job_can_run:
  assumes "throws_failures api" "reach api False C X s" "m_CurrentJob s = Some c"
  shows "c \<in> C \<and> c \<in> set (m_OnlineJobs s) \<and> IsRunnable (Jobs s c) \<and> GetCurrentFile (Jobs s c) \<noteq> None"
  using current_facts [of C s c] reach_inv [OF assms(1,2)] assms(3)
  by (auto simp: sys_inv_def GetCurrentFile_def)

lemma Current_job_can_run_witness: "IsRunnable (Jobs d5 7) \<and> GetCurrentFile (Jobs d5 7) \<noteq> None"
  using Current_job_can_run [OF demo_throws reach_d5 d5_facts(3)] by blast



text \<open>
  At shutdown the assert of \<open>UserLoggedOff\<close> can fail: a logon makes the running job no longer
  current, and the logoff that follows then moves it offline while it is running.
\<close>

definition d5_down :: "unit CJobManager" where
  "d5_down = UserLoggedOff 5 (UserLoggedOn 5 (d5\<lparr>ServiceShuttingDown := True\<rparr>))"

lemma Logoff_assertion_at_shutdown: "reach demo_api False {7} (Some (7, 0)) d5_down" "AssertionFailed d5_down"
proof -
  let ?s = "d5\<lparr>ServiceShuttingDown := True\<rparr>"
  let ?t = "UserLoggedOn 5 ?s"
  show "reach demo_api False {7} (Some (7, 0)) d5_down"
    unfolding d5_down_def by (rule reach.step [OF reach.step [OF reach.step
        [OF reach_d5 step.terminate] step.logon] step.logoff])
  have v: "view ?s = view d5" by simp
  have "m_OnlineJobs ?t = [7]" "m_CurrentJob ?t = None" "view ?t = view d5"
    using d5_more(2) d5_facts by (auto simp: UserLoggedOn_def next_job_def stopped_def fun_eq_iff)
  moreover have "m_NotifySid (view d5 7) = 5"
    using d3_facts(10) d4_facts(2) by (simp add: d5_eq(2))
  ultimately show "AssertionFailed d5_down"
    using d5_facts(2) by (simp add: d5_down_def UserLoggedOff_def Let_def)
qed

text \<open>C11. A download is started again on account of a file changed on the server at most twice: a
  transfer that is under way has made fewer than three attempts.\<close>
theorem Transfer_attempts_bounded:
  assumes "throws_failures api" "reach api empty_sets C X s"
  shows "case X of None \<Rightarrow> True | Some (c, n) \<Rightarrow> n < 3"
  using assms(2)
proof (induction rule: reach.induct)
  case (step C X s C' X' s')
  from step(2) show ?case
  proof cases
    case (outcome c n e b u)
    have "n + 1 < 3" if "b"
      using outcome(7) that by (auto simp: Transfer_result_def Let_def split: FILE_DOWNLOAD_RESULT.splits option.splits
          prod.splits if_splits)
    then show ?thesis using step(3) outcome(2,5) by auto
  next
    case (begin_transfer copy b u)
    then show ?thesis by (auto split: option.splits)
  qed (use step(3) in \<open>auto split: option.splits if_splits\<close>)
qed simp

lemma Transfer_attempts_bounded_witness: "(0::nat) < 3 \<and> reach demo_api False {7} (Some (7, 0)) d5"
  using Transfer_attempts_bounded [OF demo_throws reach_d5] reach_d5 by simp

section \<open>The choice of the current job\<close>

text \<open>
  The specification of the choice: the first job of the online list that can run and such
  that no other job that can run has a more urgent priority.
\<close>

definition most_urgent_in :: "(nat \<Rightarrow> CJob) \<Rightarrow> nat list \<Rightarrow> nat \<Rightarrow> bool" where
  "most_urgent_in js jobs k \<longleftrightarrow> (\<exists>before after. jobs = before @ k # after \<and> IsRunnable (js k) \<and>
     (\<forall>x\<in>set before. IsRunnable (js x) \<longrightarrow> m_priority (js k) < m_priority (js x)) \<and>
     (\<forall>x\<in>set after. IsRunnable (js x) \<longrightarrow> m_priority (js k) \<le> m_priority (js x)))"

definition most_urgent :: "'fs CJobManager \<Rightarrow> nat \<Rightarrow> bool" where
  "most_urgent s k \<longleftrightarrow> most_urgent_in (Jobs s) (m_OnlineJobs s) k"

lemma Choose_Loop_Some: "Choose_Loop js (Some n) xs = (case Choose_Loop js None xs of None \<Rightarrow> Some n
    | Some k \<Rightarrow> if m_priority (js k) < m_priority (js n) then Some k else Some n)"
proof (induction xs arbitrary: n)
  case (Cons x xs)
  show ?case
    by (cases "IsRunnable (js x)"; cases "Choose_Loop js None xs") (simp_all add: Cons)
qed simp

lemma most_urgent_Nil [simp]: "\<not> most_urgent_in js [] k"
  by (simp add: most_urgent_in_def)

lemma most_urgent_runnable: "most_urgent_in js xs k \<Longrightarrow> k \<in> set xs \<and> IsRunnable (js k)"
  by (auto simp: most_urgent_in_def)

lemma most_urgent_least:
  "most_urgent_in js xs k \<Longrightarrow> x \<in> set xs \<Longrightarrow> IsRunnable (js x) \<Longrightarrow> m_priority (js k) \<le> m_priority (js x)"
  by (fastforce simp: most_urgent_in_def)

lemma most_urgent_Cons:
  "most_urgent_in js (x # xs) k \<longleftrightarrow>
     (k = x \<and> IsRunnable (js x) \<and> (\<forall>y\<in>set xs. IsRunnable (js y) \<longrightarrow> m_priority (js x) \<le> m_priority (js y))) \<or>
     (most_urgent_in js xs k \<and> (IsRunnable (js x) \<longrightarrow> m_priority (js k) < m_priority (js x)))"
    (is "?L \<longleftrightarrow> ?A \<or> ?B")
proof
  assume ?L
  then obtain before after where b: "x # xs = before @ k # after" "IsRunnable (js k)"
    "\<forall>y\<in>set before. IsRunnable (js y) \<longrightarrow> m_priority (js k) < m_priority (js y)"
    "\<forall>y\<in>set after. IsRunnable (js y) \<longrightarrow> m_priority (js k) \<le> m_priority (js y)"
    unfolding most_urgent_in_def by blast
  show "?A \<or> ?B"
  proof (cases before)
    case Nil
    then show ?thesis using b by simp
  next
    case (Cons y ys)
    then have "most_urgent_in js xs k"
      unfolding most_urgent_in_def using b by (intro exI [of _ ys] exI [of _ after]) simp
    then show ?thesis using b Cons by simp
  qed
next
  assume "?A \<or> ?B"
  then show ?L
  proof
    assume ?A
    then show ?L unfolding most_urgent_in_def by (intro exI [of _ "[]"] exI [of _ xs]) simp
  next
    assume B: ?B
    then obtain before after where b: "xs = before @ k # after" "IsRunnable (js k)"
      "\<forall>y\<in>set before. IsRunnable (js y) \<longrightarrow> m_priority (js k) < m_priority (js y)"
      "\<forall>y\<in>set after. IsRunnable (js y) \<longrightarrow> m_priority (js k) \<le> m_priority (js y)"
      unfolding most_urgent_in_def by blast
    show ?L unfolding most_urgent_in_def using b B by (intro exI [of _ "x # before"] exI [of _ after]) simp
  qed
qed

lemma Choose_Loop_None:
  "Choose_Loop js None xs = None \<longleftrightarrow> (\<forall>x\<in>set xs. \<not> IsRunnable (js x))"
  by (induction xs) (auto simp: Choose_Loop_Some split: option.split)

lemma Choose_Loop_most_urgent: "Choose_Loop js None xs = Some k \<longleftrightarrow> most_urgent_in js xs k"
proof (induction xs arbitrary: k)
  case (Cons x xs)
  show ?case
  proof (cases "Choose_Loop js None xs")
    case None
    then have "\<not> most_urgent_in js xs k" for k
      using Cons by (metis option.distinct(1))
    moreover have "\<forall>x\<in>set xs. \<not> IsRunnable (js x)" using None Choose_Loop_None by simp
    ultimately show ?thesis
      by (auto simp: None Choose_Loop_Some most_urgent_Cons)
  next
    case (Some m)
    then have m: "most_urgent_in js xs m" using Cons by simp
    have u: "most_urgent_in js xs k \<longleftrightarrow> k = m" using Cons [of k] Some by auto
    show ?thesis
      using Some u most_urgent_least [OF m] most_urgent_runnable [OF m]
      by (force simp: Choose_Loop_Some most_urgent_Cons not_less)
  qed
qed simp

lemma next_job_most_urgent:
  assumes "\<not> ServiceShuttingDown s" "AddressCount s \<noteq> 0"
  shows "next_job s = Some k \<longleftrightarrow> most_urgent s k"
  using assms by (simp add: next_job_def best_job_def most_urgent_def Choose_Loop_most_urgent flip: Choose_Loop_view)

text \<open>C9. With a network and while the service runs, \<open>ScheduleAnotherGroup\<close> makes current exactly
  the job that the specification asks for, the first of the most urgent jobs that can run,
  and the download item is scheduled if and only if there is such a job.\<close>
theorem ScheduleAnotherGroup_refines:
  assumes "throws_failures api" "reach api False C X s" "\<not> ServiceShuttingDown s" "AddressCount s \<noteq> 0"
  shows "(m_CurrentJob (ScheduleAnotherGroup b s) = Some k \<longleftrightarrow> most_urgent s k) \<and>
    (IsWorkItemInScheduler CJobManagerItem (m_TaskScheduler (ScheduleAnotherGroup b s)) \<longleftrightarrow> (\<exists>k. most_urgent s k))"
proof -
  have "alive s" by (rule jobs_okD(1) [OF reach_jobs_ok [OF assms(1,2)]])
  then show ?thesis
    using next_job_most_urgent [OF assms(3,4)] by (simp flip: next_job_most_urgent [OF assms(3,4)])
qed

lemma ScheduleAnotherGroup_refines_witness: "m_CurrentJob (ScheduleAnotherGroup False d3) = Some 7 \<and> most_urgent d3 7"
proof -
  have "IsRunnable (Jobs d3 7)"
    using current_facts(4) [of "{7}" d3 7] reach_inv [OF demo_throws reach_d3] d3_facts(5) by (simp add: sys_inv_def)
  then have "most_urgent d3 7"
    by (simp add: most_urgent_def d3_facts most_urgent_Cons)
  then show ?thesis
    using ScheduleAnotherGroup_refines [OF demo_throws reach_d3, of False 7] d3_facts by simp
qed

text \<open>The job at the end of the list is not the most urgent one if there is another.\<close>

lemma rotated_job:
  assumes "throws_failures api" "reach api False C X s" "\<not> ServiceShuttingDown s" "m_CurrentJob s = Some c"
    "MoveActiveJobToListEnd c s = (n, t)" "1 < n"
  shows "t = s\<lparr>m_OnlineJobs := remove1 c (m_OnlineJobs s) @ [c]\<rparr> \<and>
    (\<exists>k. next_job t = Some k \<and> k \<noteq> c \<and> m_priority (Jobs s k) \<le> m_priority (Jobs s c))"
proof -
  have inv: "inv C s" using reach_inv [OF assms(1,2)] by (simp add: sys_inv_def)
  note f = current_facts [OF inv assms(4)]
  let ?P = "\<lambda>i. IsRunnable (Jobs s i) \<and> m_priority (Jobs s i) \<le> m_priority (Jobs s c)"
  have a: "AddressCount s \<noteq> 0" using assms(5,6) by (auto simp: MoveActiveJobToListEnd_def split: if_splits)
  then have n: "n = length (filter ?P (m_OnlineJobs s))"
    "t = s\<lparr>m_OnlineJobs := remove1 c (m_OnlineJobs s) @ [c]\<rparr>"
    using assms(5,6) f(4,5) by (auto simp: MoveActiveJobToListEnd_def Let_def split: if_splits)
  have one: "count_list (m_OnlineJobs s) c \<le> 1"
    using job_invD(10) [OF reach_job [OF assms(1,2), of c]] by (simp split: if_splits)
  have "\<exists>k\<in>set (remove1 c (m_OnlineJobs s)). ?P k"
  proof (rule ccontr)
    assume "\<not> ?thesis"
    then have "filter ?P (remove1 c (m_OnlineJobs s)) = []" by (simp add: filter_empty_conv)
    then have "length (filter ?P (m_OnlineJobs s)) \<le> 1"
      by (simp add: filter_remove1 flip: length_0_conv) (simp add: length_remove1 split: if_splits)
    then show False using n(1) assms(6) by simp
  qed
  then obtain k where k: "k \<in> set (remove1 c (m_OnlineJobs s))" "?P k" by blast
  have tj: "Jobs t = Jobs s" "m_OnlineJobs t = remove1 c (m_OnlineJobs s) @ [c]" "AddressCount t = AddressCount s"
    "ServiceShuttingDown t = ServiceShuttingDown s" by (simp_all add: n(2))
  have ex: "next_job t \<noteq> None"
    using k tj a assms(3) by (auto simp: next_job_def best_job_def Choose_Loop_None simp flip: Choose_Loop_view)
  then obtain m where m: "next_job t = Some m" by blast
  then have mu: "most_urgent t m" using next_job_most_urgent [of t m] tj a assms(3) by simp
  have "c \<notin> set (remove1 c (m_OnlineJobs s))"
    using one count_list_remove1 [of c "m_OnlineJobs s" c] count_list_0_iff [of "remove1 c (m_OnlineJobs s)" c] by simp
  then have "m \<noteq> c"
    using mu k by (auto simp: most_urgent_def most_urgent_in_def tj append_eq_append_conv2 Cons_eq_append_conv
        append_eq_Cons_conv)
  moreover have "m_priority (Jobs s m) \<le> m_priority (Jobs s k)"
    using most_urgent_least [of "Jobs t" "m_OnlineJobs t" m k] mu k by (simp add: most_urgent_def tj del: Jobs_view)
  ultimately show ?thesis using m k(2) n(2) by (intro conjI exI [of _ m]) simp_all
qed

lemma length_filter_others:
  "P c \<Longrightarrow> length (filter P xs) = count_list xs c + length (filter (\<lambda>x. x \<noteq> c \<and> P x) xs)"
  by (induction xs) auto

text \<open>The number that \<open>MoveActiveJobToListEnd\<close> returns counts the current job itself.\<close>

lemma active_jobs:
  assumes "inv C s" "m_CurrentJob s = Some c" "MoveActiveJobToListEnd c s = (n, t)"
  shows "n \<noteq> 0" "1 < n \<longleftrightarrow> AddressCount s \<noteq> 0 \<and> (\<exists>k\<in>set (m_OnlineJobs s) - {c}. IsRunnable (Jobs s k) \<and>
      m_priority (Jobs s k) \<le> m_priority (Jobs s c))"
    "n = 1 \<Longrightarrow> t = s"
proof -
  note f = current_facts [OF assms(1,2)]
  let ?P = "\<lambda>i. IsRunnable (Jobs s i) \<and> m_priority (Jobs s i) \<le> m_priority (Jobs s c)"
  let ?f = "filter ?P (m_OnlineJobs s)" and ?o = "filter (\<lambda>k. k \<noteq> c \<and> ?P k) (m_OnlineJobs s)"
  have one: "count_list (m_OnlineJobs s) c = 1"
  proof -
    have "jok C s c" using assms(1) jobs_okD(4) by (auto simp: inv_def)
    from job_invD(10) [OF this] have "count_list (m_OnlineJobs s) c \<le> 1" by (simp split: if_splits)
    then show ?thesis using f(5) count_list_0_iff [of "m_OnlineJobs s" c] by linarith
  qed
  then have r: "length ?f = 1 + length ?o"
    using length_filter_others [of ?P c "m_OnlineJobs s"] f(4) by simp
  moreover have "0 < length ?o \<longleftrightarrow> (\<exists>k\<in>set (m_OnlineJobs s) - {c}. ?P k)"
    by (auto simp: filter_empty_conv)
  moreover have "n = (if AddressCount s = 0 then 1 else length ?f)" "n = 1 \<Longrightarrow> t = s"
    using assms(3) f(4) by (auto simp: MoveActiveJobToListEnd_def Let_def split: if_splits)
  ultimately show "n \<noteq> 0" "1 < n \<longleftrightarrow> AddressCount s \<noteq> 0 \<and> (\<exists>k\<in>set (m_OnlineJobs s) - {c}. ?P k)" "n = 1 \<Longrightarrow> t = s"
    by auto
qed

text \<open>C10. The check of the time quantum, for the current job \<open>c\<close> of a service of download jobs that
  does not shut down, whose clients add no empty file set to a transferred job and do not use
  the interfaces of BITS 1.0. Before the quantum is over nothing happens. After it, a
  transfer whose cancel event is set aborts with nothing moved. Otherwise, if another job of
  the same or a more urgent priority can run, the job goes to the end of the list, the
  transfer aborts and its end makes such a job current; if there is none, the job goes on
  with a new quantum.\<close>
theorem Quantum_rotates:
  assumes "throws_failures api" "reach api False C X s" "\<not> ServiceShuttingDown s" "m_CurrentJob s = Some c"
    "CheckForQuantumTimeout cancelled s = (abort, t)"
  shows "if case m_hQuantumTimer s of None \<Rightarrow> True | Some q \<Rightarrow> now s < q then \<not> abort \<and> t = s
    else if cancelled then abort \<and> t = s
    else if AddressCount s \<noteq> 0 \<and> (\<exists>k\<in>set (m_OnlineJobs s) - {c}. IsRunnable (Jobs s k) \<and>
        m_priority (Jobs s k) \<le> m_priority (Jobs s c))
    then abort \<and> m_OnlineJobs t = remove1 c (m_OnlineJobs s) @ [c] \<and>
      (\<exists>k. m_CurrentJob (TransferCurrentJob_end t) = Some k \<and> k \<noteq> c \<and>
         m_priority (Jobs s k) \<le> m_priority (Jobs s c))
    else \<not> abort \<and> t = s\<lparr>m_hQuantumTimer := Some (now s + m_TimeQuantaLength s)\<rparr>"
proof (cases "\<not> cancelled \<and> (\<exists>q. m_hQuantumTimer s = Some q \<and> \<not> now s < q)")
  case False
  then show ?thesis using assms(5) by (auto simp: CheckForQuantumTimeout_def split: option.splits if_splits)
next
  case True
  then obtain q where q: "\<not> cancelled" "m_hQuantumTimer s = Some q" "\<not> now s < q" by blast
  have inv: "inv C s" using reach_inv [OF assms(1,2)] by (simp add: sys_inv_def)
  obtain n u where m: "MoveActiveJobToListEnd c s = (n, u)" by fastforce
  have c: "(abort, t) = (if n = 1 then (False, SetQuantumTimeout u) else (True, u))"
    using assms(4,5) q m by (simp add: CheckForQuantumTimeout_def)
  note a = active_jobs [OF inv assms(4) m]
  show ?thesis
  proof (cases "1 < n")
    case True
    have e: "next_job (Complete_item u) = next_job u"
      by (simp add: next_job_def best_job_def)
    obtain k where k: "u = s\<lparr>m_OnlineJobs := remove1 c (m_OnlineJobs s) @ [c]\<rparr>" "next_job u = Some k" "k \<noteq> c"
      "m_priority (Jobs s k) \<le> m_priority (Jobs s c)"
      using rotated_job [OF assms(1-4) m True] by blast
    have t: "abort" "t = u" using c True by simp_all
    have "m_CurrentJob (TransferCurrentJob_end t) = Some k"
      using e k(2) t(2) by (simp add: TransferCurrentJob_end_def)
    moreover have "m_OnlineJobs t = remove1 c (m_OnlineJobs s) @ [c]" using k(1) t(2) by simp
    ultimately show ?thesis
      using a(2) True q t(1) k(3,4) by auto
  next
    case False
    then have "n = 1" using a(1) by simp
    then show ?thesis using a(2,3) c q by (simp add: SetQuantumTimeout_def)
  qed
qed

text \<open>The clock when the quantum of the job 7 is over.\<close>

definition e4 :: "unit CJobManager" where "e4 = upd_sched (\<lambda>ts. ts\<lparr>SystemTime := - 1\<rparr>) e3"

lemma reach_e4: "reach demo_api False {7, 8} (Some (7, 0)) e4"
  unfolding e4_def by (rule reach.step [OF reach_e3 step.clock])

lemma Quantum_rotates_witness:
  "\<exists>k. m_CurrentJob (TransferCurrentJob_end (snd (CheckForQuantumTimeout False e4))) = Some k \<and> k \<noteq> 7"
proof -
  obtain abort t where r: "CheckForQuantumTimeout False e4 = (abort, t)" by fastforce
  have e: "m_OnlineJobs e4 = [7, 8]" "m_CurrentJob e4 = Some 7" "AddressCount e4 = 1" "\<not> ServiceShuttingDown e4"
    "view e4 = view e3" "m_hQuantumTimer e4 = m_hQuantumTimer e3" "\<not> now e4 < q" for q
    using e3_facts word_order.extremum [of q] by (simp_all add: e4_def not_less)
  from Quantum_rotates [OF demo_throws reach_e4 e(4,2) r] show ?thesis
    using e(1,3,5-7) e3_facts r by (auto split: option.splits)
qed

section \<open>What a client's calls achieve\<close>

text \<open>The end of a job: its items are dropped and it leaves the lists.\<close>

lemma finish_effects:
  assumes "jobs_ok C s" "h \<in> C" "\<not> finished (view s h)" "st = BG_JOB_STATE_CANCELLED \<or> st = BG_JOB_STATE_ACKNOWLEDGED"
    "t = RemoveFromManager h (SetState h st s)"
  shows "m_state (view t h) = st" "h \<notin> set (m_OnlineJobs t) \<union> set (m_OfflineJobs t)"
    "m_CurrentJob t \<noteq> Some h"
    "i \<in> {CJobInactivityTimeout h, CJobRetryItem h, CJobCallbackItem h, CJobNoProgressItem h} \<Longrightarrow> \<not> InScheduler i t"
proof -
  let ?s = "SetState h st s"
  let ?r = "snd (RemoveJob h (CancelWorkitems h ?s))"
  have c: "count_list (m_OnlineJobs s) h + count_list (m_OfflineJobs s) h = 1"
    using job_invD(10) [OF jobs_okD(4) [OF assms(1), of h]] assms(2,3) by simp
  then have l: "h \<in> set (m_OnlineJobs ?s) \<union> set (m_OfflineJobs ?s)"
    using count_list_0_iff [of "m_OnlineJobs s" h] count_list_0_iff [of "m_OfflineJobs s" h] by auto
  note q = RemoveFromManager_quiet [OF l]
  have a: "alive ?r" using jobs_okD(1) [OF assms(1)] by simp
  have gone: "h \<notin> set (m_OnlineJobs ?r) \<union> set (m_OfflineJobs ?r)"
    using c count_list_0_iff [of "m_OnlineJobs ?r" h] count_list_0_iff [of "m_OfflineJobs ?r" h]
      count_list_0_iff [of "m_OnlineJobs s" h] by (auto simp: count_list_remove1)
  have st: "m_state (view ?r h) = st" by simp
  then have nr: "\<not> IsRunnable (view ?r h)" "\<not> IsRunning (view ?r h)"
    using assms(4) download [OF assms(1), of h] by (auto simp: IsRunning_def IsRunnable_download)
  have v: "view t = view (ScheduleAnotherGroup False ?r)" "rest t = rest (ScheduleAnotherGroup False ?r)"
    using quietD [OF q] assms(5) by simp_all
  show "m_state (view t h) = st" unfolding v(1) using st nr(2) by (simp add: stopped_def)
  show "h \<notin> set (m_OnlineJobs t) \<union> set (m_OfflineJobs t)"
    using gone by (simp add: restD(1,2) [OF v(2)])
  show "m_CurrentJob t \<noteq> Some h"
    using gone next_job_online [of ?r h] by (auto simp: restD(3) [OF v(2)])
  show "\<not> InScheduler i t"
    if i: "i \<in> {CJobInactivityTimeout h, CJobRetryItem h, CJobCallbackItem h, CJobNoProgressItem h}"
  proof -
    have "tracked i" "i \<noteq> CJobManagerItem" using i by auto
    moreover have "\<not> InScheduler i ?r" using jobs_okD(1) [OF assms(1)] i by auto
    ultimately show ?thesis
      using quietD(5) [OF q, of i] assms(5) a i nr by (auto simp: stopped_def)
  qed
qed

lemma reach_unfinished: "m_state (Jobs s h) \<notin> {BG_JOB_STATE_CANCELLED, BG_JOB_STATE_ACKNOWLEDGED} \<longleftrightarrow> \<not> finished (view s h)"
  by simp




text \<open>C15. Suspending a job that is not finished succeeds: the job is suspended with no error, is not
  the current job, and its retry and no-progress timers are stopped.\<close>
theorem Suspend_stops:
  assumes "throws_failures api" "reach api False C X s" "h \<in> C"
    "m_state (Jobs s h) \<notin> {BG_JOB_STATE_CANCELLED, BG_JOB_STATE_ACKNOWLEDGED}" "SuspendJob h s = (hr, t)"
  shows "hr = S_OK \<and> m_state (Jobs t h) = BG_JOB_STATE_SUSPENDED \<and> GetError (Jobs t h) = None \<and>
    m_CurrentJob t \<noteq> Some h \<and> \<not> IsWorkItemInScheduler (CJobRetryItem h) (m_TaskScheduler t) \<and>
    \<not> IsWorkItemInScheduler (CJobNoProgressItem h) (m_TaskScheduler t)"
proof -
  have i: "inv C s" using reach_inv [OF assms(1,2)] by (simp add: sys_inv_def)
  have t: "inv C t" using SuspendJob_safe [OF i assms(3)] assms(5) by (simp add: safe_def)
  have st: "m_state (view t h) = BG_JOB_STATE_SUSPENDED"
    using SuspendJob_state [of s h] assms(4,5) by simp
  have tj: "jobs_ok C t" using t by (simp add: inv_def)
  note j = job_invD [OF jobs_okD(4) [OF tj, of h]]
  have "m_CurrentJob t \<noteq> Some h"
    using current_facts(2) [OF t, of h] st by auto
  moreover have "hr = S_OK"
    using assms(4,5) by (auto simp: SuspendJob_def Let_def split: BG_JOB_STATE.splits)
  ultimately show ?thesis using st j(4,5,6) by (auto simp: GetError_def)
qed

lemma Suspend_stops_witness: "m_state (Jobs (snd (SuspendJob 7 d5)) 7) = BG_JOB_STATE_SUSPENDED"
  using Suspend_stops [OF demo_throws reach_d5 _ _ prod.collapse [symmetric], of 7] d5_facts(1) by simp




text \<open>The files of a job when it is completed.\<close>

lemma MoveTempFile_Loop_error: "MoveTempFile_Loop api f n d fs = (Some e, fs') \<Longrightarrow> n \<noteq> 0 \<Longrightarrow> e \<noteq> 0"
proof (induction n arbitrary: d fs)
  case (Suc n)
  obtain e' fs1 where m: "MoveFileEx api (m_TemporaryName f) (m_LocalName f) fs = (e', fs1)" by fastforce
  show ?case
    using Suc m by (cases "n = 0") (auto split: if_splits)
qed simp

lemma MoveTempFile_completes:
  assumes "\<And>n fs. GetFileAttributes api n fs \<noteq> Inl 0" "MoveTempFile api f fs = (asserted, hr, g, fs')"
  shows "(hr = S_OK \<and> g = f\<lparr>m_Completed := True\<rparr>) \<or> (FAILED hr \<and> g = f)"
proof (cases "GetFileAttributes api (m_TemporaryName f) fs")
  case (Inl e)
  then have "e \<noteq> 0" using assms(1) [of "m_TemporaryName f" fs] by auto
  then show ?thesis using assms(2) Inl by (auto simp: MoveTempFile_def)
next
  case (Inr a)
  obtain e fs1 where e: "SetFileAttributes api (m_TemporaryName f) FILE_ATTRIBUTE_NORMAL fs = (e, fs1)" by fastforce
  show ?thesis
  proof (cases "e = 0")
    case False
    then show ?thesis using assms(2) Inr e by (auto simp: MoveTempFile_def)
  next
    case True
    obtain r fs2 where l: "MoveTempFile_Loop api f dwMaxRetries 0 fs1 = (r, fs2)" by fastforce
    show ?thesis
    proof (cases r)
      case None
      then show ?thesis using assms(2) Inr e True l unfolding MoveTempFile_def by (simp only: sum.case prod.case prod.inject) auto
    next
      case (Some d)
      then have "d \<noteq> 0" using MoveTempFile_Loop_error l by fastforce
      then show ?thesis using assms(2) Inr e True l Some unfolding MoveTempFile_def by (simp only: sum.case prod.case prod.inject) auto
    qed
  qed
qed

lemma Commit_Loop_result:
  assumes "\<And>n fs. GetFileAttributes api n fs \<noteq> Inl 0"
  shows "Commit_Loop api files Hr p fs = (as', Hr', p', files', fs') \<Longrightarrow> Hr = S_OK \<or> FAILED Hr \<Longrightarrow>
    (Hr' = S_OK \<or> FAILED Hr') \<and> (SUCCEEDED Hr' \<longrightarrow> Hr = S_OK \<and>
      files' = map (\<lambda>f. if ReceivedAllData f then f\<lparr>m_Completed := True\<rparr> else f) files) \<and>
    (p' \<longleftrightarrow> p \<or> (\<exists>f\<in>set files. \<not> m_Completed f \<and> \<not> ReceivedAllData f))"
proof (induction files arbitrary: Hr p fs as' Hr' p' files' fs')
  case Nil
  then show ?case by (auto simp: FAILED_def)
next
  case (Cons f files)
  have c: "f\<lparr>m_Completed := True\<rparr> = f" if "m_Completed f"
    using that by (cases f) simp
  consider (done_before) "m_Completed f" | (moved) "\<not> m_Completed f" "ReceivedAllData f"
    | (part) "\<not> m_Completed f" "\<not> ReceivedAllData f" by blast
  then show ?case
  proof cases
    case done_before
    obtain files1 where "Commit_Loop api files Hr p fs = (as', Hr', p', files1, fs')" "files' = f # files1"
      using Cons.prems(1) done_before by (auto split: prod.splits)
    then show ?thesis using Cons.IH [OF _ Cons.prems(2)] done_before c by auto
  next
    case moved
    obtain a hr g fs1 where m: "MoveTempFile api f fs = (a, hr, g, fs1)" by (metis prod.collapse)
    let ?H = "if FAILED hr \<and> Hr = S_OK then hr else Hr"
    obtain as1 files1 where l: "Commit_Loop api files ?H p fs1 = (as1, Hr', p', files1, fs')" "files' = g # files1"
      using Cons.prems(1) moved m by (auto split: prod.splits)
    have H: "?H = S_OK \<or> FAILED ?H" using Cons.prems(2) by auto
    note r = MoveTempFile_completes [OF assms m]
    have S: "\<not> FAILED S_OK" by (simp add: FAILED_def)
    note IH = Cons.IH [OF l(1) H]
    show ?thesis
    proof (cases "FAILED hr")
      case True
      then have "FAILED ?H" using Cons.prems(2) by auto
      then have "?H \<noteq> S_OK" using S by metis
      then show ?thesis using IH moved by simp
    next
      case False
      then have "hr = S_OK" "g = f\<lparr>m_Completed := True\<rparr>" using r by auto
      then show ?thesis using IH l(2) moved False by simp
    qed
  next
    case part
    obtain files1 where l: "Commit_Loop api files Hr True fs = (as', Hr', p', files1, fs')" "files' = f # files1"
      using Cons.prems(1) part by (auto split: prod.splits)
    note IH = Cons.IH [OF l(1) Cons.prems(2)]
    then have "p'" by simp
    then show ?thesis using IH l(2) part by simp
  qed
qed

text \<open>C14. If committing the files of a job succeeds, every file that was received completely is
  marked completed and no other file changes, and the result is the partial-complete code
  exactly if some file was neither completed nor received completely. An error code of
  the system is never \<open>0\<close>.\<close>
theorem Commit_completes:
  assumes "\<And>n fs. GetFileAttributes api n fs \<noteq> Inl 0" "CommitTemporaryFiles api h s = (hr, t)" "SUCCEEDED hr"
  shows "m_files (Jobs t h) = map (\<lambda>f. if ReceivedAllData f then f\<lparr>m_Completed := True\<rparr> else f) (m_files (Jobs s h)) \<and>
    (hr = BG_S_PARTIAL_COMPLETE \<longleftrightarrow> (\<exists>f\<in>set (m_files (Jobs s h)). \<not> m_Completed f \<and> \<not> ReceivedAllData f))"
proof -
  obtain a Hr p fl fs where c: "Commit_Loop api (m_files (Jobs s h)) S_OK False (FileSystem s) = (a, Hr, p, fl, fs)"
    by (metis prod.collapse)
  note r = Commit_Loop_result [OF assms(1) c]
  let ?t = "upd_job h (\<lambda>j. j\<lparr>m_files := fl\<rparr>) (ASSERT a (s\<lparr>FileSystem := fs\<rparr>))"
  have i: "SUCCEEDED (ImpersonateOwner api (m_NotifySid (Jobs s h)) s)"
    using assms(2,3) by (auto simp: CommitTemporaryFiles_def Let_def split: if_splits)
  obtain hr' u where u: "RemoveTemporaryFiles api 0 h ?t = (hr', u)" by fastforce
  have eq: "CommitTemporaryFiles api h s = (if SUCCEEDED Hr
      then (if p then BG_S_PARTIAL_COMPLETE else hr', u) else (Hr, UpdateModificationTime True h ?t))"
    unfolding CommitTemporaryFiles_def c Let_def prod.case u if_not_P [OF i] ..
  have ok: "SUCCEEDED Hr"
    using assms(2,3) eq by (auto split: if_splits)
  have "Jobs u = Jobs ?t"
    using u by (auto simp: RemoveTemporaryFiles_def split: prod.splits)
  then have "m_files (Jobs u h) = fl" by (simp add: upd_job_def del: Jobs_view)
  moreover have "hr' = S_OK \<or> hr' = BG_S_UNABLE_TO_DELETE_FILES"
    using u by (auto simp: RemoveTemporaryFiles_def split: prod.splits if_splits)
  moreover have "t = u" "hr = (if p then BG_S_PARTIAL_COMPLETE else hr')" using assms(2) eq ok by simp_all
  ultimately show ?thesis using r ok by auto
qed

text \<open>The only file of the job has been received, and is renamed.\<close>

definition c5 :: "unit CJobManager" where
  "c5 = upd_job 7 (\<lambda>j. j\<lparr>m_files := [demo_file\<lparr>m_BytesTotal := 5, m_BytesTransferred := 5\<rparr>]\<rparr>) d5"

lemma demo_move: "MoveTempFile demo_api f () = (\<not> m_Completed f, S_OK, f\<lparr>m_Completed := True\<rparr>, ())"
  by (simp add: MoveTempFile_def demo_api_def numeral_eq_Suc)

lemma demo_owner: "m_NotifySid (view s h) = 5 \<Longrightarrow> m_Users s = [5] \<Longrightarrow>
    ImpersonateOwner demo_api (m_NotifySid (view s h)) s = S_OK"
  by (simp add: ImpersonateOwner_def CloneUserToken_def demo_api_def)

lemma Commit_c5: "fst (CommitTemporaryFiles demo_api 7 c5) = S_OK"
  "m_files (Jobs c5 7) = [demo_file\<lparr>m_BytesTotal := 5, m_BytesTransferred := 5\<rparr>]"
proof -
  have "m_NotifySid (view c5 7) = 5" "m_Users c5 = [5]"
    using d3_facts(10) d4_facts(2) d5_facts(6) by (simp_all add: c5_def d5_eq(2))
  then have "ImpersonateOwner demo_api (m_NotifySid (view c5 7)) c5 = S_OK" by (rule demo_owner)
  moreover have f: "m_files (view c5 7) = [demo_file\<lparr>m_BytesTotal := 5, m_BytesTransferred := 5\<rparr>]"
    by (simp add: c5_def)
  ultimately show "fst (CommitTemporaryFiles demo_api 7 c5) = S_OK"
    by (simp add: CommitTemporaryFiles_def demo_file_def demo_move ReceivedAllData_def RemoveTemporaryFiles_def
        FAILED_def Let_def)
  show "m_files (Jobs c5 7) = [demo_file\<lparr>m_BytesTotal := 5, m_BytesTransferred := 5\<rparr>]" using f by simp
qed

lemma demo_attributes: "GetFileAttributes demo_api n fs \<noteq> Inl 0"
  by (simp add: demo_api_def)

lemma Commit_completes_witness:
  "map m_Completed (m_files (Jobs (snd (CommitTemporaryFiles demo_api 7 c5)) 7)) = [True]"
proof -
  have "SUCCEEDED (fst (CommitTemporaryFiles demo_api 7 c5))" using Commit_c5(1) by (simp add: FAILED_def)
  note Commit_completes [OF demo_attributes prod.collapse [symmetric] this]
  then show ?thesis using Commit_c5(2) by (simp add: demo_file_def ReceivedAllData_def del: Jobs_view)
qed

text \<open>C13. Completing a job that is not finished either succeeds, and the job is acknowledged, in no
  list and without timers, or fails, and then the job is still there and not finished.\<close>
theorem Complete_finishes:
  assumes "throws_failures api" "reach api False C X s" "h \<in> C"
    "m_state (Jobs s h) \<notin> {BG_JOB_STATE_CANCELLED, BG_JOB_STATE_ACKNOWLEDGED}" "Complete api h s = (hr, t)"
  shows "if SUCCEEDED hr
    then m_state (Jobs t h) = BG_JOB_STATE_ACKNOWLEDGED \<and> h \<notin> set (m_OnlineJobs t) \<union> set (m_OfflineJobs t) \<and>
      (\<forall>i\<in>{CJobInactivityTimeout h, CJobRetryItem h, CJobCallbackItem h, CJobNoProgressItem h}.
         \<not> IsWorkItemInScheduler i (m_TaskScheduler t))
    else m_state (Jobs t h) \<notin> {BG_JOB_STATE_CANCELLED, BG_JOB_STATE_ACKNOWLEDGED} \<and>
      h \<in> set (m_OnlineJobs t) \<union> set (m_OfflineJobs t)"
proof -
  have i: "inv C s" and s: "jobs_ok C s"
    using reach_inv [OF assms(1,2)] by (simp_all add: sys_inv_def inv_def)
  have nf: "\<not> finished (view s h)" using assms(4) by simp
  define p where "p = (if m_state (Jobs s h) \<in> {BG_JOB_STATE_CONNECTING, BG_JOB_STATE_TRANSFERRING,
                       BG_JOB_STATE_QUEUED, BG_JOB_STATE_TRANSIENT_ERROR}
                  then snd (SuspendJob h s) else s)"
  have p: "safe C s p" using SuspendJob_safe [OF i assms(3)] safe_refl [OF i] by (simp add: p_def)
  have pf: "\<not> finished (view p h)"
    using nf SuspendJob_state [OF nf] by (auto simp: p_def)
  obtain hr' u where u: "(if \<not> m_OldExternalJobInterface (Jobs p h) then CommitTemporaryFiles api h p
                  else (S_OK, p)) = (hr', u)" by fastforce
  have m: "mild p u"
    using u CommitTemporaryFiles_mild [of p api h] by (auto split: if_splits)
  have uf: "\<not> finished (view u h)" using mild_finished [OF m, of h] pf by blast
  have uj: "jobs_ok C u" using safe_mild [OF p m] by (simp add: safe_def inv_def)
  have "Complete api h s = (if FAILED hr' then (hr', u)
      else (hr', RemoveFromManager h (SetState h BG_JOB_STATE_ACKNOWLEDGED u)))"
    using nf download [OF s, of h] unfolding Complete_def CJob_Complete_def Let_def p_def [symmetric] u by simp
  then have t: "hr = hr'" "t = (if FAILED hr' then u else RemoveFromManager h (SetState h BG_JOB_STATE_ACKNOWLEDGED u))"
    using assms(5) by (auto split: if_splits)
  show ?thesis
  proof (cases "FAILED hr'")
    case True
    have "count_list (m_OnlineJobs u) h + count_list (m_OfflineJobs u) h = 1"
      using job_invD(10) [OF jobs_okD(4) [OF uj, of h]] uf assms(3) by simp
    then have "h \<in> set (m_OnlineJobs u) \<union> set (m_OfflineJobs u)"
      using count_list_0_iff [of "m_OnlineJobs u" h] count_list_0_iff [of "m_OfflineJobs u" h] by auto
    then show ?thesis using True t uf by simp
  next
    case False
    then have "t = RemoveFromManager h (SetState h BG_JOB_STATE_ACKNOWLEDGED u)" using t(2) by simp
    note f = finish_effects [OF uj assms(3) uf _ this]
    show ?thesis using f False t(1) by simp
  qed
qed

lemma Complete_d2: "SUCCEEDED (fst (Complete demo_api 7 d2))"
proof -
  have "\<not> ReceivedAllData demo_file" "\<not> m_Completed demo_file" "DeleteTempFile demo_api demo_file () = (S_OK, ())"
    by (simp_all add: ReceivedAllData_def demo_file_def DeleteTempFile_def demo_api_def)
  then show ?thesis using d2_job d2_facts(1-6) demo_owner [of d2 7]
    by (simp add: Complete_def CJob_Complete_def CommitTemporaryFiles_def RemoveTemporaryFiles_def FAILED_def Let_def
      split: prod.splits)
qed

lemma Complete_finishes_witness:
  "m_state (Jobs (snd (Complete demo_api 7 d2)) 7) = BG_JOB_STATE_ACKNOWLEDGED"
  using Complete_finishes [OF demo_throws reach_d2 _ _ prod.collapse [symmetric], of 7] d2_job(1) Complete_d2 by simp

text \<open>
  The attempts of \<open>CFile::MoveTempFile\<close> to rename the file, counted by the file system itself.
\<close>

definition gives_up :: "(nat \<Rightarrow> 32 word) \<Rightarrow> nat \<Rightarrow> bool" where
  "gives_up err k \<longleftrightarrow> err k = 0 \<or> (4 \<le> k \<and> err k \<noteq> ERROR_SHARING_VIOLATION)"

lemma MoveTempFile_Loop_attempts:
  assumes "\<And>a b k. MoveFileEx api a b k = (err k, Suc k)"
  shows "k + n = 10 \<Longrightarrow> MoveTempFile_Loop api f n e k = (r, m) \<Longrightarrow> 0 < n \<Longrightarrow>
    k < m \<and> m \<le> 10 \<and> (\<forall>i. k \<le> i \<and> i < m - 1 \<longrightarrow> \<not> gives_up err i) \<and> (m < 10 \<longrightarrow> gives_up err (m - 1)) \<and>
    r = (if err (m - 1) = 0 then None else Some (err (m - 1)))"
proof (induction n arbitrary: e k)
  case (Suc n)
  have k: "k = 9 - n" using Suc.prems(1) by simp
  consider "gives_up err k" | "\<not> gives_up err k" "n = 0" | "\<not> gives_up err k" "0 < n" by blast
  then show ?case
  proof cases
    case 1
    then have "r = (if err k = 0 then None else Some (err k)) \<and> m = Suc k"
      using Suc.prems(2) assms k by (auto simp: gives_up_def split: if_splits)
    then show ?thesis using 1 Suc.prems(1) by auto
  next
    case 2
    then have "r = Some (err k) \<and> m = Suc k \<and> err k \<noteq> 0"
      using Suc.prems(2) assms k by (auto simp: gives_up_def split: if_splits)
    then show ?thesis using 2 Suc.prems(1) by auto
  next
    case 3
    have "MoveTempFile_Loop api f n (err k) (Suc k) = (r, m)"
      using 3(1) Suc.prems(1,2) assms k by (auto simp: gives_up_def split: if_splits)
    note IH = Suc.IH [OF _ this 3(2)]
    have "\<not> gives_up err i" if "k \<le> i" "i < m - 1" for i
      using IH that 3(1) Suc.prems(1) by (cases "i = k") auto
    then show ?thesis using IH Suc.prems(1) by auto
  qed
qed simp

text \<open>C17. Renaming a received file is attempted at least once and at most ten times. It stops at the
  first attempt that succeeds, or, from the fifth one on, at the first that fails otherwise
  than by a sharing violation, and reports the outcome of the last attempt.\<close>
theorem MoveTempFile_attempts:
  assumes "\<And>a b k. MoveFileEx api a b k = (err k, Suc k)" "MoveTempFile_Loop api f dwMaxRetries 0 0 = (r, m)"
  shows "0 < m \<and> m \<le> 10 \<and> (\<forall>i < m - 1. \<not> gives_up err i) \<and> (m < 10 \<longrightarrow> gives_up err (m - 1)) \<and>
    r = (if err (m - 1) = 0 then None else Some (err (m - 1)))"
  using MoveTempFile_Loop_attempts [OF assms(1) _ assms(2)] by simp

text \<open>A file that is not there: the fifth attempt is the last one.\<close>

definition no_move_api :: "nat FileApi" where
  "no_move_api = \<lparr>GetFileAttributes = (\<lambda>_ _. Inr 0x80), SetFileAttributes = (\<lambda>_ _ fs. (0, fs)),
     MoveFileEx = (\<lambda>_ _ k. (2, Suc k)), DeleteFile = (\<lambda>_ fs. (0, fs)), CrackFileName = (\<lambda>_. Inl 2),
     VolumeOf = (\<lambda>_ _. Inl 2), CreateTempFile = (\<lambda>_ fs. (Inl 2, fs)), CheckFileWritability = (\<lambda>_ _. S_OK),
     OpenFileForUpload = (\<lambda>_ _. Inl 2), CoImpersonateClient = (\<lambda>_. (S_OK, 5)),
     CopyUserToken = (\<lambda>_ _. S_OK), ReportJobCancellation = (\<lambda>_. S_OK)\<rparr>"

lemma MoveTempFile_attempts_witness:
  "MoveTempFile_Loop no_move_api demo_file dwMaxRetries 0 0 = (Some 2, 5)"
proof -
  obtain r m where rm: "MoveTempFile_Loop no_move_api demo_file dwMaxRetries 0 0 = (r, m)" by fastforce
  have a: "MoveFileEx no_move_api a b k = ((\<lambda>_. 2) k, Suc k)" for a b k by (simp add: no_move_api_def)
  note * = MoveTempFile_attempts [OF a rm]
  have "m = 5"
  proof (rule ccontr)
    assume "m \<noteq> 5"
    then have "m < 5 \<or> 4 < m - 1" using * by linarith
    then show False
    proof
      assume "m < 5"
      then show False using * by (auto simp: gives_up_def)
    next
      assume "4 < m - 1"
      then show False using * by (auto simp: gives_up_def)
    qed
  qed
  then show ?thesis using rm * by simp
qed

section \<open>What a call does not keep\<close>

text \<open>C20. Adding an empty file set to a job that is transferred queues the job although it has
  no file left to transfer, so the invariant on the current file is lost.\<close>
theorem AddFileSet_empty_requeues:
  assumes "MetadataError s = 0" "m_state (Jobs s h) = BG_JOB_STATE_TRANSFERRED" "GetCurrentFile (Jobs s h) = None"
    "AddFileSet api h [] s = (hr, t)"
  shows "hr = S_OK \<and> m_state (Jobs t h) = BG_JOB_STATE_QUEUED \<and> GetCurrentFile (Jobs t h) = None"
proof -
  have hr: "hr = S_OK" "t = HandleAddFile h s"
    using assms(1,4) by (simp_all add: AddFileSet_def FAILED_def Let_def)
  have "m_state (view t h) = BG_JOB_STATE_QUEUED"
    unfolding hr(2) HandleAddFile_def RetaskJob_def Let_def using assms(2) 
    by (simp add: stopped_def IsRunning_def)
  moreover have "m_files (view t h) = m_files (view s h)" "m_CurrentFile (view t h) = m_CurrentFile (view s h)"
    unfolding hr(2) HandleAddFile_def RetaskJob_def Let_def using assms(2) 
    by (simp_all add: stopped_def IsRunning_def)
  ultimately show ?thesis using hr(1) assms(3) by (simp add: GetCurrentFile_def split: if_splits)
qed

text \<open>The job with its only file transferred.\<close>

definition d2_transferred :: "unit CJobManager" where
  "d2_transferred = upd_job 7 (\<lambda>j. j\<lparr>m_state := BG_JOB_STATE_TRANSFERRED, m_CurrentFile := 1\<rparr>) d2"

lemma AddFileSet_empty_requeues_witness:
  "m_state (Jobs (snd (AddFileSet demo_api 7 [] d2_transferred)) 7) = BG_JOB_STATE_QUEUED"
proof -
  have "MetadataError d2_transferred = 0" "m_state (Jobs d2_transferred 7) = BG_JOB_STATE_TRANSFERRED"
    "GetCurrentFile (Jobs d2_transferred 7) = None"
    using d2_facts d2_job by (simp_all add: d2_transferred_def GetCurrentFile_def)
  then show ?thesis using AddFileSet_empty_requeues [OF _ _ _ prod.collapse [symmetric]] by blast
qed

end
