(* ===== verification/StateBytes.thy ===== *)
theory StateBytes
  imports BitsTypes
begin

text \<open>
  The reading and writing of the service's state file, byte by byte
  (\<open>src/services/drizzle/newjob/metadata.cpp\<close> and \<open>metadata.h\<close>). A writer is a function to the bytes
  it appends. A reader consumes bytes and may throw; the state \<open>'s\<close> is what else it changes.
  Reading past the end is the \<open>ComError\<close> the code throws; \<open>OutOfBounds\<close> is an access
  outside an allocated buffer, which ends the program; \<open>Unnamed\<close> is a value that the code
  takes over but that has no name in the model: an enumeration value outside its type, a
  wide character above the first 256.
\<close>

type_synonym bytes = "8 word list"

datatype read_error = ComError HRESULT | OutOfBounds | Unnamed

type_synonym ('s, 'a) reader = "bytes \<times> 's \<Rightarrow> (read_error + 'a) \<times> bytes \<times> 's"

definition rret :: "'a \<Rightarrow> ('s, 'a) reader" where
  "rret x s = (Inr x, s)"

definition rthrow :: "read_error \<Rightarrow> ('s, 'a) reader" where
  "rthrow e s = (Inl e, s)"

definition rbind :: "('s, 'a) reader \<Rightarrow> ('a \<Rightarrow> ('s, 'b) reader) \<Rightarrow> ('s, 'b) reader" where
  "rbind r f s = (case r s of (Inl e, s) \<Rightarrow> (Inl e, s) | (Inr x, s) \<Rightarrow> f x s)"

section \<open>Plain data\<close>

text \<open>The bytes of a machine integer in memory, least significant first.\<close>

primrec le_bytes :: "nat \<Rightarrow> 'a::len word \<Rightarrow> bytes" where
  "le_bytes 0 w = []"
| "le_bytes (Suc n) w = ucast w # le_bytes n (drop_bit 8 w)"

primrec le_word :: "bytes \<Rightarrow> 'a::len word" where
  "le_word [] = 0"
| "le_word (b # bs) = ucast b OR push_bit 8 (le_word bs)"

definition SafeReadBytes :: "nat \<Rightarrow> ('s, bytes) reader" where
  "SafeReadBytes dwSize = (\<lambda>(bs, s).
     if length bs < dwSize then (Inl (ComError (HRESULT_FROM_WIN32 87)), [], s)
     else (Inr (take dwSize bs), drop dwSize bs, s))"

text \<open>The templates over the type of the datum, here a word of whole bytes.\<close>

definition SafeWriteFile :: "'a::len word \<Rightarrow> bytes" where
  "SafeWriteFile Data = le_bytes (LENGTH('a) div 8) Data"

definition SafeReadFile :: "('s, 'a::len word) reader" where
  "SafeReadFile = rbind (SafeReadBytes (LENGTH('a) div 8)) (\<lambda>bs. rret (le_word bs))"

definition write_bool :: "bool \<Rightarrow> bytes" where
  "write_bool b = SafeWriteFile (if b then 1 else 0 :: 8 word)"

definition read_bool :: "('s, bool) reader" where
  "read_bool = rbind SafeReadFile (\<lambda>b :: 8 word. rret (b \<noteq> 0))"

section \<open>Strings\<close>

definition write_wchar :: "char \<Rightarrow> bytes" where
  "write_wchar c = SafeWriteFile (of_char c :: 16 word)"

text \<open>A buffer of bytes as wide characters.\<close>

fun wchars :: "bytes \<Rightarrow> 16 word list" where
  "wchars (a # b # bs) = le_word [a, b] # wchars bs"
| "wchars _ = []"

definition to_char :: "16 word \<Rightarrow> char option" where
  "to_char w = (if w < 256 then Some (char_of (unat w)) else None)"

text \<open>The string that a buffer of wide characters holds: up to the first terminator.\<close>

definition StringHandle_of :: "16 word list \<Rightarrow> ('s, string) reader" where
  "StringHandle_of buf =
     (let cs = map to_char (takeWhile (\<lambda>w. w \<noteq> 0) buf)
      in if None \<in> set cs then rthrow Unnamed else rret (map the cs))"

text \<open>
  The bytes of a string with its terminator, and the reading of a buffer of \<open>dwStringSize\<close>
  wide characters. The size of the buffer in bytes is computed in 32 bits; the terminator is
  looked for at the index \<open>dwStringSize - 1\<close>, whatever that is.
\<close>

definition write_chars :: "string \<Rightarrow> bytes" where
  "write_chars str = concat (map write_wchar str) @ SafeWriteFile (0 :: 16 word)"

definition read_chars :: "32 word \<Rightarrow> ('s, string) reader" where
  "read_chars dwStringSize =
     rbind (SafeReadBytes (unat (dwStringSize * 2))) (\<lambda>bs.
       (let buf = wchars bs; i = unat (dwStringSize - 1)
        in if length buf \<le> i then rthrow OutOfBounds
           else if buf ! i \<noteq> 0 then rthrow (ComError (HRESULT_FROM_WIN32 87))
           else StringHandle_of buf))"

definition SafeWriteStringHandle :: "string \<Rightarrow> bytes" where
  "SafeWriteStringHandle str =
     SafeWriteFile (word_of_nat (length str + 1) :: 32 word) @ write_chars str"

definition SafeReadStringHandle :: "('s, string) reader" where
  "SafeReadStringHandle = rbind SafeReadFile read_chars"

text \<open>A pointer to a string, which may be \<open>NULL\<close>.\<close>

definition SafeWriteString :: "string option \<Rightarrow> bytes" where
  "SafeWriteString p =
     (case p of None \<Rightarrow> write_bool False
      | Some str \<Rightarrow> write_bool True @ SafeWriteFile (word_of_nat (length str + 1) :: 32 word) @ write_chars str)"

definition SafeReadString :: "('s, string option) reader" where
  "SafeReadString =
     rbind read_bool (\<lambda>bString. if \<not> bString then rret None
       else rbind SafeReadFile (\<lambda>dwStringSize. rbind (read_chars dwStringSize) (\<lambda>str. rret (Some str))))"

text \<open>A sequence of \<open>n\<close> data, one after the other.\<close>

primrec read_n :: "('s, 'a) reader \<Rightarrow> nat \<Rightarrow> ('s, 'a list) reader" where
  "read_n rd 0 = rret []"
| "read_n rd (Suc n) = rbind rd (\<lambda>x. rbind (read_n rd n) (\<lambda>xs. rret (x # xs)))"

section \<open>Security identifiers\<close>

text \<open>
  The functions of the system that convert identifiers and security descriptors. The
  conversion of a string fails with the error on the left; \<open>MakeAbsoluteSD\<close> gives the last
  error, \<open>0\<close> when the bytes are those of a security descriptor.
\<close>

record SidApi =
  ConvertSidToStringSid :: "nat \<Rightarrow> string"
  ConvertStringSidToSid :: "string \<Rightarrow> 32 word + nat"
  MakeAbsoluteSD :: "bytes \<Rightarrow> 32 word"

definition SafeWriteSid :: "'z SidApi_scheme \<Rightarrow> nat \<Rightarrow> bytes" where
  "SafeWriteSid api sid =
     (let str = ConvertSidToStringSid api sid
      in SafeWriteFile (word_of_nat (1 + length str) :: 32 word) @ write_chars str)"

abbreviation ERROR_INVALID_SID :: "32 word" where "ERROR_INVALID_SID \<equiv> 1337"

definition SafeReadSid :: "'z SidApi_scheme \<Rightarrow> ('s, nat) reader" where
  "SafeReadSid api =
     rbind SafeReadFile (\<lambda>dwStringSize. rbind (read_chars dwStringSize) (\<lambda>str.
       case ConvertStringSidToSid api str of
         Inl e \<Rightarrow> rthrow (ComError (HRESULT_FROM_WIN32 (if e = ERROR_INVALID_SID then 87 else e)))
       | Inr sid \<Rightarrow> rret sid))"

section \<open>Blocks\<close>

type_synonym GUID = "128 word"

text \<open>A \<open>GUID\<close> by the bytes of its structure.\<close>

definition guid :: "32 word \<Rightarrow> 16 word \<Rightarrow> 16 word \<Rightarrow> 8 word list \<Rightarrow> GUID" where
  "guid Data1 Data2 Data3 Data4 =
     le_word (SafeWriteFile Data1 @ SafeWriteFile Data2 @ SafeWriteFile Data3 @ Data4)"

definition SafeReadGuidChoice :: "GUID list \<Rightarrow> ('s, nat) reader" where
  "SafeReadGuidChoice guids =
     rbind SafeReadFile (\<lambda>g. case find (\<lambda>i. guids ! i = g) [0..<length guids] of
        Some i \<Rightarrow> rret i
      | None \<Rightarrow> rthrow (ComError (HRESULT_FROM_WIN32 87)))"

definition SafeWriteBlock :: "GUID \<Rightarrow> bytes" where
  "SafeWriteBlock BlockGuid = SafeWriteFile BlockGuid"

definition SafeReadBlock :: "GUID \<Rightarrow> ('s, unit) reader" where
  "SafeReadBlock BlockGuid =
     rbind SafeReadFile (\<lambda>FileBlockGuid. if FileBlockGuid \<noteq> BlockGuid
       then rthrow (ComError (HRESULT_FROM_WIN32 87)) else rret ())"

section \<open>What a reader makes of the bytes of a writer\<close>

text \<open>
  \<open>coded r bs x f\<close>: the reader makes \<open>x\<close> of the bytes \<open>bs\<close>, changing the rest of the state by \<open>f\<close>,
  and reports invalid data when any of them are missing at the end.
\<close>

definition coded :: "('s, 'a) reader \<Rightarrow> bytes \<Rightarrow> 'a \<Rightarrow> ('s \<Rightarrow> 's) \<Rightarrow> bool" where
  "coded r bs x f \<longleftrightarrow> (\<forall>rest s. r (bs @ rest, s) = (Inr x, rest, f s)) \<and>
     (\<forall>k < length bs. \<forall>s. fst (r (take k bs, s)) = Inl (ComError E_INVALIDARG))"

lemma ERROR_INVALID_PARAMETER_HRESULT [simp]: "HRESULT_FROM_WIN32 87 = E_INVALIDARG"
  by (simp add: HRESULT_FROM_WIN32_def)

lemma coded_ret [intro]: "coded (rret x) [] x (\<lambda>s. s)"
  by (simp add: coded_def rret_def)

lemma coded_bind:
  assumes "coded r bs x f" "coded (g x) cs y f'"
  shows "coded (rbind r g) (bs @ cs) y (f' \<circ> f)"
  unfolding coded_def
proof (intro conjI allI impI)
  show "rbind r g ((bs @ cs) @ rest, s) = (Inr y, rest, (f' \<circ> f) s)" for rest s
    using assms by (simp add: coded_def rbind_def)
next
  fix k s assume k: "k < length (bs @ cs)"
  show "fst (rbind r g (take k (bs @ cs), s)) = Inl (ComError E_INVALIDARG)"
  proof (cases "k < length bs")
    case True
    then have "fst (r (take k bs, s)) = Inl (ComError E_INVALIDARG)"
      using assms(1) by (simp add: coded_def)
    then have "fst (rbind r g (take k bs, s)) = Inl (ComError E_INVALIDARG)"
      by (cases "r (take k bs, s)") (simp add: rbind_def)
    then show ?thesis using True by simp
  next
    case False
    then have "rbind r g (take k (bs @ cs), s) = g x (take (k - length bs) cs, f s)"
      using assms(1) by (simp add: rbind_def coded_def)
    then show ?thesis using assms(2) k False by (simp add: coded_def)
  qed
qed

lemma coded_then:
  assumes "coded r bs x (\<lambda>s. s)" "coded (g x) cs y f"
  shows "coded (rbind r g) (bs @ cs) y f"
  using coded_bind [where g = g, OF assms] by (simp add: o_def)

lemma coded_map:
  assumes "coded r bs x f"
  shows "coded (rbind r (\<lambda>x. rret (h x))) bs (h x) f"
  using coded_bind [where g = "\<lambda>x. rret (h x)", OF assms coded_ret [of "h x"]] by (simp add: o_def)

lemma coded_cong: "coded r bs x f \<Longrightarrow> bs = bs' \<Longrightarrow> x = x' \<Longrightarrow> f = f' \<Longrightarrow> coded r bs' x' f'"
  by simp

text \<open>The contract between the writer and the reader of a type of data that change no state.\<close>

locale codec =
  fixes wr :: "'a \<Rightarrow> bytes" and rd :: "('s, 'a) reader" and ok :: "'a \<Rightarrow> bool"
  assumes law: "ok x \<Longrightarrow> coded rd (wr x) x (\<lambda>s. s)"
begin

lemma first: "ok x \<Longrightarrow> coded (g x) cs y f \<Longrightarrow> coded (rbind rd g) (wr x @ cs) y f"
  by (rule coded_then [OF law])

lemma last: "ok x \<Longrightarrow> coded (g x) [] y f \<Longrightarrow> coded (rbind rd g) (wr x) y f"
  using first [of x g "[]"] by simp

lemma sequence: "list_all ok xs \<Longrightarrow> coded (read_n rd (length xs)) (concat (map wr xs)) xs (\<lambda>s. s)"
proof (induction xs)
  case (Cons x xs)
  have "coded (rbind (read_n rd (length xs)) (\<lambda>xs. rret (x # xs))) (concat (map wr xs)) (x # xs) (\<lambda>s. s)"
    by (rule coded_map, rule Cons.IH) (use Cons.prems in simp)
  then show ?case
    using Cons.prems by (simp add: first)
qed (simp add: coded_ret)

lemma round_trip: "ok x \<Longrightarrow> rd (wr x @ rest, s) = (Inr x, rest, s)"
  using law by (simp add: coded_def)

lemma injective: "ok x \<Longrightarrow> ok y \<Longrightarrow> wr x = wr y \<Longrightarrow> x = y"
  using round_trip [of x "[]"] round_trip [of y "[]"] by simp

end

section \<open>The codecs\<close>

lemma le_word_bytes: "le_word (le_bytes n w) = (take_bit (8 * n) w :: 'a::len word)"
proof (induction n arbitrary: w)
  case (Suc n)
  show ?case
    by (rule bit_word_eqI) (auto simp: Suc.IH bit_simps not_less)
qed simp

lemma length_le_bytes [simp]: "length (le_bytes n w) = n"
  by (induction n arbitrary: w) simp_all

lemma coded_SafeReadBytes: "coded (SafeReadBytes (length bs)) bs bs (\<lambda>s. s)"
  by (simp add: coded_def SafeReadBytes_def)

lemma coded_SafeReadFile:
  assumes "8 dvd LENGTH('a)"
  shows "coded SafeReadFile (SafeWriteFile (w :: 'a::len word)) w (\<lambda>s. s)"
proof -
  have "8 * (LENGTH('a) div 8) = LENGTH('a)" using assms by simp
  then have w: "le_word (le_bytes (LENGTH('a) div 8) w) = w"
    by (simp only: le_word_bytes) simp
  have "coded (rbind (SafeReadBytes (LENGTH('a) div 8)) (\<lambda>bs. rret (le_word bs)))
      (le_bytes (LENGTH('a) div 8) w) (le_word (le_bytes (LENGTH('a) div 8) w) :: 'a word) (\<lambda>s. s)"
    by (rule coded_map) (use coded_SafeReadBytes [of "le_bytes (LENGTH('a) div 8) w"] in simp)
  then show ?thesis unfolding w SafeReadFile_def SafeWriteFile_def .
qed

interpretation byte: codec "SafeWriteFile :: 8 word \<Rightarrow> bytes" SafeReadFile "\<lambda>_. True"
  by unfold_locales (rule coded_SafeReadFile, simp)

interpretation word: codec "SafeWriteFile :: 16 word \<Rightarrow> bytes" SafeReadFile "\<lambda>_. True"
  by unfold_locales (rule coded_SafeReadFile, simp)

interpretation dword: codec "SafeWriteFile :: 32 word \<Rightarrow> bytes" SafeReadFile "\<lambda>_. True"
  by unfold_locales (rule coded_SafeReadFile, simp)

interpretation qword: codec "SafeWriteFile :: 64 word \<Rightarrow> bytes" SafeReadFile "\<lambda>_. True"
  by unfold_locales (rule coded_SafeReadFile, simp)

interpretation uuid: codec "SafeWriteFile :: GUID \<Rightarrow> bytes" SafeReadFile "\<lambda>_. True"
  by unfold_locales (rule coded_SafeReadFile, simp)

interpretation flag: codec write_bool read_bool "\<lambda>_. True"
  by unfold_locales (auto simp: write_bool_def read_bool_def intro!: byte.last coded_cong [OF coded_ret])

text \<open>Strings without a terminator inside, short enough for a size in bytes of 32 bits.\<close>

definition string_ok :: "string \<Rightarrow> bool" where
  "string_ok str \<longleftrightarrow> CHR 0x00 \<notin> set str \<and> length str + 1 < 2 ^ 31"

lemma wchars_Cons: "wchars (SafeWriteFile (w :: 16 word) @ bs) = w # wchars bs"
proof -
  have "le_word (SafeWriteFile w) = w"
    using word.round_trip [of w "[]" "()"] by (simp add: SafeReadFile_def SafeWriteFile_def rbind_def SafeReadBytes_def rret_def)
  then show ?thesis by (simp add: SafeWriteFile_def numeral_2_eq_2)
qed

lemma wchars_write_chars: "wchars (write_chars str) = map of_char str @ [0]"
proof (induction str)
  case Nil
  show ?case using wchars_Cons [of 0 "[]"] by (simp add: write_chars_def)
next
  case (Cons c str)
  then show ?case by (simp add: write_chars_def write_wchar_def wchars_Cons)
qed

lemma of_char_less: "(of_char c :: nat) < 256"
  using of_char_mod_256 [of c, where ?'a = nat] mod_less_divisor [of 256 "of_char c :: nat"] by simp

lemma unat_of_nat_less: "n < 2 ^ LENGTH('a) \<Longrightarrow> unat (word_of_nat n :: 'a::len word) = n"
  by (simp add: unsigned_of_nat take_bit_nat_eq_self)

lemma unat_of_char: "unat (of_char c :: 16 word) = of_char c"
proof -
  have "(of_char c :: nat) < 256" by (rule of_char_less)
  then have "unat (of_nat (of_char c) :: 16 word) = of_char c"
    by (intro unat_of_nat_less) (rule order_less_trans, assumption, simp)
  then show ?thesis by (simp only: of_nat_of_char)
qed

lemma to_char_of_char: "to_char (of_char c) = Some c"
proof -
  have "(of_char c :: nat) < 256" by (rule of_char_less)
  then have "(of_char c :: 16 word) < 256" by (simp add: word_less_nat_alt unat_of_char)
  then show ?thesis by (simp add: to_char_def unat_of_char)
qed

lemma of_char_16_eq_0: "(of_char c :: 16 word) = 0 \<longleftrightarrow> c = CHR 0x00"
proof -
  have "(of_char c :: 16 word) = 0 \<longleftrightarrow> (of_char c :: nat) = of_char (CHR 0x00)"
    using unat_of_char [of c] unat_0_iff [of "of_char c :: 16 word"] by simp
  then show ?thesis by (simp only: of_char_eq_iff)
qed

lemma StringHandle_of_written:
  assumes "CHR 0x00 \<notin> set str"
  shows "StringHandle_of (map of_char str @ [0]) = rret str"
proof -
  have "takeWhile (\<lambda>w. w \<noteq> 0) (map of_char str @ [0]) = (map of_char str :: 16 word list)"
    using assms by (induction str) (auto simp: of_char_16_eq_0)
  then show ?thesis
    by (auto simp: StringHandle_of_def to_char_of_char comp_def Let_def)
qed

lemma length_write_chars: "length (write_chars str) = 2 * (length str + 1)"
  by (induction str) (simp_all add: write_chars_def write_wchar_def SafeWriteFile_def)

lemma coded_read_chars:
  assumes "string_ok str"
  shows "coded (read_chars (word_of_nat (length str + 1))) (write_chars str) str (\<lambda>s. s)"
proof -
  let ?n = "length str + 1"
  have n: "unat (word_of_nat ?n * 2 :: 32 word) = 2 * ?n"
  proof -
    have "word_of_nat ?n * 2 = (word_of_nat (2 * ?n) :: 32 word)" by (simp add: algebra_simps)
    moreover have "2 * ?n < 2 ^ 32" using assms by (simp add: string_ok_def)
    ultimately show ?thesis by (simp only:) (rule unat_of_nat_less, simp)
  qed
  have i: "unat (word_of_nat ?n - 1 :: 32 word) = length str"
    using assms unat_of_nat_less [of "length str", where ?'a = 32] by (simp add: string_ok_def)
  have c: "CHR 0x00 \<notin> set str" using assms by (simp add: string_ok_def)
  have "coded (SafeReadBytes (2 * ?n)) (write_chars str) (write_chars str) (\<lambda>s. s)"
    using coded_SafeReadBytes [of "write_chars str"] unfolding length_write_chars .
  then have "coded (rbind (SafeReadBytes (2 * ?n)) (\<lambda>bs.
       (let buf = wchars bs; i = length str
        in if length buf \<le> i then rthrow OutOfBounds
           else if buf ! i \<noteq> 0 then rthrow (ComError (HRESULT_FROM_WIN32 87))
           else StringHandle_of buf))) (write_chars str @ []) str (\<lambda>s. s)"
    by (rule coded_then) (simp add: wchars_write_chars StringHandle_of_written [OF c] nth_append coded_ret)
  then show ?thesis by (simp only: read_chars_def n i append_Nil2)
qed

lemma coded_sized_string:
  assumes "string_ok str" "coded (g str) [] y f"
  shows "coded (rbind SafeReadFile (\<lambda>n :: 32 word. rbind (read_chars n) g))
    (SafeWriteFile (word_of_nat (length str + 1) :: 32 word) @ write_chars str) y f"
  by (rule dword.first [OF TrueI])
    (use coded_then [OF coded_read_chars [OF assms(1)], of g "[]"] assms(2) in simp)

interpretation str: codec SafeWriteStringHandle SafeReadStringHandle string_ok
proof
  fix x assume x: "string_ok x"
  show "coded SafeReadStringHandle (SafeWriteStringHandle x) x (\<lambda>s. s)"
    unfolding SafeReadStringHandle_def SafeWriteStringHandle_def
    by (rule dword.first) (simp_all add: coded_read_chars [OF x, simplified])
qed

interpretation pstr: codec SafeWriteString SafeReadString "pred_option string_ok"
proof
  fix p assume p: "pred_option string_ok p"
  show "coded SafeReadString (SafeWriteString p) p (\<lambda>s. s)"
  proof (cases p)
    case None
    then show ?thesis by (auto simp: SafeReadString_def SafeWriteString_def coded_ret intro: flag.last)
  next
    case (Some x)
    have "coded (rbind SafeReadFile (\<lambda>n :: 32 word. rbind (read_chars n) (\<lambda>str. rret (Some str))))
        (SafeWriteFile (word_of_nat (length x + 1) :: 32 word) @ write_chars x) (Some x) (\<lambda>s. s)"
      by (rule coded_sized_string) (use p Some in \<open>simp_all add: coded_ret\<close>)
    then show ?thesis
      unfolding SafeReadString_def SafeWriteString_def Some option.case by (intro flag.first) simp_all
  qed
qed

definition sid_ok :: "'z SidApi_scheme \<Rightarrow> nat \<Rightarrow> bool" where
  "sid_ok api sid \<longleftrightarrow> string_ok (ConvertSidToStringSid api sid) \<and>
     ConvertStringSidToSid api (ConvertSidToStringSid api sid) = Inr sid"

interpretation sid: codec "SafeWriteSid api" "SafeReadSid api" "sid_ok api"
proof
  fix x assume x: "sid_ok api x"
  have "coded (rbind SafeReadFile (\<lambda>n :: 32 word. rbind (read_chars n) (\<lambda>str.
       case ConvertStringSidToSid api str of
         Inl e \<Rightarrow> rthrow (ComError (HRESULT_FROM_WIN32 (if e = ERROR_INVALID_SID then 87 else e)))
       | Inr sid \<Rightarrow> rret sid)))
    (SafeWriteFile (word_of_nat (length (ConvertSidToStringSid api x) + 1) :: 32 word) @
      write_chars (ConvertSidToStringSid api x)) x (\<lambda>s. s)"
    by (rule coded_sized_string) (use x in \<open>simp_all add: sid_ok_def coded_ret\<close>)
  then show "coded (SafeReadSid api) (SafeWriteSid api x) x (\<lambda>s. s)"
    by (simp add: SafeReadSid_def SafeWriteSid_def Let_def add.commute)
qed

lemma coded_SafeReadBlock: "coded (SafeReadBlock g) (SafeWriteBlock g) () (\<lambda>s. s)"
  unfolding SafeReadBlock_def SafeWriteBlock_def by (rule uuid.last) (simp_all add: coded_ret)

lemma coded_block:
  assumes "coded (h ()) bs x f"
  shows "coded (rbind (SafeReadBlock g) h) (SafeWriteBlock g @ bs) x f"
  by (rule coded_then, rule coded_SafeReadBlock, rule assms)

end
