(* ===== verification/Credentials.thy ===== *)
theory Credentials
  imports StateBytes
begin

text \<open>
  The credentials of a job (\<open>src/services/drizzle/newjob/ccred.cpp\<close> and \<open>ccred.h\<close>): a map from
  target and scheme to encrypted credentials, and its place in the state file. Encryption and
  marshalling are left out: the outcome of encrypting new credentials is an argument of \<open>Update\<close>.
\<close>

section \<open>The container\<close>

record CEncryptedBlob =
  m_Length :: "32 word"
  m_Blob :: bytes

type_synonym CEncryptedCredentials = "CEncryptedBlob option"

text \<open>
  A \<open>std::map\<close> from \<open>KEY\<close> to pointers, as its pairs in the order of the keys. \<open>None\<close> is the null
  pointer, which a removed entry keeps.
\<close>

type_synonym Dictionary = "(32 word \<times> CEncryptedCredentials option) list"

definition MakeKey :: "32 word \<Rightarrow> 32 word \<Rightarrow> 32 word" where
  "MakeKey Target Scheme =
     push_bit 16 (ucast (ucast Scheme :: 16 word)) OR ucast (ucast Target :: 16 word)"

fun Dictionary_set :: "32 word \<Rightarrow> CEncryptedCredentials option \<Rightarrow> Dictionary \<Rightarrow> Dictionary" where
  "Dictionary_set k v [] = [(k, v)]"
| "Dictionary_set k v ((i, c) # d) =
     (if k < i then (k, v) # (i, c) # d else if k = i then (k, v) # d else (i, c) # Dictionary_set k v d)"

text \<open>\<open>operator[]\<close> inserts a null pointer for a new key.\<close>

definition Dictionary_at :: "32 word \<Rightarrow> Dictionary \<Rightarrow> CEncryptedCredentials option \<times> Dictionary" where
  "Dictionary_at k d =
     (case map_of d k of Some v \<Rightarrow> (v, d) | None \<Rightarrow> (None, Dictionary_set k None d))"

definition CCredentials_Update ::
  "32 word \<Rightarrow> 32 word \<Rightarrow> HRESULT + CEncryptedCredentials \<Rightarrow> Dictionary \<Rightarrow> HRESULT \<times> Dictionary" where
  "CCredentials_Update Target Scheme NewCredentials d =
     (let Key = MakeKey Target Scheme; (Old, d) = Dictionary_at Key d
      in case NewCredentials of
           Inl hr \<Rightarrow> (hr, d)
         | Inr cred \<Rightarrow> (S_OK, Dictionary_set Key (Some cred) d))"

definition CCredentials_Remove :: "32 word \<Rightarrow> 32 word \<Rightarrow> Dictionary \<Rightarrow> HRESULT \<times> Dictionary" where
  "CCredentials_Remove Target Scheme d =
     (let Key = MakeKey Target Scheme; (Old, d) = Dictionary_at Key d
      in (if Old = None then S_FALSE else S_OK, Dictionary_set Key None d))"

text \<open>\<open>Find\<close> gives the encrypted credentials that it then decrypts.\<close>

definition CCredentials_Find :: "32 word \<Rightarrow> 32 word \<Rightarrow> Dictionary \<Rightarrow> CEncryptedCredentials option" where
  "CCredentials_Find Target Scheme d =
     (case map_of d (MakeKey Target Scheme) of Some cred \<Rightarrow> cred | None \<Rightarrow> None)"

text \<open>The iteration skips the null pointers; a cookie is the rest of the map.\<close>

definition CCredentials_FindNext :: "Dictionary \<Rightarrow> (CEncryptedCredentials \<times> Dictionary) option" where
  "CCredentials_FindNext cookie =
     (case dropWhile (\<lambda>(k, c). c = None) cookie of
        (k, Some cred) # rest \<Rightarrow> Some (cred, rest)
      | _ \<Rightarrow> None)"

section \<open>In the state file\<close>

definition CEncryptedBlob_Serialize :: "CEncryptedBlob \<Rightarrow> bytes" where
  "CEncryptedBlob_Serialize b =
     SafeWriteFile (m_Length b) @ SafeWriteFile (word_of_nat (length (m_Blob b)) :: 32 word) @ m_Blob b"

definition CEncryptedBlob_Unserialize :: "('s, CEncryptedBlob) reader" where
  "CEncryptedBlob_Unserialize =
     rbind SafeReadFile (\<lambda>len. rbind SafeReadFile (\<lambda>cbData :: 32 word.
       rbind (SafeReadBytes (unat cbData)) (\<lambda>bs. rret \<lparr>m_Length = len, m_Blob = bs\<rparr>)))"

definition CEncryptedCredentials_Serialize :: "CEncryptedCredentials \<Rightarrow> bytes" where
  "CEncryptedCredentials_Serialize c =
     (case c of Some b \<Rightarrow> write_bool True @ CEncryptedBlob_Serialize b | None \<Rightarrow> write_bool False)"

definition CEncryptedCredentials_Unserialize :: "('s, CEncryptedCredentials) reader" where
  "CEncryptedCredentials_Unserialize =
     rbind read_bool (\<lambda>b. if b then rbind CEncryptedBlob_Unserialize (\<lambda>x. rret (Some x)) else rret None)"

text \<open>The pairs whose pointer is not null, which are the ones written.\<close>

definition Dictionary_live :: "Dictionary \<Rightarrow> (32 word \<times> CEncryptedCredentials) list" where
  "Dictionary_live d = [(k, cred). (k, Some cred) \<leftarrow> d]"

definition write_credential :: "32 word \<times> CEncryptedCredentials \<Rightarrow> bytes" where
  "write_credential p = SafeWriteFile (fst p) @ CEncryptedCredentials_Serialize (snd p)"

definition read_credential :: "('s, 32 word \<times> CEncryptedCredentials) reader" where
  "read_credential =
     rbind SafeReadFile (\<lambda>Key. rbind CEncryptedCredentials_Unserialize (\<lambda>cred. rret (Key, cred)))"

definition CCredentials_Serialize :: "Dictionary \<Rightarrow> bytes" where
  "CCredentials_Serialize d =
     SafeWriteFile (word_of_nat (length (Dictionary_live d)) :: 32 word) @
     concat (map write_credential (Dictionary_live d))"

text \<open>\<open>count\<close> is a signed integer that the loop counts down to zero.\<close>

definition CCredentials_Unserialize :: "('s, Dictionary) reader" where
  "CCredentials_Unserialize =
     rbind SafeReadFile (\<lambda>count :: 32 word. rbind (read_n read_credential (nat (sint count))) (\<lambda>cs.
       rret (fold (\<lambda>(Key, cred). Dictionary_set Key (Some cred)) cs [])))"

section \<open>The container is a map\<close>

definition Dictionary_ok :: "Dictionary \<Rightarrow> bool" where
  "Dictionary_ok d \<longleftrightarrow> sorted_wrt (<) (map fst d)"

text \<open>A key holds the low 16 bits of the target and of the scheme, and nothing else.\<close>

abbreviation low16 :: "32 word \<Rightarrow> 16 word" where "low16 w \<equiv> ucast w"

lemma bit_MakeKey:
  "n < 16 \<Longrightarrow> bit (MakeKey t s) n \<longleftrightarrow> bit (low16 t) n" "n < 16 \<Longrightarrow> bit (MakeKey t s) (16 + n) \<longleftrightarrow> bit (low16 s) n"
  by (auto simp: MakeKey_def bit_simps dest: bit_imp_le_length)

lemma MakeKey_eq_iff: "MakeKey t' s' = MakeKey t s \<longleftrightarrow> low16 t' = low16 t \<and> low16 s' = low16 s"
proof
  assume k: "MakeKey t' s' = MakeKey t s"
  show "low16 t' = low16 t \<and> low16 s' = low16 s"
    using bit_MakeKey [of _ t s] bit_MakeKey [of _ t' s'] k by (intro conjI bit_word_eqI) auto
qed (simp add: MakeKey_def)

lemma Dictionary_set_keys: "set (map fst (Dictionary_set k v d)) = insert k (set (map fst d))"
  by (induction k v d rule: Dictionary_set.induct) auto

lemma Dictionary_set_ok: "Dictionary_ok d \<Longrightarrow> Dictionary_ok (Dictionary_set k v d)"
proof (induction k v d rule: Dictionary_set.induct)
  case (2 k v i c d)
  then show ?case
    using Dictionary_set_keys [of k v d] by (auto simp: Dictionary_ok_def)
qed (simp add: Dictionary_ok_def)

lemma map_of_Dictionary_set [simp]: "map_of (Dictionary_set k v d) = (map_of d)(k \<mapsto> v)"
  by (induction k v d rule: Dictionary_set.induct) auto

lemma map_of_Dictionary_at [simp]:
  "fst (Dictionary_at k d) = (case map_of d k of Some v \<Rightarrow> v | None \<Rightarrow> None)"
  "map_of (snd (Dictionary_at k d)) = (map_of d)(k \<mapsto> fst (Dictionary_at k d))"
  by (auto simp: Dictionary_at_def split: option.split)

lemma Find_Update:
  assumes "CCredentials_Update t s (Inr cred) d = (hr, d')"
  shows "hr = S_OK \<and>
     CCredentials_Find t' s' d' = (if MakeKey t' s' = MakeKey t s then Some cred else CCredentials_Find t' s' d)"
proof -
  obtain old d1 where at: "Dictionary_at (MakeKey t s) d = (old, d1)" by fastforce
  then have "map_of d1 = (map_of d)(MakeKey t s \<mapsto> old)"
    using map_of_Dictionary_at [where k = "MakeKey t s" and d = d] by simp
  then show ?thesis
    using assms at by (auto simp: CCredentials_Update_def CCredentials_Find_def Let_def)
qed

lemma Find_Remove:
  assumes "CCredentials_Remove t s d = (hr, d')"
  shows "hr = (if CCredentials_Find t s d = None then S_FALSE else S_OK) \<and>
     CCredentials_Find t' s' d' = (if MakeKey t' s' = MakeKey t s then None else CCredentials_Find t' s' d)"
proof -
  obtain old d1 where at: "Dictionary_at (MakeKey t s) d = (old, d1)" by fastforce
  then have "map_of d1 = (map_of d)(MakeKey t s \<mapsto> old)" "old = CCredentials_Find t s d"
    using map_of_Dictionary_at [where k = "MakeKey t s" and d = d] by (simp_all add: CCredentials_Find_def)
  then show ?thesis
    using assms at by (auto simp: CCredentials_Remove_def CCredentials_Find_def Let_def)
qed

section \<open>Reading back what was written\<close>

definition Dictionary_storable :: "Dictionary \<Rightarrow> bool" where
  "Dictionary_storable d \<longleftrightarrow> Dictionary_ok d \<and> length d < 2 ^ 31 \<and>
     (\<forall>(k, cred) \<in> set (Dictionary_live d). \<forall>b \<in> set_option cred. length (m_Blob b) < 2 ^ 32)"

interpretation blob: codec CEncryptedBlob_Serialize CEncryptedBlob_Unserialize "\<lambda>b. length (m_Blob b) < 2 ^ 32"
proof
  fix b :: CEncryptedBlob assume b: "length (m_Blob b) < 2 ^ 32"
  have n: "unat (word_of_nat (length (m_Blob b)) :: 32 word) = length (m_Blob b)"
    using b by (intro unat_of_nat_less) simp
  have "coded (rbind (SafeReadBytes (unat (word_of_nat (length (m_Blob b)) :: 32 word)))
     (\<lambda>bs. rret \<lparr>m_Length = m_Length b, m_Blob = bs\<rparr>)) (m_Blob b) \<lparr>m_Length = m_Length b, m_Blob = m_Blob b\<rparr> (\<lambda>s. s)"
    unfolding n by (rule coded_map) (rule coded_SafeReadBytes)
  then show "coded CEncryptedBlob_Unserialize (CEncryptedBlob_Serialize b) b (\<lambda>s. s)"
    unfolding CEncryptedBlob_Unserialize_def CEncryptedBlob_Serialize_def
    by (cases b) (auto intro!: dword.first)
qed

interpretation credential: codec write_credential read_credential
  "\<lambda>p. \<forall>b \<in> set_option (snd p). length (m_Blob b) < 2 ^ 32"
proof
  fix p :: "32 word \<times> CEncryptedCredentials"
  assume p: "\<forall>b \<in> set_option (snd p). length (m_Blob b) < 2 ^ 32"
  have "coded CEncryptedCredentials_Unserialize (CEncryptedCredentials_Serialize (snd p)) (snd p) (\<lambda>s. s)"
  proof (cases "snd p")
    case None
    then show ?thesis
      by (auto simp: CEncryptedCredentials_Unserialize_def CEncryptedCredentials_Serialize_def coded_ret intro: flag.last)
  next
    case (Some b)
    then have b: "length (m_Blob b) < 2 ^ 32" using p by simp
    show ?thesis
      unfolding CEncryptedCredentials_Unserialize_def CEncryptedCredentials_Serialize_def Some option.case
      by (rule flag.first) (simp_all add: coded_map [OF blob.law [OF b]])
  qed
  then have "coded (rbind CEncryptedCredentials_Unserialize (\<lambda>cred. rret (fst p, cred)))
      (CEncryptedCredentials_Serialize (snd p)) (fst p, snd p) (\<lambda>s. s)"
    by (rule coded_map)
  then show "coded read_credential (write_credential p) p (\<lambda>s. s)"
    unfolding read_credential_def write_credential_def by (intro dword.first) simp_all
qed

lemma Dictionary_live_keys: "set (map fst (Dictionary_live d)) \<subseteq> set (map fst d)"
  by (force simp: Dictionary_live_def)

lemma fold_Dictionary_set:
  assumes "sorted_wrt (<) (map fst acc @ map fst cs)"
  shows "fold (\<lambda>(Key, cred). Dictionary_set Key (Some cred)) cs acc = acc @ map (\<lambda>(k, c). (k, Some c)) cs"
  using assms
proof (induction cs arbitrary: acc)
  case (Cons p cs)
  obtain k c where p: "p = (k, c)" by fastforce
  have "Dictionary_set k (Some c) acc = acc @ [(k, Some c)]"
    using Cons.prems unfolding p
    by (induction acc) (auto split: if_splits simp: sorted_wrt_append)
  then show ?case
    using Cons.IH [of "acc @ [(k, Some c)]"] Cons.prems by (simp add: p)
qed simp

lemma sorted_live: "Dictionary_ok d \<Longrightarrow> sorted_wrt (<) (map fst (Dictionary_live d))"
proof (induction d)
  case (Cons p d)
  then show ?case
    using Dictionary_live_keys [of d]
    by (cases p; cases "snd p") (auto simp: Dictionary_ok_def Dictionary_live_def)
qed (simp add: Dictionary_live_def)

lemma length_live: "length (Dictionary_live d) \<le> length d"
  by (induction d) (auto simp: Dictionary_live_def split: option.splits)

lemma live_filter: "map (\<lambda>(k, c). (k, Some c)) (Dictionary_live d) = filter (\<lambda>(k, c). c \<noteq> None) d"
  by (induction d) (auto simp: Dictionary_live_def split: option.splits)

lemma coded_credentials:
  assumes "Dictionary_storable d"
  shows "coded CCredentials_Unserialize (CCredentials_Serialize d) (filter (\<lambda>(k, c). c \<noteq> None) d) (\<lambda>s. s)"
proof -
  let ?cs = "Dictionary_live d"
  have l: "length ?cs < 2 ^ 31" using assms length_live [of d] by (simp add: Dictionary_storable_def)
  then have n: "nat (sint (word_of_nat (length ?cs) :: 32 word)) = length ?cs"
    by (simp add: signed_of_nat signed_take_bit_int_eq_self)
  have ok: "list_all (\<lambda>p. \<forall>b \<in> set_option (snd p). length (m_Blob b) < 2 ^ 32) ?cs"
    using assms by (auto simp: Dictionary_storable_def list_all_iff)
  have v: "fold (\<lambda>(Key, cred). Dictionary_set Key (Some cred)) ?cs [] = filter (\<lambda>(k, c). c \<noteq> None) d"
    using fold_Dictionary_set [of "[]" ?cs] sorted_live [of d] assms by (simp add: Dictionary_storable_def live_filter)
  have "coded (rbind (read_n read_credential (length ?cs)) (\<lambda>cs.
       rret (fold (\<lambda>(Key, cred). Dictionary_set Key (Some cred)) cs [])))
      (concat (map write_credential ?cs)) (fold (\<lambda>(Key, cred). Dictionary_set Key (Some cred)) ?cs []) (\<lambda>s. s)"
    by (rule coded_map) (rule credential.sequence [OF ok])
  then show ?thesis
    unfolding CCredentials_Unserialize_def CCredentials_Serialize_def v
    by (intro dword.first) (simp_all only: n)
qed

end
