(* ===== verification/JobStorage.thy ===== *)
theory JobStorage
  imports Credentials BitsEvents
begin

text \<open>
  The jobs in the state file: \<open>Serialize\<close> and \<open>Unserialize\<close> of files, errors, work items, uploads,
  jobs, job lists and the manager (\<open>cfile.cpp\<close>, \<open>cerror.cpp\<close>, \<open>tasksched.cpp\<close>, \<open>csd.cpp\<close>,
  \<open>drizcpat.cpp\<close>, \<open>cjob.cpp\<close>, \<open>cmanager.cpp\<close> under \<open>src/services/drizzle/newjob\<close>). A writer gives the bytes;
  the reader of a job works on the task scheduler, into which a work item that was active
  is inserted again.
\<close>

section \<open>Enumerations\<close>

text \<open>The values of an enumeration type in their order; a datum is stored as its number.\<close>

definition write_enum :: "'a list \<Rightarrow> 'a \<Rightarrow> bytes" where
  "write_enum names x = SafeWriteFile (word_of_nat (length (takeWhile (\<lambda>y. y \<noteq> x) names)) :: 32 word)"

definition read_enum :: "'a list \<Rightarrow> ('s, 'a) reader" where
  "read_enum names = rbind SafeReadFile (\<lambda>w :: 32 word.
     if unat w < length names then rret (names ! unat w) else rthrow Unnamed)"

definition JOB_STATES :: "BG_JOB_STATE list" where
  "JOB_STATES = [BG_JOB_STATE_QUEUED, BG_JOB_STATE_CONNECTING, BG_JOB_STATE_TRANSFERRING,
     BG_JOB_STATE_SUSPENDED, BG_JOB_STATE_ERROR, BG_JOB_STATE_TRANSIENT_ERROR,
     BG_JOB_STATE_TRANSFERRED, BG_JOB_STATE_ACKNOWLEDGED, BG_JOB_STATE_CANCELLED]"

definition JOB_TYPES :: "BG_JOB_TYPE list" where
  "JOB_TYPES = [BG_JOB_TYPE_DOWNLOAD, BG_JOB_TYPE_UPLOAD, BG_JOB_TYPE_UPLOAD_REPLY]"

definition DOWNLOAD_RESULTS :: "FILE_DOWNLOAD_RESULT list" where
  "DOWNLOAD_RESULTS = [QM_IN_PROGRESS, QM_FILE_ABORTED, QM_FILE_DONE, QM_FILE_TRANSIENT_ERROR,
     QM_FILE_FATAL_ERROR, QM_SERVER_FILE_CHANGED]"

definition ERROR_STYLES :: "ERROR_STYLE list" where
  "ERROR_STYLES = [ERROR_STYLE_NONE, ERROR_STYLE_HRESULT, ERROR_STYLE_WIN32, ERROR_STYLE_HTTP]"

definition UPLOAD_STATES :: "UPLOAD_STATE list" where
  "UPLOAD_STATES = [UPLOAD_STATE_CREATE_SESSION, UPLOAD_STATE_SEND_DATA, UPLOAD_STATE_GET_REPLY,
     UPLOAD_STATE_CLOSE_SESSION, UPLOAD_STATE_CLOSED, UPLOAD_STATE_CANCEL_SESSION, UPLOAD_STATE_CANCELLED]"

section \<open>A job with the fields that only the file needs\<close>

text \<open>
  \<open>m_sd\<close> are the bytes of the security descriptor in self-relative form. \<open>m_NotifyClsid\<close> and
  \<open>m_OldJobGuid\<close> belong to the old group and job interface, \<open>m_Protocol\<close> to \<open>m_ReplyUrl\<close> to the upload
  data, and \<open>m_Description\<close> to the error.
\<close>

record StoredJob =
  m_Job :: CJob
  m_fGroupNotifySid :: "32 word"
  m_sd :: bytes
  m_Description :: "string option"
  m_NotifyClsid :: GUID
  m_OldJobGuid :: GUID
  m_method :: "32 word"
  ProxyUsage :: "32 word"
  ProxyList :: "string option"
  ProxyBypassList :: "string option"
  m_Credentials :: Dictionary
  m_Protocol :: GUID
  m_SessionId :: string
  m_ReplyUrl :: string

section \<open>Files\<close>

definition CFile_Serialize :: "BG_JOB_TYPE \<Rightarrow> CFile \<Rightarrow> bytes" where
  "CFile_Serialize JobType f =
     (if JobType \<noteq> BG_JOB_TYPE_DOWNLOAD then SafeWriteFile (m_LocalFileTime f) else []) @
     SafeWriteStringHandle (m_LocalName f) @
     SafeWriteStringHandle (m_RemoteName f) @
     SafeWriteStringHandle (m_TemporaryName f) @
     SafeWriteFile (m_BytesTransferred f) @
     SafeWriteFile (m_BytesTotal f) @
     write_bool (m_Completed f) @
     SafeWriteStringHandle (m_VolumePath f) @
     SafeWriteStringHandle (m_CanonicalVolumePath f) @
     SafeWriteFile (m_DriveType f) @
     SafeWriteFile (m_VolumeSerialNumber f)"

text \<open>The time of a download's file, which no code reads, is not initialised; here it is \<open>0\<close>.\<close>

definition CFile_Unserialize :: "BG_JOB_TYPE \<Rightarrow> ('s, CFile) reader" where
  "CFile_Unserialize JobType =
     rbind (if JobType \<noteq> BG_JOB_TYPE_DOWNLOAD then SafeReadFile else rret 0) (\<lambda>LocalFileTime.
     rbind SafeReadStringHandle (\<lambda>LocalName.
     rbind SafeReadStringHandle (\<lambda>RemoteName.
     rbind SafeReadStringHandle (\<lambda>TemporaryName.
     rbind SafeReadFile (\<lambda>BytesTransferred.
     rbind SafeReadFile (\<lambda>BytesTotal.
     rbind read_bool (\<lambda>Completed.
     rbind SafeReadStringHandle (\<lambda>VolumePath.
     rbind SafeReadStringHandle (\<lambda>CanonicalVolumePath.
     rbind SafeReadFile (\<lambda>DriveType.
     rbind SafeReadFile (\<lambda>VolumeSerialNumber.
       rret \<lparr>m_RemoteName = RemoteName, m_LocalName = LocalName, m_TemporaryName = TemporaryName,
         m_LocalFileTime = LocalFileTime, m_BytesTotal = BytesTotal, m_BytesTransferred = BytesTransferred,
         m_Completed = Completed, m_VolumePath = VolumePath, m_CanonicalVolumePath = CanonicalVolumePath,
         m_DriveType = DriveType, m_VolumeSerialNumber = VolumeSerialNumber\<rparr>)))))))))))"

definition FileListStorageGuid :: GUID where
  "FileListStorageGuid = guid 0x7756da36 0x516f 0x435a [0xac, 0xac, 0x44, 0xa2, 0x48, 0xff, 0xf3, 0x4d]"

definition CFileList_Serialize :: "BG_JOB_TYPE \<Rightarrow> CFile list \<Rightarrow> bytes" where
  "CFileList_Serialize JobType files =
     SafeWriteBlock FileListStorageGuid @
     SafeWriteFile (word_of_nat (length files) :: 32 word) @
     concat (map (CFile_Serialize JobType) files) @
     SafeWriteBlock FileListStorageGuid"

definition CFileList_Unserialize :: "BG_JOB_TYPE \<Rightarrow> ('s, CFile list) reader" where
  "CFileList_Unserialize JobType =
     rbind (SafeReadBlock FileListStorageGuid) (\<lambda>_.
     rbind SafeReadFile (\<lambda>count :: 32 word.
     rbind (read_n (CFile_Unserialize JobType) (unat count)) (\<lambda>files.
     rbind (SafeReadBlock FileListStorageGuid) (\<lambda>_. rret files))))"

section \<open>Errors\<close>

definition CJobError_Serialize :: "CJobError \<Rightarrow> string option \<Rightarrow> bytes" where
  "CJobError_Serialize e Description =
     (if \<not> m_ErrorSet e then SafeWriteFile (0 :: 32 word)
      else SafeWriteFile (1 :: 32 word) @
        SafeWriteFile (word_of_int (m_FileIndex e) :: 32 word) @
        SafeWriteFile (Code (m_ErrInfo e)) @
        write_enum ERROR_STYLES (Style (m_ErrInfo e)) @
        SafeWriteFile (Source (m_ErrInfo e)) @
        write_enum DOWNLOAD_RESULTS (result (m_ErrInfo e)) @
        SafeWriteString Description)"

definition CJobError_Unserialize :: "nat \<Rightarrow> ('s, CJobError \<times> string option) reader" where
  "CJobError_Unserialize job =
     rbind SafeReadFile (\<lambda>ReadBool :: 32 word.
     if ReadBool = 0 then rret (ClearError, None)
     else
       rbind SafeReadFile (\<lambda>FileIndex :: 32 word.
       rbind SafeReadFile (\<lambda>Code.
       rbind (read_enum ERROR_STYLES) (\<lambda>Style.
       rbind SafeReadFile (\<lambda>Source.
       rbind (read_enum DOWNLOAD_RESULTS) (\<lambda>result.
       rbind SafeReadString (\<lambda>Description.
         rret (\<lparr>m_ErrorSet = True, m_FileIndex = sint FileIndex, m_job = job,
           m_ErrInfo = \<lparr>result = result, Code = Code, Style = Style, Source = Source\<rparr>\<rparr>, Description))))))))"

section \<open>Security descriptors\<close>

definition CJobSecurityDescriptor_Serialize :: "bytes \<Rightarrow> bytes" where
  "CJobSecurityDescriptor_Serialize sd = SafeWriteFile (word_of_nat (length sd) :: 32 word) @ sd"

definition CJobSecurityDescriptor_Unserialize :: "'z SidApi_scheme \<Rightarrow> ('s, bytes) reader" where
  "CJobSecurityDescriptor_Unserialize api =
     rbind SafeReadFile (\<lambda>SdSize :: 32 word.
     rbind (SafeReadBytes (unat SdSize)) (\<lambda>sd.
       if MakeAbsoluteSD api sd \<noteq> 0 then rthrow (ComError (HRESULT_FROM_WIN32 (MakeAbsoluteSD api sd)))
       else rret sd))"

section \<open>The old interfaces\<close>

definition COldGroupInterface_Serialize :: "StoredJob \<Rightarrow> bytes" where
  "COldGroupInterface_Serialize x =
     SafeWriteFile (m_NotifyClsid x) @
     (if m_OldExternalJobInterface (m_Job x)
      then write_bool True @ SafeWriteFile (m_OldJobGuid x)
      else write_bool False)"

definition COldGroupInterface_UnSerialize :: "StoredJob \<Rightarrow> ('s, StoredJob) reader" where
  "COldGroupInterface_UnSerialize x =
     rbind SafeReadFile (\<lambda>NotifyClsid.
     rbind read_bool (\<lambda>bHasOldExternalJobInterface.
     rbind (if bHasOldExternalJobInterface then SafeReadFile else rret 0) (\<lambda>OldJobGuid.
       rret (x\<lparr>m_NotifyClsid := NotifyClsid, m_OldJobGuid := OldJobGuid,
         m_Job := (m_Job x)\<lparr>m_OldExternalGroupInterface := Some None,
           m_OldExternalJobInterface := bHasOldExternalJobInterface\<rparr>\<rparr>))))"

section \<open>Work items\<close>

definition WorkItem_Serialize :: "TaskScheduler \<Rightarrow> WorkItem \<Rightarrow> bytes" where
  "WorkItem_Serialize ts i =
     (if IsWorkItemInScheduler i ts
      then write_bool True @ SafeWriteFile (m_InsertionTime (WorkItems ts i)) @
           SafeWriteFile (m_TimeToRun (WorkItems ts i))
      else write_bool False)"

definition restore_item :: "WorkItem \<Rightarrow> 64 word \<Rightarrow> 64 word \<Rightarrow> TaskScheduler \<Rightarrow> TaskScheduler" where
  "restore_item i insertion time ts =
     InsertWorkItem (\<lambda>_. 0) i (Some time)
       (set_item i (\<lambda>w. w\<lparr>m_InsertionTime := insertion, m_TimeToRun := time\<rparr>) ts)"

definition WorkItem_Unserialize :: "WorkItem \<Rightarrow> (TaskScheduler, unit) reader" where
  "WorkItem_Unserialize i =
     rbind read_bool (\<lambda>fActive.
       if fActive then
         rbind SafeReadFile (\<lambda>insertion. rbind SafeReadFile (\<lambda>time.
           (\<lambda>(bs, ts). (Inr (), bs, restore_item i insertion time ts))))
       else rret ())"

section \<open>Uploads\<close>

definition UPLOAD_DATA_Serialize :: "StoredJob \<Rightarrow> UPLOAD_DATA \<Rightarrow> bytes" where
  "UPLOAD_DATA_Serialize x d =
     write_enum UPLOAD_STATES (State d) @
     SafeWriteFile (m_Protocol x) @
     SafeWriteStringHandle (m_SessionId x) @
     SafeWriteStringHandle (m_ReplyUrl x) @
     SafeWriteStringHandle (HostId d) @
     SafeWriteFile (HostIdFallbackTimeout d) @
     SafeWriteFile (HostIdNoProgressStartTime d)"

definition UPLOAD_DATA_Unserialize :: "StoredJob \<Rightarrow> ('s, StoredJob) reader" where
  "UPLOAD_DATA_Unserialize x =
     rbind (read_enum UPLOAD_STATES) (\<lambda>State.
     rbind SafeReadFile (\<lambda>Protocol.
     rbind SafeReadStringHandle (\<lambda>SessionId.
     rbind SafeReadStringHandle (\<lambda>ReplyUrl.
     rbind SafeReadStringHandle (\<lambda>HostId.
     rbind SafeReadFile (\<lambda>HostIdFallbackTimeout.
     rbind SafeReadFile (\<lambda>HostIdNoProgressStartTime.
       rret (x\<lparr>m_Protocol := Protocol, m_SessionId := SessionId, m_ReplyUrl := ReplyUrl,
         m_Job := (m_Job x)\<lparr>m_UploadData := Some
           \<lparr>State = State, fSchedulable = True, HostId = HostId,
            HostIdFallbackTimeout = HostIdFallbackTimeout,
            HostIdNoProgressStartTime = HostIdNoProgressStartTime\<rparr>\<rparr>\<rparr>))))))))"

section \<open>Jobs\<close>

definition UploadJobGuid_v1_5 :: GUID where
  "UploadJobGuid_v1_5 = guid 0x42a25c7d 0x96b2 0x483e [0xa2, 0x25, 0xe2, 0xf1, 0x02, 0xb6, 0xa3, 0x0b]"
definition DownloadJobGuid_v1_5 :: GUID where
  "DownloadJobGuid_v1_5 = guid 0x0b73f1e8 0x2f4c 0x44de [0x85, 0x33, 0x98, 0x09, 0x2b, 0x34, 0xa1, 0x8b]"
definition DownloadJobGuid_v1_2 :: GUID where
  "DownloadJobGuid_v1_2 = guid 0x85e5c459 0xef86 0x4fcd [0x8e, 0xa0, 0x5b, 0x4f, 0x00, 0xd2, 0x7e, 0x35]"
definition DownloadJobGuid_v1_0 :: GUID where
  "DownloadJobGuid_v1_0 = guid 0x5770fca4 0xcf9f 0x4513 [0x87, 0x37, 0x97, 0x2b, 0x4e, 0xa1, 0x26, 0x5d]"

abbreviation JOB_DOWNLOAD_V1_5 :: nat where "JOB_DOWNLOAD_V1_5 \<equiv> 0"
abbreviation JOB_UPLOAD_V1_5 :: nat where "JOB_UPLOAD_V1_5 \<equiv> 1"
abbreviation JOB_DOWNLOAD_V1 :: nat where "JOB_DOWNLOAD_V1 \<equiv> 2"
abbreviation JOB_DOWNLOAD_V1_2 :: nat where "JOB_DOWNLOAD_V1_2 \<equiv> 3"

definition JobGuids :: "GUID list" where
  "JobGuids = [DownloadJobGuid_v1_5, UploadJobGuid_v1_5, DownloadJobGuid_v1_0, DownloadJobGuid_v1_2]"

text \<open>The \<open>GUID\<close> of the block of a job: that of its version, for an upload the one of version 1.5.\<close>

definition BlockGuid :: "nat \<Rightarrow> GUID" where
  "BlockGuid Type =
     (if Type = JOB_DOWNLOAD_V1 then DownloadJobGuid_v1_0
      else if Type = JOB_DOWNLOAD_V1_2 then DownloadJobGuid_v1_2 else DownloadJobGuid_v1_5)"

text \<open>
  The parts of \<open>CJob::Serialize\<close>: up to the owner of the notification, from there to the end of
  the error, up to the work items, and the rest.
\<close>

definition CJob_Serialize_1 :: "'z SidApi_scheme \<Rightarrow> CJob \<Rightarrow> bytes" where
  "CJob_Serialize_1 api j =
     SafeWriteFile (0 :: 32 word) @
     SafeWriteFile (word_of_int (m_priority j) :: 32 word) @
     write_enum JOB_STATES (if IsRunning j then BG_JOB_STATE_QUEUED else m_state j) @
     write_enum JOB_TYPES (m_type j) @
     SafeWriteFile (word_of_nat (m_id j) :: GUID) @
     SafeWriteStringHandle (m_name j) @
     SafeWriteStringHandle (m_description j) @
     SafeWriteStringHandle (m_NotifyProgram j) @
     SafeWriteStringHandle (m_NotifyParameters j) @
     SafeWriteSid api (m_NotifySid j)"

definition CJob_Serialize_2 :: "StoredJob \<Rightarrow> bytes" where
  "CJob_Serialize_2 x =
     SafeWriteFile (m_NotifyFlags (m_Job x)) @
     SafeWriteFile (m_fGroupNotifySid x) @
     SafeWriteFile (word_of_nat (m_CurrentFile (m_Job x)) :: 32 word) @
     CJobSecurityDescriptor_Serialize (m_sd x) @
     CFileList_Serialize (m_type (m_Job x)) (m_files (m_Job x)) @
     CJobError_Serialize (m_error (m_Job x)) (m_Description x)"

definition CJob_Serialize_3 :: "StoredJob \<Rightarrow> bytes" where
  "CJob_Serialize_3 x =
     SafeWriteFile (m_retries (m_Job x)) @
     SafeWriteFile (m_MinimumRetryDelay (m_Job x)) @
     SafeWriteFile (m_NoProgressTimeout (m_Job x)) @
     SafeWriteFile (m_CreationTime (m_Job x)) @
     SafeWriteFile (m_LastAccessTime (m_Job x)) @
     SafeWriteFile (m_ModificationTime (m_Job x)) @
     SafeWriteFile (m_TransferCompletionTime (m_Job x)) @
     (if m_OldExternalGroupInterface (m_Job x) \<noteq> None
      then write_bool True @ COldGroupInterface_Serialize x else write_bool False) @
     SafeWriteFile (m_method x)"

definition CJob_Serialize_4 :: "nat \<Rightarrow> TaskScheduler \<Rightarrow> StoredJob \<Rightarrow> bytes" where
  "CJob_Serialize_4 h ts x =
     WorkItem_Serialize ts (CJobInactivityTimeout h) @
     WorkItem_Serialize ts (CJobNoProgressItem h) @
     WorkItem_Serialize ts (CJobCallbackItem h) @
     WorkItem_Serialize ts (CJobRetryItem h) @
     SafeWriteFile (ProxyUsage x) @
     SafeWriteString (ProxyList x) @
     SafeWriteString (ProxyBypassList x) @
     CCredentials_Serialize (m_Credentials x)"

definition CJob_Serialize :: "'z SidApi_scheme \<Rightarrow> nat \<Rightarrow> TaskScheduler \<Rightarrow> StoredJob \<Rightarrow> bytes" where
  "CJob_Serialize api h ts x =
     SafeWriteBlock DownloadJobGuid_v1_5 @
     CJob_Serialize_1 api (m_Job x) @
     CJob_Serialize_2 x @
     CJob_Serialize_3 x @
     CJob_Serialize_4 h ts x @
     SafeWriteBlock DownloadJobGuid_v1_5"

definition CUploadJob_Serialize ::
  "'z SidApi_scheme \<Rightarrow> nat \<Rightarrow> TaskScheduler \<Rightarrow> UPLOAD_DATA \<Rightarrow> StoredJob \<Rightarrow> bytes" where
  "CUploadJob_Serialize api h ts d x =
     SafeWriteBlock UploadJobGuid_v1_5 @
     CJob_Serialize api h ts x @
     UPLOAD_DATA_Serialize x d @
     write_bool (m_fOwnReplyFileName (m_Job x)) @
     SafeWriteStringHandle (m_ReplyFileName (m_Job x)) @
     (case m_ReplyFile (m_Job x) of
        Some f \<Rightarrow> write_bool True @ CFile_Serialize (m_type (m_Job x)) f
      | None \<Rightarrow> write_bool False) @
     SafeWriteBlock UploadJobGuid_v1_5"

text \<open>The virtual function.\<close>

definition Job_Serialize :: "'z SidApi_scheme \<Rightarrow> nat \<Rightarrow> TaskScheduler \<Rightarrow> StoredJob \<Rightarrow> bytes" where
  "Job_Serialize api h ts x =
     (case m_UploadData (m_Job x) of
        None \<Rightarrow> CJob_Serialize api h ts x
      | Some d \<Rightarrow> CUploadJob_Serialize api h ts d x)"

text \<open>
  The object that \<open>Unserialize\<close> fills, as the constructors \<open>CJob\<close> and \<open>CUploadJob\<close> without arguments
  leave it. They do not initialise the data that \<open>Unserialize\<close> reads, nor \<open>m_SerializeTime\<close>, which
  is \<open>0\<close> here.
\<close>

definition CJob_empty :: CJob where
  "CJob_empty =
     \<lparr>m_id = 0, m_type = BG_JOB_TYPE_DOWNLOAD, m_priority = 0, m_state = BG_JOB_STATE_SUSPENDED,
      m_NotifySid = 0, m_name = [], m_description = [], m_NotifyPointer = None, m_NotifyFlags = 0,
      m_NotifyProgram = [], m_NotifyParameters = [], m_OldExternalGroupInterface = None,
      m_OldExternalJobInterface = False, m_CurrentFile = 0, m_files = [], m_error = ClearError,
      m_retries = 0, m_MinimumRetryDelay = 0, m_NoProgressTimeout = 0, m_CreationTime = 0,
      m_LastAccessTime = 0, m_ModificationTime = 0, m_TransferCompletionTime = 0, m_SerializeTime = 0,
      m_fVolumeLocked = False, m_FilesVerified = False, m_ModificationsPending = 0, m_refs = 1,
      m_UploadData = None, m_ReplyFile = None, m_ReplyFileName = [], m_fOwnReplyFileName = False\<rparr>"

definition StoredJob_empty :: StoredJob where
  "StoredJob_empty =
     \<lparr>m_Job = CJob_empty, m_fGroupNotifySid = 0, m_sd = [], m_Description = None, m_NotifyClsid = 0,
      m_OldJobGuid = 0, m_method = 0, ProxyUsage = 0, ProxyList = None, ProxyBypassList = None,
      m_Credentials = [], m_Protocol = 0, m_SessionId = [], m_ReplyUrl = []\<rparr>"

definition CJob_Unserialize_1 :: "'z SidApi_scheme \<Rightarrow> nat \<Rightarrow> ('s, CJob) reader" where
  "CJob_Unserialize_1 api Type =
     rbind SafeReadFile (\<lambda>Was_m_refs :: 32 word.
     rbind SafeReadFile (\<lambda>priority :: 32 word.
     rbind (read_enum JOB_STATES) (\<lambda>state.
     rbind (read_enum JOB_TYPES) (\<lambda>type.
     rbind SafeReadFile (\<lambda>job :: GUID.
     rbind SafeReadStringHandle (\<lambda>name.
     rbind SafeReadStringHandle (\<lambda>description.
     rbind (if Type = JOB_DOWNLOAD_V1 then rret []
            else if Type = JOB_DOWNLOAD_V1_2 then rbind SafeReadStringHandle (\<lambda>Unused. rret [])
            else SafeReadStringHandle) (\<lambda>NotifyProgram.
     rbind (if Type = JOB_DOWNLOAD_V1 \<or> Type = JOB_DOWNLOAD_V1_2 then rret []
            else SafeReadStringHandle) (\<lambda>NotifyParameters.
     rbind (SafeReadSid api) (\<lambda>NotifySid.
       rret (CJob_empty\<lparr>m_priority := sint priority, m_state := state, m_type := type, m_id := unat job,
         m_name := name, m_description := description, m_NotifyProgram := NotifyProgram,
         m_NotifyParameters := NotifyParameters, m_NotifySid := NotifySid\<rparr>)))))))))))"

text \<open>An index of a current file below \<open>0\<close> has no name in the model.\<close>

definition CJob_Unserialize_2 :: "'z SidApi_scheme \<Rightarrow> nat \<Rightarrow> CJob \<Rightarrow> ('s, StoredJob) reader" where
  "CJob_Unserialize_2 api h j =
     rbind SafeReadFile (\<lambda>NotifyFlags.
     rbind SafeReadFile (\<lambda>fGroupNotifySid.
     rbind SafeReadFile (\<lambda>CurrentFile :: 32 word.
     rbind (if sint CurrentFile < 0 then rthrow Unnamed else rret ()) (\<lambda>_.
     rbind (CJobSecurityDescriptor_Unserialize api) (\<lambda>sd.
     rbind (CFileList_Unserialize (m_type j)) (\<lambda>files.
     rbind (CJobError_Unserialize h) (\<lambda>(error, Description).
       rret (StoredJob_empty\<lparr>m_fGroupNotifySid := fGroupNotifySid, m_sd := sd, m_Description := Description,
         m_Job := j\<lparr>m_NotifyFlags := NotifyFlags, m_CurrentFile := unat CurrentFile,
           m_files := files, m_error := error\<rparr>\<rparr>))))))))"

definition CJob_Unserialize_3 :: "StoredJob \<Rightarrow> ('s, StoredJob) reader" where
  "CJob_Unserialize_3 x =
     rbind SafeReadFile (\<lambda>retries.
     rbind SafeReadFile (\<lambda>MinimumRetryDelay.
     rbind SafeReadFile (\<lambda>NoProgressTimeout.
     rbind SafeReadFile (\<lambda>CreationTime.
     rbind SafeReadFile (\<lambda>LastAccessTime.
     rbind SafeReadFile (\<lambda>ModificationTime.
     rbind SafeReadFile (\<lambda>TransferCompletionTime.
     rbind read_bool (\<lambda>bHasOldExternalGroupInterface.
     rbind (if bHasOldExternalGroupInterface then COldGroupInterface_UnSerialize x else rret x) (\<lambda>x.
     rbind SafeReadFile (\<lambda>method.
       rret (x\<lparr>m_method := method, m_Job := (m_Job x)\<lparr>m_retries := retries,
         m_MinimumRetryDelay := MinimumRetryDelay, m_NoProgressTimeout := NoProgressTimeout,
         m_CreationTime := CreationTime, m_LastAccessTime := LastAccessTime,
         m_ModificationTime := ModificationTime, m_TransferCompletionTime := TransferCompletionTime\<rparr>\<rparr>)))))))))))"

definition CJob_Unserialize_4 :: "nat \<Rightarrow> nat \<Rightarrow> StoredJob \<Rightarrow> (TaskScheduler, StoredJob) reader" where
  "CJob_Unserialize_4 h Type x =
     rbind (WorkItem_Unserialize (CJobInactivityTimeout h)) (\<lambda>_.
     rbind (WorkItem_Unserialize (CJobNoProgressItem h)) (\<lambda>_.
     rbind (WorkItem_Unserialize (CJobCallbackItem h)) (\<lambda>_.
     rbind (WorkItem_Unserialize (CJobRetryItem h)) (\<lambda>_.
     rbind SafeReadFile (\<lambda>Usage.
     rbind SafeReadString (\<lambda>List.
     rbind SafeReadString (\<lambda>BypassList.
     rbind (if Type \<noteq> JOB_DOWNLOAD_V1 then CCredentials_Unserialize else rret []) (\<lambda>creds.
       rret (x\<lparr>ProxyUsage := Usage, ProxyList := List, ProxyBypassList := BypassList,
         m_Credentials := creds\<rparr>)))))))))"

definition CJob_Unserialize ::
  "'z SidApi_scheme \<Rightarrow> nat \<Rightarrow> nat \<Rightarrow> (TaskScheduler, StoredJob) reader" where
  "CJob_Unserialize api h Type =
     rbind (SafeReadBlock (BlockGuid Type)) (\<lambda>_.
     rbind (CJob_Unserialize_1 api Type) (\<lambda>j.
     rbind (CJob_Unserialize_2 api h j) (\<lambda>x.
     rbind (CJob_Unserialize_3 x) (\<lambda>x.
     rbind (CJob_Unserialize_4 h Type x) (\<lambda>x.
     rbind (SafeReadBlock (BlockGuid Type)) (\<lambda>_. rret x))))))"

text \<open>What \<open>CUploadJob::Unserialize\<close> reads, and what it then does with the scheduler known.\<close>

definition CUploadJob_Unserialize_data ::
  "'z SidApi_scheme \<Rightarrow> nat \<Rightarrow> nat \<Rightarrow> (TaskScheduler, StoredJob) reader" where
  "CUploadJob_Unserialize_data api h Type =
     rbind (SafeReadBlock UploadJobGuid_v1_5) (\<lambda>_.
     rbind (CJob_Unserialize api h Type) (\<lambda>x.
     rbind (UPLOAD_DATA_Unserialize x) (\<lambda>x.
     rbind read_bool (\<lambda>fOwnReplyFileName.
     rbind SafeReadStringHandle (\<lambda>ReplyFileName.
     rbind read_bool (\<lambda>fReplyFile.
     rbind (if fReplyFile then rbind (CFile_Unserialize (m_type (m_Job x))) (\<lambda>f. rret (Some f))
            else rret None) (\<lambda>ReplyFile.
     rbind (SafeReadBlock UploadJobGuid_v1_5) (\<lambda>_.
       rret (x\<lparr>m_Job := (m_Job x)\<lparr>m_fOwnReplyFileName := fOwnReplyFileName,
         m_ReplyFileName := ReplyFileName, m_ReplyFile := ReplyFile\<rparr>\<rparr>)))))))))"

definition not_schedulable :: "nat \<Rightarrow> TaskScheduler \<Rightarrow> StoredJob \<Rightarrow> StoredJob" where
  "not_schedulable h ts x =
     (if (m_state (m_Job x) = BG_JOB_STATE_CANCELLED \<or> m_state (m_Job x) = BG_JOB_STATE_ACKNOWLEDGED) \<and>
         IsWorkItemInScheduler (CJobRetryItem h) ts
      then x\<lparr>m_Job := (m_Job x)\<lparr>m_UploadData :=
             map_option (\<lambda>d. d\<lparr>fSchedulable := False\<rparr>) (m_UploadData (m_Job x))\<rparr>\<rparr>
      else x)"

definition CUploadJob_Unserialize ::
  "'z SidApi_scheme \<Rightarrow> nat \<Rightarrow> nat \<Rightarrow> (TaskScheduler, StoredJob) reader" where
  "CUploadJob_Unserialize api h Type =
     rbind (CUploadJob_Unserialize_data api h Type) (\<lambda>x (bs, ts). (Inr (not_schedulable h ts x), bs, ts))"

text \<open>What the destructor of a job does to the scheduler.\<close>

definition CJob_destroy :: "nat \<Rightarrow> TaskScheduler \<Rightarrow> TaskScheduler" where
  "CJob_destroy h ts = fold (\<lambda>i ts. snd (CancelWorkItem i ts))
     [CJobModificationItem h, CJobInactivityTimeout h, CJobNoProgressItem h, CJobCallbackItem h, CJobRetryItem h] ts"

text \<open>
  \<open>UnserializeJob\<close> looks at the first \<open>GUID\<close>, goes back to its front and lets the new object \<open>h\<close>, whose
  work items are new as well, read itself. When that throws, the object is deleted.
\<close>

definition UnserializeJob :: "'z SidApi_scheme \<Rightarrow> nat \<Rightarrow> (TaskScheduler, StoredJob) reader" where
  "UnserializeJob api h s =
     (case SafeReadGuidChoice JobGuids s of
        (Inl e, s) \<Rightarrow> (Inl e, s)
      | (Inr Type, _) \<Rightarrow>
          (case (if Type = JOB_UPLOAD_V1_5 then CUploadJob_Unserialize api h Type
                 else CJob_Unserialize api h Type) (apsnd (new_items h) s) of
             (Inr x, s) \<Rightarrow> (Inr x, s)
           | (Inl e, bs, ts) \<Rightarrow> (Inl e, bs, CJob_destroy h ts)))"

section \<open>Job lists and the manager\<close>

definition GroupListStorageGUID :: GUID where
  "GroupListStorageGUID = guid 0x5f4447 0xbda9 0x44ba [0x98, 0x51, 0xc4, 0x7b, 0xb6, 0xc0, 0x7a, 0xce]"
definition PriorityQueuesStorageGUID :: GUID where
  "PriorityQueuesStorageGUID = guid 0xc82bf713 0x9940 0x4a12 [0x9f, 0x1a, 0x3a, 0xae, 0xbd, 0x89, 0x4e, 0xea]"
definition QmgrStateStorageGUID :: GUID where
  "QmgrStateStorageGUID = guid 0x2b196af5 0x7c 0x438f [0x8d, 0x12, 0x1c, 0xfc, 0xa4, 0xcc, 0x9b, 0x76]"

type_synonym job_list = "(nat \<times> StoredJob) list"

definition CJobList_Serialize :: "'z SidApi_scheme \<Rightarrow> TaskScheduler \<Rightarrow> job_list \<Rightarrow> bytes" where
  "CJobList_Serialize api ts jobs =
     SafeWriteBlock GroupListStorageGUID @
     SafeWriteFile (word_of_nat (length jobs) :: 32 word) @
     concat (map (\<lambda>(h, x). Job_Serialize api h ts x) jobs) @
     SafeWriteBlock GroupListStorageGUID"

text \<open>
  A list is read into the list of online jobs, the second component of the state. The objects
  are created at the addresses \<open>new n\<close>, where \<open>n\<close> counts the jobs of the list.
\<close>

primrec CJobList_Unserialize_Loop ::
  "'z SidApi_scheme \<Rightarrow> (nat \<Rightarrow> nat) \<Rightarrow> nat \<Rightarrow> (job_list \<times> TaskScheduler, unit) reader" where
  "CJobList_Unserialize_Loop api new 0 s = (Inr (), s)"
| "CJobList_Unserialize_Loop api new (Suc n) s =
     (case s of (bs, jobs, ts) \<Rightarrow>
        let h = new (length jobs)
        in case UnserializeJob api h (bs, ts) of
             (Inl e, bs, ts) \<Rightarrow> (Inl e, bs, jobs, ts)
           | (Inr x, bs, ts) \<Rightarrow> CJobList_Unserialize_Loop api new n (bs, jobs @ [(h, x)], ts))"

text \<open>The counter \<open>i\<close> is compared with the number as an unsigned integer.\<close>

definition CJobList_Unserialize ::
  "'z SidApi_scheme \<Rightarrow> (nat \<Rightarrow> nat) \<Rightarrow> (job_list \<times> TaskScheduler, unit) reader" where
  "CJobList_Unserialize api new =
     rbind (SafeReadBlock GroupListStorageGUID) (\<lambda>_.
     rbind SafeReadFile (\<lambda>dwNumberOfGroups :: 32 word.
     rbind (CJobList_Unserialize_Loop api new (unat dwNumberOfGroups)) (\<lambda>_.
       SafeReadBlock GroupListStorageGUID)))"

text \<open>The contents of the state file, from \<open>CJobManager::Serialize\<close> with the block of the file itself.\<close>

definition CJobManager_Serialize :: "'z SidApi_scheme \<Rightarrow> TaskScheduler \<Rightarrow> job_list \<Rightarrow> job_list \<Rightarrow> bytes" where
  "CJobManager_Serialize api ts online offline =
     SafeWriteBlock QmgrStateStorageGUID @
     SafeWriteBlock PriorityQueuesStorageGUID @
     CJobList_Serialize api ts online @
     CJobList_Serialize api ts offline @
     SafeWriteBlock PriorityQueuesStorageGUID @
     SafeWriteBlock QmgrStateStorageGUID"

definition read_StateFile :: "'z SidApi_scheme \<Rightarrow> (nat \<Rightarrow> nat) \<Rightarrow> (job_list \<times> TaskScheduler, unit) reader" where
  "read_StateFile api new =
     rbind (SafeReadBlock QmgrStateStorageGUID) (\<lambda>_.
     rbind (SafeReadBlock PriorityQueuesStorageGUID) (\<lambda>_.
     rbind (CJobList_Unserialize api new) (\<lambda>_.
     rbind (CJobList_Unserialize api new) (\<lambda>_.
     rbind (SafeReadBlock PriorityQueuesStorageGUID) (\<lambda>_.
       SafeReadBlock QmgrStateStorageGUID)))))"

text \<open>
  \<open>CJobManager::Unserialize\<close> on the contents of the current state file. \<open>None\<close> says that the
  program ends, or that the model has no name for what was read.
\<close>

definition CJobManager_Unserialize ::
  "'z SidApi_scheme \<Rightarrow> (nat \<Rightarrow> nat) \<Rightarrow> bytes \<Rightarrow> TaskScheduler \<Rightarrow> (HRESULT \<times> job_list \<times> TaskScheduler) option" where
  "CJobManager_Unserialize api new contents ts =
     (case read_StateFile api new (contents, [], ts) of
        (Inr _, _, jobs, ts) \<Rightarrow> Some (S_OK, jobs, ts)
      | (Inl (ComError hr), _, jobs, ts) \<Rightarrow>
          if hr = E_INVALIDARG \<or> hr = HRESULT_FROM_WIN32 ERROR_FILE_NOT_FOUND
          then Some (S_OK, [], fold CJob_destroy (map fst jobs) ts)
          else Some (hr, jobs, ts)
      | (Inl _, _) \<Rightarrow> None)"

end
