(* ===== verification/JobStorageLaws.thy ===== *)
theory JobStorageLaws
  imports JobStorage
begin

text \<open>
  What a job, a list of jobs and the whole state file become when they are read back: every
  \<open>Unserialize\<close> of \<open>JobStorage\<close> undoes its \<open>Serialize\<close> up to the fields that are not kept, and finds
  out when data are missing at the end.
\<close>

lemmas codec_first = byte.first dword.first qword.first uuid.first flag.first str.first pstr.first
lemmas codec_last = byte.last dword.last qword.last uuid.last flag.last str.last pstr.last

lemma coded_skip: "coded (g x) bs y f \<Longrightarrow> coded (rbind (rret x) g) bs y f"
  by (simp add: rbind_def [abs_def] rret_def coded_def)

lemma coded_rret: "x = y \<Longrightarrow> coded (rret x) [] y (\<lambda>s. s)"
  by (simp add: coded_ret)

section \<open>Enumerations\<close>

lemma coded_enum:
  assumes "x \<in> set names" "length names < 2 ^ 32"
  shows "coded (read_enum names) (write_enum names x) x (\<lambda>s. s)"
proof -
  let ?i = "length (takeWhile (\<lambda>y. y \<noteq> x) names)"
  have i: "?i < length names" "names ! ?i = x"
    using assms(1) by (induction names) auto
  then have "unat (word_of_nat ?i :: 32 word) = ?i"
    using assms(2) by (intro unat_of_nat_less) simp
  then show ?thesis
    unfolding read_enum_def write_enum_def by (intro dword.last) (simp_all add: i coded_ret)
qed

interpretation job_state: codec "write_enum JOB_STATES" "read_enum JOB_STATES" "\<lambda>_. True"
proof
  fix x show "coded (read_enum JOB_STATES) (write_enum JOB_STATES x) x (\<lambda>s. s)"
    by (rule coded_enum) (cases x; simp add: JOB_STATES_def)+
qed

interpretation job_type: codec "write_enum JOB_TYPES" "read_enum JOB_TYPES" "\<lambda>_. True"
proof
  fix x show "coded (read_enum JOB_TYPES) (write_enum JOB_TYPES x) x (\<lambda>s. s)"
    by (rule coded_enum) (cases x; simp add: JOB_TYPES_def)+
qed

interpretation dl_result: codec "write_enum DOWNLOAD_RESULTS" "read_enum DOWNLOAD_RESULTS" "\<lambda>_. True"
proof
  fix x show "coded (read_enum DOWNLOAD_RESULTS) (write_enum DOWNLOAD_RESULTS x) x (\<lambda>s. s)"
    by (rule coded_enum) (cases x; simp add: DOWNLOAD_RESULTS_def)+
qed

interpretation err_style: codec "write_enum ERROR_STYLES" "read_enum ERROR_STYLES" "\<lambda>_. True"
proof
  fix x show "coded (read_enum ERROR_STYLES) (write_enum ERROR_STYLES x) x (\<lambda>s. s)"
    by (rule coded_enum) (cases x; simp add: ERROR_STYLES_def)+
qed

interpretation upload_state: codec "write_enum UPLOAD_STATES" "read_enum UPLOAD_STATES" "\<lambda>_. True"
proof
  fix x show "coded (read_enum UPLOAD_STATES) (write_enum UPLOAD_STATES x) x (\<lambda>s. s)"
    by (rule coded_enum) (cases x; simp add: UPLOAD_STATES_def)+
qed

lemmas enum_first = job_state.first job_type.first dl_result.first err_style.first upload_state.first

section \<open>Files\<close>

definition file_ok :: "BG_JOB_TYPE \<Rightarrow> CFile \<Rightarrow> bool" where
  "file_ok JobType f \<longleftrightarrow> (JobType = BG_JOB_TYPE_DOWNLOAD \<longrightarrow> m_LocalFileTime f = 0) \<and>
     string_ok (m_LocalName f) \<and> string_ok (m_RemoteName f) \<and> string_ok (m_TemporaryName f) \<and>
     string_ok (m_VolumePath f) \<and> string_ok (m_CanonicalVolumePath f)"

interpretation stored_file: codec "CFile_Serialize JobType" "CFile_Unserialize JobType" "file_ok JobType"
proof
  fix f assume f: "file_ok JobType f"
  show "coded (CFile_Unserialize JobType) (CFile_Serialize JobType f) f (\<lambda>s. s)"
  proof (cases "JobType = BG_JOB_TYPE_DOWNLOAD")
    case False
    then show ?thesis
      using f unfolding CFile_Serialize_def CFile_Unserialize_def file_ok_def
      by (simp only: if_True not_False_eq_True if_False simp_thms)
        (intro codec_first codec_last coded_rret; simp)
  next
    case True
    then show ?thesis
      using f unfolding CFile_Serialize_def CFile_Unserialize_def file_ok_def
      by (simp only: simp_thms if_False append_Nil)
        (rule coded_skip, intro codec_first codec_last coded_rret; simp)
  qed
qed

lemma coded_nat_sized:
  assumes "n < 2 ^ 32" "coded (g n) bs y f"
  shows "coded (rbind SafeReadFile (\<lambda>w :: 32 word. g (unat w))) (SafeWriteFile (word_of_nat n :: 32 word) @ bs) y f"
proof -
  have "unat (word_of_nat n :: 32 word) = n" using assms(1) by (intro unat_of_nat_less) simp
  then show ?thesis using assms(2) by (intro dword.first) simp_all
qed

definition files_ok :: "BG_JOB_TYPE \<Rightarrow> CFile list \<Rightarrow> bool" where
  "files_ok JobType files \<longleftrightarrow> length files < 2 ^ 32 \<and> list_all (file_ok JobType) files"

interpretation stored_files: codec "CFileList_Serialize JobType" "CFileList_Unserialize JobType" "files_ok JobType"
proof
  fix files assume f: "files_ok JobType files"
  have s: "coded (read_n (CFile_Unserialize JobType) (length files)) (concat (map (CFile_Serialize JobType) files))
      files (\<lambda>s. s)"
    by (rule stored_file.sequence) (use f in \<open>simp add: files_ok_def\<close>)
  have e: "coded (rbind (SafeReadBlock FileListStorageGuid) (\<lambda>_. rret files))
      (SafeWriteBlock FileListStorageGuid @ []) files (\<lambda>s. s)"
    by (rule coded_block) (rule coded_ret)
  show "coded (CFileList_Unserialize JobType) (CFileList_Serialize JobType files) files (\<lambda>s. s)"
    unfolding CFileList_Serialize_def CFileList_Unserialize_def
    using f e by (intro coded_block coded_nat_sized coded_then [OF s]) (simp_all add: files_ok_def)
qed

section \<open>Errors and security descriptors\<close>

definition error_ok :: "CJobError \<Rightarrow> string option \<Rightarrow> bool" where
  "error_ok e Description \<longleftrightarrow> m_FileIndex e \<in> {- (2 ^ 31) ..< 2 ^ 31} \<and> pred_option string_ok Description"

lemma sint_word_of_int:
  assumes "i \<in> {- (2 ^ 31) ..< 2 ^ 31}"
  shows "sint (word_of_int i :: 32 word) = i"
  using assms by (simp add: sint_sbintrunc' signed_take_bit_int_eq_self)

lemma coded_error:
  assumes "error_ok e Description"
  shows "coded (CJobError_Unserialize job) (CJobError_Serialize e Description)
    (if m_ErrorSet e then (e\<lparr>m_job := job\<rparr>, Description) else (ClearError, None)) (\<lambda>s. s)"
proof (cases "m_ErrorSet e")
  case True
  have i: "sint (word_of_int (m_FileIndex e) :: 32 word) = m_FileIndex e"
    by (rule sint_word_of_int) (use assms in \<open>simp add: error_ok_def\<close>)
  have "e\<lparr>m_job := job\<rparr> = \<lparr>m_ErrorSet = True, m_FileIndex = m_FileIndex e, m_job = job,
      m_ErrInfo = \<lparr>result = result (m_ErrInfo e), Code = Code (m_ErrInfo e),
        Style = Style (m_ErrInfo e), Source = Source (m_ErrInfo e)\<rparr>\<rparr>"
    using True by (cases e) simp
  then show ?thesis
    using assms True i unfolding CJobError_Unserialize_def CJobError_Serialize_def error_ok_def
    by (simp only: not_True_eq_False if_False if_True)
      (rule codec_first codec_last enum_first coded_rret | simp)+
next
  case False
  then show ?thesis
    unfolding CJobError_Unserialize_def CJobError_Serialize_def
    by (simp only: not_False_eq_True if_False if_True) (intro codec_last; simp add: coded_ret)
qed

definition sd_ok :: "'z SidApi_scheme \<Rightarrow> bytes \<Rightarrow> bool" where
  "sd_ok api sd \<longleftrightarrow> length sd < 2 ^ 32 \<and> MakeAbsoluteSD api sd = 0"

interpretation stored_sd: codec CJobSecurityDescriptor_Serialize "CJobSecurityDescriptor_Unserialize api" "sd_ok api"
proof
  fix sd assume sd: "sd_ok api sd"
  have "coded (rbind (SafeReadBytes (length sd)) (\<lambda>sd.
       if MakeAbsoluteSD api sd \<noteq> 0 then rthrow (ComError (HRESULT_FROM_WIN32 (MakeAbsoluteSD api sd)))
       else rret sd)) (sd @ []) sd (\<lambda>s. s)"
    by (rule coded_then [OF coded_SafeReadBytes]) (use sd in \<open>simp add: sd_ok_def coded_ret\<close>)
  then show "coded (CJobSecurityDescriptor_Unserialize api) (CJobSecurityDescriptor_Serialize sd) sd (\<lambda>s. s)"
    unfolding CJobSecurityDescriptor_Unserialize_def CJobSecurityDescriptor_Serialize_def
    using sd by (intro coded_nat_sized) (simp_all add: sd_ok_def)
qed

section \<open>The old interfaces and work items\<close>

lemma coded_group:
  "coded (COldGroupInterface_UnSerialize y) (COldGroupInterface_Serialize x)
    (y\<lparr>m_NotifyClsid := m_NotifyClsid x,
       m_OldJobGuid := (if m_OldExternalJobInterface (m_Job x) then m_OldJobGuid x else 0),
       m_Job := (m_Job y)\<lparr>m_OldExternalGroupInterface := Some None,
         m_OldExternalJobInterface := m_OldExternalJobInterface (m_Job x)\<rparr>\<rparr>) (\<lambda>s. s)"
proof (cases "m_OldExternalJobInterface (m_Job x)")
  case True
  then show ?thesis
    unfolding COldGroupInterface_UnSerialize_def COldGroupInterface_Serialize_def
    by (simp only: if_True) (rule codec_first codec_last coded_rret | simp)+
next
  case False
  then show ?thesis
    unfolding COldGroupInterface_UnSerialize_def COldGroupInterface_Serialize_def
    by (simp only: if_False) (intro codec_first codec_last coded_skip coded_rret; simp add: coded_skip coded_ret)
qed

lemma group_first:
  assumes "coded (g (y\<lparr>m_NotifyClsid := m_NotifyClsid x,
       m_OldJobGuid := (if m_OldExternalJobInterface (m_Job x) then m_OldJobGuid x else 0),
       m_Job := (m_Job y)\<lparr>m_OldExternalGroupInterface := Some None,
         m_OldExternalJobInterface := m_OldExternalJobInterface (m_Job x)\<rparr>\<rparr>)) cs z f"
  shows "coded (rbind (COldGroupInterface_UnSerialize y) g) (COldGroupInterface_Serialize x @ cs) z f"
  by (rule coded_then, rule coded_group, rule assms)

text \<open>What reading the stored item \<open>i\<close> of the scheduler \<open>ts0\<close> does to the item \<open>i'\<close>.\<close>

definition item_effect :: "TaskScheduler \<Rightarrow> WorkItem \<Rightarrow> WorkItem \<Rightarrow> TaskScheduler \<Rightarrow> TaskScheduler" where
  "item_effect ts0 i i' =
     (if IsWorkItemInScheduler i ts0
      then restore_item i' (m_InsertionTime (WorkItems ts0 i)) (m_TimeToRun (WorkItems ts0 i)) else (\<lambda>ts. ts))"

lemma coded_item: "coded (WorkItem_Unserialize i') (WorkItem_Serialize ts0 i) () (item_effect ts0 i i')"
proof (cases "IsWorkItemInScheduler i ts0")
  case True
  have "coded (\<lambda>(bs, ts). (Inr (), bs, restore_item i' a t ts)) [] () (restore_item i' a t)" for a t
    by (simp add: coded_def)
  with True show ?thesis
    unfolding WorkItem_Unserialize_def WorkItem_Serialize_def item_effect_def
    by (simp only: if_True) (rule codec_first codec_last | simp)+
next
  case False
  then show ?thesis
    unfolding WorkItem_Unserialize_def WorkItem_Serialize_def item_effect_def
    by (simp only: if_False) (intro codec_last; simp add: coded_ret)
qed

lemma item_first:
  "coded (g ()) cs y f \<Longrightarrow>
   coded (rbind (WorkItem_Unserialize i') g) (WorkItem_Serialize ts0 i @ cs) y (f \<circ> item_effect ts0 i i')"
  by (rule coded_bind, rule coded_item)

lemma item_last:
  assumes "coded (g ()) cs y (\<lambda>s. s)"
  shows "coded (rbind (WorkItem_Unserialize i') g) (WorkItem_Serialize ts0 i @ cs) y (item_effect ts0 i i')"
  using item_first [of g cs y "\<lambda>s. s" i' ts0 i] assms by (simp add: o_def)

section \<open>Jobs\<close>

definition head_ok :: "'z SidApi_scheme \<Rightarrow> CJob \<Rightarrow> bool" where
  "head_ok api j \<longleftrightarrow> m_priority j \<in> {- (2 ^ 31) ..< 2 ^ 31} \<and> m_id j < 2 ^ 128 \<and>
     string_ok (m_name j) \<and> string_ok (m_description j) \<and> string_ok (m_NotifyProgram j) \<and>
     string_ok (m_NotifyParameters j) \<and> sid_ok api (m_NotifySid j)"

definition head_of :: "CJob \<Rightarrow> CJob" where
  "head_of j = CJob_empty\<lparr>m_priority := m_priority j,
     m_state := (if IsRunning j then BG_JOB_STATE_QUEUED else m_state j), m_type := m_type j,
     m_id := m_id j, m_name := m_name j, m_description := m_description j,
     m_NotifyProgram := m_NotifyProgram j, m_NotifyParameters := m_NotifyParameters j,
     m_NotifySid := m_NotifySid j\<rparr>"

lemma coded_job_1:
  assumes "head_ok api j" "Type = JOB_DOWNLOAD_V1_5 \<or> Type = JOB_UPLOAD_V1_5"
  shows "coded (CJob_Unserialize_1 api Type) (CJob_Serialize_1 api j) (head_of j) (\<lambda>s. s)"
proof -
  have t: "Type \<noteq> JOB_DOWNLOAD_V1" "Type \<noteq> JOB_DOWNLOAD_V1_2" using assms(2) by auto
  have p: "sint (word_of_int (m_priority j) :: 32 word) = m_priority j"
    by (rule sint_word_of_int) (use assms(1) in \<open>simp add: head_ok_def\<close>)
  have i: "unat (word_of_nat (m_id j) :: GUID) = m_id j"
    using assms(1) by (intro unat_of_nat_less) (simp add: head_ok_def)
  show ?thesis
    using assms(1) t unfolding CJob_Unserialize_1_def CJob_Serialize_1_def head_ok_def
    by (simp only: if_False simp_thms)
      (rule codec_first enum_first sid.last coded_rret | simp only: TrueI | simp add: head_of_def p i)+
qed

definition body_ok :: "'z SidApi_scheme \<Rightarrow> StoredJob \<Rightarrow> bool" where
  "body_ok api x \<longleftrightarrow> m_CurrentFile (m_Job x) < 2 ^ 31 \<and> sd_ok api (m_sd x) \<and>
     files_ok (m_type (m_Job x)) (m_files (m_Job x)) \<and> error_ok (m_error (m_Job x)) (m_Description x)"

definition body_of :: "nat \<Rightarrow> StoredJob \<Rightarrow> CJob \<Rightarrow> StoredJob" where
  "body_of h x j = StoredJob_empty\<lparr>m_fGroupNotifySid := m_fGroupNotifySid x, m_sd := m_sd x,
     m_Description := (if m_ErrorSet (m_error (m_Job x)) then m_Description x else None),
     m_Job := j\<lparr>m_NotifyFlags := m_NotifyFlags (m_Job x), m_CurrentFile := m_CurrentFile (m_Job x),
       m_files := m_files (m_Job x),
       m_error := (if m_ErrorSet (m_error (m_Job x)) then (m_error (m_Job x))\<lparr>m_job := h\<rparr> else ClearError)\<rparr>\<rparr>"

lemma coded_job_2:
  assumes "body_ok api x" "m_type j = m_type (m_Job x)"
  shows "coded (CJob_Unserialize_2 api h j) (CJob_Serialize_2 x) (body_of h x j) (\<lambda>s. s)"
proof -
  let ?c = "word_of_nat (m_CurrentFile (m_Job x)) :: 32 word"
  have c: "unat ?c = m_CurrentFile (m_Job x)" "\<not> sint ?c < 0"
    using assms(1) by (simp_all add: body_ok_def unsigned_of_nat take_bit_nat_eq_self signed_of_nat signed_take_bit_int_eq_self)
  have e: "coded (rbind (CJobError_Unserialize h) (\<lambda>(error, Description).
       rret (StoredJob_empty\<lparr>m_fGroupNotifySid := m_fGroupNotifySid x, m_sd := m_sd x, m_Description := Description,
         m_Job := j\<lparr>m_NotifyFlags := m_NotifyFlags (m_Job x), m_CurrentFile := unat ?c,
           m_files := m_files (m_Job x), m_error := error\<rparr>\<rparr>)))
     (CJobError_Serialize (m_error (m_Job x)) (m_Description x) @ []) (body_of h x j) (\<lambda>s. s)"
    by (rule coded_then [OF coded_error])
      (use assms(1) c in \<open>simp_all add: body_ok_def body_of_def coded_ret\<close>)
  show ?thesis
    using assms c e unfolding CJob_Unserialize_2_def CJob_Serialize_2_def body_ok_def
    by (simp only:) (rule codec_first stored_sd.first stored_files.first coded_skip | simp)+
qed

definition tail_of :: "StoredJob \<Rightarrow> StoredJob \<Rightarrow> StoredJob" where
  "tail_of x y =
     (let group = m_OldExternalGroupInterface (m_Job x) \<noteq> None;
          job = group \<and> m_OldExternalJobInterface (m_Job x)
      in y\<lparr>m_method := m_method x,
           m_NotifyClsid := (if group then m_NotifyClsid x else m_NotifyClsid y),
           m_OldJobGuid := (if job then m_OldJobGuid x else if group then 0 else m_OldJobGuid y),
           m_Job := (m_Job y)\<lparr>
             m_OldExternalGroupInterface := (if group then Some None else m_OldExternalGroupInterface (m_Job y)),
             m_OldExternalJobInterface := (if group then job else m_OldExternalJobInterface (m_Job y)),
             m_retries := m_retries (m_Job x), m_MinimumRetryDelay := m_MinimumRetryDelay (m_Job x),
             m_NoProgressTimeout := m_NoProgressTimeout (m_Job x), m_CreationTime := m_CreationTime (m_Job x),
             m_LastAccessTime := m_LastAccessTime (m_Job x), m_ModificationTime := m_ModificationTime (m_Job x),
             m_TransferCompletionTime := m_TransferCompletionTime (m_Job x)\<rparr>\<rparr>)"

lemma coded_job_3: "coded (CJob_Unserialize_3 y) (CJob_Serialize_3 x) (tail_of x y) (\<lambda>s. s)"
proof (cases "m_OldExternalGroupInterface (m_Job x)")
  case None
  show ?thesis
    unfolding CJob_Unserialize_3_def CJob_Serialize_3_def None
    by (simp only: simp_thms if_False)
      (rule codec_first codec_last coded_skip coded_rret | simp add: tail_of_def None)+
next
  case (Some g)
  show ?thesis
    unfolding CJob_Unserialize_3_def CJob_Serialize_3_def Some append_assoc
    by (simp only: simp_thms if_True option.distinct append_assoc)
      (rule codec_first codec_last group_first coded_rret | simp only: if_True TrueI | simp add: tail_of_def Some Let_def)+
qed

definition extras_ok :: "StoredJob \<Rightarrow> bool" where
  "extras_ok x \<longleftrightarrow> pred_option string_ok (ProxyList x) \<and> pred_option string_ok (ProxyBypassList x) \<and>
     Dictionary_storable (m_Credentials x)"

definition items_effect :: "TaskScheduler \<Rightarrow> nat \<Rightarrow> nat \<Rightarrow> TaskScheduler \<Rightarrow> TaskScheduler" where
  "items_effect ts0 h h' =
     item_effect ts0 (CJobRetryItem h) (CJobRetryItem h') \<circ>
     item_effect ts0 (CJobCallbackItem h) (CJobCallbackItem h') \<circ>
     item_effect ts0 (CJobNoProgressItem h) (CJobNoProgressItem h') \<circ>
     item_effect ts0 (CJobInactivityTimeout h) (CJobInactivityTimeout h')"

definition extras_of :: "StoredJob \<Rightarrow> StoredJob \<Rightarrow> StoredJob" where
  "extras_of x y = y\<lparr>ProxyUsage := ProxyUsage x, ProxyList := ProxyList x, ProxyBypassList := ProxyBypassList x,
     m_Credentials := filter (\<lambda>(k, c). c \<noteq> None) (m_Credentials x)\<rparr>"

lemma coded_job_4:
  assumes "extras_ok x" "Type \<noteq> JOB_DOWNLOAD_V1"
  shows "coded (CJob_Unserialize_4 h' Type y) (CJob_Serialize_4 h ts0 x) (extras_of x y) (items_effect ts0 h h')"
proof -
  let ?r = "\<lambda>Usage List BypassList creds. rret (y\<lparr>ProxyUsage := Usage, ProxyList := List,
     ProxyBypassList := BypassList, m_Credentials := creds\<rparr>)"
  have c: "coded (rbind CCredentials_Unserialize (?r (ProxyUsage x) (ProxyList x) (ProxyBypassList x)))
      (CCredentials_Serialize (m_Credentials x) @ []) (extras_of x y) (\<lambda>s. s)"
    by (rule coded_then [OF coded_credentials]) (use assms(1) in \<open>simp_all add: extras_ok_def extras_of_def coded_ret\<close>)
  have r: "coded (rbind SafeReadFile (\<lambda>Usage. rbind SafeReadString (\<lambda>List. rbind SafeReadString (\<lambda>BypassList.
       rbind (if Type \<noteq> JOB_DOWNLOAD_V1 then CCredentials_Unserialize else rret []) (?r Usage List BypassList)))))
      (SafeWriteFile (ProxyUsage x) @ SafeWriteString (ProxyList x) @ SafeWriteString (ProxyBypassList x) @
       CCredentials_Serialize (m_Credentials x)) (extras_of x y) (\<lambda>s. s)"
    using assms c by (intro codec_first) (simp_all add: extras_ok_def)
  show ?thesis
    unfolding CJob_Unserialize_4_def CJob_Serialize_4_def items_effect_def
    by (rule item_first, rule item_first, rule item_first, rule item_last, rule r)
qed

definition stored_ok :: "'z SidApi_scheme \<Rightarrow> StoredJob \<Rightarrow> bool" where
  "stored_ok api x \<longleftrightarrow> head_ok api (m_Job x) \<and> body_ok api x \<and> extras_ok x"

definition kept :: "nat \<Rightarrow> StoredJob \<Rightarrow> StoredJob" where
  "kept h x = extras_of x (tail_of x (body_of h x (head_of (m_Job x))))"

lemma coded_job_end:
  assumes "coded r bs x f"
  shows "coded (rbind r (\<lambda>x. rbind (SafeReadBlock g) (\<lambda>_. rret x))) (bs @ SafeWriteBlock g) x f"
proof -
  have "coded (rbind (SafeReadBlock g) (\<lambda>_. rret x)) (SafeWriteBlock g @ []) x (\<lambda>s. s)"
    by (rule coded_block) (rule coded_ret)
  then have "coded (rbind (SafeReadBlock g) (\<lambda>_. rret x)) (SafeWriteBlock g) x (\<lambda>s. s)" by simp
  from coded_bind [where g = "\<lambda>x. rbind (SafeReadBlock g) (\<lambda>_. rret x)", OF assms this]
  show ?thesis by (simp add: o_def)
qed

lemma coded_CJob:
  assumes "stored_ok api x" "Type = JOB_DOWNLOAD_V1_5 \<or> Type = JOB_UPLOAD_V1_5"
  shows "coded (CJob_Unserialize api h' Type) (CJob_Serialize api h ts0 x) (kept h' x) (items_effect ts0 h h')"
proof -
  have g: "BlockGuid Type = DownloadJobGuid_v1_5" and t: "Type \<noteq> JOB_DOWNLOAD_V1"
    using assms(2) by (auto simp: BlockGuid_def)
  note ok = assms(1) [unfolded stored_ok_def]
  have j: "m_type (head_of (m_Job x)) = m_type (m_Job x)" by (simp add: head_of_def)
  show ?thesis
    unfolding CJob_Unserialize_def CJob_Serialize_def g kept_def
    by (rule coded_block, rule coded_then, rule coded_job_1, use ok in simp, rule assms(2),
        rule coded_then, rule coded_job_2, use ok in simp, rule j,
        rule coded_then, rule coded_job_3, rule coded_job_end, rule coded_job_4, use ok in simp, rule t)
qed

section \<open>Uploads\<close>

definition upload_ok :: "StoredJob \<Rightarrow> UPLOAD_DATA \<Rightarrow> bool" where
  "upload_ok x d \<longleftrightarrow> string_ok (m_SessionId x) \<and> string_ok (m_ReplyUrl x) \<and> string_ok (HostId d) \<and>
     string_ok (m_ReplyFileName (m_Job x)) \<and> pred_option (file_ok (m_type (m_Job x))) (m_ReplyFile (m_Job x))"

definition upload_of :: "StoredJob \<Rightarrow> UPLOAD_DATA \<Rightarrow> StoredJob \<Rightarrow> StoredJob" where
  "upload_of x d y = y\<lparr>m_Protocol := m_Protocol x, m_SessionId := m_SessionId x, m_ReplyUrl := m_ReplyUrl x,
     m_Job := (m_Job y)\<lparr>m_UploadData := Some (d\<lparr>fSchedulable := True\<rparr>),
       m_fOwnReplyFileName := m_fOwnReplyFileName (m_Job x), m_ReplyFileName := m_ReplyFileName (m_Job x),
       m_ReplyFile := m_ReplyFile (m_Job x)\<rparr>\<rparr>"

lemma upload_data_first:
  assumes "upload_ok x d"
    "coded (g (y\<lparr>m_Protocol := m_Protocol x, m_SessionId := m_SessionId x, m_ReplyUrl := m_ReplyUrl x,
         m_Job := (m_Job y)\<lparr>m_UploadData := Some (d\<lparr>fSchedulable := True\<rparr>)\<rparr>\<rparr>)) cs z f"
  shows "coded (rbind (UPLOAD_DATA_Unserialize y) g) (UPLOAD_DATA_Serialize x d @ cs) z f"
proof (rule coded_then)
  show "coded (UPLOAD_DATA_Unserialize y) (UPLOAD_DATA_Serialize x d)
      (y\<lparr>m_Protocol := m_Protocol x, m_SessionId := m_SessionId x, m_ReplyUrl := m_ReplyUrl x,
         m_Job := (m_Job y)\<lparr>m_UploadData := Some (d\<lparr>fSchedulable := True\<rparr>)\<rparr>\<rparr>) (\<lambda>s. s)"
    using assms(1) unfolding UPLOAD_DATA_Unserialize_def UPLOAD_DATA_Serialize_def upload_ok_def
    by (cases d) (rule codec_first codec_last enum_first coded_rret | simp)+
qed (rule assms(2))

lemma coded_reply_file:
  assumes "pred_option (file_ok t) p" "coded (g p) cs z f"
  shows "coded (rbind read_bool (\<lambda>fReplyFile.
      rbind (if fReplyFile then rbind (CFile_Unserialize t) (\<lambda>f. rret (Some f)) else rret None) g))
    ((case p of Some x \<Rightarrow> write_bool True @ CFile_Serialize t x | None \<Rightarrow> write_bool False) @ cs) z f"
proof (cases p)
  case None
  then show ?thesis using assms(2) by (auto intro!: flag.first coded_skip)
next
  case (Some x)
  have "coded (rbind (rbind (CFile_Unserialize t) (\<lambda>f. rret (Some f))) g) (CFile_Serialize t x @ cs) z f"
    using assms Some by (intro coded_then [OF coded_map [OF stored_file.law]]) simp_all
  then show ?thesis using Some by (auto intro!: flag.first)
qed

lemma coded_CUploadJob:
  assumes "stored_ok api x" "upload_ok x d"
  shows "coded (CUploadJob_Unserialize_data api h' JOB_UPLOAD_V1_5) (CUploadJob_Serialize api h ts0 d x)
    (upload_of x d (kept h' x)) (items_effect ts0 h h')"
proof -
  let ?y = "(kept h' x)\<lparr>m_Protocol := m_Protocol x, m_SessionId := m_SessionId x, m_ReplyUrl := m_ReplyUrl x,
      m_Job := (m_Job (kept h' x))\<lparr>m_UploadData := Some (d\<lparr>fSchedulable := True\<rparr>)\<rparr>\<rparr>"
  have t: "m_type (m_Job ?y) = m_type (m_Job x)"
    by (simp add: kept_def extras_of_def tail_of_def body_of_def head_of_def Let_def)
  let ?last = "\<lambda>b n p. rbind (SafeReadBlock UploadJobGuid_v1_5) (\<lambda>_. rret (?y\<lparr>m_Job := (m_Job ?y)\<lparr>
      m_fOwnReplyFileName := b, m_ReplyFileName := n, m_ReplyFile := p\<rparr>\<rparr>))"
  have e: "coded (?last (m_fOwnReplyFileName (m_Job x)) (m_ReplyFileName (m_Job x)) (m_ReplyFile (m_Job x)))
      (SafeWriteBlock UploadJobGuid_v1_5 @ []) (upload_of x d (kept h' x)) (\<lambda>s. s)"
    by (rule coded_block, rule coded_rret) (simp add: upload_of_def)
  have "coded (rbind read_bool (\<lambda>b. rbind SafeReadStringHandle (\<lambda>n. rbind read_bool (\<lambda>fReplyFile.
      rbind (if fReplyFile then rbind (CFile_Unserialize (m_type (m_Job ?y))) (\<lambda>f. rret (Some f)) else rret None)
        (?last b n)))))
    (write_bool (m_fOwnReplyFileName (m_Job x)) @ SafeWriteStringHandle (m_ReplyFileName (m_Job x)) @
     (case m_ReplyFile (m_Job x) of
        Some f \<Rightarrow> write_bool True @ CFile_Serialize (m_type (m_Job x)) f
      | None \<Rightarrow> write_bool False) @ SafeWriteBlock UploadJobGuid_v1_5)
    (upload_of x d (kept h' x)) (\<lambda>s. s)"
    unfolding t by (rule flag.first, simp, rule str.first, use assms(2) in \<open>simp add: upload_ok_def\<close>,
        rule coded_reply_file, use assms(2) in \<open>simp add: upload_ok_def\<close>) (use e in simp)
  then have u: "coded (rbind (UPLOAD_DATA_Unserialize (kept h' x)) (\<lambda>x. rbind read_bool (\<lambda>b.
      rbind SafeReadStringHandle (\<lambda>n. rbind read_bool (\<lambda>fReplyFile.
      rbind (if fReplyFile then rbind (CFile_Unserialize (m_type (m_Job x))) (\<lambda>f. rret (Some f)) else rret None)
        (\<lambda>p. rbind (SafeReadBlock UploadJobGuid_v1_5) (\<lambda>_. rret (x\<lparr>m_Job := (m_Job x)\<lparr>
          m_fOwnReplyFileName := b, m_ReplyFileName := n, m_ReplyFile := p\<rparr>\<rparr>))))))))
    (UPLOAD_DATA_Serialize x d @ write_bool (m_fOwnReplyFileName (m_Job x)) @
     SafeWriteStringHandle (m_ReplyFileName (m_Job x)) @
     (case m_ReplyFile (m_Job x) of
        Some f \<Rightarrow> write_bool True @ CFile_Serialize (m_type (m_Job x)) f
      | None \<Rightarrow> write_bool False) @ SafeWriteBlock UploadJobGuid_v1_5)
    (upload_of x d (kept h' x)) (\<lambda>s. s)"
    by (rule upload_data_first [OF assms(2)])
  have o: "(\<lambda>s. s) \<circ> items_effect ts0 h h' = items_effect ts0 h h'" by (simp add: o_def)
  show ?thesis
    unfolding CUploadJob_Unserialize_data_def CUploadJob_Serialize_def
    by (rule coded_block, subst o [symmetric], rule coded_bind, rule coded_CJob, rule assms(1), simp, rule u)
qed

section \<open>The object that a stored job becomes\<close>

text \<open>
  \<open>retry\<close> says whether the retry item was active. A running job becomes queued, the pointers
  to the client are gone, and an upload can be scheduled unless it is finished and its
  retry item is active.
\<close>

definition restored :: "nat \<Rightarrow> bool \<Rightarrow> StoredJob \<Rightarrow> StoredJob" where
  "restored h retry x =
     (case m_UploadData (m_Job x) of
        None \<Rightarrow> kept h x
      | Some d \<Rightarrow>
          upload_of x d (kept h x)\<lparr>m_Job := (m_Job (upload_of x d (kept h x)))\<lparr>m_UploadData :=
            Some (d\<lparr>fSchedulable := \<not> (retry \<and>
              m_state (m_Job x) \<in> {BG_JOB_STATE_CANCELLED, BG_JOB_STATE_ACKNOWLEDGED})\<rparr>)\<rparr>\<rparr>)"

definition storable :: "'z SidApi_scheme \<Rightarrow> StoredJob \<Rightarrow> bool" where
  "storable api x \<longleftrightarrow> stored_ok api x \<and> (\<forall>d \<in> set_option (m_UploadData (m_Job x)). upload_ok x d)"

lemma restore_item_state:
  "m_State (WorkItems (restore_item i a t ts) k) = (if k = i then TASK_STATE_WAITING else m_State (WorkItems ts k))"
  "m_TimeToRun (WorkItems (restore_item i a t ts) k) = (if k = i then t else m_TimeToRun (WorkItems ts k))"
  by (simp_all add: restore_item_def InsertWorkItem_def Let_def set_item_def Reschedule_def split: list.splits)

lemma item_effect_held:
  "IsWorkItemInScheduler k (item_effect ts0 i i' ts) \<longleftrightarrow>
     (if k = i' \<and> IsWorkItemInScheduler i ts0 then True else IsWorkItemInScheduler k ts)"
  "m_TimeToRun (WorkItems (item_effect ts0 i i' ts) k) =
     (if k = i' \<and> IsWorkItemInScheduler i ts0 then m_TimeToRun (WorkItems ts0 i) else m_TimeToRun (WorkItems ts k))"
  by (auto simp: item_effect_def IsWorkItemInScheduler_def restore_item_state)

lemma new_items_not_held: "i \<in> items_of h \<Longrightarrow> \<not> IsWorkItemInScheduler i (new_items h ts)"
  by (simp add: IsWorkItemInScheduler_def new_items_def TaskSchedulerWorkItem_new_def)

lemma items_effect_held:
  "IsWorkItemInScheduler (CJobRetryItem h') (items_effect ts0 h h' (new_items h' ts)) \<longleftrightarrow>
     IsWorkItemInScheduler (CJobRetryItem h) ts0"
  by (simp add: items_effect_def item_effect_held new_items_not_held)

section \<open>Jobs by their blocks\<close>

lemma JobGuid_neq: "DownloadJobGuid_v1_5 \<noteq> UploadJobGuid_v1_5"
  by code_simp

lemma choice_download: "find (\<lambda>i. JobGuids ! i = DownloadJobGuid_v1_5) [0..<length JobGuids] = Some JOB_DOWNLOAD_V1_5"
  by (simp add: JobGuids_def upt_rec)

lemma choice_upload: "find (\<lambda>i. JobGuids ! i = UploadJobGuid_v1_5) [0..<length JobGuids] = Some JOB_UPLOAD_V1_5"
  using JobGuid_neq by (simp add: JobGuids_def upt_rec)

lemma coded_choice:
  assumes "find (\<lambda>i. guids ! i = g) [0..<length guids] = Some i"
  shows "coded (SafeReadGuidChoice guids) (SafeWriteBlock g) i (\<lambda>s. s)"
  unfolding SafeReadGuidChoice_def SafeWriteBlock_def
  by (rule uuid.last) (simp_all add: assms coded_ret)

lemma coded_pre: "coded r bs x f \<Longrightarrow> coded (\<lambda>s. r (apsnd n s)) bs x (f \<circ> n)"
  by (simp add: coded_def)

text \<open>Looking at the front before reading: the choice consumes a prefix of what the reader reads.\<close>

lemma coded_peek:
  assumes "coded (SafeReadGuidChoice JobGuids) bs Type (\<lambda>s :: TaskScheduler. s)"
    "coded (\<lambda>s. (if Type = JOB_UPLOAD_V1_5 then CUploadJob_Unserialize api h Type else CJob_Unserialize api h Type)
       (apsnd (new_items h) s)) (bs @ cs) x f"
  shows "coded (UnserializeJob api h) (bs @ cs) x f"
  unfolding coded_def
proof (intro conjI allI impI)
  let ?R = "\<lambda>s. (if Type = JOB_UPLOAD_V1_5 then CUploadJob_Unserialize api h Type else CJob_Unserialize api h Type)
       (apsnd (new_items h) s)"
  have c: "SafeReadGuidChoice JobGuids (bs @ rest, s) = (Inr Type, rest, s)" for rest and s :: TaskScheduler
    using assms(1) by (simp add: coded_def)
  have P: "UnserializeJob api h (bs @ rest, s) =
      (case ?R (bs @ rest, s) of (Inr x, s) \<Rightarrow> (Inr x, s) | (Inl e, bs, ts) \<Rightarrow> (Inl e, bs, CJob_destroy h ts))"
    for rest s
    unfolding UnserializeJob_def c by (simp only: prod.case sum.case)
  show "UnserializeJob api h ((bs @ cs) @ rest, s) = (Inr x, rest, f s)" for rest s
  proof -
    have "?R ((bs @ cs) @ rest, s) = (Inr x, rest, f s)" using assms(2) by (simp only: coded_def simp_thms)
    then show ?thesis unfolding append_assoc P by (simp only: append_assoc prod.case sum.case)
  qed
  fix k s assume k: "k < length (bs @ cs)"
  show "fst (UnserializeJob api h (take k (bs @ cs), s)) = Inl (ComError E_INVALIDARG)"
  proof (cases "k < length bs")
    case True
    then have "fst (SafeReadGuidChoice JobGuids (take k (bs @ cs), s)) = Inl (ComError E_INVALIDARG)"
      using assms(1) by (simp add: coded_def)
    then show ?thesis
      unfolding UnserializeJob_def by (cases "SafeReadGuidChoice JobGuids (take k (bs @ cs), s)") simp
  next
    case False
    then have t: "take k (bs @ cs) = bs @ take (k - length bs) cs" by simp
    have "fst (?R (take k (bs @ cs), s)) = Inl (ComError E_INVALIDARG)"
      using assms(2) k by (simp only: coded_def simp_thms)
    then show ?thesis
      unfolding t P by (cases "?R (bs @ take (k - length bs) cs, s)") (simp only: fst_conv prod.case sum.case)
  qed
qed

lemma Serialize_front:
  "\<exists>cs. CJob_Serialize api h ts x = SafeWriteBlock DownloadJobGuid_v1_5 @ cs"
  "\<exists>cs. CUploadJob_Serialize api h ts d x = SafeWriteBlock UploadJobGuid_v1_5 @ cs"
  by (simp_all add: CJob_Serialize_def CUploadJob_Serialize_def)

lemma not_schedulable_upload:
  assumes "IsWorkItemInScheduler (CJobRetryItem h) ts \<longleftrightarrow> retry" "m_UploadData (m_Job x) = Some d"
  shows "not_schedulable h ts (upload_of x d (kept h x)) = restored h retry x"
proof -
  have st: "m_state (m_Job (upload_of x d (kept h x))) \<in> {BG_JOB_STATE_CANCELLED, BG_JOB_STATE_ACKNOWLEDGED} \<longleftrightarrow>
      m_state (m_Job x) \<in> {BG_JOB_STATE_CANCELLED, BG_JOB_STATE_ACKNOWLEDGED}"
    by (auto simp: upload_of_def kept_def extras_of_def tail_of_def body_of_def head_of_def Let_def IsRunning_def)
  show ?thesis
    using assms st by (auto simp: not_schedulable_def restored_def upload_of_def)
qed

lemma coded_UnserializeJob:
  assumes "storable api x"
  shows "coded (UnserializeJob api h') (Job_Serialize api h ts0 x)
    (restored h' (IsWorkItemInScheduler (CJobRetryItem h) ts0) x) (items_effect ts0 h h' \<circ> new_items h')"
proof (cases "m_UploadData (m_Job x)")
  case None
  have k: "restored h' (IsWorkItemInScheduler (CJobRetryItem h) ts0) x = kept h' x"
    using None by (simp add: restored_def)
  obtain cs where cs: "CJob_Serialize api h ts0 x = SafeWriteBlock DownloadJobGuid_v1_5 @ cs"
    using Serialize_front(1) by blast
  have "coded (CJob_Unserialize api h' JOB_DOWNLOAD_V1_5) (SafeWriteBlock DownloadJobGuid_v1_5 @ cs)
      (kept h' x) (items_effect ts0 h h')"
    unfolding cs [symmetric] by (rule coded_CJob) (use assms in \<open>simp_all add: storable_def\<close>)
  then have "coded (\<lambda>s. (if JOB_DOWNLOAD_V1_5 = JOB_UPLOAD_V1_5 then CUploadJob_Unserialize api h' JOB_DOWNLOAD_V1_5
       else CJob_Unserialize api h' JOB_DOWNLOAD_V1_5) (apsnd (new_items h') s))
      (SafeWriteBlock DownloadJobGuid_v1_5 @ cs) (kept h' x) (items_effect ts0 h h' \<circ> new_items h')"
    by (simp add: coded_pre)
  then show ?thesis
    unfolding Job_Serialize_def None option.case cs k
    by (rule coded_peek [OF coded_choice [OF choice_download]])
next
  case (Some d)
  obtain cs where cs: "CUploadJob_Serialize api h ts0 d x = SafeWriteBlock UploadJobGuid_v1_5 @ cs"
    using Serialize_front(2) by blast
  have u: "coded (CUploadJob_Unserialize_data api h' JOB_UPLOAD_V1_5) (SafeWriteBlock UploadJobGuid_v1_5 @ cs)
      (upload_of x d (kept h' x)) (items_effect ts0 h h')"
    unfolding cs [symmetric] by (rule coded_CUploadJob) (use assms Some in \<open>simp_all add: storable_def\<close>)
  let ?R = "restored h' (IsWorkItemInScheduler (CJobRetryItem h) ts0) x"
  have "coded (\<lambda>s. CUploadJob_Unserialize api h' JOB_UPLOAD_V1_5 (apsnd (new_items h') s))
      (SafeWriteBlock UploadJobGuid_v1_5 @ cs) ?R (items_effect ts0 h h' \<circ> new_items h')"
    unfolding coded_def
  proof (intro conjI allI impI)
    fix rest ts
    show "CUploadJob_Unserialize api h' JOB_UPLOAD_V1_5
        (apsnd (new_items h') ((SafeWriteBlock UploadJobGuid_v1_5 @ cs) @ rest, ts)) =
        (Inr ?R, rest, (items_effect ts0 h h' \<circ> new_items h') ts)"
      using u not_schedulable_upload [OF items_effect_held Some]
      by (simp add: coded_def CUploadJob_Unserialize_def rbind_def)
  next
    fix k ts assume "k < length (SafeWriteBlock UploadJobGuid_v1_5 @ cs)"
    then have "fst (CUploadJob_Unserialize_data api h' JOB_UPLOAD_V1_5
        (take k (SafeWriteBlock UploadJobGuid_v1_5 @ cs), new_items h' ts)) = Inl (ComError E_INVALIDARG)"
      using u by (simp only: coded_def simp_thms)
    then show "fst (CUploadJob_Unserialize api h' JOB_UPLOAD_V1_5
        (apsnd (new_items h') (take k (SafeWriteBlock UploadJobGuid_v1_5 @ cs), ts))) = Inl (ComError E_INVALIDARG)"
      by (cases "CUploadJob_Unserialize_data api h' JOB_UPLOAD_V1_5
          (take k (SafeWriteBlock UploadJobGuid_v1_5 @ cs), new_items h' ts)")
        (simp add: CUploadJob_Unserialize_def rbind_def del: take_append)
  qed
  then have "coded (\<lambda>s. (if JOB_UPLOAD_V1_5 = JOB_UPLOAD_V1_5 then CUploadJob_Unserialize api h' JOB_UPLOAD_V1_5
       else CJob_Unserialize api h' JOB_UPLOAD_V1_5) (apsnd (new_items h') s))
      (SafeWriteBlock UploadJobGuid_v1_5 @ cs) ?R (items_effect ts0 h h' \<circ> new_items h')"
    by (simp only: simp_thms if_True)
  then show ?thesis
    unfolding Job_Serialize_def Some option.case cs
    by (rule coded_peek [OF coded_choice [OF choice_upload]])
qed

end
