(* ===== verification/StateContents.thy ===== *)
theory StateContents
  imports JobStorageLaws
begin

text \<open>
  Lists of jobs and the contents of the whole state file, read back.
\<close>

section \<open>Lists of jobs\<close>

text \<open>What reading the stored jobs does to the list of jobs and the scheduler.\<close>

fun restore_jobs :: "(nat \<Rightarrow> nat) \<Rightarrow> TaskScheduler \<Rightarrow> job_list \<Rightarrow> job_list \<times> TaskScheduler \<Rightarrow> job_list \<times> TaskScheduler" where
  "restore_jobs new ts0 [] s = s"
| "restore_jobs new ts0 ((h, x) # jobs) (l, ts) =
     (let h' = new (length l)
      in restore_jobs new ts0 jobs
           (l @ [(h', restored h' (IsWorkItemInScheduler (CJobRetryItem h) ts0) x)],
            items_effect ts0 h h' (new_items h' ts)))"

lemma coded_jobs:
  assumes "list_all (\<lambda>(h, x). storable api x) jobs"
  shows "coded (CJobList_Unserialize_Loop api new (length jobs)) (concat (map (\<lambda>(h, x). Job_Serialize api h ts0 x) jobs))
    () (restore_jobs new ts0 jobs)"
  using assms
proof (induction jobs)
  case Nil
  show ?case by (simp add: coded_def)
next
  case (Cons p jobs)
  obtain h x where p: "p = (h, x)" by fastforce
  let ?b = "Job_Serialize api h ts0 x" and ?bs = "concat (map (\<lambda>(h, x). Job_Serialize api h ts0 x) jobs)"
  have u: "coded (UnserializeJob api h') ?b (restored h' (IsWorkItemInScheduler (CJobRetryItem h) ts0) x)
      (items_effect ts0 h h' \<circ> new_items h')" for h'
    using Cons.prems by (intro coded_UnserializeJob) (simp add: p)
  have IH: "coded (CJobList_Unserialize_Loop api new (length jobs)) ?bs () (restore_jobs new ts0 jobs)"
    using Cons by simp
  show ?case
    unfolding coded_def
  proof (intro conjI allI impI)
    fix rest and s :: "job_list \<times> TaskScheduler"
    show "CJobList_Unserialize_Loop api new (length (p # jobs))
        (concat (map (\<lambda>(h, x). Job_Serialize api h ts0 x) (p # jobs)) @ rest, s) =
        (Inr (), rest, restore_jobs new ts0 (p # jobs) s)"
      using u IH by (cases s) (simp add: p coded_def Let_def)
  next
    fix k and s :: "job_list \<times> TaskScheduler"
    assume k: "k < length (concat (map (\<lambda>(h, x). Job_Serialize api h ts0 x) (p # jobs)))"
    obtain l ts where s: "s = (l, ts)" by fastforce
    let ?h = "new (length l)"
    show "fst (CJobList_Unserialize_Loop api new (length (p # jobs))
        (take k (concat (map (\<lambda>(h, x). Job_Serialize api h ts0 x) (p # jobs))), s)) = Inl (ComError E_INVALIDARG)"
    proof (cases "k < length ?b")
      case True
      then have "fst (UnserializeJob api ?h (take k ?b, ts)) = Inl (ComError E_INVALIDARG)"
        using u [of ?h] by (simp add: coded_def)
      then show ?thesis
        using True by (cases "UnserializeJob api ?h (take k ?b, ts)") (simp add: p s Let_def)
    next
      case False
      then have "UnserializeJob api ?h (?b @ take (k - length ?b) ?bs, ts) =
          (Inr (restored ?h (IsWorkItemInScheduler (CJobRetryItem h) ts0) x), take (k - length ?b) ?bs,
           (items_effect ts0 h ?h \<circ> new_items ?h) ts)"
        using u [of ?h] by (simp add: coded_def)
      then show ?thesis
        using False k IH by (simp add: p s coded_def Let_def)
    qed
  qed
qed

lemma coded_job_list:
  assumes "list_all (\<lambda>(h, x). storable api x) jobs" "length jobs < 2 ^ 32"
  shows "coded (CJobList_Unserialize api new) (CJobList_Serialize api ts0 jobs) () (restore_jobs new ts0 jobs)"
proof -
  have e: "coded (rbind (CJobList_Unserialize_Loop api new (length jobs)) (\<lambda>_. SafeReadBlock GroupListStorageGUID))
      (concat (map (\<lambda>(h, x). Job_Serialize api h ts0 x) jobs) @ SafeWriteBlock GroupListStorageGUID) ()
      ((\<lambda>s. s) \<circ> restore_jobs new ts0 jobs)"
    by (rule coded_bind, rule coded_jobs [OF assms(1)], rule coded_SafeReadBlock)
  show ?thesis
    unfolding CJobList_Unserialize_def CJobList_Serialize_def
    by (rule coded_block, rule coded_nat_sized [OF assms(2)]) (use e in \<open>simp add: o_def\<close>)
qed

lemma restore_jobs_append:
  "restore_jobs new ts0 (xs @ ys) s = restore_jobs new ts0 ys (restore_jobs new ts0 xs s)"
  by (induction new ts0 xs s rule: restore_jobs.induct) (simp_all add: Let_def)

section \<open>The contents of the state file\<close>

lemma coded_StateFile:
  assumes "list_all (\<lambda>(h, x). storable api x) (online @ offline)" "length online < 2 ^ 32" "length offline < 2 ^ 32"
  shows "coded (read_StateFile api new) (CJobManager_Serialize api ts0 online offline) ()
    (restore_jobs new ts0 (online @ offline))"
proof -
  have l: "coded (CJobList_Unserialize api new) (CJobList_Serialize api ts0 online) () (restore_jobs new ts0 online)"
    "coded (CJobList_Unserialize api new) (CJobList_Serialize api ts0 offline) () (restore_jobs new ts0 offline)"
    using assms by (simp_all add: coded_job_list)
  have e: "restore_jobs new ts0 (online @ offline) =
      ((\<lambda>s. s) \<circ> restore_jobs new ts0 offline) \<circ> restore_jobs new ts0 online"
    by (simp add: fun_eq_iff restore_jobs_append)
  show ?thesis
    unfolding read_StateFile_def CJobManager_Serialize_def e
    by (rule coded_block, rule coded_block, rule coded_bind, rule l(1), rule coded_bind, rule l(2),
        rule coded_block, rule coded_SafeReadBlock)
qed

lemma restore_jobs_list:
  "fst (restore_jobs new ts0 jobs (l, ts)) = l @ map (\<lambda>n. let (h, x) = jobs ! n; h' = new (length l + n)
     in (h', restored h' (IsWorkItemInScheduler (CJobRetryItem h) ts0) x)) [0..<length jobs]"
proof (induction jobs arbitrary: l ts)
  case (Cons p jobs)
  obtain h x where p: "p = (h, x)" by fastforce
  have u: "[0..<length (p # jobs)] = 0 # map Suc [0..<length jobs]"
    by (simp add: upt_conv_Cons map_Suc_upt del: upt_Suc)
  let ?h = "new (length l)"
  let ?y = "(?h, restored ?h (IsWorkItemInScheduler (CJobRetryItem h) ts0) x)"
  have "fst (restore_jobs new ts0 (p # jobs) (l, ts)) =
      fst (restore_jobs new ts0 jobs (l @ [?y], items_effect ts0 h ?h (new_items ?h ts)))"
    by (simp only: p restore_jobs.simps Let_def)
  also have "\<dots> = (l @ [?y]) @ map (\<lambda>n. let (h, x) = (p # jobs) ! Suc n; h' = new (length l + Suc n)
     in (h', restored h' (IsWorkItemInScheduler (CJobRetryItem h) ts0) x)) [0..<length jobs]"
    unfolding Cons.IH by simp
  finally show ?case
    unfolding u list.map map_map comp_def by (simp add: p Let_def)
qed simp

text \<open>The items of a job, as pairs of the stored and the restored one.\<close>

definition job_items :: "nat \<Rightarrow> nat \<Rightarrow> (WorkItem \<times> WorkItem) set" where
  "job_items h h' = {(CJobInactivityTimeout h, CJobInactivityTimeout h'), (CJobNoProgressItem h, CJobNoProgressItem h'),
     (CJobCallbackItem h, CJobCallbackItem h'), (CJobRetryItem h, CJobRetryItem h')}"

definition same_item :: "TaskScheduler \<Rightarrow> TaskScheduler \<Rightarrow> WorkItem \<times> WorkItem \<Rightarrow> bool" where
  "same_item ts0 ts = (\<lambda>(i, i'). IsWorkItemInScheduler i' ts = IsWorkItemInScheduler i ts0 \<and>
     (IsWorkItemInScheduler i ts0 \<longrightarrow> m_TimeToRun (WorkItems ts i') = m_TimeToRun (WorkItems ts0 i)))"

lemma items_effect_other:
  assumes "i \<notin> items_of h'"
  shows "IsWorkItemInScheduler i (items_effect ts0 h h' (new_items h' ts)) = IsWorkItemInScheduler i ts"
    "m_TimeToRun (WorkItems (items_effect ts0 h h' (new_items h' ts)) i) = m_TimeToRun (WorkItems ts i)"
  using assms by (auto simp: items_effect_def item_effect_held) (auto simp: new_items_def IsWorkItemInScheduler_def)

lemma items_effect_same:
  assumes "p \<in> job_items h h'"
  shows "same_item ts0 (items_effect ts0 h h' (new_items h' ts)) p"
  using assms
  by (auto simp: job_items_def same_item_def items_effect_def item_effect_held new_items_not_held)

lemma restore_jobs_other:
  assumes "\<And>n. length l \<le> n \<Longrightarrow> i \<notin> items_of (new n)"
  shows "IsWorkItemInScheduler i (snd (restore_jobs new ts0 jobs (l, ts))) = IsWorkItemInScheduler i ts \<and>
    m_TimeToRun (WorkItems (snd (restore_jobs new ts0 jobs (l, ts))) i) = m_TimeToRun (WorkItems ts i)"
  using assms
proof (induction jobs arbitrary: l ts)
  case (Cons p jobs)
  obtain h x where p: "p = (h, x)" by fastforce
  note IH = Cons.IH [of "l @ [(new (length l), restored (new (length l)) (IsWorkItemInScheduler (CJobRetryItem h) ts0) x)]"]
  show ?case
    using IH Cons.prems items_effect_other [OF Cons.prems [of "length l"]] by (simp add: p Let_def)
qed simp

lemma restore_jobs_items:
  assumes "inj new" "n < length jobs" "p \<in> job_items (fst (jobs ! n)) (new (length l + n))"
  shows "same_item ts0 (snd (restore_jobs new ts0 jobs (l, ts))) p"
  using assms(2,3)
proof (induction jobs arbitrary: l ts n)
  case (Cons q jobs)
  obtain h x where q: "q = (h, x)" by fastforce
  let ?h = "new (length l)"
  let ?l = "l @ [(?h, restored ?h (IsWorkItemInScheduler (CJobRetryItem h) ts0) x)]"
  let ?ts = "items_effect ts0 h ?h (new_items ?h ts)"
  show ?case
  proof (cases n)
    case 0
    then have p: "p \<in> job_items h ?h" using Cons.prems(2) by (simp add: q)
    have "snd p \<notin> items_of (new m)" if "length ?l \<le> m" for m
    proof -
      have n: "new m \<noteq> ?h" using that inj_eq [OF assms(1), of m "length l"] by simp
      show ?thesis using p unfolding job_items_def by (elim insertE emptyE) (simp_all add: n n [symmetric])
    qed
    note o = restore_jobs_other [of ?l "snd p" new ts0 jobs ?ts, OF this]
    have r: "restore_jobs new ts0 (q # jobs) (l, ts) = restore_jobs new ts0 jobs (?l, ?ts)"
      by (simp only: q restore_jobs.simps Let_def)
    show ?thesis
      using items_effect_same [OF p, of ts0 ts] o unfolding r same_item_def case_prod_unfold by simp
  next
    case (Suc m)
    then show ?thesis
      using Cons.IH [where n = m and l = ?l and ts = ?ts] Cons.prems
      by (simp only: q restore_jobs.simps Let_def) simp
  qed
qed simp

end
