(* ===== verification/StateFiles.thy ===== *)
theory StateFiles
  imports StateContents "HOL-Library.Sublist"
begin

text \<open>
  The two state files (\<open>CQmgrStateFiles\<close> of \<open>src/services/drizzle/newjob/metadata.cpp\<close>): the state is
  written to the file that is not current, which then becomes the current one by a value in the
  registry. Any call of the system may fail, and the machine may stop at any of them.
\<close>

section \<open>The disk\<close>

text \<open>
  The fate of a call: it works, it fails with a last error, or the machine stops. A write that
  does not work may have written some bytes; a value of the registry that is being set when the
  machine stops has the new value unless the number is \<open>0\<close>.
\<close>

datatype fate = Works | Fails "32 word" nat | Stops nat

datatype 'a outcome = Returns 'a | Throws HRESULT | Stopped

text \<open>
  The contents of the files \<open>0\<close> and \<open>1\<close>, the positions of their handles, whether their data have
  been flushed, the value \<open>StateIndex\<close> of the registry, the fates of the calls to come (all work
  when the list is empty), and the members of the object.
\<close>

record StateFiles =
  File :: "nat \<Rightarrow> bytes"
  FilePointer :: "nat \<Rightarrow> nat"
  Flushed :: "nat \<Rightarrow> bool"
  StateIndex :: "32 word option"
  Fates :: "fate list"
  m_ExpandSize :: "nat \<Rightarrow> 64 word"
  m_OriginalFileSizes :: "nat \<Rightarrow> nat"
  m_CurrentIndex :: nat

type_synonym 'a io = "StateFiles \<Rightarrow> 'a outcome \<times> StateFiles"

definition io_return :: "'a \<Rightarrow> 'a io" where
  "io_return x s = (Returns x, s)"

definition io_throw :: "HRESULT \<Rightarrow> 'a io" where
  "io_throw e s = (Throws e, s)"

definition io_bind :: "'a io \<Rightarrow> ('a \<Rightarrow> 'b io) \<Rightarrow> 'b io" where
  "io_bind m f s = (case m s of (Returns x, s) \<Rightarrow> f x s | (Throws e, s) \<Rightarrow> (Throws e, s) | (Stopped, s) \<Rightarrow> (Stopped, s))"

definition io_catch :: "'a io \<Rightarrow> (HRESULT \<Rightarrow> 'a io) \<Rightarrow> 'a io" where
  "io_catch m h s = (case m s of (Throws e, s) \<Rightarrow> h e s | r \<Rightarrow> r)"

definition io_do :: "(StateFiles \<Rightarrow> StateFiles) \<Rightarrow> unit io" where
  "io_do f s = (Returns (), f s)"

definition io_get :: "(StateFiles \<Rightarrow> 'a) \<Rightarrow> 'a io" where
  "io_get f s = (Returns (f s), s)"

text \<open>A call with its effect, and its effect when it does not work, by the number of its fate.\<close>

definition call :: "(StateFiles \<Rightarrow> StateFiles) \<Rightarrow> (nat \<Rightarrow> StateFiles \<Rightarrow> StateFiles)
    \<Rightarrow> (nat \<Rightarrow> StateFiles \<Rightarrow> StateFiles) \<Rightarrow> unit io" where
  "call f failing stopping s =
     (case Fates s of
        [] \<Rightarrow> (Returns (), f s)
      | Works # rest \<Rightarrow> (Returns (), f (s\<lparr>Fates := rest\<rparr>))
      | Fails e n # rest \<Rightarrow> (Throws (HRESULT_FROM_WIN32 e), failing n (s\<lparr>Fates := rest\<rparr>))
      | Stops n # rest \<Rightarrow> (Stopped, stopping n (s\<lparr>Fates := rest\<rparr>)))"

abbreviation plain_call :: "(StateFiles \<Rightarrow> StateFiles) \<Rightarrow> unit io" where
  "plain_call f \<equiv> call f (\<lambda>_ s. s) (\<lambda>_ s. s)"

definition set_File :: "nat \<Rightarrow> bytes \<Rightarrow> StateFiles \<Rightarrow> StateFiles" where
  "set_File i bs s = s\<lparr>File := (File s)(i := bs)\<rparr>"

definition set_FilePointer :: "nat \<Rightarrow> nat \<Rightarrow> StateFiles \<Rightarrow> StateFiles" where
  "set_FilePointer i p s = s\<lparr>FilePointer := (FilePointer s)(i := p)\<rparr>"

definition set_Flushed :: "nat \<Rightarrow> bool \<Rightarrow> StateFiles \<Rightarrow> StateFiles" where
  "set_Flushed i b s = s\<lparr>Flushed := (Flushed s)(i := b)\<rparr>"

definition set_ExpandSize :: "nat \<Rightarrow> 64 word \<Rightarrow> StateFiles \<Rightarrow> StateFiles" where
  "set_ExpandSize i w s = s\<lparr>m_ExpandSize := (m_ExpandSize s)(i := w)\<rparr>"

definition set_OriginalFileSize :: "nat \<Rightarrow> nat \<Rightarrow> StateFiles \<Rightarrow> StateFiles" where
  "set_OriginalFileSize i n s = s\<lparr>m_OriginalFileSizes := (m_OriginalFileSizes s)(i := n)\<rparr>"

text \<open>A file cut or padded with zeros to a size, and with data written at a position.\<close>

definition resized :: "nat \<Rightarrow> bytes \<Rightarrow> bytes" where
  "resized n bs = take n bs @ replicate (n - length bs) 0"

definition written :: "nat \<Rightarrow> bytes \<Rightarrow> bytes \<Rightarrow> bytes" where
  "written p data bs = resized p bs @ data @ drop (p + length data) bs"

section \<open>Calls on the files\<close>

definition BITSSetEndOfFile :: "nat \<Rightarrow> unit io" where
  "BITSSetEndOfFile i = plain_call (\<lambda>s. set_File i (resized (FilePointer s i) (File s i)) s)"

datatype MoveMethod = FILE_BEGIN | FILE_CURRENT | FILE_END

abbreviation ERROR_NEGATIVE_SEEK :: "32 word" where "ERROR_NEGATIVE_SEEK \<equiv> 131"

definition BITSSetFilePointer :: "nat \<Rightarrow> int \<Rightarrow> MoveMethod \<Rightarrow> nat io" where
  "BITSSetFilePointer i Offset MoveMethod =
     io_bind (io_get (\<lambda>s. Offset + (case MoveMethod of
        FILE_BEGIN \<Rightarrow> 0 | FILE_CURRENT \<Rightarrow> int (FilePointer s i) | FILE_END \<Rightarrow> int (length (File s i))))) (\<lambda>p.
     if p < 0 then io_throw (HRESULT_FROM_WIN32 ERROR_NEGATIVE_SEEK)
     else io_bind (plain_call (set_FilePointer i (nat p))) (\<lambda>_. io_return (nat p)))"

definition BITSGetFileSize :: "nat \<Rightarrow> nat io" where
  "BITSGetFileSize i = io_bind (plain_call (\<lambda>s. s)) (\<lambda>_. io_get (\<lambda>s. length (File s i)))"

definition BITSFlushFileBuffers :: "nat \<Rightarrow> unit io" where
  "BITSFlushFileBuffers i = plain_call (set_Flushed i True)"

definition write_at :: "nat \<Rightarrow> bytes \<Rightarrow> StateFiles \<Rightarrow> StateFiles" where
  "write_at i data s =
     set_Flushed i False (set_FilePointer i (FilePointer s i + length data)
       (set_File i (written (FilePointer s i) data (File s i)) s))"

text \<open>A write of too few bytes throws as well.\<close>

definition io_SafeWriteFile :: "nat \<Rightarrow> bytes \<Rightarrow> unit io" where
  "io_SafeWriteFile i data =
     call (write_at i data) (\<lambda>n. write_at i (take n data)) (\<lambda>n. write_at i (take n data))"

text \<open>
  The registry, whose functions return an error instead of throwing. The value is the one that
  programs see; \<open>RegSetValueEx\<close> without \<open>RegFlushKey\<close> leaves it to the system to write it to the
  disk later, see \<open>life\<close>.
\<close>

definition SetRegDWordValue :: "32 word \<Rightarrow> unit io" where
  "SetRegDWordValue v =
     call (\<lambda>s. s\<lparr>StateIndex := Some v\<rparr>) (\<lambda>_ s. s) (\<lambda>n s. if n = 0 then s else s\<lparr>StateIndex := Some v\<rparr>)"

section \<open>Opening the files\<close>

abbreviation METADATA_PADDING :: nat where "METADATA_PADDING \<equiv> 4096"

text \<open>The blocks of an empty state, one write each.\<close>

definition EmptyMetadata :: "bytes list" where
  "EmptyMetadata =
     [SafeWriteBlock QmgrStateStorageGUID, SafeWriteBlock PriorityQueuesStorageGUID,
      SafeWriteBlock GroupListStorageGUID, SafeWriteFile (0 :: 32 word), SafeWriteBlock GroupListStorageGUID,
      SafeWriteBlock GroupListStorageGUID, SafeWriteFile (0 :: 32 word), SafeWriteBlock GroupListStorageGUID,
      SafeWriteBlock PriorityQueuesStorageGUID, SafeWriteBlock QmgrStateStorageGUID]"

primrec write_all :: "nat \<Rightarrow> bytes list \<Rightarrow> unit io" where
  "write_all i [] = io_return ()"
| "write_all i (data # rest) = io_bind (io_SafeWriteFile i data) (\<lambda>_. write_all i rest)"

definition WriteEmptyMetadataFile :: "nat \<Rightarrow> unit io" where
  "WriteEmptyMetadataFile i =
     io_bind (BITSSetFilePointer i 0 FILE_BEGIN) (\<lambda>_. write_all i EmptyMetadata)"

text \<open>A file that does not exist is created empty.\<close>

definition OpenMetadataFile :: "nat \<Rightarrow> unit io" where
  "OpenMetadataFile i =
     io_bind (plain_call (set_FilePointer i 0)) (\<lambda>_.
     io_bind (BITSGetFileSize i) (\<lambda>size.
     if size < METADATA_PADDING then
       io_bind (BITSSetFilePointer i (int METADATA_PADDING) FILE_BEGIN) (\<lambda>_.
       io_bind (BITSSetEndOfFile i) (\<lambda>_.
       io_bind (WriteEmptyMetadataFile i) (\<lambda>_.
       io_bind (BITSSetFilePointer i 0 FILE_BEGIN) (\<lambda>_. io_return ()))))
     else io_return ()))"

text \<open>A value that cannot be read or is not an index counts as \<open>0\<close>.\<close>

definition CQmgrStateFiles_create :: "unit io" where
  "CQmgrStateFiles_create =
     io_bind (OpenMetadataFile 0) (\<lambda>_.
     io_bind (io_do (set_ExpandSize 0 0 \<circ> set_OriginalFileSize 0 0)) (\<lambda>_.
     io_bind (OpenMetadataFile 1) (\<lambda>_.
     io_bind (io_do (set_ExpandSize 1 0 \<circ> set_OriginalFileSize 1 0)) (\<lambda>_.
     io_bind (io_catch (io_bind (plain_call (\<lambda>s. s)) (\<lambda>_. io_get StateIndex)) (\<lambda>_. io_return None)) (\<lambda>v.
       io_do (\<lambda>s. s\<lparr>m_CurrentIndex := (case v of Some w \<Rightarrow> if 1 < w then 0 else unat w | None \<Rightarrow> 0)\<rparr>))))))"

section \<open>Writing a state\<close>

definition GetNextStateFile :: "nat io" where
  "GetNextStateFile =
     io_bind (io_get (\<lambda>s. (m_CurrentIndex s + 1) mod 2)) (\<lambda>dwNextIndex.
     io_bind (BITSSetFilePointer dwNextIndex 0 FILE_BEGIN) (\<lambda>_. io_return dwNextIndex))"

definition GetCurrentStateFile :: "nat io" where
  "GetCurrentStateFile =
     io_bind (io_get m_CurrentIndex) (\<lambda>i. io_bind (BITSSetFilePointer i 0 FILE_BEGIN) (\<lambda>_. io_return i))"

text \<open>The end of \<open>UpdateStateFile\<close>, whose errors are only logged.\<close>

definition ShrinkBackup :: "nat \<Rightarrow> nat \<Rightarrow> unit io" where
  "ShrinkBackup Old New =
     io_bind (io_get (\<lambda>s. m_ExpandSize s Old)) (\<lambda>w.
     if w = 0 then io_return ()
     else io_catch
       (io_bind (BITSGetFileSize New) (\<lambda>NewSize.
        io_bind (io_get (\<lambda>s. m_OriginalFileSizes s Old)) (\<lambda>orig.
        io_bind (if orig < NewSize
                 then io_bind (BITSSetFilePointer Old (int NewSize) FILE_BEGIN) (\<lambda>_. BITSSetEndOfFile Old)
                 else io_return ()) (\<lambda>_.
          io_do (set_ExpandSize Old 0 \<circ> set_OriginalFileSize Old 0)))))
       (\<lambda>_. io_return ()))"

definition UpdateStateFile :: "unit io" where
  "UpdateStateFile =
     io_bind (io_get m_CurrentIndex) (\<lambda>Old.
     (let New = (Old + 1) mod 2 in
     io_bind (BITSSetFilePointer New 0 FILE_CURRENT) (\<lambda>CurrentPosition.
     io_bind (BITSGetFileSize New) (\<lambda>CurrentFileSize.
     io_bind (if int METADATA_PADDING < int CurrentFileSize - int CurrentPosition
              then io_bind (BITSSetFilePointer New (int METADATA_PADDING) FILE_CURRENT) (\<lambda>_. BITSSetEndOfFile New)
              else io_return ()) (\<lambda>_.
     io_bind (BITSFlushFileBuffers New) (\<lambda>_.
     io_bind (io_do (set_OriginalFileSize New 0 \<circ> set_ExpandSize New 0)) (\<lambda>_.
     io_bind (SetRegDWordValue (word_of_nat New)) (\<lambda>_.
     io_bind (io_do (\<lambda>s. s\<lparr>m_CurrentIndex := New\<rparr>)) (\<lambda>_.
       ShrinkBackup Old New)))))))))"

text \<open>
  A \<open>CQmgrWriteStateFile\<close> from its constructor to \<open>CommitFile\<close>, with what is written through its handle,
  write by write, between the two ends of the block.
\<close>

definition block_of :: "bytes list \<Rightarrow> bytes list" where
  "block_of writes = [SafeWriteBlock QmgrStateStorageGUID] @ writes @ [SafeWriteBlock QmgrStateStorageGUID]"

definition WriteState :: "bytes list \<Rightarrow> unit io" where
  "WriteState writes =
     io_bind GetNextStateFile (\<lambda>i. io_bind (write_all i (block_of writes)) (\<lambda>_. UpdateStateFile))"

section \<open>Room for changes\<close>

text \<open>\<open>OriginalExpansion\<close> keeps the 64-bit sizes in variables of 32 bits.\<close>

definition RecordSize :: "nat \<Rightarrow> unit io" where
  "RecordSize i =
     io_bind (io_get (\<lambda>s. m_ExpandSize s i)) (\<lambda>w.
     if w = 0 then io_bind (BITSGetFileSize i) (\<lambda>size. io_do (set_OriginalFileSize i size))
     else io_return ())"

definition ExtendFile :: "nat \<Rightarrow> nat \<Rightarrow> unit io" where
  "ExtendFile ExtendAmount i =
     io_bind (BITSSetFilePointer i (int ExtendAmount) FILE_END) (\<lambda>_. BITSSetEndOfFile i)"

definition UnextendFile :: "nat \<Rightarrow> 32 word \<Rightarrow> nat \<Rightarrow> unit io" where
  "UnextendFile ExtendAmount OriginalExpansion i =
     io_catch
       (io_bind (BITSSetFilePointer i (- int ExtendAmount) FILE_END) (\<lambda>_.
        io_bind (BITSSetEndOfFile i) (\<lambda>_. io_do (set_ExpandSize i (ucast OriginalExpansion)))))
       (\<lambda>_. io_return ())"

definition Expanded :: "nat \<Rightarrow> nat \<Rightarrow> unit io" where
  "Expanded ExtendAmount i = io_do (\<lambda>s. set_ExpandSize i (m_ExpandSize s i + word_of_nat ExtendAmount) s)"

text \<open>
  The loops over the two files are written out: when the first cannot be extended, none was;
  when the second cannot, the first is taken back.
\<close>

definition ExtendMetadata :: "nat \<Rightarrow> unit io" where
  "ExtendMetadata ExtendAmount =
     io_bind (io_get (\<lambda>s. ucast (m_ExpandSize s 0))) (\<lambda>OriginalExpansion0.
     io_bind (RecordSize 0) (\<lambda>_.
     io_bind (RecordSize 1) (\<lambda>_.
     io_bind (ExtendFile ExtendAmount 0) (\<lambda>_.
     io_bind (Expanded ExtendAmount 0) (\<lambda>_.
       io_catch
         (io_bind (ExtendFile ExtendAmount 1) (\<lambda>_. Expanded ExtendAmount 1))
         (\<lambda>e. io_bind (UnextendFile ExtendAmount OriginalExpansion0 0) (\<lambda>_. io_throw e)))))))"

definition ShrinkFile :: "nat \<Rightarrow> unit io" where
  "ShrinkFile i =
     io_catch
       (io_bind (io_get (\<lambda>s. (m_ExpandSize s i, m_OriginalFileSizes s i))) (\<lambda>(w, orig).
        if w = 0 then io_return ()
        else
          io_bind (BITSSetFilePointer i (int orig) FILE_BEGIN) (\<lambda>_.
          io_bind (BITSSetEndOfFile i) (\<lambda>_.
            io_do (set_ExpandSize i 0 \<circ> set_OriginalFileSize i 0)))))
       (\<lambda>_. io_return ())"

definition ShrinkMetadata :: "unit io" where
  "ShrinkMetadata = io_bind (ShrinkFile 0) (\<lambda>_. ShrinkFile 1)"

end
