(* ===== verification/CrashSafety.thy ===== *)
theory CrashSafety
  imports StateFiles
begin

text \<open>
  Whatever calls fail and wherever the machine stops, the state that was committed last is never
  damaged. The proofs are by weakest preconditions: \<open>wp m Q E C\<close> holds of the states from which
  \<open>m\<close> returns into \<open>Q\<close>, throws into \<open>E\<close>, or stops in \<open>C\<close>.
\<close>

section \<open>Weakest preconditions\<close>

definition wp :: "'a io \<Rightarrow> ('a \<Rightarrow> StateFiles \<Rightarrow> bool) \<Rightarrow> (StateFiles \<Rightarrow> bool) \<Rightarrow> (StateFiles \<Rightarrow> bool)
    \<Rightarrow> StateFiles \<Rightarrow> bool" where
  "wp m Q E C s \<longleftrightarrow> (case m s of (Returns x, s) \<Rightarrow> Q x s | (Throws e, s) \<Rightarrow> E s | (Stopped, s) \<Rightarrow> C s)"

lemma wp_bind [simp]: "wp (io_bind m f) Q E C = wp m (\<lambda>x. wp (f x) Q E C) E C"
  by (auto simp: fun_eq_iff wp_def io_bind_def split: prod.splits outcome.splits)

lemma wp_return [simp]: "wp (io_return x) Q E C = Q x"
  by (simp add: fun_eq_iff wp_def io_return_def)

lemma wp_throw [simp]: "wp (io_throw e) Q E C = E"
  by (simp add: fun_eq_iff wp_def io_throw_def)

lemma wp_do [simp]: "wp (io_do f) Q E C = (\<lambda>s. Q () (f s))"
  by (simp add: fun_eq_iff wp_def io_do_def)

lemma wp_get [simp]: "wp (io_get f) Q E C = (\<lambda>s. Q (f s) s)"
  by (simp add: fun_eq_iff wp_def io_get_def)

lemma wp_if [simp]: "wp (if b then m else n) Q E C s = (if b then wp m Q E C s else wp n Q E C s)"
  by simp

lemma wp_catch: "wp m Q (\<lambda>s. \<forall>e. wp (h e) Q E C s) C s \<Longrightarrow> wp (io_catch m h) Q E C s"
  by (auto simp: wp_def io_catch_def split: prod.splits outcome.splits)

lemma wp_call:
  assumes "\<And>fs. Q () (f (s\<lparr>Fates := fs\<rparr>))" "\<And>n fs. E (failing n (s\<lparr>Fates := fs\<rparr>))"
    "\<And>n fs. C (stopping n (s\<lparr>Fates := fs\<rparr>))"
  shows "wp (call f failing stopping) Q E C s"
proof (cases "Fates s")
  case Nil
  then have "s\<lparr>Fates := []\<rparr> = s" by simp
  then show ?thesis using assms(1) [of "[]"] Nil by (simp only: wp_def call_def list.case prod.case outcome.case)
next
  case (Cons a fs)
  then show ?thesis using assms by (cases a) (simp_all add: wp_def call_def)
qed

lemma wp_mono:
  assumes "wp m Q E C s" "\<And>x s. Q x s \<Longrightarrow> Q' x s" "\<And>s. E s \<Longrightarrow> E' s" "\<And>s. C s \<Longrightarrow> C' s"
  shows "wp m Q' E' C' s"
  using assms by (auto simp: wp_def split: prod.splits outcome.splits)

section \<open>The state on disk\<close>

definition current :: "StateFiles \<Rightarrow> nat" where
  "current s = (case StateIndex s of Some w \<Rightarrow> if 1 < w then 0 else unat w | None \<Rightarrow> 0)"

text \<open>What survives a stop of the machine: the flushed file that the registry names begins with \<open>c\<close>.\<close>

definition saved :: "bytes \<Rightarrow> StateFiles \<Rightarrow> bool" where
  "saved c s \<longleftrightarrow> prefix c (File s (current s)) \<and> METADATA_PADDING \<le> length (File s (current s)) \<and>
     Flushed s (current s)"

text \<open>
  The length that a file needs, which is also the least size it may be cut to later. \<open>good c\<close> holds
  between the operations of the service.
\<close>

definition need :: "bytes \<Rightarrow> StateFiles \<Rightarrow> nat \<Rightarrow> nat" where
  "need c s i = max METADATA_PADDING (length (if i = current s then c else []))"

definition good :: "bytes \<Rightarrow> StateFiles \<Rightarrow> bool" where
  "good c s \<longleftrightarrow> m_CurrentIndex s = current s \<and> saved c s \<and>
     (\<forall>i < 2. need c s i \<le> length (File s i) \<and> (m_ExpandSize s i \<noteq> 0 \<longrightarrow> need c s i \<le> m_OriginalFileSizes s i))"

lemma current_less: "current s < 2"
proof -
  have "unat w < 2" if "\<not> 1 < w" for w :: "32 word"
    using that by (simp add: word_less_nat_alt)
  then show ?thesis by (auto simp: current_def split: option.split)
qed

lemma prefix_resized: "prefix c bs \<Longrightarrow> length c \<le> n \<Longrightarrow> prefix c (resized n bs)"
  by (auto simp: prefix_def resized_def)

lemma length_resized [simp]: "length (resized n bs) = n"
  by (simp add: resized_def)

lemma length_written [simp]: "length (written p data bs) = max (length bs) (p + length data)"
  by (simp add: written_def)

lemma written_append: "written (length c) data (c @ bs) = c @ data @ drop (length data) bs"
  by (simp add: written_def resized_def)

lemma current_simps [simp]:
  "current (s\<lparr>Fates := fs\<rparr>) = current s" "current (set_File i bs s) = current s"
  "current (set_FilePointer i p s) = current s" "current (set_Flushed i b s) = current s"
  "current (set_ExpandSize i w s) = current s" "current (set_OriginalFileSize i n s) = current s"
  "current (s\<lparr>m_CurrentIndex := k\<rparr>) = current s" "current (write_at i data s) = current s"
  by (simp_all add: current_def set_File_def set_FilePointer_def set_Flushed_def set_ExpandSize_def
    set_OriginalFileSize_def write_at_def)

lemma File_simps [simp]:
  "File (set_File i bs s) = (File s)(i := bs)" "File (set_FilePointer i p s) = File s"
  "File (set_Flushed i b s) = File s" "File (set_ExpandSize i w s) = File s"
  "File (set_OriginalFileSize i n s) = File s"
  "File (write_at i data s) = (File s)(i := written (FilePointer s i) data (File s i))"
  by (simp_all add: set_File_def set_FilePointer_def set_Flushed_def set_ExpandSize_def
    set_OriginalFileSize_def write_at_def)

lemma FilePointer_simps [simp]:
  "FilePointer (set_File i bs s) = FilePointer s" "FilePointer (set_FilePointer i p s) = (FilePointer s)(i := p)"
  "FilePointer (set_Flushed i b s) = FilePointer s" "FilePointer (set_ExpandSize i w s) = FilePointer s"
  "FilePointer (set_OriginalFileSize i n s) = FilePointer s"
  "FilePointer (write_at i data s) = (FilePointer s)(i := FilePointer s i + length data)"
  by (simp_all add: set_File_def set_FilePointer_def set_Flushed_def set_ExpandSize_def
    set_OriginalFileSize_def write_at_def)

lemma Flushed_simps [simp]:
  "Flushed (set_File i bs s) = Flushed s" "Flushed (set_FilePointer i p s) = Flushed s"
  "Flushed (set_Flushed i b s) = (Flushed s)(i := b)" "Flushed (set_ExpandSize i w s) = Flushed s"
  "Flushed (set_OriginalFileSize i n s) = Flushed s" "Flushed (write_at i data s) = (Flushed s)(i := False)"
  by (simp_all add: set_File_def set_FilePointer_def set_Flushed_def set_ExpandSize_def
    set_OriginalFileSize_def write_at_def)

lemma member_simps [simp]:
  "m_ExpandSize (set_File i bs s) = m_ExpandSize s" "m_ExpandSize (set_FilePointer i p s) = m_ExpandSize s"
  "m_ExpandSize (set_Flushed i b s) = m_ExpandSize s" "m_ExpandSize (write_at i data s) = m_ExpandSize s"
  "m_ExpandSize (set_ExpandSize i w s) = (m_ExpandSize s)(i := w)"
  "m_ExpandSize (set_OriginalFileSize i n s) = m_ExpandSize s"
  "m_OriginalFileSizes (set_File i bs s) = m_OriginalFileSizes s"
  "m_OriginalFileSizes (set_FilePointer i p s) = m_OriginalFileSizes s"
  "m_OriginalFileSizes (set_Flushed i b s) = m_OriginalFileSizes s"
  "m_OriginalFileSizes (write_at i data s) = m_OriginalFileSizes s"
  "m_OriginalFileSizes (set_ExpandSize i w s) = m_OriginalFileSizes s"
  "m_OriginalFileSizes (set_OriginalFileSize i n s) = (m_OriginalFileSizes s)(i := n)"
  "m_CurrentIndex (set_File i bs s) = m_CurrentIndex s" "m_CurrentIndex (set_FilePointer i p s) = m_CurrentIndex s"
  "m_CurrentIndex (set_Flushed i b s) = m_CurrentIndex s" "m_CurrentIndex (write_at i data s) = m_CurrentIndex s"
  "m_CurrentIndex (set_ExpandSize i w s) = m_CurrentIndex s"
  "m_CurrentIndex (set_OriginalFileSize i n s) = m_CurrentIndex s"
  by (simp_all add: set_File_def set_FilePointer_def set_Flushed_def set_ExpandSize_def
    set_OriginalFileSize_def write_at_def)

lemma wp_SetFilePointer:
  assumes "0 \<le> p \<Longrightarrow> (\<And>fs. Q (nat p) (set_FilePointer i (nat p) (s\<lparr>Fates := fs\<rparr>)))" "E s"
    "\<And>fs. E (s\<lparr>Fates := fs\<rparr>)" "\<And>fs. C (s\<lparr>Fates := fs\<rparr>)"
    "p = Offset + (case M of FILE_BEGIN \<Rightarrow> 0 | FILE_CURRENT \<Rightarrow> int (FilePointer s i) | FILE_END \<Rightarrow> int (length (File s i)))"
  shows "wp (BITSSetFilePointer i Offset M) Q E C s"
proof -
  have "wp (if p < 0 then io_throw (HRESULT_FROM_WIN32 ERROR_NEGATIVE_SEEK)
     else io_bind (plain_call (set_FilePointer i (nat p))) (\<lambda>_. io_return (nat p))) Q E C s"
  proof (cases "p < 0")
    case True
    then show ?thesis using assms(2) by simp
  next
    case False
    then have "wp (plain_call (set_FilePointer i (nat p))) (\<lambda>_. Q (nat p)) E C s"
      by (intro wp_call assms(1,3,4)) simp
    then show ?thesis using False by simp
  qed
  then show ?thesis
    by (simp only: BITSSetFilePointer_def wp_bind wp_get assms(5))
qed

lemma wp_SetEndOfFile:
  assumes "\<And>fs. Q () (set_File i (resized (FilePointer s i) (File s i)) (s\<lparr>Fates := fs\<rparr>))"
    "\<And>fs. E (s\<lparr>Fates := fs\<rparr>)" "\<And>fs. C (s\<lparr>Fates := fs\<rparr>)"
  shows "wp (BITSSetEndOfFile i) Q E C s"
  unfolding BITSSetEndOfFile_def by (rule wp_call) (simp_all add: assms)

lemma wp_GetFileSize:
  assumes "\<And>fs. Q (length (File s i)) (s\<lparr>Fates := fs\<rparr>)" "\<And>fs. E (s\<lparr>Fates := fs\<rparr>)" "\<And>fs. C (s\<lparr>Fates := fs\<rparr>)"
  shows "wp (BITSGetFileSize i) Q E C s"
  unfolding BITSGetFileSize_def wp_bind wp_get by (rule wp_call) (simp_all add: assms)

lemma wp_Flush:
  assumes "\<And>fs. Q () (set_Flushed i True (s\<lparr>Fates := fs\<rparr>))" "\<And>fs. E (s\<lparr>Fates := fs\<rparr>)" "\<And>fs. C (s\<lparr>Fates := fs\<rparr>)"
  shows "wp (BITSFlushFileBuffers i) Q E C s"
  unfolding BITSFlushFileBuffers_def by (rule wp_call) (simp_all add: assms)

text \<open>What the conditions do not depend on.\<close>

lemma conditions_simps [simp]:
  "good c (s\<lparr>Fates := fs\<rparr>) = good c s" "saved c (s\<lparr>Fates := fs\<rparr>) = saved c s"
  "need c (s\<lparr>Fates := fs\<rparr>) = need c s"
  "good c (set_FilePointer i p s) = good c s" "saved c (set_FilePointer i p s) = saved c s"
  "need c (set_FilePointer i p s) = need c s" "need c (set_File i bs s) = need c s"
  "need c (set_Flushed i b s) = need c s" "need c (set_ExpandSize i w s) = need c s"
  "need c (set_OriginalFileSize i n s) = need c s" "need c (write_at i data s) = need c s"
  "saved c (set_ExpandSize i w s) = saved c s" "saved c (set_OriginalFileSize i n s) = saved c s"
  by (simp_all add: good_def saved_def need_def fun_eq_iff)

lemma good_saved: "good c s \<Longrightarrow> saved c s"
  by (simp add: good_def)

lemma good_need: "good c s \<Longrightarrow> i < 2 \<Longrightarrow> need c s i \<le> length (File s i)"
  by (simp add: good_def)

lemma need_current: "length c \<le> need c s (current s)" "METADATA_PADDING \<le> need c s i"
  by (simp_all add: need_def)

text \<open>Cutting or extending a file to a size that it needs at least.\<close>

lemma saved_resized:
  assumes "saved c s" "i = current s \<Longrightarrow> need c s i \<le> n"
  shows "saved c (set_File i (resized n (File s i)) s)"
  using assms prefix_resized [of c "File s (current s)" n] by (auto simp: saved_def need_def)

lemma good_resized:
  assumes "good c s" "i < 2 \<Longrightarrow> need c s i \<le> n"
  shows "good c (set_File i (resized n (File s i)) s)"
  using assms saved_resized [of c s i n] current_less [of s] by (auto simp: good_def)

lemma good_ExpandSize:
  assumes "good c s" "i < 2 \<Longrightarrow> w \<noteq> 0 \<Longrightarrow> need c s i \<le> m_OriginalFileSizes s i"
  shows "good c (set_ExpandSize i w s)"
  using assms by (auto simp: good_def)

lemma good_OriginalFileSize:
  assumes "good c s" "i < 2 \<Longrightarrow> m_ExpandSize s i \<noteq> 0 \<Longrightarrow> need c s i \<le> n"
  shows "good c (set_OriginalFileSize i n s)"
  using assms by (auto simp: good_def)

lemma good_reset: "good c s \<Longrightarrow> good c (set_ExpandSize i 0 (set_OriginalFileSize i n s))"
  by (auto simp: good_def)

section \<open>Room for changes\<close>

definition recorded :: "bytes \<Rightarrow> nat \<Rightarrow> StateFiles \<Rightarrow> bool" where
  "recorded c i s \<longleftrightarrow> good c s \<and> need c s i \<le> m_OriginalFileSizes s i"

lemma wp_RecordSize:
  assumes "good c s" "i < 2"
  shows "wp (RecordSize i) (\<lambda>_ t. recorded c i t \<and> (\<forall>k. k \<noteq> i \<longrightarrow> recorded c k s \<longrightarrow> recorded c k t)) (good c) (saved c) s"
proof (cases "m_ExpandSize s i = 0")
  case True
  have "recorded c i (set_OriginalFileSize i (length (File s i)) (s\<lparr>Fates := fs\<rparr>))" for fs
    using assms True good_OriginalFileSize [of c "s\<lparr>Fates := fs\<rparr>" i "length (File s i)"]
    by (auto simp: recorded_def dest: good_need)
  moreover have "recorded c k (set_OriginalFileSize i (length (File s i)) (s\<lparr>Fates := fs\<rparr>))" if "k \<noteq> i" "recorded c k s" for fs k
    using assms True that good_OriginalFileSize [of c "s\<lparr>Fates := fs\<rparr>" i "length (File s i)"]
    by (auto simp: recorded_def)
  ultimately show ?thesis
    using assms True good_saved [OF assms(1)]
    unfolding RecordSize_def by (auto intro!: wp_GetFileSize)
next
  case False
  then show ?thesis
    using assms unfolding RecordSize_def by (auto simp: recorded_def good_def)
qed

lemma wp_ExtendFile:
  assumes "good c s"
  shows "wp (ExtendFile n i) (\<lambda>_ t. good c t \<and> length (File t i) = length (File s i) + n \<and>
      (\<forall>k. k \<noteq> i \<longrightarrow> File t k = File s k) \<and> m_OriginalFileSizes t = m_OriginalFileSizes s \<and> current t = current s)
    (\<lambda>t. good c t \<and> File t = File s \<and> m_OriginalFileSizes t = m_OriginalFileSizes s \<and> current t = current s) (saved c) s"
proof -
  have g: "good c (set_File i (resized (length (File s i) + n) (File s i)) s)"
    by (rule good_resized [OF assms]) (use good_need [OF assms, of i] in simp)
  have g': "good c (set_File i (resized (nat (int n + int (length (File s i)))) (File s i))
      (set_FilePointer i (nat (int n + int (length (File s i)))) (s\<lparr>Fates := fs\<rparr>)\<lparr>Fates := fs'\<rparr>))" for fs fs'
  proof -
    have "nat (int n + int (length (File s i))) = length (File s i) + n" by simp
    then show ?thesis using g by (simp add: good_def saved_def need_def)
  qed
  show ?thesis
    unfolding ExtendFile_def wp_bind
    by (rule wp_SetFilePointer, rule wp_SetEndOfFile)
      (use assms good_saved [OF assms] g' in \<open>auto simp: nat_add_distrib\<close>)
qed

lemma recorded_good: "recorded c i s \<Longrightarrow> good c s"
  by (simp add: recorded_def)

lemma wp_UnextendFile:
  assumes "recorded c i s" "need c s i + n \<le> length (File s i)"
  shows "wp (UnextendFile n w i) (\<lambda>_. good c) (good c) (saved c) s"
proof -
  have g: "good c s" "saved c s" "need c s i \<le> m_OriginalFileSizes s i"
    using assms(1) by (auto simp: recorded_def dest: good_saved)
  have p: "need c s i \<le> nat (int (length (File s i)) - int n)"
    using assms(2) by linarith
  have c: "good c (set_File i (resized (nat (int (length (File s i)) - int n)) (File s i))
      (set_FilePointer i (nat (int (length (File s i)) - int n)) (s\<lparr>Fates := fs\<rparr>)\<lparr>Fates := fs'\<rparr>))" for fs fs'
    using good_resized [of c "set_FilePointer i (nat (int (length (File s i)) - int n)) (s\<lparr>Fates := fs\<rparr>)\<lparr>Fates := fs'\<rparr>"] g p
    by simp
  show ?thesis
    unfolding UnextendFile_def
    by (rule wp_catch, simp only: wp_bind, rule wp_SetFilePointer, rule wp_SetEndOfFile)
      (use g in \<open>auto intro!: c good_ExpandSize\<close>)
qed

lemma wp_Expanded:
  assumes "recorded c i s"
  shows "wp (Expanded n i) (\<lambda>_ t. good c t \<and> recorded c i t \<and> File t = File s \<and>
      m_OriginalFileSizes t = m_OriginalFileSizes s \<and> current t = current s) E C s"
  using assms by (auto simp: Expanded_def recorded_def intro!: good_ExpandSize)

lemma need_cong: "current t = current s \<Longrightarrow> need c t = need c s"
  by (simp add: need_def fun_eq_iff)

lemma wp_ExtendMetadata:
  assumes "good c s"
  shows "wp (ExtendMetadata n) (\<lambda>_. good c) (good c) (saved c) s"
proof -
  have two: "wp (io_catch (io_bind (ExtendFile n 1) (\<lambda>_. Expanded n 1))
      (\<lambda>e. io_bind (UnextendFile n w 0) (\<lambda>_. io_throw e))) (\<lambda>_. good c) (good c) (saved c) t"
    if "recorded c 0 t" "recorded c 1 t" "need c t 0 + n \<le> length (File t 0)" for t w
  proof (rule wp_catch, simp only: wp_bind, rule wp_mono [OF wp_ExtendFile [OF recorded_good [OF that(1)]]])
    show "wp (Expanded n 1) (\<lambda>_. good c) (\<lambda>s. \<forall>e. wp (UnextendFile n w 0) (\<lambda>x. wp (io_throw e) (\<lambda>_. good c) (good c) (saved c)) (good c) (saved c) s) (saved c) u"
      if "good c u \<and> length (File u 1) = length (File t 1) + n \<and> (\<forall>k. k \<noteq> 1 \<longrightarrow> File u k = File t k) \<and>
        m_OriginalFileSizes u = m_OriginalFileSizes t \<and> current u = current t" for u
    proof (rule wp_mono [OF wp_Expanded])
      show "recorded c 1 u" using that \<open>recorded c 1 t\<close> need_cong [of u t c] by (simp add: recorded_def)
    qed auto
    show "\<forall>e. wp (UnextendFile n w 0) (\<lambda>x. wp (io_throw e) (\<lambda>_. good c) (good c) (saved c)) (good c) (saved c) u"
      if "good c u \<and> File u = File t \<and> m_OriginalFileSizes u = m_OriginalFileSizes t \<and> current u = current t" for u
      using that \<open>recorded c 0 t\<close> \<open>need c t 0 + n \<le> length (File t 0)\<close> need_cong [of u t c] wp_UnextendFile [of c 0 u n w]
      by (simp add: recorded_def)
  qed auto
  have one: "wp (io_bind (ExtendFile n 0) (\<lambda>_. io_bind (Expanded n 0) (\<lambda>_.
      io_catch (io_bind (ExtendFile n 1) (\<lambda>_. Expanded n 1))
        (\<lambda>e. io_bind (UnextendFile n w 0) (\<lambda>_. io_throw e))))) (\<lambda>_. good c) (good c) (saved c) t"
    if "recorded c 0 t" "recorded c 1 t" for t w
    unfolding wp_bind [of "ExtendFile n 0"]
  proof (rule wp_mono [OF wp_ExtendFile [OF recorded_good [OF that(1)]]])
    fix u
    assume u: "good c u \<and> length (File u 0) = length (File t 0) + n \<and> (\<forall>k. k \<noteq> 0 \<longrightarrow> File u k = File t k) \<and>
      m_OriginalFileSizes u = m_OriginalFileSizes t \<and> current u = current t"
    then have r: "recorded c 0 u" "recorded c 1 u" "need c u 0 + n \<le> length (File u 0)"
      using that need_cong [of u t c] good_need [of c t 0] by (auto simp: recorded_def)
    show "wp (io_bind (Expanded n 0) (\<lambda>_. io_catch (io_bind (ExtendFile n 1) (\<lambda>_. Expanded n 1))
        (\<lambda>e. io_bind (UnextendFile n w 0) (\<lambda>_. io_throw e)))) (\<lambda>_. good c) (good c) (saved c) u"
      unfolding wp_bind [of "Expanded n 0"]
    proof (rule wp_mono [OF wp_Expanded [OF r(1)]])
      fix v
      assume "good c v \<and> recorded c 0 v \<and> File v = File u \<and> m_OriginalFileSizes v = m_OriginalFileSizes u \<and>
        current v = current u"
      then show "wp (io_catch (io_bind (ExtendFile n 1) (\<lambda>_. Expanded n 1))
        (\<lambda>e. io_bind (UnextendFile n w 0) (\<lambda>_. io_throw e))) (\<lambda>_. good c) (good c) (saved c) v"
        using r need_cong [of v u c] by (intro two) (simp_all add: recorded_def)
    qed auto
  qed auto
  show ?thesis
    unfolding ExtendMetadata_def wp_bind [of "io_get _"] wp_get wp_bind [of "RecordSize _"]
  proof (rule wp_mono [OF wp_RecordSize [OF assms, of 0]], simp, rule wp_mono [OF wp_RecordSize, of c _ 1])
    fix t u
    assume "recorded c 0 t \<and> (\<forall>k. k \<noteq> 0 \<longrightarrow> recorded c k s \<longrightarrow> recorded c k t)"
    then show "good c t" by (simp add: recorded_def)
    assume "recorded c 0 t \<and> (\<forall>k. k \<noteq> 0 \<longrightarrow> recorded c k s \<longrightarrow> recorded c k t)"
      and "recorded c 1 u \<and> (\<forall>k. k \<noteq> 1 \<longrightarrow> recorded c k t \<longrightarrow> recorded c k u)"
    then show "wp (io_bind (ExtendFile n 0) (\<lambda>_. io_bind (Expanded n 0) (\<lambda>_.
      io_catch (io_bind (ExtendFile n 1) (\<lambda>_. Expanded n 1))
        (\<lambda>e. io_bind (UnextendFile n (ucast (m_ExpandSize s 0)) 0) (\<lambda>_. io_throw e))))) (\<lambda>_. good c) (good c) (saved c) u"
      by (intro one) simp_all
  qed simp_all
qed

lemma wp_ShrinkFile:
  assumes "good c s" "i < 2"
  shows "wp (ShrinkFile i) (\<lambda>_. good c) E (saved c) s"
proof -
  have g: "good c (set_File i (resized (m_OriginalFileSizes s i) (File s i))
      (set_FilePointer i (m_OriginalFileSizes s i) (s\<lparr>Fates := fs\<rparr>)\<lparr>Fates := fs'\<rparr>))"
    if "m_ExpandSize s i \<noteq> 0" for fs fs'
    using good_resized [of c "set_FilePointer i (m_OriginalFileSizes s i) (s\<lparr>Fates := fs\<rparr>)\<lparr>Fates := fs'\<rparr>" i] assms that
    by (simp add: good_def)
  show ?thesis
  proof (cases "m_ExpandSize s i = 0")
    case True
    then show ?thesis unfolding ShrinkFile_def using assms by (intro wp_catch) simp
  next
    case False
    show ?thesis
      unfolding ShrinkFile_def
      by (rule wp_catch, simp add: False, rule wp_SetFilePointer, rule wp_SetEndOfFile)
        (use assms good_saved in \<open>auto intro!: g False good_reset\<close>)
  qed
qed

lemma wp_ShrinkMetadata:
  assumes "good c s"
  shows "wp ShrinkMetadata (\<lambda>_. good c) E (saved c) s"
  unfolding ShrinkMetadata_def wp_bind
  by (rule wp_mono [OF wp_ShrinkFile [OF assms]]) (auto intro!: wp_ShrinkFile)

section \<open>Writing a state\<close>

text \<open>The file \<open>i\<close>, which is not the current one, begins with \<open>d\<close> and is positioned after it.\<close>

definition writing :: "bytes \<Rightarrow> bytes \<Rightarrow> nat \<Rightarrow> StateFiles \<Rightarrow> bool" where
  "writing c d i s \<longleftrightarrow> good c s \<and> i < 2 \<and> i \<noteq> current s \<and> prefix d (File s i) \<and> FilePointer s i = length d"

lemma saved_write_at: "saved c s \<Longrightarrow> i \<noteq> current s \<Longrightarrow> saved c (write_at i data s)"
  by (simp add: saved_def)

lemma good_write_at: "good c s \<Longrightarrow> i \<noteq> current s \<Longrightarrow> good c (write_at i data s)"
  by (auto simp: good_def saved_write_at le_max_iff_disj)

lemma writing_write_at: "writing c d i s \<Longrightarrow> writing c (d @ data) i (write_at i data s)"
  by (auto simp: writing_def good_write_at prefix_def written_append)

lemma writing_Fates [simp]: "writing c d i (s\<lparr>Fates := fs\<rparr>) = writing c d i s"
  by (simp add: writing_def)

lemma wp_SafeWriteFile:
  assumes "writing c d i s"
  shows "wp (io_SafeWriteFile i data) (\<lambda>_. writing c (d @ data) i) (good c) (saved c) s"
proof -
  have "good c (write_at i bs (s\<lparr>Fates := fs\<rparr>))" for bs fs
    using assms by (intro good_write_at) (simp_all add: writing_def)
  then show ?thesis
    unfolding io_SafeWriteFile_def
    by (intro wp_call) (simp_all add: writing_write_at assms good_saved)
qed

lemma wp_write_all:
  "writing c d i s \<Longrightarrow> wp (write_all i writes) (\<lambda>_. writing c (d @ concat writes) i) (good c) (saved c) s"
proof (induction writes arbitrary: d s)
  case Nil
  then show ?case by simp
next
  case (Cons data writes)
  have "wp (write_all i writes) (\<lambda>_. writing c (d @ data @ concat writes) i) (good c) (saved c) t"
    if "writing c (d @ data) i t" for t
    using Cons.IH [OF that] by simp
  then show ?case
    by (simp, intro wp_mono [OF wp_SafeWriteFile [OF Cons.prems]]) simp_all
qed

text \<open>The new file is complete; once the registry names it, it is the state.\<close>

definition ready :: "bytes \<Rightarrow> bytes \<Rightarrow> nat \<Rightarrow> StateFiles \<Rightarrow> bool" where
  "ready c d i s \<longleftrightarrow> good c s \<and> i < 2 \<and> i \<noteq> current s \<and> prefix d (File s i) \<and> m_ExpandSize s i = 0 \<and> Flushed s i"

lemma current_StateIndex: "i < 2 \<Longrightarrow> current (s\<lparr>StateIndex := Some (word_of_nat i)\<rparr>) = i"
  by (auto simp: current_def less_2_cases_iff)

lemma saved_ready:
  assumes "ready c d i s"
  shows "saved d (s\<lparr>StateIndex := Some (word_of_nat i)\<rparr>)"
proof -
  have i: "i < 2" "METADATA_PADDING \<le> length (File s i)"
    using assms need_current(2) [of c s i] by (auto simp: ready_def dest: good_need)
  then show ?thesis using assms current_StateIndex [of i s] by (simp add: saved_def ready_def)
qed

lemma good_ready:
  assumes "ready c d i s"
  shows "good d (s\<lparr>StateIndex := Some (word_of_nat i), m_CurrentIndex := i\<rparr>)"
proof -
  let ?t = "s\<lparr>StateIndex := Some (word_of_nat i), m_CurrentIndex := i\<rparr>"
  have i: "i < 2" and g: "good c s" using assms by (auto simp: ready_def)
  have cur: "current ?t = i"
    using current_StateIndex [OF i, of s] by (simp add: current_def)
  have "saved d ?t"
    using saved_ready [OF assms] current_StateIndex [OF i, of s] cur by (simp add: saved_def)
  moreover have "need d ?t k \<le> length (File s k) \<and> (m_ExpandSize s k \<noteq> 0 \<longrightarrow> need d ?t k \<le> m_OriginalFileSizes s k)"
    if "k < 2" for k
  proof (cases "k = i")
    case True
    then show ?thesis
      using assms cur good_need [OF g i] need_current(2) [of c s i]
      by (auto simp: need_def ready_def dest: prefix_length_le)
  next
    case False
    then have "need d ?t k \<le> need c s k" using cur by (simp add: need_def)
    then show ?thesis using g that by (auto simp: good_def intro: order_trans)
  qed
  ultimately show ?thesis using cur by (simp add: good_def)
qed

lemma wp_SetRegDWordValue:
  assumes "ready c d i s"
  shows "wp (SetRegDWordValue (word_of_nat i)) (\<lambda>_ t. good d (t\<lparr>m_CurrentIndex := i\<rparr>)) (good c)
    (\<lambda>t. saved c t \<or> saved d t) s"
proof -
  have "ready c d i (s\<lparr>Fates := fs\<rparr>)" for fs using assms by (simp add: ready_def)
  note r = good_ready [OF this] saved_ready [OF this]
  show ?thesis
    unfolding SetRegDWordValue_def
    by (rule wp_call) (use r assms good_saved in \<open>auto simp: ready_def\<close>)
qed

lemma wp_ShrinkBackup:
  assumes "good d s" "New = current s" "Old \<noteq> New"
  shows "wp (ShrinkBackup Old New) (\<lambda>_. good d) E (saved d) s"
proof (cases "m_ExpandSize s Old = 0")
  case True
  then show ?thesis using assms by (simp add: ShrinkBackup_def)
next
  case False
  have size: "METADATA_PADDING \<le> length (File s New)"
    using good_need [OF assms(1) current_less] need_current(2) [of d s] assms(2) order_trans by blast
  then have g: "good d (set_File Old (resized (length (File s New)) (File s Old))
      (set_FilePointer Old (length (File s New)) (s\<lparr>Fates := fs\<rparr>)\<lparr>Fates := fs'\<rparr>))" for fs fs'
    using good_resized [of d "set_FilePointer Old (length (File s New)) (s\<lparr>Fates := fs\<rparr>)\<lparr>Fates := fs'\<rparr>" Old] assms
    by (simp add: need_def)
  have cut: "wp (io_bind (if m_OriginalFileSizes t Old < length (File s New)
        then io_bind (BITSSetFilePointer Old (int (length (File s New))) FILE_BEGIN) (\<lambda>_. BITSSetEndOfFile Old)
        else io_return ()) (\<lambda>_. io_do (set_ExpandSize Old 0 \<circ> set_OriginalFileSize Old 0))) (\<lambda>_. good d) (good d) (saved d) t"
    if "t = s\<lparr>Fates := fs\<rparr>" for t fs
  proof (cases "m_OriginalFileSizes t Old < length (File s New)")
    case True
    then show ?thesis
      by (simp, intro wp_SetFilePointer wp_SetEndOfFile)
        (use assms(1) g that good_saved [OF assms(1)] in \<open>auto intro!: good_reset\<close>)
  next
    case False
    then show ?thesis using assms(1) that by (auto intro!: good_reset)
  qed
  show ?thesis
    unfolding ShrinkBackup_def wp_bind [of "io_get _"] wp_get if_not_P [OF False]
  proof (rule wp_catch, simp only: wp_bind [of "BITSGetFileSize _"] wp_bind [of "io_get _"] wp_get, rule wp_GetFileSize)
    fix fs
    show "wp (io_bind (if m_OriginalFileSizes (s\<lparr>Fates := fs\<rparr>) Old < length (File s New)
        then io_bind (BITSSetFilePointer Old (int (length (File s New))) FILE_BEGIN) (\<lambda>_. BITSSetEndOfFile Old)
        else io_return ()) (\<lambda>_. io_do (set_ExpandSize Old 0 \<circ> set_OriginalFileSize Old 0)))
      (\<lambda>_. good d) (\<lambda>s. \<forall>e. wp (io_return ()) (\<lambda>_. good d) E (saved d) s) (saved d) (s\<lparr>Fates := fs\<rparr>)"
      by (rule wp_mono [OF cut]) simp_all
  qed (simp_all add: assms(1) good_saved)
qed

lemma wp_UpdateStateFile:
  assumes "writing c d i s"
  shows "wp UpdateStateFile (\<lambda>_. good d) (good c) (\<lambda>t. saved c t \<or> saved d t) s"
proof -
  let ?E = "good c" and ?C = "\<lambda>t. saved c t \<or> saved d t"
  let ?Old = "m_CurrentIndex s"
  have "good c s" using assms by (simp add: writing_def)
  then have old: "?Old = current s" by (simp add: good_def)
  have i: "i = (m_CurrentIndex s + 1) mod 2"
    using assms old current_less [of s] by (auto simp: writing_def less_2_cases_iff)
  define rest where "rest = io_bind (BITSFlushFileBuffers i) (\<lambda>_.
     io_bind (io_do (set_OriginalFileSize i 0 \<circ> set_ExpandSize i 0)) (\<lambda>_.
     io_bind (SetRegDWordValue (word_of_nat i)) (\<lambda>_.
     io_bind (io_do (\<lambda>s. s\<lparr>m_CurrentIndex := i\<rparr>)) (\<lambda>_. ShrinkBackup ?Old i))))"
  have final: "wp (ShrinkBackup ?Old i) (\<lambda>_. good d) ?E ?C (t\<lparr>m_CurrentIndex := i\<rparr>)"
    if "good d (t\<lparr>m_CurrentIndex := i\<rparr>)" for t
  proof -
    have "current (t\<lparr>m_CurrentIndex := i\<rparr>) = i" using that by (simp add: good_def)
    then show ?thesis
      by (intro wp_mono [OF wp_ShrinkBackup [OF that, where E = ?E]]) (use assms old in \<open>auto simp: writing_def\<close>)
  qed
  have rest: "wp rest (\<lambda>_. good d) ?E ?C t"
    if "good c t" "i \<noteq> current t" "prefix d (File t i)" for t
    unfolding rest_def wp_bind wp_do
  proof (rule wp_Flush)
    fix fs
    have "i < 2" using assms by (simp add: writing_def)
    then have "ready c d i (set_OriginalFileSize i 0 (set_ExpandSize i 0 (set_Flushed i True (t\<lparr>Fates := fs\<rparr>))))"
      using that by (auto simp: ready_def good_def saved_def)
    from wp_SetRegDWordValue [OF this]
    show "wp (SetRegDWordValue (word_of_nat i)) (\<lambda>x s. wp (ShrinkBackup ?Old i) (\<lambda>_. good d) ?E ?C (s\<lparr>m_CurrentIndex := i\<rparr>))
      ?E ?C ((set_OriginalFileSize i 0 \<circ> set_ExpandSize i 0) (set_Flushed i True (t\<lparr>Fates := fs\<rparr>)))"
      unfolding comp_def by (rule wp_mono) (auto intro: final)
  qed (use that good_saved in auto)
  have cut: "wp (io_bind (if int METADATA_PADDING < int size - int (length d)
              then io_bind (BITSSetFilePointer i (int METADATA_PADDING) FILE_CURRENT) (\<lambda>_. BITSSetEndOfFile i)
              else io_return ()) (\<lambda>_. rest)) (\<lambda>_. good d) ?E ?C t"
    if t: "writing c d i t" for t size
  proof (cases "int METADATA_PADDING < int size - int (length d)")
    case True
    have g: "good c (set_File i (resized (METADATA_PADDING + length d) (File t i))
        (set_FilePointer i (METADATA_PADDING + length d) (t\<lparr>Fates := fs\<rparr>)\<lparr>Fates := fs'\<rparr>))" for fs fs'
      using good_resized [of c "set_FilePointer i (METADATA_PADDING + length d) (t\<lparr>Fates := fs\<rparr>)\<lparr>Fates := fs'\<rparr>" i] t
      by (simp add: need_def writing_def)
    have n: "nat (int METADATA_PADDING + int (length d)) = METADATA_PADDING + length d" by simp
    show ?thesis
      unfolding if_P [OF True] wp_bind
      by (rule wp_SetFilePointer, rule wp_SetEndOfFile)
        (use t g n good_saved in \<open>auto simp: writing_def intro!: rest prefix_resized\<close>)
  next
    case False
    then show ?thesis using t by (auto simp: writing_def intro!: rest)
  qed
  have size: "wp (io_bind (BITSGetFileSize i) (\<lambda>size.
      io_bind (if int METADATA_PADDING < int size - int (length d)
              then io_bind (BITSSetFilePointer i (int METADATA_PADDING) FILE_CURRENT) (\<lambda>_. BITSSetEndOfFile i)
              else io_return ()) (\<lambda>_. rest))) (\<lambda>_. good d) ?E ?C t"
    if t: "writing c d i t" for t
    unfolding wp_bind [of "BITSGetFileSize _"]
    by (rule wp_GetFileSize, rule cut) (use t good_saved in \<open>simp_all add: writing_def\<close>)
  have "wp (io_bind (BITSSetFilePointer i 0 FILE_CURRENT) (\<lambda>p. io_bind (BITSGetFileSize i) (\<lambda>size.
      io_bind (if int METADATA_PADDING < int size - int p
              then io_bind (BITSSetFilePointer i (int METADATA_PADDING) FILE_CURRENT) (\<lambda>_. BITSSetEndOfFile i)
              else io_return ()) (\<lambda>_. rest)))) (\<lambda>_. good d) ?E ?C s"
    unfolding wp_bind [of "BITSSetFilePointer _ _ _"]
    by (rule wp_SetFilePointer [where p = "int (length d)"], simp only: nat_int, rule size) (use assms good_saved in \<open>simp_all add: writing_def\<close>)
  then show ?thesis
    by (simp only: UpdateStateFile_def rest_def Let_def wp_bind [of "io_get _"] wp_get flip: i)
qed

lemma wp_WriteState:
  assumes "good c s"
  shows "wp (WriteState writes) (\<lambda>_. good (concat (block_of writes))) (good c)
    (\<lambda>t. saved c t \<or> saved (concat (block_of writes)) t) s"
proof -
  let ?i = "(m_CurrentIndex s + 1) mod 2"
  let ?C = "\<lambda>t. saved c t \<or> saved (concat (block_of writes)) t"
  have i: "?i \<noteq> current s"
    using assms current_less [of s] by (auto simp: good_def less_2_cases_iff)
  have "wp (io_bind (write_all ?i (block_of writes)) (\<lambda>_. UpdateStateFile)) (\<lambda>_. good (concat (block_of writes))) (good c) ?C t"
    if "writing c [] ?i t" for t
    unfolding wp_bind by (rule wp_mono [OF wp_write_all [OF that]]) (auto intro: wp_UpdateStateFile)
  moreover have "writing c [] ?i (set_FilePointer ?i 0 (s\<lparr>Fates := fs\<rparr>))" for fs
    using assms i by (simp add: writing_def)
  ultimately show ?thesis
    unfolding WriteState_def GetNextStateFile_def wp_bind [of "io_bind _ _"] wp_bind [of "io_get _"] wp_get
    by (simp only: wp_bind [of "BITSSetFilePointer _ _ _"])
      (rule wp_SetFilePointer [where p = 0], use assms good_saved in simp_all)
qed

section \<open>Starting\<close>

text \<open>The files that are long enough are not touched.\<close>

lemma wp_write_all_other:
  assumes "saved c s" "i \<noteq> current s" "n \<le> length (File s i)"
  shows "wp (write_all i writes) (\<lambda>_ t. saved c t \<and> n \<le> length (File t i) \<and> (\<forall>k. k \<noteq> i \<longrightarrow> File t k = File s k) \<and> m_ExpandSize t = m_ExpandSize s)
    (saved c) (saved c) s"
  using assms
proof (induction writes arbitrary: s)
  case Nil
  then show ?case by simp
next
  case (Cons data writes)
  have w: "saved c (write_at i bs (s\<lparr>Fates := fs\<rparr>))" for bs fs
    using Cons.prems by (simp add: saved_write_at)
  have n: "n \<le> length (File (write_at i data (s\<lparr>Fates := fs\<rparr>)) i)" for fs
    using Cons.prems(3) by (simp add: le_max_iff_disj)
  have "wp (write_all i writes) (\<lambda>_ t. saved c t \<and> n \<le> length (File t i) \<and> (\<forall>k. k \<noteq> i \<longrightarrow> File t k = File s k) \<and> m_ExpandSize t = m_ExpandSize s)
      (saved c) (saved c) (write_at i data (s\<lparr>Fates := fs\<rparr>))" for fs
    by (rule wp_mono [OF Cons.IH [OF w]]) (use Cons.prems(2) n in simp_all)
  then show ?case
    unfolding write_all.simps wp_bind io_SafeWriteFile_def by (intro wp_call) (simp_all add: w)
qed

lemma wp_OpenMetadataFile:
  assumes "saved c s" "i < 2"
  shows "wp (OpenMetadataFile i) (\<lambda>_ t. saved c t \<and> METADATA_PADDING \<le> length (File t i) \<and>
    (\<forall>k. k \<noteq> i \<longrightarrow> File t k = File s k) \<and> m_ExpandSize t = m_ExpandSize s) (saved c) (saved c) s"
    (is "wp _ ?Q _ _ _")
proof (cases "length (File s i) < METADATA_PADDING")
  case False
  then show ?thesis
    unfolding OpenMetadataFile_def
    by (simp only: wp_bind, intro wp_call) (use assms(1) in \<open>auto intro!: wp_GetFileSize\<close>)
next
  case True
  then have other: "i \<noteq> current s" using assms(1) by (auto simp: saved_def)
  have last: "wp (io_bind (BITSSetFilePointer i 0 FILE_BEGIN) (\<lambda>_. io_return ())) ?Q (saved c) (saved c) t"
    if "?Q () t" for t
    unfolding wp_bind by (rule wp_SetFilePointer) (use that in auto)
  have empty: "wp (io_bind (WriteEmptyMetadataFile i) (\<lambda>_. io_bind (BITSSetFilePointer i 0 FILE_BEGIN) (\<lambda>_. io_return ())))
      ?Q (saved c) (saved c) t"
    if t: "?Q () t" "current t = current s" for t :: StateFiles
    unfolding WriteEmptyMetadataFile_def wp_bind [of "io_bind (BITSSetFilePointer i 0 FILE_BEGIN) _"]
      wp_bind [of "BITSSetFilePointer i 0 FILE_BEGIN" "\<lambda>_. write_all i EmptyMetadata"]
  proof (rule wp_SetFilePointer [where p = 0])
    fix fs
    let ?u = "set_FilePointer i (nat 0) (t\<lparr>Fates := fs\<rparr>)"
    show "wp (write_all i EmptyMetadata) (\<lambda>x. wp (io_bind (BITSSetFilePointer i 0 FILE_BEGIN) (\<lambda>_. io_return ())) ?Q (saved c) (saved c))
        (saved c) (saved c) ?u"
      by (rule wp_mono [OF wp_write_all_other [of c ?u i METADATA_PADDING], OF _ _ _ last])
        (use t other in auto)
  qed (use t in auto)
  have cut: "saved c (set_File i (resized METADATA_PADDING (File s i))
      (set_FilePointer i METADATA_PADDING (s\<lparr>Fates := fs\<rparr>)\<lparr>Fates := fs'\<rparr>))" for fs fs'
    using saved_resized [of c "set_FilePointer i METADATA_PADDING (s\<lparr>Fates := fs\<rparr>)\<lparr>Fates := fs'\<rparr>" i] assms(1) other
    by simp
  have pad: "wp (io_bind (BITSSetFilePointer i (int METADATA_PADDING) FILE_BEGIN) (\<lambda>_.
       io_bind (BITSSetEndOfFile i) (\<lambda>_.
       io_bind (WriteEmptyMetadataFile i) (\<lambda>_.
       io_bind (BITSSetFilePointer i 0 FILE_BEGIN) (\<lambda>_. io_return ()))))) ?Q (saved c) (saved c) t"
    if t: "saved c t" "File t = File s" "m_ExpandSize t = m_ExpandSize s" "current t = current s" for t
    unfolding wp_bind [of "BITSSetFilePointer i (int METADATA_PADDING) FILE_BEGIN"] wp_bind [of "BITSSetEndOfFile i"]
  proof (rule wp_SetFilePointer [where p = "int METADATA_PADDING"], rule wp_SetEndOfFile)
    fix fs fs'
    let ?u = "set_FilePointer i (nat (int METADATA_PADDING)) (t\<lparr>Fates := fs\<rparr>)"
    show "wp (io_bind (WriteEmptyMetadataFile i) (\<lambda>_. io_bind (BITSSetFilePointer i 0 FILE_BEGIN) (\<lambda>_. io_return ())))
      ?Q (saved c) (saved c) (set_File i (resized (FilePointer ?u i) (File ?u i)) (?u\<lparr>Fates := fs'\<rparr>))"
      by (rule empty) (use t other saved_resized [of c "?u\<lparr>Fates := fs'\<rparr>" i METADATA_PADDING] in simp_all)
  qed (use t in simp_all)
  show ?thesis
    unfolding OpenMetadataFile_def wp_bind [of "call _ _ _"] wp_bind [of "BITSGetFileSize i"]
  proof (rule wp_call, rule wp_GetFileSize)
    fix fs fs'
    let ?u = "set_FilePointer i 0 (s\<lparr>Fates := fs\<rparr>)"
    have "length (File ?u i) < METADATA_PADDING" using True by simp
    then show "wp (if length (File ?u i) < METADATA_PADDING then
       io_bind (BITSSetFilePointer i (int METADATA_PADDING) FILE_BEGIN) (\<lambda>_.
       io_bind (BITSSetEndOfFile i) (\<lambda>_.
       io_bind (WriteEmptyMetadataFile i) (\<lambda>_.
       io_bind (BITSSetFilePointer i 0 FILE_BEGIN) (\<lambda>_. io_return ()))))
      else io_return ()) ?Q (saved c) (saved c) (?u\<lparr>Fates := fs'\<rparr>)"
      by (simp only: if_P) (rule pad, use assms(1) in simp_all)
  qed (use assms(1) in simp_all)
qed

lemma wp_CQmgrStateFiles_create:
  assumes "saved c s"
  shows "wp CQmgrStateFiles_create (\<lambda>_ t. saved c t \<and> (m_CurrentIndex t = current t \<longrightarrow> good c t)) (saved c) (saved c) s"
    (is "wp _ ?Q _ _ _")
proof -
  define fresh where "fresh i t \<longleftrightarrow> METADATA_PADDING \<le> length (File t i) \<and> m_ExpandSize t i = 0" for i and t :: StateFiles
  define index where "index = io_bind (io_catch (io_bind (plain_call (\<lambda>s. s)) (\<lambda>_. io_get StateIndex)) (\<lambda>_. io_return None)) (\<lambda>v.
       io_do (\<lambda>s. s\<lparr>m_CurrentIndex := (case v of Some w \<Rightarrow> if 1 < w then 0 else unat w | None \<Rightarrow> 0)\<rparr>))"
  have fin: "?Q () (t\<lparr>m_CurrentIndex := k\<rparr>)" if "saved c t" "fresh 0 t" "fresh 1 t" for t k
  proof -
    have "length c \<le> length (File t (current t))"
      using that(1) by (auto simp: saved_def dest: prefix_length_le)
    then show ?thesis using that
      by (auto simp: good_def saved_def need_def fresh_def less_2_cases_iff)
  qed
  have index: "wp index ?Q (saved c) (saved c) t" if t: "saved c t" "fresh 0 t" "fresh 1 t" for t
    unfolding index_def wp_bind [of "io_catch _ _"]
  proof (rule wp_catch, simp only: wp_bind, rule wp_call, goal_cases)
    case (1 fs)
    have q: "?Q () (t\<lparr>Fates := fs\<rparr>\<lparr>m_CurrentIndex := k\<rparr>)" for k
      by (rule fin) (use t in \<open>simp_all add: fresh_def\<close>)
    show ?case unfolding wp_get wp_do by (rule q)
  next
    case (2 n fs)
    have q: "?Q () (t\<lparr>Fates := fs\<rparr>\<lparr>m_CurrentIndex := k\<rparr>)" for k
      by (rule fin) (use t in \<open>simp_all add: fresh_def\<close>)
    show ?case unfolding wp_return wp_do using q by blast
  qed (use t in simp)
  have open1: "wp (io_bind (OpenMetadataFile 1) (\<lambda>_.
      io_bind (io_do (set_ExpandSize 1 0 \<circ> set_OriginalFileSize 1 0)) (\<lambda>_. index))) ?Q (saved c) (saved c) t"
    if t: "saved c t" "fresh 0 t" for t
    unfolding wp_bind [of "OpenMetadataFile 1"] wp_bind [of "io_do _"] wp_do
    by (rule wp_mono [OF wp_OpenMetadataFile [OF t(1)]]) (use t(2) in \<open>auto intro!: index simp: fresh_def simp del: wp_bind\<close>)
  show ?thesis
    unfolding CQmgrStateFiles_create_def wp_bind [of "OpenMetadataFile 0"] wp_bind [of "io_do _"] wp_do index_def [symmetric]
    by (rule wp_mono [OF wp_OpenMetadataFile [OF assms]]) (auto intro!: open1 simp: fresh_def simp del: wp_bind One_nat_def)
qed

section \<open>The life of the service\<close>

datatype operation = Op_WriteState "bytes list" | Op_ExtendMetadata nat | Op_ShrinkMetadata

primrec perform :: "operation \<Rightarrow> unit io" where
  "perform (Op_WriteState writes) = WriteState writes"
| "perform (Op_ExtendMetadata n) = ExtendMetadata n"
| "perform Op_ShrinkMetadata = ShrinkMetadata"

text \<open>
  What may be on the disk after an operation that returns, and after one during which the machine
  stops, from what may have been on it before.
\<close>

primrec after_return :: "operation \<Rightarrow> bytes list \<Rightarrow> bytes list" where
  "after_return (Op_WriteState writes) cs = [concat (block_of writes)]"
| "after_return (Op_ExtendMetadata n) cs = cs"
| "after_return Op_ShrinkMetadata cs = cs"

primrec after_stop :: "operation \<Rightarrow> bytes list \<Rightarrow> bytes list" where
  "after_stop (Op_WriteState writes) cs = concat (block_of writes) # cs"
| "after_stop (Op_ExtendMetadata n) cs = cs"
| "after_stop Op_ShrinkMetadata cs = cs"

text \<open>
  What the loss of the machine leaves: the value that the registry has on disk, and of the files
  only what was flushed.
\<close>

definition survives :: "32 word option \<Rightarrow> StateFiles \<Rightarrow> StateFiles \<Rightarrow> bool" where
  "survives hive s t \<longleftrightarrow> StateIndex t = hive \<and>
     (\<forall>i. Flushed s i \<longrightarrow> File t i = File s i \<and> Flushed t i)"

text \<open>
  The contents that may be on the disk, whether the service runs, the value \<open>StateIndex\<close> that the
  registry has on disk, which the system writes at its leisure (\<open>life_settle\<close>), and the files. The fates of the
  calls of each step are arbitrary. \<open>early_loss\<close> says whether the machine may be lost before the
  value was written, and \<open>misread\<close> whether the constructor may fail to read the value, and then
  uses the file \<open>0\<close>; \<open>True\<close> and \<open>True\<close> give all that can happen.
\<close>

type_synonym life_state = "bytes list \<times> bool \<times> 32 word option \<times> StateFiles"

inductive life :: "bool \<Rightarrow> bool \<Rightarrow> life_state \<Rightarrow> life_state \<Rightarrow> bool" for early_loss misread x where
  life_refl: "life early_loss misread x x"
| life_return: "life early_loss misread x (cs, True, hive, s) \<Longrightarrow> perform a (s\<lparr>Fates := fs\<rparr>) = (Returns (), t)
    \<Longrightarrow> life early_loss misread x (after_return a cs, True, hive, t)"
| life_throw: "life early_loss misread x (cs, True, hive, s) \<Longrightarrow> perform a (s\<lparr>Fates := fs\<rparr>) = (Throws e, t)
    \<Longrightarrow> life early_loss misread x (cs, True, hive, t)"
| life_stop: "life early_loss misread x (cs, True, hive, s) \<Longrightarrow> perform a (s\<lparr>Fates := fs\<rparr>) = (Stopped, t)
    \<Longrightarrow> life early_loss misread x (after_stop a cs, False, hive, t)"
| life_ended: "life early_loss misread x (cs, True, hive, s) \<Longrightarrow> life early_loss misread x (cs, False, hive, s)"
| life_settle: "life early_loss misread x (cs, up, hive, s) \<Longrightarrow> life early_loss misread x (cs, up, StateIndex s, s)"
| life_lost: "life early_loss misread x (cs, up, hive, s) \<Longrightarrow> early_loss \<or> hive = StateIndex s \<Longrightarrow> survives hive s t
    \<Longrightarrow> life early_loss misread x (cs, False, hive, t)"
| life_not_started: "life early_loss misread x (cs, False, hive, s) \<Longrightarrow> CQmgrStateFiles_create (s\<lparr>Fates := fs\<rparr>) = (r, t)
    \<Longrightarrow> r \<noteq> Returns () \<Longrightarrow> life early_loss misread x (cs, False, hive, t)"
| life_started: "life early_loss misread x (cs, False, hive, s) \<Longrightarrow>
    CQmgrStateFiles_create (s\<lparr>Fates := fs\<rparr>) = (Returns (), t) \<Longrightarrow> misread \<or> m_CurrentIndex t = current t
    \<Longrightarrow> life early_loss misread x (cs, True, hive, t)"

lemma wp_result: "wp m Q E C s \<Longrightarrow> m s = (r, t) \<Longrightarrow> (case r of Returns x \<Rightarrow> Q x t | Throws e \<Rightarrow> E t | Stopped \<Rightarrow> C t)"
  by (cases r) (simp_all add: wp_def)

lemma wp_perform:
  assumes "good c s" "c \<in> set cs"
  shows "wp (perform a) (\<lambda>_ t. \<exists>c \<in> set (after_return a cs). good c t) (good c)
    (\<lambda>t. \<exists>c \<in> set (after_stop a cs). saved c t) s"
proof (cases a)
  case (Op_WriteState writes)
  then show ?thesis by (simp, intro wp_mono [OF wp_WriteState [OF assms(1)]]) (use assms(2) in auto)
next
  case (Op_ExtendMetadata n)
  then show ?thesis by (simp, intro wp_mono [OF wp_ExtendMetadata [OF assms(1)]]) (use assms(2) in auto)
next
  case Op_ShrinkMetadata
  then show ?thesis by (simp, intro wp_mono [OF wp_ShrinkMetadata [OF assms(1), where E = "good c"]]) (use assms(2) in auto)
qed

lemma saved_survives: "saved c s \<Longrightarrow> survives (StateIndex s) s t \<Longrightarrow> saved c t"
  by (simp add: saved_def survives_def current_def split del: if_split)

text \<open>The invariant of the service's life.\<close>

fun recoverable :: "life_state \<Rightarrow> bool" where
  "recoverable (cs, up, hive, s) \<longleftrightarrow> (\<exists>c \<in> set cs. saved c s \<and> (up \<longrightarrow> good c s))"

lemma good_recoverable: "good c s \<Longrightarrow> c \<in> set cs \<Longrightarrow> recoverable (cs, up, hive, s)"
  by (auto dest: good_saved)

lemma recoverable_life: "life False False x y \<Longrightarrow> recoverable x \<Longrightarrow> recoverable y"
proof (induction rule: life.induct)
  case (life_return cs hive s a fs t)
  then obtain c where "good c s" "c \<in> set cs" by auto
  with wp_perform [of c "s\<lparr>Fates := fs\<rparr>" cs a] life_return(2) show ?case
    by (auto dest!: wp_result intro: good_recoverable simp del: recoverable.simps)
next
  case (life_throw cs hive s a fs e t)
  then obtain c where "good c s" "c \<in> set cs" by auto
  with wp_perform [of c "s\<lparr>Fates := fs\<rparr>" cs a] life_throw(2) show ?case
    by (auto dest!: wp_result intro: good_recoverable simp del: recoverable.simps)
next
  case (life_stop cs hive s a fs t)
  then obtain c where "good c s" "c \<in> set cs" by auto
  with wp_perform [of c "s\<lparr>Fates := fs\<rparr>" cs a] life_stop(2) show ?case
    by (auto dest!: wp_result)
next
  case (life_not_started cs hive s fs r t)
  then obtain c where "saved c s" "c \<in> set cs" by auto
  with wp_result [OF wp_CQmgrStateFiles_create [of c "s\<lparr>Fates := fs\<rparr>"] life_not_started(2)] life_not_started(3)
  show ?case by (auto split: outcome.splits)
next
  case (life_started cs hive s fs t)
  then obtain c where "saved c s" "c \<in> set cs" by auto
  with wp_result [OF wp_CQmgrStateFiles_create [of c "s\<lparr>Fates := fs\<rparr>"] life_started(2)] life_started(3) show ?case
    by auto
qed (auto dest: saved_survives)

section \<open>A start without failures\<close>

definition works :: "'a io \<Rightarrow> bool" where
  "works m \<longleftrightarrow> (\<forall>s. Fates s = [] \<longrightarrow> (\<exists>x t. m s = (Returns x, t) \<and> Fates t = [] \<and> StateIndex t = StateIndex s))"

lemma works_bind: "works m \<Longrightarrow> (\<And>x. works (f x)) \<Longrightarrow> works (io_bind m f)"
  unfolding works_def io_bind_def by (metis (no_types, lifting) case_prod_conv outcome.case(1))

lemma works_simple: "works (io_return x)" "works (io_get q)"
    "(\<And>s. Fates (f s) = Fates s \<and> StateIndex (f s) = StateIndex s) \<Longrightarrow> works (io_do f)"
    "(\<And>s. Fates (f s) = Fates s \<and> StateIndex (f s) = StateIndex s) \<Longrightarrow> works (call f g h)"
  by (auto simp: works_def io_return_def io_get_def io_do_def call_def)

lemma works_SetFilePointer: "0 \<le> p \<Longrightarrow> works (BITSSetFilePointer i p FILE_BEGIN)"
  by (auto simp: works_def BITSSetFilePointer_def io_bind_def io_get_def io_return_def call_def set_FilePointer_def)

lemma works_write_all: "works (write_all i writes)"
  by (induction writes)
    (auto simp: io_SafeWriteFile_def write_at_def set_File_def set_FilePointer_def set_Flushed_def
      intro!: works_bind works_simple)

lemma works_OpenMetadataFile: "works (OpenMetadataFile i)"
  unfolding OpenMetadataFile_def WriteEmptyMetadataFile_def BITSSetEndOfFile_def BITSGetFileSize_def
  by (auto intro!: works_bind works_simple works_SetFilePointer works_write_all simp: set_File_def set_FilePointer_def)

definition works_into :: "(StateFiles \<Rightarrow> bool) \<Rightarrow> 'a io \<Rightarrow> bool" where
  "works_into P m \<longleftrightarrow> (\<forall>s. Fates s = [] \<longrightarrow> (\<exists>x t. m s = (Returns x, t) \<and> P t))"

lemma works_into_bind: "works m \<Longrightarrow> (\<And>x. works_into P (f x)) \<Longrightarrow> works_into P (io_bind m f)"
  unfolding works_def works_into_def io_bind_def by (metis (no_types, lifting) case_prod_conv outcome.case(1))

lemma works_create: "works_into (\<lambda>t. m_CurrentIndex t = current t \<and> Fates t = []) CQmgrStateFiles_create"
proof -
  define index where "index = io_bind (io_catch (io_bind (plain_call (\<lambda>s. s)) (\<lambda>_. io_get StateIndex)) (\<lambda>_. io_return None)) (\<lambda>v.
       io_do (\<lambda>s. s\<lparr>m_CurrentIndex := (case v of Some w \<Rightarrow> if 1 < w then 0 else unat w | None \<Rightarrow> 0)\<rparr>))"
  have "works_into (\<lambda>t. m_CurrentIndex t = current t \<and> Fates t = []) index"
    by (simp add: index_def works_into_def io_bind_def io_catch_def call_def io_get_def io_do_def)
      (simp add: current_def)
  then show ?thesis
    unfolding CQmgrStateFiles_create_def index_def [symmetric]
    by (intro works_into_bind works_OpenMetadataFile works_simple)
      (simp_all add: set_ExpandSize_def set_OriginalFileSize_def)
qed

lemma start_works:
  assumes "Fates s = []" "saved c s"
  shows "\<exists>t. CQmgrStateFiles_create s = (Returns (), t) \<and> good c t \<and> Fates t = []"
proof -
  obtain t where t: "CQmgrStateFiles_create s = (Returns (), t)" "m_CurrentIndex t = current t" "Fates t = []"
    using works_create assms(1) by (auto simp: works_into_def)
  with wp_result [OF wp_CQmgrStateFiles_create [OF assms(2)] t(1)] show ?thesis by auto
qed

end
