(* ===== verification/StorageClaims.thy ===== *)
theory StorageClaims
  imports CrashSafety
begin

text \<open>
  Properties of the state file: what was written is read back, a damaged end is noticed, and
  neither failing calls nor a stop of the machine lose the state that was committed.
\<close>

section \<open>The contents\<close>

text \<open>C8. The service reads back from its state file the online and then the offline jobs that it
  wrote, whatever follows them in the file: the job \<open>n\<close> is created at the new address \<open>new n\<close>, has the
  stored contents, and its timers are pending at the times of the stored ones.\<close>
theorem State_roundtrip:
  assumes "list_all (\<lambda>(h, x). storable api x) (online @ offline)"
    "length online < 2 ^ 32" "length offline < 2 ^ 32" "inj new"
  shows "\<exists>ts'. CJobManager_Unserialize api new (CJobManager_Serialize api ts0 online offline @ rest) ts =
      Some (S_OK, map (\<lambda>n. let (h, x) = (online @ offline) ! n
          in (new n, restored (new n) (IsWorkItemInScheduler (CJobRetryItem h) ts0) x)) [0..<length (online @ offline)], ts') \<and>
    (\<forall>n < length (online @ offline). \<forall>p \<in> job_items (fst ((online @ offline) ! n)) (new n). same_item ts0 ts' p)"
proof -
  let ?r = "restore_jobs new ts0 (online @ offline) ([], ts)"
  have "read_StateFile api new (CJobManager_Serialize api ts0 online offline @ rest, [], ts) = (Inr (), rest, ?r)"
    using coded_StateFile [OF assms(1-3)] by (simp only: coded_def)
  then have "CJobManager_Unserialize api new (CJobManager_Serialize api ts0 online offline @ rest) ts =
      Some (S_OK, fst ?r, snd ?r)"
    by (cases ?r) (simp add: CJobManager_Unserialize_def)
  moreover have "same_item ts0 (snd ?r) p"
    if "n < length (online @ offline)" "p \<in> job_items (fst ((online @ offline) ! n)) (new n)" for n p
    using restore_jobs_items [OF assms(4) that(1), of p "[]"] that(2) by simp
  ultimately show ?thesis
    using restore_jobs_list [of new ts0 "online @ offline" "[]" ts] by (auto simp: Let_def)
qed

definition demo_sids :: "unit SidApi_scheme" where
  "demo_sids = \<lparr>ConvertSidToStringSid = \<lambda>sid. replicate sid (CHR ''S''), ConvertStringSidToSid = \<lambda>str. Inr (length str),
     MakeAbsoluteSD = \<lambda>sd. 0\<rparr>"

definition demo_stored :: StoredJob where
  "demo_stored = StoredJob_empty\<lparr>m_sd := [1, 2], m_Job := CJob_empty\<lparr>m_name := ''j'', m_NotifySid := 3,
     m_state := BG_JOB_STATE_SUSPENDED\<rparr>\<rparr>"

lemma demo_storable: "storable demo_sids demo_stored"
  by (simp add: storable_def stored_ok_def head_ok_def body_ok_def extras_ok_def sid_ok_def sd_ok_def files_ok_def
    error_ok_def string_ok_def Dictionary_storable_def Dictionary_ok_def Dictionary_live_def demo_stored_def demo_sids_def
    StoredJob_empty_def CJob_empty_def ClearError_def)

lemma State_roundtrip_witness:
  "\<exists>ts'. CJobManager_Unserialize demo_sids (\<lambda>n. n + 100)
      (CJobManager_Serialize demo_sids (TaskScheduler_new 0) [(7, demo_stored)] [] @ [0]) (TaskScheduler_new 0) =
      Some (S_OK, [(100, restored 100 False demo_stored)], ts')"
proof -
  have "inj (\<lambda>n :: nat. n + 100)" by (simp add: inj_def)
  then obtain ts' where *: "CJobManager_Unserialize demo_sids (\<lambda>n. n + 100)
      (CJobManager_Serialize demo_sids (TaskScheduler_new 0) [(7, demo_stored)] [] @ [0]) (TaskScheduler_new 0) =
    Some (S_OK, map (\<lambda>n. let (h, x) = ([(7, demo_stored)] @ []) ! n
       in (n + 100, restored (n + 100) (IsWorkItemInScheduler (CJobRetryItem h) (TaskScheduler_new 0)) x))
      [0..<length ([(7, demo_stored)] @ [])], ts')"
    using State_roundtrip [of demo_sids "[(7, demo_stored)]" "[]" "\<lambda>n. n + 100" "TaskScheduler_new 0" "[0]" "TaskScheduler_new 0"]
      demo_storable by auto
  have "\<not> IsWorkItemInScheduler (CJobRetryItem 7) (TaskScheduler_new 0)"
    by (simp add: IsWorkItemInScheduler_def TaskScheduler_new_def TaskSchedulerWorkItem_new_def)
  then show ?thesis unfolding * by simp
qed

text \<open>C18. A state file that ends before its contents do is noticed: the service starts with no jobs
  instead of reporting an error or using what it could read.\<close>
theorem State_truncated_cleared:
  assumes "list_all (\<lambda>(h, x). storable api x) (online @ offline)"
    "length online < 2 ^ 32" "length offline < 2 ^ 32"
    "k < length (CJobManager_Serialize api ts0 online offline)"
  shows "\<exists>ts'. CJobManager_Unserialize api new (take k (CJobManager_Serialize api ts0 online offline)) ts = Some (S_OK, [], ts')"
proof -
  let ?r = "read_StateFile api new (take k (CJobManager_Serialize api ts0 online offline), [], ts)"
  have "fst ?r = Inl (ComError E_INVALIDARG)"
    using coded_StateFile [OF assms(1-3)] assms(4) by (simp only: coded_def)
  then show ?thesis
    by (cases ?r) (auto simp: CJobManager_Unserialize_def)
qed

lemma State_truncated_cleared_witness:
  "\<exists>ts'. CJobManager_Unserialize demo_sids (\<lambda>n. n + 100) (take 20 (CJobManager_Serialize demo_sids (TaskScheduler_new 0) [(7, demo_stored)] []))
    (TaskScheduler_new 0) = Some (S_OK, [], ts')"
proof -
  have "20 < length (CJobManager_Serialize demo_sids (TaskScheduler_new 0) [(7, demo_stored)] [])"
    by (simp add: CJobManager_Serialize_def SafeWriteBlock_def SafeWriteFile_def)
  then show ?thesis
    using demo_storable by (intro State_truncated_cleared) simp_all
qed

section \<open>The two files\<close>

text \<open>What the manager writes through \<open>CQmgrWriteStateFile\<close> makes the contents that it reads back.\<close>

lemma stored_block:
  "CJobManager_Serialize api ts online offline = concat (block_of
     [SafeWriteBlock PriorityQueuesStorageGUID, CJobList_Serialize api ts online, CJobList_Serialize api ts offline,
      SafeWriteBlock PriorityQueuesStorageGUID])"
  by (simp add: CJobManager_Serialize_def block_of_def)

text \<open>C7. The service runs on a disk that holds the committed contents \<open>c0\<close>. Any of its calls may
  fail, but for the one that reads the index at a start that succeeds; the service may stop
  at any of them; and the machine may lose what was not flushed, once the system has written the
  index to the registry's file; all that any number of times. At each moment a start of the
  service without failures opens, at its front, a file that begins with contents that were
  committed last or were being committed when the service stopped. The two exceptions are needed:
  see \<open>Early_loss_damages\<close> and \<open>Misread_damages\<close>.\<close>
theorem Crash_safe:
  assumes "good c0 s0" "life False False ([c0], True, hive0, s0) (cs, up, hive, s)"
  shows "\<exists>c i rest t. c \<in> set cs \<and> io_bind CQmgrStateFiles_create (\<lambda>_. GetCurrentStateFile) (s\<lparr>Fates := []\<rparr>) = (Returns i, t) \<and>
    File t i = c @ rest \<and> FilePointer t i = 0"
proof -
  have "recoverable (cs, up, hive, s)"
    using recoverable_life [OF assms(2)] assms(1) good_saved by simp
  then obtain c where c: "c \<in> set cs" "saved c s" by auto
  then obtain t where t: "CQmgrStateFiles_create (s\<lparr>Fates := []\<rparr>) = (Returns (), t)" "good c t" "Fates t = []"
    using start_works [of "s\<lparr>Fates := []\<rparr>" c] by auto
  then obtain rest where "File t (m_CurrentIndex t) = c @ rest"
    by (auto simp: good_def saved_def prefix_def)
  moreover have "io_bind CQmgrStateFiles_create (\<lambda>_. GetCurrentStateFile) (s\<lparr>Fates := []\<rparr>) =
      (Returns (m_CurrentIndex t), set_FilePointer (m_CurrentIndex t) 0 t)"
    using t by (simp add: io_bind_def GetCurrentStateFile_def BITSSetFilePointer_def io_get_def call_def io_return_def)
  ultimately show ?thesis
    using c(1) by (intro exI [of _ c] exI [of _ "m_CurrentIndex t"] exI [of _ rest]
      exI [of _ "set_FilePointer (m_CurrentIndex t) 0 t"]) simp
qed

text \<open>A disk with empty files, and a write of a state during which the machine stops and the file is lost.\<close>

definition demo_disk :: StateFiles where
  "demo_disk = \<lparr>File = \<lambda>_. replicate 4096 0, FilePointer = \<lambda>_. 0, Flushed = \<lambda>_. True, StateIndex = None, Fates = [],
     m_ExpandSize = \<lambda>_. 0, m_OriginalFileSizes = \<lambda>_. 0, m_CurrentIndex = 0\<rparr>"

definition demo_stopped :: StateFiles where
  "demo_stopped = write_at 1 [5] (write_at 1 (SafeWriteBlock QmgrStateStorageGUID) (set_FilePointer 1 0 demo_disk))"

lemma Crash_safe_witness:
  "\<exists>c i rest t. c \<in> {concat (block_of [[5, 6]]), []} \<and>
    io_bind CQmgrStateFiles_create (\<lambda>_. GetCurrentStateFile) (set_File 1 [9, 9] demo_stopped\<lparr>Fates := []\<rparr>) = (Returns i, t) \<and>
    File t i = c @ rest \<and> FilePointer t i = 0"
proof -
  have g: "good [] demo_disk"
    by (simp add: good_def saved_def need_def current_def demo_disk_def)
  have "perform (Op_WriteState [[5, 6]]) (demo_disk\<lparr>Fates := [Works, Works, Stops 1]\<rparr>) = (Stopped, demo_stopped)"
    by (simp add: WriteState_def block_of_def GetNextStateFile_def BITSSetFilePointer_def io_SafeWriteFile_def io_bind_def io_get_def
      io_return_def call_def demo_stopped_def demo_disk_def set_FilePointer_def write_at_def set_File_def set_Flushed_def)
  from life_stop [OF life_refl this]
  have "life False False ([[]], True, None, demo_disk) ([concat (block_of [[5, 6]]), []], False, None, demo_stopped)"
    by simp
  moreover have "None = StateIndex demo_stopped"
    by (simp add: demo_stopped_def demo_disk_def set_FilePointer_def write_at_def set_File_def set_Flushed_def)
  moreover have "survives None demo_stopped (set_File 1 [9, 9] demo_stopped)"
    by (simp add: survives_def demo_stopped_def demo_disk_def set_FilePointer_def write_at_def set_File_def set_Flushed_def)
  ultimately have "life False False ([[]], True, None, demo_disk)
      ([concat (block_of [[5, 6]]), []], False, None, set_File 1 [9, 9] demo_stopped)"
    by (intro life_lost) simp_all
  from Crash_safe [OF g this] show ?thesis by simp
qed

text \<open>
  The exceptions. The contents \<open>[9]\<close> are committed in the file \<open>1\<close>. If the machine is lost before the
  registry's value is on disk, the write of the next state to the file \<open>0\<close> that was under way leaves
  no committed state in the file that the old value names. If the value cannot be read at a
  start, the next state is written over the committed one.
\<close>

definition risk_disk :: StateFiles where
  "risk_disk = \<lparr>File = (\<lambda>_. 0 # 0 # replicate 4094 0)(1 := 9 # 0 # replicate 4094 0), FilePointer = \<lambda>_. 0, Flushed = \<lambda>_. True,
     StateIndex = Some 1, Fates = [], m_ExpandSize = \<lambda>_. 0, m_OriginalFileSizes = \<lambda>_. 0, m_CurrentIndex = 1\<rparr>"

lemma risk_disk_good: "good [9] risk_disk"
  by (auto simp: good_def saved_def need_def current_def risk_disk_def)

text \<open>The write of an empty state that stops after its first byte.\<close>

definition half_written :: "nat \<Rightarrow> StateFiles \<Rightarrow> StateFiles" where
  "half_written i s = write_at i [245] (set_FilePointer i 0 (s\<lparr>Fates := []\<rparr>))"

lemma guid_bytes: "SafeWriteBlock QmgrStateStorageGUID =
    [245, 106, 25, 43, 124, 0, 143, 67, 141, 18, 28, 252, 164, 204, 155, 118]"
  by code_simp

lemma WriteState_half:
  "perform (Op_WriteState []) (s\<lparr>Fates := [Works, Stops 1]\<rparr>) = (Stopped, half_written ((m_CurrentIndex s + 1) mod 2) s)"
  by (simp add: WriteState_def block_of_def GetNextStateFile_def BITSSetFilePointer_def io_SafeWriteFile_def io_bind_def
      io_get_def io_return_def call_def half_written_def set_FilePointer_def write_at_def set_File_def set_Flushed_def
      guid_bytes)

lemma not_committed:
  assumes "File t (current t) = 245 # 0 # bs" "c \<in> {concat (block_of []), [9]}"
  shows "\<not> prefix c (File t (current t))"
  using assms by (auto simp: block_of_def guid_bytes)

lemma Early_loss_damages:
  "\<exists>cs hive t. life True False ([[9]], True, None, risk_disk) (cs, False, hive, t) \<and>
    (\<forall>c\<in>set cs. \<not> prefix c (File t (current t)))"
proof -
  let ?s = "half_written 0 risk_disk" and ?cs = "[concat (block_of []), [9]]"
  let ?t = "?s\<lparr>StateIndex := None\<rparr>"
  have "perform (Op_WriteState []) (risk_disk\<lparr>Fates := [Works, Stops 1]\<rparr>) = (Stopped, ?s)"
    using WriteState_half [of risk_disk] by (simp add: risk_disk_def)
  from life_stop [OF life_refl this]
  have "life True False ([[9]], True, None, risk_disk) (?cs, False, None, ?s)" by simp
  then have "life True False ([[9]], True, None, risk_disk) (?cs, False, None, ?t)"
    by (rule life_lost) (simp_all add: survives_def half_written_def write_at_def set_File_def set_FilePointer_def
      set_Flushed_def)
  moreover have "File ?t (current ?t) = 245 # 0 # replicate 4094 0"
    by (simp add: half_written_def risk_disk_def current_def write_at_def set_File_def set_FilePointer_def
        set_Flushed_def written_def resized_def)
  ultimately show ?thesis using not_committed [of ?t]
    by (intro exI [of _ ?cs] exI [of _ None] exI [of _ ?t]) auto
qed

lemma Misread_damages:
  "\<exists>cs hive t. life False True ([[9]], True, Some 1, risk_disk) (cs, False, hive, t) \<and>
    (\<forall>c\<in>set cs. \<not> prefix c (File t (current t)))"
proof -
  let ?u = "risk_disk\<lparr>m_CurrentIndex := 0\<rparr>"
  let ?s = "half_written 1 ?u" and ?cs = "[concat (block_of []), [9]]"
  have c: "CQmgrStateFiles_create (risk_disk\<lparr>Fates := [Works, Works, Works, Works, Fails 5 0]\<rparr>) = (Returns (), ?u)"
    by (simp add: CQmgrStateFiles_create_def OpenMetadataFile_def BITSGetFileSize_def io_bind_def io_catch_def io_get_def
        io_do_def io_return_def call_def risk_disk_def set_FilePointer_def set_ExpandSize_def set_OriginalFileSize_def)
      (simp add: fun_eq_iff)
  have "life False True ([[9]], True, Some 1, risk_disk) ([[9]], True, Some 1, ?u)"
    by (rule life_started [OF life_ended [OF life_refl] c]) simp
  moreover have "perform (Op_WriteState []) (?u\<lparr>Fates := [Works, Stops 1]\<rparr>) = (Stopped, ?s)"
    using WriteState_half [of ?u] by simp
  ultimately have "life False True ([[9]], True, Some 1, risk_disk) (after_stop (Op_WriteState []) [[9]], False, Some 1, ?s)"
    by (rule life_stop)
  moreover have "File ?s (current ?s) = 245 # 0 # replicate 4094 0"
    by (simp add: half_written_def risk_disk_def current_def write_at_def set_File_def set_FilePointer_def
        set_Flushed_def written_def resized_def)
  ultimately show ?thesis using not_committed [of ?s]
    by (intro exI [of _ ?cs] exI [of _ "Some 1"] exI [of _ ?s]) auto
qed

section \<open>Credentials\<close>

text \<open>C19. The container of credentials is a map from target and scheme, of which the key keeps 16 bits
  each: an update is found under its own target and scheme and under no other pair of target and
  scheme, a removal is not found, and both leave the entry of every other pair as it was. A
  removal tells whether there was something to remove.\<close>
theorem Credentials_map:
  assumes "CCredentials_Update t s (Inr cred) d = (hr, d1)" "CCredentials_Remove t s d = (hr', d2)"
  shows "hr = S_OK \<and> hr' = (if CCredentials_Find t s d = None then S_FALSE else S_OK) \<and>
    CCredentials_Find t' s' d1 =
      (if low16 t' = low16 t \<and> low16 s' = low16 s then Some cred else CCredentials_Find t' s' d) \<and>
    CCredentials_Find t' s' d2 =
      (if low16 t' = low16 t \<and> low16 s' = low16 s then None else CCredentials_Find t' s' d)"
  using Find_Update [OF assms(1)] Find_Remove [OF assms(2)] by (simp add: MakeKey_eq_iff)

lemma Credentials_map_witness:
  "CCredentials_Find 1 2 (snd (CCredentials_Remove 1 2 [(0x20001, Some None)])) = None \<and>
   CCredentials_Find 1 3 (snd (CCredentials_Remove 1 2 [(0x20001, Some None), (0x30001, Some None)])) = Some None"
proof -
  have "CCredentials_Find 1 3 [(0x20001, Some None), (0x30001, Some None)] = Some None" by code_simp
  then show ?thesis
    using Credentials_map [of 1 2 None "[(0x20001, Some None)]", OF prod.collapse [symmetric] prod.collapse [symmetric], of 1 2]
      Credentials_map [of 1 2 None "[(0x20001, Some None), (0x30001, Some None)]", OF prod.collapse [symmetric]
        prod.collapse [symmetric], of 1 3] by simp
qed

end
