(* ===== verification/Spec2Isabelle.thy ===== *)
theory Spec2Isabelle
  imports AvlClaims TaskSchedClaims BitsClaims StorageClaims
begin

text \<open>
  \<^bold>\<open>What this development models.\<close> The repository is the administration part of an operating
  system: services, WMI, installers, consoles and tools. Two of its services have a core of
  their own logic that does not live in calls of the system, and these are modelled.

  \<^bold>\<open>The WMI container library\<close> (\<open>src/wmi/wbem/common/containers\<close>) is the AVL tree that the WMI
  providers keep their tables in, with its allocator.
  \<^item> \<open>Allocator\<close>: \<open>WmiAllocator\<close> of \<open>allocator.cpp\<close>. The Win32 heap is the parameter record
    \<open>Win32\<close>; the locale \<open>block_store\<close> says what the containers rely on, and it is interpreted
    on \<open>WmiAllocator_New\<close> and \<open>WmiAllocator_Delete\<close>.
  \<^item> \<open>NodeHeap\<close> and \<open>AvlTree\<close>: \<open>WmiAvlNode\<close>, the iterators and \<open>WmiAvlTree\<close> of \<open>avltree.h\<close> and
    \<open>avltree.cpp\<close>, over a heap of nodes with left, right and parent pointers. The recursive
    functions that only a well-formed tree ends are \<open>partial_function (option)\<close>, so that not
    returning and following a bad pointer are both \<open>None\<close>.
  \<^item> \<open>TreeShape\<close>, \<open>TreeSearch\<close>, \<open>TreeSplice\<close>, \<open>AvlBalance\<close>, \<open>AvlRotate\<close>: the logical tree a heap
    holds, its contexts, its order and balance, and the effect of the pointer surgery on it.
  \<^item> \<open>AvlInsert\<close>, \<open>AvlDelete\<close>, \<open>AvlContract\<close>: each operation ends and does to the logical tree what
    the entries in key order ask for. \<open>AvlClaims\<close> states it as properties of the library.

  \<^bold>\<open>The engine of the background transfer service BITS\<close> (\<open>src/services/drizzle/newjob\<close>). A client
  creates jobs, adds files to them and resumes them; the manager chooses one job at a time
  and transfers its files; errors, timers, callbacks and system events move the jobs between
  states.
  \<^item> \<open>BitsTypes\<close>: result codes, enumerations and error records (\<open>cerror.cpp\<close>, \<open>qmgrlib.h\<close>).
  \<^item> \<open>TaskSched\<close>: the scheduler of work items (\<open>tasksched.cpp\<close>): a waiting list by due time, a ready
    and a running list per user, and the timer. \<open>TaskSchedInv\<close> shows its invariant and gives
    the interface \<open>work_scheduler\<close>, which the engine uses through an interpretation;
    \<open>TaskSchedClaims\<close> states the properties of the scheduler, over the states it reaches.
  \<^item> \<open>BitsFile\<close>: a file of a job (\<open>cfile.cpp\<close>). The file system and the volume functions are the
    parameter record \<open>FileApi\<close>.
  \<^item> \<open>BitsState\<close>: the record \<open>CJob\<close> with the fields of \<open>CJob\<close> and \<open>CUploadJob\<close>, the record
    \<open>CJobManager\<close>, and the primitives of both. A job is named by a handle that stands for its
    address. Every access to it goes through the map \<open>Jobs\<close>.
  \<^item> \<open>BitsEngine\<close>, \<open>BitsApi\<close>, \<open>BitsEvents\<close>: the functions of \<open>cjob.cpp\<close> and \<open>cmanager.cpp\<close> in three
    layers: the choice of the current job and the error handling, the calls of clients, and
    the handlers of timers, transfers and system events. The code runs under one writer
    lock. Where it gives the lock up (a callback to the client, the exchange with the
    server), the part before and the part after are two definitions. Of impersonation the model
    has the errors that it throws, which the calls return.
  \<^item> \<open>BitsFrame\<close>: what each primitive changes, as rewrite rules on a small set of observers.
    \<open>BitsInv\<close>: the invariant of the engine, a property of each job on its own. \<open>BitsOps\<close>,
    \<open>BitsFiles\<close>, \<open>BitsHandlers\<close>, \<open>BitsMgr\<close>, \<open>BitsTransfer\<close>: every operation keeps it.
  \<^item> \<open>BitsSystem\<close>: the service as a transition system. A step is a call of a client, a handler run
    by a thread of the scheduler, a part of the transfer, a system event, the clock, or a
    change of what the outside world decides (who is logged on, failures of the disk, the
    contents of the file system). \<open>reach\<close> are the reachable states. A parameter says whether clients
    add empty sets of files to transferred jobs: the service accepts that, but it breaks the
    invariant (\<open>AddFileSet_empty_requeues\<close>), so most theorems are about the clients that do not. \<open>BitsDemo\<close>
    runs two jobs through it, and \<open>BitsClaims\<close> states the properties of the service.

  \<^bold>\<open>The state file of BITS\<close> keeps the jobs over a restart of the service.
  \<^item> \<open>StateBytes\<close>: reading and writing data, strings, identifiers and blocks (\<open>metadata.cpp\<close>), byte by
    byte. The locale \<open>codec\<close> is the contract of a writer and a reader; it is interpreted on every
    pair of them, from machine integers up to lists of files. \<open>SidApi\<close> are the system's conversions.
  \<^item> \<open>Credentials\<close>: the container of credentials (\<open>ccred.cpp\<close>).
  \<^item> \<open>JobStorage\<close>: \<open>Serialize\<close> and \<open>Unserialize\<close> of the objects (\<open>cfile.cpp\<close>, \<open>cerror.cpp\<close>, \<open>tasksched.cpp\<close>,
    \<open>csd.cpp\<close>, \<open>drizcpat.cpp\<close>, \<open>cjob.cpp\<close>, \<open>cmanager.cpp\<close>), with the older versions of the format. A reader works
    on the bytes and on the scheduler. \<open>JobStorageLaws\<close> and \<open>StateContents\<close> show what a reader makes of the
    bytes of a writer, and of any proper part of them.
  \<^item> \<open>StateFiles\<close>: the two files and the registry's index (\<open>CQmgrStateFiles\<close> of \<open>metadata.cpp\<close>), where each
    call of the system works, fails or is the last before the service stops. \<open>CrashSafety\<close> has
    weakest preconditions for it, the invariant of the disk and the life of the service over
    any number of stops and of losses of the machine. The registry's value reaches the disk at
    the system's leisure; two parameters of \<open>life\<close> say whether the machine may be lost before that, and
    whether a start may fail to read the value. The theorem is about \<open>False\<close> for both, and \<open>Early_loss_damages\<close> and
    \<open>Misread_damages\<close> show what happens otherwise. \<open>StorageClaims\<close> states the properties.

  \<^bold>\<open>Errors.\<close> A failing call returns its \<open>HRESULT\<close> as the code does. \<open>ASSERT\<close> sets a flag of the state, in the
  scheduler it records the item, and using a null pointer is recorded with the function it
  happens in, so that the theorems can say which of them occur. Left out are the asserts about the
  lock, the mutex and the semaphores, and those that no argument can make fail. An exception that the code throws and catches is the left
  side of a sum. \<open>throws_failures\<close> is the one assumption on the file system that the system
  properties need: what its wrappers throw is a failure code.

  \<^bold>\<open>Bounds.\<close> Times are 64-bit words and flags 32-bit words, with the wrap-around of the code. The retry
  loop that renames a file has its ten iterations as a counter, by which it is primitive
  recursive. The AVL self check returns its height in 32 bits: the property that it accepts
  a tree asks for fewer than \<open>2 ^ 32\<close> nodes.

  \<^bold>\<open>Not modelled.\<close> Of the engine: the network layer (\<open>uploader.cpp\<close>, \<open>downloader.cpp\<close>, \<open>progress.cpp\<close>), whose
  outcomes are parameters of the steps; the encryption of credentials, the setters of proxy and credential
  settings, COM interfaces and enumerations, and logging; the old group interface
  beyond the fields that decide on callbacks. The upload jobs are modelled by definitions,
  but the transition system runs download jobs, and without the job interface of BITS 1.0. So
  what its theorems say does not hold of uploads as a matter of course: a cancelled upload, for
  instance, stays listed until its session is closed. The threads of the scheduler are
  not counted: a worker that takes an item is a step. The transition system has the outcome of a write of
  the state as a parameter (\<open>MetadataError\<close>), not the files. A loss of the machine leaves a
  flushed file as it is and anything in one that was written since its last flush; the disk's room
  shows only in the calls that fail. The other programs of the repository are listed
  as components that are not modelled, with the reasons.
\<close>

end
